(* ===== verification/Prelude.thy ===== *)
theory Prelude
  imports Main
begin

text \<open>
  Shared vocabulary of the development. The server and the client of the repository are
  JavaScript; the values they pass around (request queries, provider responses, response
  envelopes) are JavaScript values. They are modelled here by the datatype \<open>js\<close>, with
  the two operations the source relies on everywhere: truthiness (the tests
  \<^verbatim>\<open>if (x)\<close>, \<^verbatim>\<open>a && b\<close>, \<^verbatim>\<open>a || b\<close>) and property reads
  (\<^verbatim>\<open>obj.key\<close>, \<^verbatim>\<open>obj?.key\<close>), which yield \<open>Undef\<close> for a missing key.
  Numbers are the integers the source computes with (page numbers, sizes, milliseconds),
  and \<open>NaN\<close>. Times are milliseconds since the epoch, as \<^verbatim>\<open>Date.getTime()\<close> returns them.
\<close>

named_theorems model_simps "equations of the model that component proofs unfold"

type_synonym time = int

datatype js =
    Undef
  | Null
  | Bool bool
  | Num int
  | NaN
  | Str string
  | Arr "js list"
  | Obj "(string \<times> js) list"

text \<open>JavaScript truthiness: \<open>undefined\<close>, \<open>null\<close>, \<open>false\<close>, \<open>0\<close>, \<open>NaN\<close> and the empty
  string are falsy; every array and every object is truthy (also an empty one).\<close>

fun truthy :: "js \<Rightarrow> bool" where
  "truthy Undef = False"
| "truthy Null = False"
| "truthy (Bool b) = b"
| "truthy (Num n) = (n \<noteq> 0)"
| "truthy NaN = False"
| "truthy (Str s) = (s \<noteq> [])"
| "truthy (Arr _) = True"
| "truthy (Obj _) = True"

text \<open>\<^verbatim>\<open>a || b\<close>: the first operand when it is truthy, else the second.\<close>

definition js_or :: "js \<Rightarrow> js \<Rightarrow> js" where
  "js_or a b = (if truthy a then a else b)"

text \<open>Property read \<^verbatim>\<open>o?.k\<close>: the value stored under \<open>k\<close> in an object, \<open>Undef\<close> when
  the key is missing or the value is not an object (the source only reads named
  properties of objects, never \<^verbatim>\<open>length\<close> or an index).\<close>

fun js_get :: "js \<Rightarrow> string \<Rightarrow> js" where
  "js_get (Obj kvs) k = (case map_of kvs k of None \<Rightarrow> Undef | Some v \<Rightarrow> v)"
| "js_get _ k = Undef"

text \<open>Property write \<^verbatim>\<open>o.k = v\<close>: an existing key keeps its position, a new key is
  appended, as in a JavaScript object's insertion order.\<close>

fun kv_put :: "(string \<times> js) list \<Rightarrow> string \<Rightarrow> js \<Rightarrow> (string \<times> js) list" where
  "kv_put [] k v = [(k, v)]"
| "kv_put ((k', v') # kvs) k v =
     (if k' = k then (k, v) # kvs else (k', v') # kv_put kvs k v)"

fun js_put :: "js \<Rightarrow> string \<Rightarrow> js \<Rightarrow> js" where
  "js_put (Obj kvs) k v = Obj (kv_put kvs k v)"
| "js_put o' k v = o'"

text \<open>\<^verbatim>\<open>delete o.k\<close>.\<close>

fun js_delete :: "js \<Rightarrow> string \<Rightarrow> js" where
  "js_delete (Obj kvs) k = Obj (filter (\<lambda>(k', _). k' \<noteq> k) kvs)"
| "js_delete o' k = o'"

text \<open>An optional value (a query parameter, a column that may be \<open>NULL\<close>) as the
  JavaScript value the source holds in its place.\<close>

fun js_of_opt :: "('a \<Rightarrow> js) \<Rightarrow> 'a option \<Rightarrow> js" where
  "js_of_opt f None = Undef"
| "js_of_opt f (Some x) = f x"

text \<open>Decimal digits. \<open>is_digit\<close> is the class \<^verbatim>\<open>\d\<close> of a JavaScript regular
  expression without the \<^verbatim>\<open>u\<close> flag; \<open>digits_val\<close> is the value \<^verbatim>\<open>Number(s)\<close>
  gives a digit string (exact below \<open>2^53\<close>); \<open>show_nat\<close> and \<open>show_int\<close> are
  \<^verbatim>\<open>String(n)\<close> of an integer.\<close>

definition is_digit :: "char \<Rightarrow> bool" where
  "is_digit c \<longleftrightarrow> 48 \<le> (of_char c :: nat) \<and> (of_char c :: nat) \<le> 57"

definition digits_only :: "string \<Rightarrow> bool" where
  "digits_only s \<longleftrightarrow> s \<noteq> [] \<and> list_all is_digit s"

definition digits_val :: "string \<Rightarrow> nat" where
  "digits_val s = foldl (\<lambda>acc c. 10 * acc + ((of_char c :: nat) - 48)) 0 s"

fun show_nat :: "nat \<Rightarrow> string" where
  "show_nat n = (if n < 10 then [char_of (48 + n)] else show_nat (n div 10) @ [char_of (48 + n mod 10)])"

definition show_int :: "int \<Rightarrow> string" where
  "show_int i = (if i < 0 then CHR ''-'' # show_nat (nat (- i)) else show_nat (nat i))"

text \<open>\<^verbatim>\<open>xs.join(sep)\<close> on strings.\<close>

fun join_with :: "string \<Rightarrow> string list \<Rightarrow> string" where
  "join_with sep [] = []"
| "join_with sep [x] = x"
| "join_with sep (x # y # xs) = x @ sep @ join_with sep (y # xs)"

text \<open>\<^verbatim>\<open>String(v)\<close>, as template literals \<^verbatim>\<open>`${v}`\<close> use it.\<close>

fun js_to_string :: "js \<Rightarrow> string" where
  "js_to_string Undef = ''undefined''"
| "js_to_string Null = ''null''"
| "js_to_string (Bool b) = (if b then ''true'' else ''false'')"
| "js_to_string (Num n) = show_int n"
| "js_to_string NaN = ''NaN''"
| "js_to_string (Str s) = s"
| "js_to_string (Arr xs) = join_with '','' (map (\<lambda>x. case x of Undef \<Rightarrow> [] | Null \<Rightarrow> [] | _ \<Rightarrow> js_to_string x) xs)"
| "js_to_string (Obj _) = ''[object Object]''"

text \<open>\<^verbatim>\<open>String.prototype.trim\<close> (ASCII white space).\<close>

definition js_space :: "char \<Rightarrow> bool" where
  "js_space c \<longleftrightarrow> c \<in> {CHR '' '', CHR ''\<newline>'', char_of (9::nat), char_of (11::nat), char_of (12::nat), char_of (13::nat)}"

definition js_trim :: "string \<Rightarrow> string" where
  "js_trim s = rev (dropWhile js_space (rev (dropWhile js_space s)))"

text \<open>\<^verbatim>\<open>toLowerCase\<close> (ASCII letters).\<close>

definition ascii_lower :: "char \<Rightarrow> char" where
  "ascii_lower c = (if (65::nat) \<le> of_char c \<and> of_char c \<le> (90::nat) then char_of (of_char c + (32::nat)) else c)"

definition js_lower :: "string \<Rightarrow> string" where
  "js_lower s = map ascii_lower s"

text \<open>\<^verbatim>\<open>s.split(c)\<close> for a one-character separator: every piece, empty ones
  included (the empty string splits into one empty piece).\<close>

fun split_on :: "char \<Rightarrow> string \<Rightarrow> string list" where
  "split_on c [] = [[]]"
| "split_on c (x # xs) =
     (if x = c then [] # split_on c xs
      else (case split_on c xs of w # ws \<Rightarrow> (x # w) # ws | [] \<Rightarrow> [[x]]))"

text \<open>Index read \<^verbatim>\<open>v[i]\<close>: an array's element, an object's property named by the
  index, a string's character; \<open>undefined\<close> out of range and on any other value that
  is not \<open>undefined\<close> or \<open>null\<close>.\<close>

fun js_elem :: "js \<Rightarrow> nat \<Rightarrow> js" where
  "js_elem (Arr xs) i = (if i < length xs then xs ! i else Undef)"
| "js_elem (Obj kvs) i = js_get (Obj kvs) (show_nat i)"
| "js_elem (Str s) i = (if i < length s then Str [s ! i] else Undef)"
| "js_elem _ i = Undef"

text \<open>The message of the \<^verbatim>\<open>TypeError\<close> a read \<^verbatim>\<open>v.k\<close> or \<^verbatim>\<open>v[k]\<close> throws when
  \<open>v\<close> is \<open>undefined\<close> or \<open>null\<close> (V8's wording).\<close>

definition read_error :: "js \<Rightarrow> string \<Rightarrow> string" where
  "read_error v k = ''Cannot read properties of '' @ js_to_string v @ '' (reading '' @ [CHR 0x27] @ k @ [CHR 0x27] @ '')''"

text \<open>\<open>null\<close> or \<open>undefined\<close>, the values \<^verbatim>\<open>??\<close> and \<^verbatim>\<open>?.\<close> test for.\<close>

definition nullish :: "js \<Rightarrow> bool" where
  "nullish v \<longleftrightarrow> v = Null \<or> v = Undef"

text \<open>\<^verbatim>\<open>v.k\<close> without optional chaining: the error message, or the value.\<close>

definition js_read :: "js \<Rightarrow> string \<Rightarrow> string + js" where
  "js_read v k = (if nullish v then Inl (read_error v k) else Inr (js_get v k))"

definition js_read_elem :: "js \<Rightarrow> nat \<Rightarrow> string + js" where
  "js_read_elem v i = (if nullish v then Inl (read_error v (show_nat i)) else Inr (js_elem v i))"

text \<open>An HTTP response: the status and the value passed to \<^verbatim>\<open>res.json\<close>.
  \<^verbatim>\<open>res.status(n).json(x)\<close>; \<^verbatim>\<open>res.json(x)\<close> alone answers 200.\<close>

record http_response =
  status :: nat
  resp_body :: js

definition json_response :: "nat \<Rightarrow> js \<Rightarrow> http_response" where
  "json_response n x = \<lparr>status = n, resp_body = x\<rparr>"

text \<open>An HTTP request as the client sends it and the server receives it: the method,
  the path without the query string, the query (parsed, each value a string) and the
  JSON body.\<close>

datatype http_method = GET | POST | DELETE

record client_request =
  req_method :: http_method
  req_path :: string
  req_query :: js
  req_data :: js

text \<open>All the ways two sequences of steps can run interleaved, each keeping its own order:
  the schedules of two concurrent callers whose steps are atomic.\<close>

fun interleavings :: "'a list \<Rightarrow> 'a list \<Rightarrow> 'a list list" where
  "interleavings [] ys = [ys]"
| "interleavings xs [] = [xs]"
| "interleavings (x # xs) (y # ys) =
     map ((#) x) (interleavings xs (y # ys)) @ map ((#) y) (interleavings (x # xs) ys)"

subsection \<open>Generic lemmas\<close>

lemma js_or_truthy [simp]: "truthy a \<Longrightarrow> js_or a b = a"
  by (simp add: js_or_def)

lemma js_or_falsy [simp]: "\<not> truthy a \<Longrightarrow> js_or a b = b"
  by (simp add: js_or_def)

lemma map_of_kv_put: "map_of (kv_put kvs k v) = (map_of kvs)(k \<mapsto> v)"
  by (induction kvs k v rule: kv_put.induct) (auto simp: fun_upd_twist)

lemma js_get_put [simp]: "js_get (js_put (Obj kvs) k v) k' = (if k' = k then v else js_get (Obj kvs) k')"
  by (simp add: map_of_kv_put)

lemma keys_kv_put: "map fst (kv_put kvs k v) = (if k \<in> set (map fst kvs) then map fst kvs else map fst kvs @ [k])"
  by (induction kvs k v rule: kv_put.induct) auto

lemma js_get_Obj_Cons [simp]:
  "js_get (Obj ((k, v) # kvs)) k' = (if k' = k then v else js_get (Obj kvs) k')"
  by simp

lemma js_get_Obj_Nil [simp]: "js_get (Obj []) k = Undef"
  by simp

lemma sum_case_Inr_iff: "(case x of Inl e \<Rightarrow> Inl e | Inr a \<Rightarrow> f a) = Inr b \<longleftrightarrow> (\<exists>a. x = Inr a \<and> f a = Inr b)"
  by (cases x) auto

lemma json_response_fields [simp]:
  "status (json_response n x) = n" "resp_body (json_response n x) = x"
  by (simp_all add: json_response_def)

declare show_nat.simps [simp del]

lemma show_nat_digits: "digits_only (show_nat n)"
proof (induction n rule: show_nat.induct)
  case (1 n)
  show ?case
  proof (cases "n < 10")
    case True
    then show ?thesis by (subst show_nat.simps) (simp add: digits_only_def is_digit_def)
  next
    case False
    with "1.IH" have "digits_only (show_nat (n div 10))" by simp
    then show ?thesis using False
      by (subst show_nat.simps) (simp add: digits_only_def is_digit_def)
  qed
qed

lemma digits_val_snoc: "digits_val (s @ [c]) = 10 * digits_val s + ((of_char c :: nat) - 48)"
  by (simp add: digits_val_def)

lemma digits_val_show_nat: "digits_val (show_nat n) = n"
proof (induction n rule: show_nat.induct)
  case (1 n)
  show ?case
  proof (cases "n < 10")
    case True
    then show ?thesis by (subst show_nat.simps) (simp add: digits_val_def)
  next
    case False
    with "1.IH" have "digits_val (show_nat (n div 10)) = n div 10" by simp
    then show ?thesis using False
      by (subst show_nat.simps) (simp add: digits_val_snoc)
  qed
qed

lemma show_nat_nonempty [simp]: "show_nat n \<noteq> []"
  using show_nat_digits [of n] by (simp add: digits_only_def)

lemma truthy_defined: "truthy v \<Longrightarrow> v \<noteq> Undef"
  by auto

text \<open>Evaluation of \<open>show_nat\<close> and \<open>show_int\<close> on a concrete number.\<close>

lemmas show_eval = show_nat.simps show_int_def char_of_def bit_iff_odd

lemma split_on_nonempty [simp]: "split_on c s \<noteq> []"
  by (induction s) (auto split: list.splits)

lemma join_with_cons_word [simp]: "join_with sep ((x # a) # ws) = x # join_with sep (a # ws)"
  by (cases ws) auto

text \<open>Splitting and joining with the same separator give back the string.\<close>

lemma join_split_on: "join_with [c] (split_on c s) = s"
proof (induction s)
  case Nil
  then show ?case by simp
next
  case (Cons x xs)
  then show ?case by (cases "split_on c xs") (auto split: list.splits)
qed

end
