(* ===== verification/TokenStore.thy ===== *)
theory TokenStore
  imports Prelude
begin

text \<open>
  The token store, \<^verbatim>\<open>src/server/src/models/xeroTokenModel.js\<close>: the table
  \<^verbatim>\<open>xero_tokens\<close> holding the credentials of the Xero integration, and its three
  queries \<^verbatim>\<open>getActiveToken\<close>, \<^verbatim>\<open>saveToken\<close> and \<^verbatim>\<open>updateToken\<close>. The table
  is a list of rows in insertion order with the \<^verbatim>\<open>AUTO_INCREMENT\<close> counter of its
  primary key; \<^verbatim>\<open>NOW()\<close> is the parameter \<open>now\<close>. \<^verbatim>\<open>saveToken\<close> issues two
  statements with no transaction around them, so the statements are also modelled one by
  one (\<open>sql_stmt\<close>, \<open>run_sql\<close>), which lets interleavings of concurrent callers be
  stated.
\<close>

record token_row =
  row_id :: nat
  access_token :: string
  refresh_token :: string
  expires_at :: time
  tenant_id :: "string option"
  active :: bool
  created_at :: time
  updated_at :: time

record token_table =
  rows :: "token_row list"
  next_id :: nat

text \<open>The argument objects of \<^verbatim>\<open>updateToken({accessToken, refreshToken, expiresAt})\<close>
  and \<^verbatim>\<open>saveToken({accessToken, refreshToken, expiresAt, tenantId})\<close>; the second
  extends the first.\<close>

record token_update =
  accessToken :: string
  refreshToken :: string
  expiresAt :: time

record new_token = token_update +
  tenantId :: "string option"

definition empty_table :: token_table where
  "empty_table = \<lparr>rows = [], next_id = 1\<rparr>"

subsection \<open>Queries\<close>

text \<open>\<^verbatim>\<open>ORDER BY id DESC LIMIT 1\<close>: the row with the greatest id.\<close>

fun latest_row :: "token_row list \<Rightarrow> token_row option" where
  "latest_row [] = None"
| "latest_row (r # rs) =
     (case latest_row rs of
        None \<Rightarrow> Some r
      | Some r' \<Rightarrow> if row_id r' < row_id r then Some r else Some r')"

definition getActiveToken :: "token_table \<Rightarrow> token_row option" where
  "getActiveToken t = latest_row (filter active (rows t))"

text \<open>\<^verbatim>\<open>UPDATE xero_tokens SET active = 0\<close>.\<close>

definition deactivate_all :: "token_table \<Rightarrow> token_table" where
  "deactivate_all t = t\<lparr>rows := map (\<lambda>r. r\<lparr>active := False\<rparr>) (rows t)\<rparr>"

definition new_row :: "time \<Rightarrow> nat \<Rightarrow> 'a new_token_scheme \<Rightarrow> token_row" where
  "new_row now i c =
     \<lparr>row_id = i, access_token = accessToken c, refresh_token = refreshToken c,
      expires_at = expiresAt c, tenant_id = tenantId c, active = True,
      created_at = now, updated_at = now\<rparr>"

text \<open>\<^verbatim>\<open>INSERT INTO xero_tokens (...) VALUES (?, ?, ?, ?, 1, NOW(), NOW())\<close>.\<close>

definition insert_token :: "time \<Rightarrow> 'a new_token_scheme \<Rightarrow> token_table \<Rightarrow> token_table" where
  "insert_token now c t =
     \<lparr>rows = rows t @ [new_row now (next_id t) c], next_id = Suc (next_id t)\<rparr>"

definition saveToken :: "time \<Rightarrow> 'a new_token_scheme \<Rightarrow> token_table \<Rightarrow> token_table" where
  "saveToken now c t = insert_token now c (deactivate_all t)"

text \<open>\<^verbatim>\<open>UPDATE xero_tokens SET access_token = ?, refresh_token = ?, expires_at = ?,
  updated_at = NOW() WHERE active = 1\<close>: every active row is rewritten.\<close>

definition refresh_row :: "time \<Rightarrow> 'a token_update_scheme \<Rightarrow> token_row \<Rightarrow> token_row" where
  "refresh_row now u r =
     r\<lparr>access_token := accessToken u, refresh_token := refreshToken u,
       expires_at := expiresAt u, updated_at := now\<rparr>"

definition updateToken :: "time \<Rightarrow> 'a token_update_scheme \<Rightarrow> token_table \<Rightarrow> token_table" where
  "updateToken now u t =
     t\<lparr>rows := map (\<lambda>r. if active r then refresh_row now u r else r) (rows t)\<rparr>"

subsection \<open>Statements, one at a time\<close>

datatype sql_stmt =
    Deactivate
  | Insert time new_token
  | Update time token_update

fun exec_stmt :: "sql_stmt \<Rightarrow> token_table \<Rightarrow> token_table" where
  "exec_stmt Deactivate t = deactivate_all t"
| "exec_stmt (Insert now c) t = insert_token now c t"
| "exec_stmt (Update now u) t = updateToken now u t"

fun run_sql :: "sql_stmt list \<Rightarrow> token_table \<Rightarrow> token_table" where
  "run_sql [] t = t"
| "run_sql (s # ss) t = run_sql ss (exec_stmt s t)"

text \<open>The statements \<^verbatim>\<open>saveToken\<close> issues, in its order.\<close>

definition save_stmts :: "time \<Rightarrow> new_token \<Rightarrow> sql_stmt list" where
  "save_stmts now c = [Deactivate, Insert now c]"

text \<open>A sequence of \<^verbatim>\<open>saveToken\<close> calls, each completing before the next.\<close>

fun save_all :: "(time \<times> new_token) list \<Rightarrow> token_table \<Rightarrow> token_table" where
  "save_all [] t = t"
| "save_all ((now, c) # cs) t = save_all cs (saveToken now c t)"

subsection \<open>Well-formedness\<close>

text \<open>Primary keys are distinct and below the counter, and at most one row is active.\<close>

definition active_rows :: "token_table \<Rightarrow> token_row list" where
  "active_rows t = filter active (rows t)"

definition store_wf :: "token_table \<Rightarrow> bool" where
  "store_wf t \<longleftrightarrow>
     distinct (map row_id (rows t)) \<and> list_all (\<lambda>i. i < next_id t) (map row_id (rows t))
     \<and> length (active_rows t) \<le> 1"

text \<open>Example values for the witnesses.\<close>

definition demo_token :: new_token where
  "demo_token = \<lparr>accessToken = ''at-1'', refreshToken = ''rt-1'', expiresAt = 1000,
                  tenantId = Some ''tenant-a''\<rparr>"

definition demo_table :: token_table where
  "demo_table = saveToken 0 demo_token empty_table"

definition demo_row :: token_row where
  "demo_row = new_row 0 1 demo_token"

subsection \<open>Lemmas on the queries\<close>

lemma latest_row_None [simp]: "latest_row xs = None \<longleftrightarrow> xs = []"
  by (induction xs) (auto split: option.splits)

lemma latest_row_Some:
  "latest_row xs = Some r \<Longrightarrow> r \<in> set xs \<and> list_all (\<lambda>r'. row_id r' \<le> row_id r) xs"
  by (induction xs arbitrary: r) (fastforce split: option.splits if_splits simp: list_all_iff)+

lemma latest_row_single [simp]: "latest_row [r] = Some r"
  by simp

lemma latest_row_map:
  assumes "\<And>r. row_id (f r) = row_id r"
  shows "latest_row (map f xs) = map_option f (latest_row xs)"
  by (induction xs) (auto simp: assms split: option.splits)

lemma latest_row_append_greater:
  "list_all (\<lambda>r'. row_id r' < row_id r) xs \<Longrightarrow> latest_row (xs @ [r]) = Some r"
proof (induction xs)
  case Nil
  then show ?case by simp
next
  case (Cons x xs)
  then show ?case by (auto split: option.splits)
qed

lemma active_rows_deactivate_all [simp]: "active_rows (deactivate_all t) = []"
  by (simp add: active_rows_def deactivate_all_def)

lemma next_id_deactivate_all [simp]: "next_id (deactivate_all t) = next_id t"
  by (simp add: deactivate_all_def)

lemma ids_deactivate_all [simp]: "map row_id (rows (deactivate_all t)) = map row_id (rows t)"
  by (simp add: deactivate_all_def)

lemma active_new_row [simp]: "active (new_row now i c)" and row_id_new_row [simp]: "row_id (new_row now i c) = i"
  by (simp_all add: new_row_def)

lemma active_rows_insert_token [simp]:
  "active_rows (insert_token now c t) = active_rows t @ [new_row now (next_id t) c]"
  by (simp add: active_rows_def insert_token_def)

lemma next_id_insert_token [simp]: "next_id (insert_token now c t) = Suc (next_id t)"
  by (simp add: insert_token_def)

lemma active_rows_saveToken [simp]:
  "active_rows (saveToken now c t) = [new_row now (next_id t) c]"
  by (simp add: saveToken_def)

lemma next_id_saveToken [simp]: "next_id (saveToken now c t) = Suc (next_id t)"
  by (simp add: saveToken_def)

lemma row_id_refresh_row [simp]: "row_id (refresh_row now u r) = row_id r"
  and active_refresh_row [simp]: "active (refresh_row now u r) = active r"
  and tenant_id_refresh_row [simp]: "tenant_id (refresh_row now u r) = tenant_id r"
  by (simp_all add: refresh_row_def)

lemma filter_active_refresh:
  "filter active (map (\<lambda>r. if active r then refresh_row now u r else r) xs) =
   map (refresh_row now u) (filter active xs)"
  by (induction xs) auto

lemma active_rows_updateToken [simp]:
  "active_rows (updateToken now u t) = map (refresh_row now u) (active_rows t)"
  by (simp add: active_rows_def updateToken_def filter_active_refresh)

lemma ids_updateToken [simp]: "map row_id (rows (updateToken now u t)) = map row_id (rows t)"
  and next_id_updateToken [simp]: "next_id (updateToken now u t) = next_id t"
  by (simp_all add: updateToken_def comp_def)

lemma getActiveToken_active_rows: "getActiveToken t = latest_row (active_rows t)"
  by (simp add: getActiveToken_def active_rows_def)

lemma getActiveToken_Some_active:
  "getActiveToken t = Some r \<Longrightarrow> r \<in> set (active_rows t)"
  by (auto simp: getActiveToken_active_rows dest: latest_row_Some)

lemma store_wf_single_active:
  "store_wf t \<Longrightarrow> getActiveToken t = Some r \<Longrightarrow> active_rows t = [r]"
  by (cases "active_rows t") (auto simp: store_wf_def getActiveToken_active_rows)

lemma exec_stmts_saveToken: "run_sql (save_stmts now c) t = saveToken now c t"
  by (simp add: save_stmts_def saveToken_def)

lemma save_all_snoc: "save_all (cs @ [(now, c)]) t = saveToken now c (save_all cs t)"
  by (induction cs arbitrary: t) auto

lemma next_id_save_all [simp]: "next_id (save_all cs t) = next_id t + length cs"
  by (induction cs arbitrary: t) auto

lemmas store_simps = getActiveToken_active_rows store_wf_def

lemma demo_table_active: "getActiveToken demo_table = Some demo_row"
  by (simp add: demo_table_def demo_row_def getActiveToken_active_rows empty_table_def)

lemma demo_table_wf: "store_wf demo_table"
  by (simp add: demo_table_def store_wf_def saveToken_def insert_token_def deactivate_all_def
      empty_table_def active_rows_def new_row_def)

lemma ids_saveToken:
  "map row_id (rows (saveToken now c t)) = map row_id (rows t) @ [next_id t]"
  by (simp add: saveToken_def insert_token_def)

lemma ids_below_saveToken:
  "list_all (\<lambda>i. i < next_id t) (map row_id (rows t)) \<Longrightarrow>
   list_all (\<lambda>i. i < Suc (next_id t)) (map row_id (rows (saveToken now c t)))"
  by (auto simp: ids_saveToken list_all_iff)

lemma distinct_ids_saveToken:
  "distinct (map row_id (rows t)) \<Longrightarrow> list_all (\<lambda>i. i < next_id t) (map row_id (rows t)) \<Longrightarrow>
   distinct (map row_id (rows (saveToken now c t)))"
  by (auto simp: ids_saveToken list_all_iff)

subsection \<open>Properties of the token store\<close>

text \<open>C1: After any sequence of completed \<^verbatim>\<open>saveToken\<close> calls exactly one row is active, and it
  is the row the last call inserted.\<close>

theorem save_all_single_active:
  "active_rows (save_all (cs @ [(now, c)]) t) = [new_row now (next_id t + length cs) c]"
  by (simp add: save_all_snoc)

text \<open>\<^verbatim>\<open>getActiveToken\<close> after \<^verbatim>\<open>saveToken\<close> returns the row just inserted.\<close>

theorem getActiveToken_saveToken:
  "getActiveToken (saveToken now c t) = Some (new_row now (next_id t) c)"
  by (simp add: getActiveToken_active_rows)

text \<open>\<^verbatim>\<open>saveToken\<close> keeps the table well formed: distinct ids below the counter and
  at most one active row.\<close>

theorem saveToken_store_wf:
  "store_wf t \<Longrightarrow> store_wf (saveToken now c t)"
  by (simp add: store_wf_def distinct_ids_saveToken ids_below_saveToken)

theorem saveToken_store_wf_witness:
  "store_wf demo_table \<and> store_wf (saveToken 5 demo_token demo_table)"
  using saveToken_store_wf [OF demo_table_wf] demo_table_wf by simp

text \<open>\<^verbatim>\<open>updateToken\<close> keeps the table well formed.\<close>

theorem updateToken_store_wf:
  "store_wf t \<Longrightarrow> store_wf (updateToken now u t)"
  by (simp add: store_wf_def)

text \<open>\<^verbatim>\<open>updateToken\<close> rewrites the active row in place: the row \<^verbatim>\<open>getActiveToken\<close>
  returns afterwards is the one it returned before, with the new tokens and expiry.\<close>

theorem getActiveToken_updateToken:
  "getActiveToken (updateToken now u t) = map_option (refresh_row now u) (getActiveToken t)"
  by (simp add: getActiveToken_active_rows latest_row_map)

theorem updateToken_keeps_tenant:
  "map tenant_id (rows (updateToken now u t)) = map tenant_id (rows t)"
  by (simp add: updateToken_def comp_def if_distrib)

text \<open>C32: Of all the ways the statements of two concurrent \<^verbatim>\<open>saveToken\<close> calls can
  interleave, only the two serial ones (which are the two calls made one after the other)
  leave one active row; every other schedule leaves two.\<close>

theorem interleaved_saves_two_active:
  "run_sql (save_stmts n1 c1 @ save_stmts n2 c2) t = saveToken n2 c2 (saveToken n1 c1 t)
   \<and> map (\<lambda>sch. length (active_rows (run_sql sch t))) (interleavings (save_stmts n1 c1) (save_stmts n2 c2))
       = map (\<lambda>sch. if sch = save_stmts n1 c1 @ save_stmts n2 c2 \<or> sch = save_stmts n2 c2 @ save_stmts n1 c1
                    then 1 else 2) (interleavings (save_stmts n1 c1) (save_stmts n2 c2))"
  by (simp add: save_stmts_def saveToken_def)

theorem interleaved_saves_latest:
  "getActiveToken (run_sql [Deactivate, Deactivate, Insert n1 c1, Insert n2 c2] t) =
     Some (new_row n2 (Suc (next_id t)) c2)"
  by (simp add: getActiveToken_active_rows)

end
