(* ===== verification/Provider.thy ===== *)
theory Provider
  imports Prelude
begin

text \<open>
  The interface between the server and the Xero SDK (\<^verbatim>\<open>xero-node\<close>), which the
  repository only calls. The SDK is opaque: it is a record of functions, a parameter of
  every operation that calls it, so every theorem holds for any behaviour of the provider
  that the theorem does not constrain. \<^verbatim>\<open>src/server/src/config/xeroConfig.js\<close> builds the
  one shared client \<^verbatim>\<open>xero\<close> whose token set (\<^verbatim>\<open>setTokenSet\<close>) authenticates every
  data call; that token set is the state component \<open>session\<close> of the service.
\<close>

text \<open>The object passed to \<^verbatim>\<open>xero.setTokenSet({access_token, refresh_token, expires_at})\<close>.\<close>

record token_set =
  ts_access_token :: string
  ts_refresh_token :: string
  ts_expires_at :: time

text \<open>The fields of a token response the code reads
  (\<^verbatim>\<open>access_token\<close>, \<^verbatim>\<open>refresh_token\<close>, \<^verbatim>\<open>expires_in\<close> in seconds).\<close>

record token_response =
  tr_access_token :: string
  tr_refresh_token :: string
  tr_expires_in :: int

text \<open>A call of the accounting API: the operation, the tenant id it addresses and the
  positional arguments after the tenant id, exactly as the call site lists them.\<close>

datatype provider_call =
    GetInvoices "string option" "js list"
  | GetContacts "string option" "js list"
  | GetAccounts "string option" "js list"
  | GetTaxRates "string option" "js list"

text \<open>The static configuration of \<^verbatim>\<open>xeroConfig.js\<close> and the environment.\<close>

record xero_config =
  client_id :: string
  client_secret :: string
  redirect_uri :: string
  xeroState :: string

text \<open>The SDK operations the repository calls. A failing call is \<open>Inl\<close> of its error
  message. \<open>accountingApi\<close> receives the client's current token set, since the shared
  client authenticates with it; \<open>updateTenants\<close> returns the tenant ids of the
  connections, in the provider's order.\<close>

record provider =
  buildConsentUrl :: "string + string"
  apiCallback :: "string \<Rightarrow> string + token_response"
  updateTenants :: "string + string list"
  refreshWithRefreshToken :: "string \<Rightarrow> string \<Rightarrow> string \<Rightarrow> string + token_response"
  accountingApi :: "token_set option \<Rightarrow> provider_call \<Rightarrow> string + js"

text \<open>The parameter names of the SDK's list operations after the tenant id, in the
  SDK's positional order (\<^verbatim>\<open>AccountingApi\<close> of \<^verbatim>\<open>xero-node\<close>). They give each
  positional argument of a call its meaning.\<close>

fun sdk_param_names :: "provider_call \<Rightarrow> string list" where
  "sdk_param_names (GetInvoices _ _) =
     [''ifModifiedSince'', ''where'', ''order'', ''iDs'', ''invoiceNumbers'', ''contactIDs'',
      ''statuses'', ''page'', ''includeArchived'', ''createdByMyApp'', ''unitdp'',
      ''summaryOnly'', ''pageSize'', ''searchTerm'']"
| "sdk_param_names (GetContacts _ _) =
     [''ifModifiedSince'', ''where'', ''order'', ''iDs'', ''page'', ''includeArchived'',
      ''summaryOnly'', ''searchTerm'', ''pageSize'']"
| "sdk_param_names (GetAccounts _ _) = [''ifModifiedSince'', ''where'', ''order'']"
| "sdk_param_names (GetTaxRates _ _) = [''where'', ''order'']"

fun call_args :: "provider_call \<Rightarrow> js list" where
  "call_args (GetInvoices _ xs) = xs"
| "call_args (GetContacts _ xs) = xs"
| "call_args (GetAccounts _ xs) = xs"
| "call_args (GetTaxRates _ xs) = xs"

fun call_tenant :: "provider_call \<Rightarrow> string option" where
  "call_tenant (GetInvoices t _) = t"
| "call_tenant (GetContacts t _) = t"
| "call_tenant (GetAccounts t _) = t"
| "call_tenant (GetTaxRates t _) = t"

text \<open>The argument the SDK receives for a named parameter: missing trailing arguments
  are \<open>undefined\<close>.\<close>

definition named_arg :: "provider_call \<Rightarrow> string \<Rightarrow> js" where
  "named_arg c k =
     (case map_of (zip (sdk_param_names c) (call_args c @ replicate (length (sdk_param_names c)) Undef)) k of
        None \<Rightarrow> Undef
      | Some v \<Rightarrow> v)"

text \<open>Example configuration and providers for the witnesses: one that accepts every
  request, one that rejects every refresh, one whose answers carry no pagination.\<close>

definition demo_cfg :: xero_config where
  "demo_cfg = \<lparr>client_id = ''client'', client_secret = ''secret'',
                redirect_uri = ''http://localhost:5173'', xeroState = ''xero-state''\<rparr>"

definition demo_body :: js where
  "demo_body = Obj [(''invoices'', Arr [Str ''INV-1'']), (''contacts'', Arr [Str ''C-1'']),
                    (''accounts'', Arr [Str ''A-1'']), (''pagination'', Obj [(''page'', Num 1)])]"

definition demo_provider :: provider where
  "demo_provider =
     \<lparr>buildConsentUrl = Inr ''https://login.xero.com/consent'',
      apiCallback = (\<lambda>_. Inr \<lparr>tr_access_token = ''at-0'', tr_refresh_token = ''rt-0'', tr_expires_in = 1800\<rparr>),
      updateTenants = Inr [''tenant-a''],
      refreshWithRefreshToken =
        (\<lambda>_ _ _. Inr \<lparr>tr_access_token = ''at-2'', tr_refresh_token = ''rt-2'', tr_expires_in = 1800\<rparr>),
      accountingApi = (\<lambda>_ _. Inr demo_body)\<rparr>"

definition rejecting_provider :: provider where
  "rejecting_provider = demo_provider\<lparr>refreshWithRefreshToken := (\<lambda>_ _ _. Inl ''invalid_grant'')\<rparr>"

definition unpaged_provider :: provider where
  "unpaged_provider = demo_provider\<lparr>accountingApi := (\<lambda>_ _. Inr (Obj [(''invoices'', Arr [Str ''INV-1''])]))\<rparr>"

end
