(* ===== verification/TokenLifecycle.thy ===== *)
theory TokenLifecycle
  imports TokenStore Provider
begin

text \<open>
  The token lifecycle of \<^verbatim>\<open>src/server/src/services/xeroService.js\<close>:
  \<^verbatim>\<open>handleCallback\<close> (first consent: exchange the code, save the token) and
  \<^verbatim>\<open>ensureValidToken\<close> (load the passed token into the shared client; if it has
  expired, refresh it once, persist the result and load the active row). The service state
  is the token table, the shared client's token set and the log of the calls made to the
  provider, so that which calls happen, and in which order, can be stated.
  \<open>now\<close> is the time read at the start of the call (\<^verbatim>\<open>new Date()\<close>), \<open>later\<close> the
  time read after the refresh call returned (\<^verbatim>\<open>Date.now()\<close>, also the database's
  \<^verbatim>\<open>NOW()\<close> of the update).
\<close>

datatype provider_event =
    Refresh string
  | DataCall "token_set option" provider_call

record service_state =
  table :: token_table
  session :: "token_set option"
  provider_log :: "provider_event list"

text \<open>The errors the service raises: a rejected SDK call (its message), and the
  \<^verbatim>\<open>TypeError\<close> of reading a property of \<^verbatim>\<open>undefined\<close>.\<close>

datatype svc_error =
    SdkError string
  | TypeError

definition token_set_of :: "token_row \<Rightarrow> token_set" where
  "token_set_of r =
     \<lparr>ts_access_token = access_token r, ts_refresh_token = refresh_token r,
      ts_expires_at = expires_at r\<rparr>"

text \<open>\<^verbatim>\<open>await xero.setTokenSet({...})\<close> with the fields of a token row.\<close>

definition setTokenSet :: "token_row \<Rightarrow> service_state \<Rightarrow> service_state" where
  "setTokenSet r s = s\<lparr>session := Some (token_set_of r)\<rparr>"

definition log_event :: "provider_event \<Rightarrow> service_state \<Rightarrow> service_state" where
  "log_event e s = s\<lparr>provider_log := provider_log s @ [e]\<rparr>"

text \<open>The update \<^verbatim>\<open>updateToken\<close> receives after a refresh.\<close>

definition refreshed_update :: "time \<Rightarrow> token_response \<Rightarrow> token_update" where
  "refreshed_update later nt =
     \<lparr>accessToken = tr_access_token nt, refreshToken = tr_refresh_token nt,
      expiresAt = later + tr_expires_in nt * 1000\<rparr>"

definition ensureValidToken ::
  "xero_config \<Rightarrow> provider \<Rightarrow> time \<Rightarrow> time \<Rightarrow> token_row \<Rightarrow> service_state
   \<Rightarrow> (svc_error + string option) \<times> service_state" where
  "ensureValidToken cfg p now later token s =
     (let s1 = setTokenSet token s in
      if expires_at token \<le> now then
        (let s2 = log_event (Refresh (refresh_token token)) s1 in
         case refreshWithRefreshToken p (client_id cfg) (client_secret cfg) (refresh_token token) of
           Inl msg \<Rightarrow> (Inl (SdkError msg), s2)
         | Inr nt \<Rightarrow>
             (let s3 = s2\<lparr>table := updateToken later (refreshed_update later nt) (table s2)\<rparr> in
              case getActiveToken (table s3) of
                None \<Rightarrow> (Inl TypeError, s3)
              | Some token' \<Rightarrow> (Inr (tenant_id token'), setTokenSet token' s3)))
      else (Inr (tenant_id token), s1))"

text \<open>\<^verbatim>\<open>handleCallback(code)\<close>: the callback URL, the code exchange, the first
  tenant of the connections (\<^verbatim>\<open>connections[0]?.tenantId\<close>) and \<^verbatim>\<open>saveToken\<close>.\<close>

definition callback_url :: "xero_config \<Rightarrow> string \<Rightarrow> string" where
  "callback_url cfg code = redirect_uri cfg @ ''/xero/callback?code='' @ code @ ''&state='' @ xeroState cfg"

definition handleCallback ::
  "xero_config \<Rightarrow> provider \<Rightarrow> time \<Rightarrow> string \<Rightarrow> service_state \<Rightarrow> (svc_error + bool) \<times> service_state" where
  "handleCallback cfg p now code s =
     (case apiCallback p (callback_url cfg code) of
        Inl msg \<Rightarrow> (Inl (SdkError msg), s)
      | Inr tokenSet \<Rightarrow>
          (case updateTenants p of
             Inl msg \<Rightarrow> (Inl (SdkError msg), s)
           | Inr connections \<Rightarrow>
               (let c = \<lparr>accessToken = tr_access_token tokenSet, refreshToken = tr_refresh_token tokenSet,
                         expiresAt = now + tr_expires_in tokenSet * 1000,
                         tenantId = (case connections of [] \<Rightarrow> None | t # _ \<Rightarrow> Some t)\<rparr>
                in (Inr True, s\<lparr>table := saveToken now c (table s)\<rparr>))))"

fun is_refresh :: "provider_event \<Rightarrow> bool" where
  "is_refresh (Refresh _) = True"
| "is_refresh (DataCall _ _) = False"

text \<open>Example state for the witnesses: the table after one consent, an empty client.\<close>

definition demo_state :: service_state where
  "demo_state = \<lparr>table = demo_table, session = None, provider_log = []\<rparr>"

definition disconnected_state :: service_state where
  "disconnected_state = \<lparr>table = empty_table, session = None, provider_log = []\<rparr>"

subsection \<open>Lemmas on the state updates\<close>

lemma setTokenSet_fields [simp]:
  "table (setTokenSet r s) = table s" "provider_log (setTokenSet r s) = provider_log s"
  "session (setTokenSet r s) = Some (token_set_of r)"
  by (simp_all add: setTokenSet_def)

lemma log_event_fields [simp]:
  "table (log_event e s) = table s" "session (log_event e s) = session s"
  "provider_log (log_event e s) = provider_log s @ [e]"
  by (simp_all add: log_event_def)

lemma ts_expires_at_token_set_of [simp]: "ts_expires_at (token_set_of r) = expires_at r"
  by (simp add: token_set_of_def)

lemma expires_at_refreshed [simp]:
  "expires_at (refresh_row now (refreshed_update later nt) r) = later + tr_expires_in nt * 1000"
  by (simp add: refresh_row_def refreshed_update_def)

lemmas ensure_simps = ensureValidToken_def Let_def

lemma ensureValidToken_cases:
  obtains (fresh) "now < expires_at token"
    "ensureValidToken cfg p now later token s = (Inr (tenant_id token), setTokenSet token s)"
  | (failed) msg where "expires_at token \<le> now"
    "refreshWithRefreshToken p (client_id cfg) (client_secret cfg) (refresh_token token) = Inl msg"
    "ensureValidToken cfg p now later token s =
       (Inl (SdkError msg), log_event (Refresh (refresh_token token)) (setTokenSet token s))"
  | (refreshed) nt where "expires_at token \<le> now"
    "refreshWithRefreshToken p (client_id cfg) (client_secret cfg) (refresh_token token) = Inr nt"
    "ensureValidToken cfg p now later token s =
       (let s3 = (log_event (Refresh (refresh_token token)) (setTokenSet token s))
                   \<lparr>table := updateToken later (refreshed_update later nt) (table s)\<rparr>
        in case getActiveToken (table s3) of
             None \<Rightarrow> (Inl TypeError, s3)
           | Some token' \<Rightarrow> (Inr (tenant_id token'), setTokenSet token' s3))"
proof (cases "expires_at token \<le> now")
  case False
  then show ?thesis by (intro fresh) (simp_all add: ensure_simps)
next
  case True
  show ?thesis
  proof (cases "refreshWithRefreshToken p (client_id cfg) (client_secret cfg) (refresh_token token)")
    case (Inl msg)
    with True show ?thesis by (intro failed) (simp_all add: ensure_simps)
  next
    case (Inr nt)
    with True show ?thesis by (intro refreshed) (simp_all add: ensure_simps cong: option.case_cong)
  qed
qed

lemma disconnected_state_none: "getActiveToken (table disconnected_state) = None"
  by (simp add: disconnected_state_def empty_table_def getActiveToken_def)

subsection \<open>Properties of the token lifecycle\<close>

text \<open>C2: A token that has not expired is used as it is: no refresh call, the table is
  untouched, the client holds the passed token and the passed token's tenant is returned.\<close>

theorem ensureValidToken_fresh:
  "now < expires_at token \<Longrightarrow>
   ensureValidToken cfg p now later token s = (Inr (tenant_id token), setTokenSet token s)"
  by (simp add: ensure_simps)

theorem ensureValidToken_fresh_witness:
  "0 < expires_at demo_row
   \<and> ensureValidToken demo_cfg demo_provider 0 0 demo_row demo_state =
       (Inr (Some ''tenant-a''), setTokenSet demo_row demo_state)"
proof -
  have h: "0 < expires_at demo_row" by (simp add: demo_row_def new_row_def demo_token_def)
  show ?thesis
    using h ensureValidToken_fresh [OF h, of demo_cfg demo_provider 0 demo_state]
    by (simp add: demo_row_def new_row_def demo_token_def)
qed

text \<open>C3: An expired token is refreshed with one call carrying its refresh token; the new tokens
  are written to the active row before the call returns, the client is loaded with them, and
  the tenant of the active row is returned.\<close>

theorem ensureValidToken_expired:
  assumes "expires_at token \<le> now"
    and "refreshWithRefreshToken p (client_id cfg) (client_secret cfg) (refresh_token token) = Inr nt"
    and "getActiveToken (table s) = Some r"
  shows "\<exists>s'. ensureValidToken cfg p now later token s = (Inr (tenant_id r), s')
           \<and> table s' = updateToken later (refreshed_update later nt) (table s)
           \<and> provider_log s' = provider_log s @ [Refresh (refresh_token token)]
           \<and> session s' = Some (token_set_of (refresh_row later (refreshed_update later nt) r))"
  using assms by (simp add: ensure_simps getActiveToken_updateToken)

theorem ensureValidToken_expired_witness:
  "expires_at demo_row \<le> 2000
   \<and> (\<exists>s'. ensureValidToken demo_cfg demo_provider 2000 2500 demo_row demo_state = (Inr (Some ''tenant-a''), s')
           \<and> provider_log s' = [Refresh ''rt-1'']
           \<and> map_option expires_at (getActiveToken (table s')) = Some 1802500)"
proof -
  let ?nt = "\<lparr>tr_access_token = ''at-2'', tr_refresh_token = ''rt-2'', tr_expires_in = 1800\<rparr>"
  have h1: "expires_at demo_row \<le> 2000" by (simp add: demo_row_def new_row_def demo_token_def)
  have h2: "refreshWithRefreshToken demo_provider (client_id demo_cfg) (client_secret demo_cfg)
              (refresh_token demo_row) = Inr ?nt"
    by (simp add: demo_provider_def)
  have h3: "getActiveToken (table demo_state) = Some demo_row"
    by (simp add: demo_state_def demo_table_active)
  have "\<exists>s'. ensureValidToken demo_cfg demo_provider 2000 2500 demo_row demo_state = (Inr (tenant_id demo_row), s')
          \<and> table s' = updateToken 2500 (refreshed_update 2500 ?nt) (table demo_state)
          \<and> provider_log s' = provider_log demo_state @ [Refresh (refresh_token demo_row)]
          \<and> session s' = Some (token_set_of (refresh_row 2500 (refreshed_update 2500 ?nt) demo_row))"
    by (rule ensureValidToken_expired [OF h1 h2 h3])
  with h1 h3 show ?thesis
    by (auto simp: demo_row_def new_row_def demo_token_def demo_state_def getActiveToken_updateToken)
qed

text \<open>C6: A rejected refresh propagates the provider's error, and the table is untouched.\<close>

theorem ensureValidToken_refresh_fails:
  assumes "expires_at token \<le> now"
    and "refreshWithRefreshToken p (client_id cfg) (client_secret cfg) (refresh_token token) = Inl msg"
  shows "fst (ensureValidToken cfg p now later token s) = Inl (SdkError msg)
         \<and> table (snd (ensureValidToken cfg p now later token s)) = table s"
  using assms by (simp add: ensure_simps)

theorem ensureValidToken_refresh_fails_witness:
  "expires_at demo_row \<le> 2000
   \<and> fst (ensureValidToken demo_cfg rejecting_provider 2000 2000 demo_row demo_state) = Inl (SdkError ''invalid_grant'')
   \<and> table (snd (ensureValidToken demo_cfg rejecting_provider 2000 2000 demo_row demo_state)) = demo_table"
proof -
  have h1: "expires_at demo_row \<le> 2000" by (simp add: demo_row_def new_row_def demo_token_def)
  have h2: "refreshWithRefreshToken rejecting_provider (client_id demo_cfg) (client_secret demo_cfg)
              (refresh_token demo_row) = Inl ''invalid_grant''"
    by (simp add: rejecting_provider_def)
  show ?thesis
    using h1 ensureValidToken_refresh_fails [OF h1 h2, of 2000 demo_state]
    by (simp add: demo_state_def)
qed

text \<open>One call makes one refresh request when the token has expired and none otherwise:
  there is no retry.\<close>

theorem ensureValidToken_refresh_count:
  "length (filter is_refresh (provider_log (snd (ensureValidToken cfg p now later token s)))) =
   length (filter is_refresh (provider_log s)) + (if expires_at token \<le> now then 1 else 0)"
  by (cases rule: ensureValidToken_cases [of now token cfg p later s])
     (auto simp: Let_def split: option.splits)

text \<open>Called with the active row, as the middleware calls it, the call returns that row's
  tenant or the provider's refresh error, never the \<^verbatim>\<open>TypeError\<close>.\<close>

theorem ensureValidToken_active_total:
  assumes "getActiveToken (table s) = Some token"
  shows "fst (ensureValidToken cfg p now later token s) = Inr (tenant_id token)
         \<or> (\<exists>msg. fst (ensureValidToken cfg p now later token s) = Inl (SdkError msg))"
  using assms
  by (cases rule: ensureValidToken_cases [of now token cfg p later s])
     (auto simp: Let_def getActiveToken_updateToken)

theorem ensureValidToken_active_total_witness:
  "getActiveToken (table demo_state) = Some demo_row
   \<and> (fst (ensureValidToken demo_cfg rejecting_provider 2000 2000 demo_row demo_state) = Inr (tenant_id demo_row)
      \<or> (\<exists>msg. fst (ensureValidToken demo_cfg rejecting_provider 2000 2000 demo_row demo_state) = Inl (SdkError msg)))"
proof -
  have h: "getActiveToken (table demo_state) = Some demo_row"
    by (simp add: demo_state_def demo_table_active)
  show ?thesis using h ensureValidToken_active_total [OF h] by simp
qed

text \<open>After a successful call the shared client holds a token that has not expired, provided
  the provider's expiry is positive and the clock does not run backwards.\<close>

theorem ensureValidToken_session_fresh:
  assumes "ensureValidToken cfg p now later token s = (Inr tid, s')"
    and "now \<le> later"
    and "\<forall>nt. refreshWithRefreshToken p (client_id cfg) (client_secret cfg) (refresh_token token) = Inr nt
               \<longrightarrow> 0 < tr_expires_in nt"
  shows "\<exists>ts. session s' = Some ts \<and> now < ts_expires_at ts"
  using assms
  by (cases rule: ensureValidToken_cases [of now token cfg p later s])
     (auto simp: Let_def getActiveToken_updateToken split: option.splits)

theorem ensureValidToken_session_fresh_witness:
  "ensureValidToken demo_cfg demo_provider 2000 2500 demo_row demo_state =
     (Inr (Some ''tenant-a''), snd (ensureValidToken demo_cfg demo_provider 2000 2500 demo_row demo_state))
   \<and> (\<exists>ts. session (snd (ensureValidToken demo_cfg demo_provider 2000 2500 demo_row demo_state)) = Some ts
            \<and> 2000 < ts_expires_at ts)"
proof -
  have h1: "ensureValidToken demo_cfg demo_provider 2000 2500 demo_row demo_state =
     (Inr (Some ''tenant-a''), snd (ensureValidToken demo_cfg demo_provider 2000 2500 demo_row demo_state))"
    by (simp add: ensureValidToken_def Let_def demo_provider_def demo_state_def demo_table_active
        getActiveToken_updateToken demo_row_def new_row_def demo_token_def)
  have h2: "(2000::int) \<le> 2500" by simp
  have h3: "\<forall>nt. refreshWithRefreshToken demo_provider (client_id demo_cfg) (client_secret demo_cfg)
              (refresh_token demo_row) = Inr nt \<longrightarrow> 0 < tr_expires_in nt"
    by (simp add: demo_provider_def)
  show ?thesis using h1 ensureValidToken_session_fresh [OF h1 h2 h3] by simp
qed

theorem ensureValidToken_store_wf:
  "store_wf (table s) \<Longrightarrow> store_wf (table (snd (ensureValidToken cfg p now later token s)))"
  by (cases rule: ensureValidToken_cases [of now token cfg p later s])
     (auto simp: Let_def updateToken_store_wf split: option.splits)

text \<open>A completed consent flow makes the saved token the active row, with the first
  connection's tenant (none when there is no connection).\<close>

theorem handleCallback_active:
  assumes "apiCallback p (callback_url cfg code) = Inr ts"
    and "updateTenants p = Inr conns"
  shows "\<exists>s'. handleCallback cfg p now code s = (Inr True, s')
           \<and> map_option tenant_id (getActiveToken (table s')) = Some (case conns of [] \<Rightarrow> None | t # _ \<Rightarrow> Some t)
           \<and> map_option refresh_token (getActiveToken (table s')) = Some (tr_refresh_token ts)"
  using assms by (simp add: handleCallback_def getActiveToken_saveToken new_row_def)

theorem handleCallback_active_witness:
  "\<exists>s'. handleCallback demo_cfg demo_provider 0 ''code-1'' demo_state = (Inr True, s')
        \<and> map_option tenant_id (getActiveToken (table s')) = Some (Some ''tenant-a'')
        \<and> map_option refresh_token (getActiveToken (table s')) = Some ''rt-0''"
proof -
  have h1: "apiCallback demo_provider (callback_url demo_cfg ''code-1'') =
              Inr \<lparr>tr_access_token = ''at-0'', tr_refresh_token = ''rt-0'', tr_expires_in = 1800\<rparr>"
    by (simp add: demo_provider_def)
  have h2: "updateTenants demo_provider = Inr [''tenant-a'']" by (simp add: demo_provider_def)
  show ?thesis using handleCallback_active [OF h1 h2, of 0 demo_state] by simp
qed

theorem handleCallback_store_wf:
  "store_wf (table s) \<Longrightarrow> store_wf (table (snd (handleCallback cfg p now code s)))"
  by (auto simp: handleCallback_def Let_def saveToken_store_wf split: sum.splits)

end
