(* ===== verification/QueryAdapter.thy ===== *)
theory QueryAdapter
  imports TokenLifecycle
begin

text \<open>
  The provider query adapter of \<^verbatim>\<open>src/server/src/services/xeroService.js\<close>:
  \<^verbatim>\<open>getInvoices\<close>, \<^verbatim>\<open>getContacts\<close>, \<^verbatim>\<open>getTaxRates\<close> and \<^verbatim>\<open>getAccounts\<close>. Each
  obtains the tenant from \<open>ensureValidToken\<close>, issues one call of the accounting API with
  the client's current token set, and reshapes the response body. \<open>params\<close> is the object
  the controller built (a \<open>js\<close> object whose undefined keys were deleted). The abstract
  contract of the spec (one uniform list operation per resource, paginated exactly when both
  \<^verbatim>\<open>page\<close> and \<^verbatim>\<open>pageSize\<close> are given) is \<open>list_resource\<close>; the refinement lemmas
  show which operations implement it.
\<close>

text \<open>\<^verbatim>\<open>if (params.page && params.pageSize)\<close>.\<close>

definition paged :: "js \<Rightarrow> bool" where
  "paged params \<longleftrightarrow> truthy (js_get params ''page'') \<and> truthy (js_get params ''pageSize'')"

text \<open>One data call: logged with the token set the shared client holds when it is made.\<close>

definition data_call :: "provider \<Rightarrow> provider_call \<Rightarrow> service_state \<Rightarrow> (svc_error + js) \<times> service_state" where
  "data_call p c s =
     (let s' = log_event (DataCall (session s) c) s in
      case accountingApi p (session s) c of
        Inl msg \<Rightarrow> (Inl (SdkError msg), s')
      | Inr body \<Rightarrow> (Inr body, s'))"

text \<open>The positional arguments of each call site, after the tenant id.\<close>

definition invoices_call :: "string option \<Rightarrow> js \<Rightarrow> provider_call" where
  "invoices_call tid params =
     GetInvoices tid
       [Undef, js_get params ''where'', js_get params ''order'', Undef,
        js_get params ''invoiceNumbers'', js_get params ''contactIds'', js_get params ''statuses'',
        js_get params ''page'', Undef, Undef, Undef, Undef,
        js_get params ''pageSize'', js_get params ''searchTerm'']"

definition contacts_call :: "string option \<Rightarrow> js \<Rightarrow> provider_call" where
  "contacts_call tid params =
     GetContacts tid
       [Undef, js_get params ''where'', js_get params ''order'', Undef, js_get params ''page'',
        Undef, Undef, js_get params ''searchTerm'', js_get params ''pageSize'']"

definition taxRates_call :: "string option \<Rightarrow> js \<Rightarrow> provider_call" where
  "taxRates_call tid params =
     GetAccounts tid [Undef, js_get params ''where'', js_get params ''order'']"

definition accounts_call :: "string option \<Rightarrow> js \<Rightarrow> provider_call" where
  "accounts_call tid params =
     GetAccounts tid [js_get params ''where'', js_get params ''order'']"

text \<open>The paginated envelope built by \<^verbatim>\<open>getInvoices\<close> and \<^verbatim>\<open>getContacts\<close>.\<close>

definition paged_result :: "js \<Rightarrow> string \<Rightarrow> string \<Rightarrow> js" where
  "paged_result body key msg =
     Obj [(''pagination'', js_or (js_get body ''pagination'') Null),
          (''data'', js_get body key), (''message'', Str msg)]"

text \<open>The common frame of the four operations: \<^verbatim>\<open>await this.ensureValidToken(token)\<close>,
  then one call; a thrown error propagates unchanged.\<close>

definition with_tenant ::
  "xero_config \<Rightarrow> provider \<Rightarrow> time \<Rightarrow> time \<Rightarrow> token_row \<Rightarrow> (string option \<Rightarrow> provider_call)
   \<Rightarrow> (js \<Rightarrow> js) \<Rightarrow> service_state \<Rightarrow> (svc_error + js) \<times> service_state" where
  "with_tenant cfg p now later token mk_call shape s =
     (case ensureValidToken cfg p now later token s of
        (Inl e, s1) \<Rightarrow> (Inl e, s1)
      | (Inr tid, s1) \<Rightarrow>
          (case data_call p (mk_call tid) s1 of
             (Inl e, s2) \<Rightarrow> (Inl e, s2)
           | (Inr body, s2) \<Rightarrow> (Inr (shape body), s2)))"

definition getInvoices ::
  "xero_config \<Rightarrow> provider \<Rightarrow> time \<Rightarrow> time \<Rightarrow> js \<Rightarrow> token_row \<Rightarrow> service_state
   \<Rightarrow> (svc_error + js) \<times> service_state" where
  "getInvoices cfg p now later params token =
     with_tenant cfg p now later token (\<lambda>tid. invoices_call tid params)
       (\<lambda>body. if paged params then paged_result body ''invoices'' ''Invoices synced successfully''
               else js_get body ''invoices'')"

definition getContacts ::
  "xero_config \<Rightarrow> provider \<Rightarrow> time \<Rightarrow> time \<Rightarrow> js \<Rightarrow> token_row \<Rightarrow> service_state
   \<Rightarrow> (svc_error + js) \<times> service_state" where
  "getContacts cfg p now later params token =
     with_tenant cfg p now later token (\<lambda>tid. contacts_call tid params)
       (\<lambda>body. if paged params then paged_result body ''contacts'' ''Contacts synced successfully''
               else js_get body ''contacts'')"

definition getTaxRates ::
  "xero_config \<Rightarrow> provider \<Rightarrow> time \<Rightarrow> time \<Rightarrow> js \<Rightarrow> token_row \<Rightarrow> service_state
   \<Rightarrow> (svc_error + js) \<times> service_state" where
  "getTaxRates cfg p now later params token =
     with_tenant cfg p now later token (\<lambda>tid. taxRates_call tid params)
       (\<lambda>body. js_get body ''accounts'')"

definition getAccounts ::
  "xero_config \<Rightarrow> provider \<Rightarrow> time \<Rightarrow> time \<Rightarrow> js \<Rightarrow> token_row \<Rightarrow> service_state
   \<Rightarrow> (svc_error + js) \<times> service_state" where
  "getAccounts cfg p now later params token =
     with_tenant cfg p now later token (\<lambda>tid. accounts_call tid params)
       (\<lambda>body. js_get body ''accounts'')"

subsection \<open>The abstract contract\<close>

text \<open>The spec's adapter: per resource, the provider operation it reads, the filter, order,
  page, page size and search term passed under the SDK's parameter names, and the dual
  result shape, as a tagged union.\<close>

datatype resource = Invoices | Contacts | Accounts | TaxRates

datatype list_result =
    Paginated js js string
  | ListOnly js

fun encode_result :: "list_result \<Rightarrow> js" where
  "encode_result (Paginated pag items msg) =
     Obj [(''pagination'', pag), (''data'', items), (''message'', Str msg)]"
| "encode_result (ListOnly items) = items"

fun resource_key :: "resource \<Rightarrow> string" where
  "resource_key Invoices = ''invoices''"
| "resource_key Contacts = ''contacts''"
| "resource_key Accounts = ''accounts''"
| "resource_key TaxRates = ''taxRates''"

fun resource_pages :: "resource \<Rightarrow> bool" where
  "resource_pages Invoices = True"
| "resource_pages Contacts = True"
| "resource_pages Accounts = False"
| "resource_pages TaxRates = False"

fun resource_message :: "resource \<Rightarrow> string" where
  "resource_message Invoices = ''Invoices synced successfully''"
| "resource_message Contacts = ''Contacts synced successfully''"
| "resource_message _ = []"

definition shape_spec :: "resource \<Rightarrow> js \<Rightarrow> js \<Rightarrow> list_result" where
  "shape_spec r params body =
     (if resource_pages r \<and> paged params
      then Paginated (js_or (js_get body ''pagination'') Null) (js_get body (resource_key r)) (resource_message r)
      else ListOnly (js_get body (resource_key r)))"

text \<open>The call the contract expects: the provider operation of the resource, with the
  tenant, and each parameter the resource supports under its SDK name.\<close>

definition spec_call_ok :: "resource \<Rightarrow> string option \<Rightarrow> js \<Rightarrow> provider_call \<Rightarrow> bool" where
  "spec_call_ok r tid params c \<longleftrightarrow>
     call_tenant c = tid
     \<and> (case (r, c) of
          (Invoices, GetInvoices _ _) \<Rightarrow> True | (Contacts, GetContacts _ _) \<Rightarrow> True
        | (Accounts, GetAccounts _ _) \<Rightarrow> True | (TaxRates, GetTaxRates _ _) \<Rightarrow> True | _ \<Rightarrow> False)
     \<and> list_all (\<lambda>k. named_arg c k = js_get params k)
         ([''where'', ''order''] @ (if resource_pages r then [''page'', ''pageSize'', ''searchTerm''] else []))"

text \<open>The contract as a relation between a start state and an outcome: the tenant comes
  from \<open>ensureValidToken\<close> (its error ends the operation), then one call the contract
  accepts is made with the client's token set, and its error or its reshaped body is the
  outcome.\<close>

definition adapter_contract ::
  "xero_config \<Rightarrow> provider \<Rightarrow> time \<Rightarrow> time \<Rightarrow> resource \<Rightarrow> js \<Rightarrow> token_row \<Rightarrow> service_state
   \<Rightarrow> (svc_error + js) \<times> service_state \<Rightarrow> bool" where
  "adapter_contract cfg p now later r params token s res \<longleftrightarrow>
     (case ensureValidToken cfg p now later token s of
        (Inl e, s1) \<Rightarrow> res = (Inl e, s1)
      | (Inr tid, s1) \<Rightarrow>
          (\<exists>c. spec_call_ok r tid params c \<and>
               res = (case accountingApi p (session s1) c of
                        Inl msg \<Rightarrow> (Inl (SdkError msg), log_event (DataCall (session s1) c) s1)
                      | Inr body \<Rightarrow> (Inr (encode_result (shape_spec r params body)),
                                    log_event (DataCall (session s1) c) s1))))"

text \<open>Example query parameters: the first page of ten, and no pagination.\<close>

definition demo_page_params :: js where
  "demo_page_params = Obj [(''page'', Num 1), (''pageSize'', Num 10)]"

definition demo_list_params :: js where
  "demo_list_params = Obj [(''where'', Str ''Type==\"ACCPAY\"'')]"

subsection \<open>Lemmas on the common frame\<close>

lemma with_tenant_Inl:
  "ensureValidToken cfg p now later token s = (Inl e, s1) \<Longrightarrow>
   with_tenant cfg p now later token mk_call shape s = (Inl e, s1)"
  by (simp add: with_tenant_def)

lemma with_tenant_Inr:
  "ensureValidToken cfg p now later token s = (Inr tid, s1) \<Longrightarrow>
   with_tenant cfg p now later token mk_call shape s =
     (case accountingApi p (session s1) (mk_call tid) of
        Inl msg \<Rightarrow> (Inl (SdkError msg), log_event (DataCall (session s1) (mk_call tid)) s1)
      | Inr body \<Rightarrow> (Inr (shape body), log_event (DataCall (session s1) (mk_call tid)) s1))"
  by (simp add: with_tenant_def data_call_def Let_def split: sum.splits)

lemma with_tenant_contract:
  assumes "\<And>tid. spec_call_ok r tid params (mk_call tid)"
    and "\<And>body. shape body = encode_result (shape_spec r params body)"
  shows "adapter_contract cfg p now later r params token s (with_tenant cfg p now later token mk_call shape s)"
proof (cases "ensureValidToken cfg p now later token s")
  case (Pair res s1)
  show ?thesis
  proof (cases res)
    case (Inl e)
    with Pair show ?thesis by (simp add: adapter_contract_def with_tenant_Inl)
  next
    case (Inr tid)
    have ok: "spec_call_ok r tid params (mk_call tid)" by (rule assms(1))
    from Pair Inr have ev: "ensureValidToken cfg p now later token s = (Inr tid, s1)" by simp
    show ?thesis
      unfolding adapter_contract_def ev
      by (simp, rule exI [of _ "mk_call tid"]) (simp add: ok ev with_tenant_Inr assms(2) split: sum.splits)
  qed
qed

lemma with_tenant_log:
  assumes "with_tenant cfg p now later token mk_call shape s = (Inr v, s')"
  shows "\<exists>tid s1. ensureValidToken cfg p now later token s = (Inr tid, s1)
           \<and> provider_log s' = provider_log s1 @ [DataCall (session s1) (mk_call tid)]"
  using assms
  by (cases "ensureValidToken cfg p now later token s" rule: prod.exhaust)
     (auto simp: with_tenant_def data_call_def Let_def split: sum.splits)

lemmas call_simps = named_arg_def invoices_call_def contacts_call_def taxRates_call_def
  accounts_call_def spec_call_ok_def

lemma spec_call_ok_invoices: "spec_call_ok Invoices tid params (invoices_call tid params)"
  and spec_call_ok_contacts: "spec_call_ok Contacts tid params (contacts_call tid params)"
  by (simp_all add: call_simps)

subsection \<open>Properties of the query adapter\<close>

text \<open>C4: \<^verbatim>\<open>getInvoices\<close> implements the contract for invoices.\<close>

theorem getInvoices_refines:
  "adapter_contract cfg p now later Invoices params token s (getInvoices cfg p now later params token s)"
  unfolding getInvoices_def
  by (rule with_tenant_contract) (simp_all add: spec_call_ok_invoices shape_spec_def paged_result_def)

theorem getInvoices_refines_witness:
  "adapter_contract demo_cfg demo_provider 0 0 Invoices demo_page_params demo_row demo_state
     (getInvoices demo_cfg demo_provider 0 0 demo_page_params demo_row demo_state)"
  by (rule getInvoices_refines)

text \<open>\<^verbatim>\<open>getContacts\<close> implements the contract for contacts.\<close>

theorem getContacts_refines:
  "adapter_contract cfg p now later Contacts params token s (getContacts cfg p now later params token s)"
  unfolding getContacts_def
  by (rule with_tenant_contract) (simp_all add: spec_call_ok_contacts shape_spec_def paged_result_def)

theorem getContacts_refines_witness:
  "adapter_contract demo_cfg demo_provider 0 0 Contacts demo_list_params demo_row demo_state
     (getContacts demo_cfg demo_provider 0 0 demo_list_params demo_row demo_state)"
  by (rule getContacts_refines)

text \<open>C33: \<^verbatim>\<open>getAccounts\<close> passes the filter where the SDK expects \<^verbatim>\<open>ifModifiedSince\<close> and
  the order where it expects the filter.\<close>

theorem getAccounts_shifted_args:
  "named_arg (accounts_call tid params) ''ifModifiedSince'' = js_get params ''where''
   \<and> named_arg (accounts_call tid params) ''where'' = js_get params ''order''
   \<and> named_arg (accounts_call tid params) ''order'' = Undef"
  by (simp add: call_simps)

text \<open>C34: \<^verbatim>\<open>getTaxRates\<close> calls the accounts endpoint, never the tax rates
  endpoint: once \<open>ensureValidToken\<close> has given the tenant, its one call is
  \<^verbatim>\<open>getAccounts\<close> with \<^verbatim>\<open>undefined\<close> as \<^verbatim>\<open>ifModifiedSince\<close>, the filter and the
  order, and it answers the response's \<^verbatim>\<open>accounts\<close>; that call is not one the contract
  allows for tax rates.\<close>

theorem getTaxRates_reads_accounts:
  assumes "ensureValidToken cfg p now later token s = (Inr tid, s1)"
  shows "getTaxRates cfg p now later params token s =
     (let c = GetAccounts tid [Undef, js_get params ''where'', js_get params ''order''] in
      case accountingApi p (session s1) c of
        Inl msg \<Rightarrow> (Inl (SdkError msg), log_event (DataCall (session s1) c) s1)
      | Inr body \<Rightarrow> (Inr (js_get body ''accounts''), log_event (DataCall (session s1) c) s1))
   \<and> \<not> spec_call_ok TaxRates tid params (taxRates_call tid params)"
  using assms by (simp add: getTaxRates_def with_tenant_Inr call_simps Let_def)

theorem getTaxRates_reads_accounts_witness:
  "ensureValidToken demo_cfg demo_provider 0 0 demo_row demo_state =
     (Inr (Some ''tenant-a''), setTokenSet demo_row demo_state)
   \<and> getTaxRates demo_cfg demo_provider 0 0 demo_page_params demo_row demo_state =
     (let c = GetAccounts (Some ''tenant-a'') [Undef, js_get demo_page_params ''where'', js_get demo_page_params ''order''] in
      case accountingApi demo_provider (session (setTokenSet demo_row demo_state)) c of
        Inl msg \<Rightarrow> (Inl (SdkError msg), log_event (DataCall (session (setTokenSet demo_row demo_state)) c)
                     (setTokenSet demo_row demo_state))
      | Inr body \<Rightarrow> (Inr (js_get body ''accounts''), log_event (DataCall (session (setTokenSet demo_row demo_state)) c)
                     (setTokenSet demo_row demo_state)))
   \<and> \<not> spec_call_ok TaxRates (Some ''tenant-a'') demo_page_params (taxRates_call (Some ''tenant-a'') demo_page_params)"
proof -
  have ev: "ensureValidToken demo_cfg demo_provider 0 0 demo_row demo_state =
              (Inr (Some ''tenant-a''), setTokenSet demo_row demo_state)"
    by (simp add: ensureValidToken_def Let_def demo_row_def new_row_def demo_token_def)
  show ?thesis using ev getTaxRates_reads_accounts [OF ev, of demo_page_params] by blast
qed

text \<open>A successful operation made exactly one data call after \<open>ensureValidToken\<close>, with
  the tenant and the token set that \<open>ensureValidToken\<close> left.\<close>

theorem getInvoices_call_order:
  assumes "getInvoices cfg p now later params token s = (Inr v, s')"
  shows "\<exists>tid s1. ensureValidToken cfg p now later token s = (Inr tid, s1)
           \<and> provider_log s' = provider_log s1 @ [DataCall (session s1) (invoices_call tid params)]"
  using assms unfolding getInvoices_def by (rule with_tenant_log)

theorem getInvoices_call_order_witness:
  "getInvoices demo_cfg demo_provider 0 0 demo_page_params demo_row demo_state =
     (Inr (paged_result demo_body ''invoices'' ''Invoices synced successfully''),
      snd (getInvoices demo_cfg demo_provider 0 0 demo_page_params demo_row demo_state))
   \<and> provider_log (snd (getInvoices demo_cfg demo_provider 0 0 demo_page_params demo_row demo_state)) =
       [DataCall (Some (token_set_of demo_row)) (invoices_call (Some ''tenant-a'') demo_page_params)]"
proof -
  have ev: "ensureValidToken demo_cfg demo_provider 0 0 demo_row demo_state =
              (Inr (Some ''tenant-a''), setTokenSet demo_row demo_state)"
    by (simp add: ensureValidToken_def Let_def demo_row_def new_row_def demo_token_def)
  have h: "getInvoices demo_cfg demo_provider 0 0 demo_page_params demo_row demo_state =
     (Inr (paged_result demo_body ''invoices'' ''Invoices synced successfully''),
      snd (getInvoices demo_cfg demo_provider 0 0 demo_page_params demo_row demo_state))"
    by (simp add: getInvoices_def with_tenant_Inr [OF ev])
       (simp add: demo_provider_def paged_def demo_page_params_def)
  from getInvoices_call_order [OF h] ev h show ?thesis
    by (auto simp: demo_state_def)
qed

end
