(* ===== verification/ResponseFormatter.thy ===== *)
theory ResponseFormatter
  imports Prelude
begin

text \<open>
  The response envelope and the error handlers of
  \<^verbatim>\<open>src/server/src/middlewares/responseHandler.js\<close>. \<^verbatim>\<open>responseFormatter\<close> replaces
  \<^verbatim>\<open>res.json\<close> for every route (it is installed in \<^verbatim>\<open>app.js\<close> before the routes),
  so every body a handler passes to \<^verbatim>\<open>res.json\<close>, the error handlers' included, is
  wrapped by \<open>format_json\<close> and then serialised (\<open>to_json\<close>: \<^verbatim>\<open>JSON.stringify\<close>
  followed by the client's \<^verbatim>\<open>JSON.parse\<close>). \<open>production\<close> is
  \<^verbatim>\<open>process.env.NODE_ENV === "production"\<close>.
\<close>

text \<open>What survives \<^verbatim>\<open>JSON.stringify\<close>: keys whose value is \<open>undefined\<close> are left
  out, \<open>undefined\<close> in an array and \<open>NaN\<close> become \<open>null\<close>.\<close>

fun to_json :: "js \<Rightarrow> js" where
  "to_json Undef = Null"
| "to_json NaN = Null"
| "to_json (Arr xs) = Arr (map to_json xs)"
| "to_json (Obj kvs) = Obj (map (\<lambda>(k, v). (k, to_json v)) (filter (\<lambda>(k, v). v \<noteq> Undef) kvs))"
| "to_json v = v"

text \<open>The \<^verbatim>\<open>error\<close> object of an error envelope (lines 17 to 24).\<close>

definition error_object :: "bool \<Rightarrow> js \<Rightarrow> js" where
  "error_object production data =
     Obj ([(''message'', js_or (js_or (js_or (js_get data ''message'') (js_get data ''details''))
                                       (js_get data ''error'')) (Str ''An error occurred''))]
          @ (if truthy (js_get data ''code'') then [(''code'', js_get data ''code'')] else [])
          @ (if \<not> production \<and> truthy (js_get data ''stack'') then [(''stack'', js_get data ''stack'')] else [])
          @ (if truthy (js_get data ''errors'') then [(''errors'', js_get data ''errors'')] else []))"

text \<open>\<^verbatim>\<open>data.data || data.results || data.items\<close>.\<close>

definition items_of :: "js \<Rightarrow> js" where
  "items_of data = js_or (js_or (js_get data ''data'') (js_get data ''results'')) (js_get data ''items'')"

text \<open>\<^verbatim>\<open>const { message: _, ...restData } = data\<close>, and \<open>null\<close> when no key is left.\<close>

definition rest_or_null :: "js \<Rightarrow> js" where
  "rest_or_null data = (case js_delete data ''message'' of Obj [] \<Rightarrow> Null | rest \<Rightarrow> rest)"

text \<open>The fields a success envelope carries besides \<^verbatim>\<open>success\<close>, \<^verbatim>\<open>statusCode\<close> and
  \<^verbatim>\<open>error\<close> (lines 27 to 59), in the order the branches test them.\<close>

definition success_fields :: "js \<Rightarrow> (string \<times> js) list" where
  "success_fields data =
     (if truthy (js_get data ''pagination'') then [(''pagination'', js_get data ''pagination''), (''data'', items_of data)]
      else if truthy (js_get data ''filters'') then [(''filters'', js_get data ''filters''), (''data'', items_of data)]
      else if truthy (js_get data ''meta'') then [(''meta'', js_get data ''meta''), (''data'', items_of data)]
      else if truthy (js_get data ''summary'') then [(''summary'', js_get data ''summary''), (''data'', items_of data)]
      else if truthy (js_get data ''message'') then [(''data'', rest_or_null data), (''message'', js_get data ''message'')]
      else [(''data'', data)])"

text \<open>The replacement \<^verbatim>\<open>res.json = function (data) {...}\<close>: the object handed to the
  original \<^verbatim>\<open>res.json\<close> for a response with status \<open>code\<close>.\<close>

definition format_json :: "bool \<Rightarrow> nat \<Rightarrow> js \<Rightarrow> js" where
  "format_json production code data =
     (let base = [(''success'', Bool (\<not> 400 \<le> code)), (''statusCode'', Num (int code))] in
      if 400 \<le> code then Obj (base @ [(''error'', error_object production data), (''data'', Null)])
      else Obj (base @ success_fields data @ [(''error'', Null)]))"

text \<open>What the client receives for a response.\<close>

definition wire :: "bool \<Rightarrow> http_response \<Rightarrow> js" where
  "wire production r = to_json (format_json production (status r) (resp_body r))"

text \<open>The helpers \<^verbatim>\<open>res.success\<close> and \<^verbatim>\<open>res.error\<close> (defaults 200, and 500 with
  \<^verbatim>\<open>details = null\<close>).\<close>

definition res_success :: "js \<Rightarrow> js \<Rightarrow> nat \<Rightarrow> http_response" where
  "res_success data message code = json_response code (Obj [(''data'', data), (''message'', message)])"

definition res_error :: "js \<Rightarrow> nat \<Rightarrow> js \<Rightarrow> http_response" where
  "res_error message code details = json_response code (Obj [(''message'', message), (''details'', details)])"

subsection \<open>Handlers\<close>

definition notFoundHandler :: "string \<Rightarrow> string \<Rightarrow> http_response" where
  "notFoundHandler method url =
     json_response 404 (Obj
       [(''message'', Str ''Resource not found''),
        (''details'', Str (''The requested endpoint '' @ method @ '' '' @ url @ '' does not exist'')),
        (''code'', Str ''ENDPOINT_NOT_FOUND''),
        (''suggestions'', Arr [Str ''Check the URL spelling'', Str ''Verify the HTTP method'',
                               Str ''Consult the API documentation''])])"

text \<open>\<^verbatim>\<open>Object.keys(err.errors).reduce((acc, key) => { acc[key] = err.errors[key].message; ... }, {})\<close>;
  \<open>None\<close> when \<^verbatim>\<open>Object.keys\<close> throws (on \<open>undefined\<close> and \<open>null\<close>). Other
  non-objects count as having no keys.\<close>

fun validation_messages :: "js \<Rightarrow> js option" where
  "validation_messages (Obj kvs) = Some (Obj (map (\<lambda>(k, v). (k, js_get v ''message'')) kvs))"
| "validation_messages Undef = None"
| "validation_messages Null = None"
| "validation_messages _ = Some (Obj [])"

text \<open>\<^verbatim>\<open>Object.keys(err.keyPattern)[0]\<close>, \<open>None\<close> when it throws.\<close>

fun first_key :: "js \<Rightarrow> js option" where
  "first_key (Obj ((k, _) # _)) = Some (Str k)"
| "first_key Undef = None"
| "first_key Null = None"
| "first_key _ = Some Undef"

definition error_status :: "js \<Rightarrow> js" where
  "error_status err = js_or (js_or (js_get err ''statusCode'') (js_get err ''status'')) (Num 500)"

text \<open>The switch on \<^verbatim>\<open>err.name\<close>: the status it sets (\<open>None\<close> keeps the one above) and
  the error response; \<open>None\<close> as a whole when a property read throws.\<close>

definition error_case :: "js \<Rightarrow> (js option \<times> js) option" where
  "error_case err =
     (let dflt = Obj [(''message'', Str ''Internal Server Error''), (''code'', Str ''INTERNAL_ERROR'')] in
      case js_to_string (js_get err ''name'') of
        ''ValidationError'' \<Rightarrow>
          map_option (\<lambda>v. (Some (Num 400), Obj [(''message'', Str ''Validation failed''),
                                                 (''code'', Str ''VALIDATION_ERROR''), (''validation'', v)]))
            (validation_messages (js_get err ''errors''))
      | ''CastError'' \<Rightarrow>
          Some (Some (Num 400), Obj [(''message'', Str ''Invalid data format''), (''code'', Str ''INVALID_FORMAT''),
                 (''details'', Str (''Invalid '' @ js_to_string (js_get err ''path'') @ '': '' @ js_to_string (js_get err ''value'')))])
      | ''MongoServerError'' \<Rightarrow>
          (if js_get err ''code'' = Num 11000 then
             map_option (\<lambda>field. (Some (Num 409), Obj [(''message'', Str ''Resource already exists''),
                                   (''code'', Str ''DUPLICATE_ENTRY''), (''details'', Str (js_to_string field @ '' already exists''))]))
               (first_key (js_get err ''keyPattern''))
           else Some (None, dflt))
      | ''JsonWebTokenError'' \<Rightarrow> Some (Some (Num 401), Obj [(''message'', Str ''Invalid token''), (''code'', Str ''INVALID_TOKEN'')])
      | ''TokenExpiredError'' \<Rightarrow> Some (Some (Num 401), Obj [(''message'', Str ''Token expired''), (''code'', Str ''TOKEN_EXPIRED'')])
      | ''MulterError'' \<Rightarrow>
          Some (Some (Num 400), Obj [(''message'', Str ''File upload error''), (''code'', Str ''UPLOAD_ERROR''),
                 (''details'', js_get err ''message'')])
      | _ \<Rightarrow>
          Some (None, js_put (js_put dflt ''message''
                    (if truthy (js_get err ''message'') then js_get err ''message'' else Str ''Internal Server Error''))
                  ''code'' (if truthy (js_get err ''code'') then js_get err ''code'' else Str ''INTERNAL_ERROR'')))"

text \<open>The status \<^verbatim>\<open>res.status\<close> can send: a number between 100 and 999; anything
  else makes the response throw (\<open>None\<close>).\<close>

fun status_code :: "js \<Rightarrow> nat option" where
  "status_code (Num n) = (if 100 \<le> n \<and> n \<le> 999 then Some (nat n) else None)"
| "status_code _ = None"

definition errorHandler :: "bool \<Rightarrow> js \<Rightarrow> http_response option" where
  "errorHandler production err =
     (case error_case err of
        None \<Rightarrow> None
      | Some (st, resp) \<Rightarrow>
          map_option (\<lambda>code. json_response code
                        (if \<not> production then js_put resp ''stack'' (js_get err ''stack'') else resp))
            (status_code (case st of Some v \<Rightarrow> v | None \<Rightarrow> error_status err)))"

text \<open>The answer to an error a middleware throws: Express hands it to \<^verbatim>\<open>errorHandler\<close>
  (the last \<^verbatim>\<open>app.use\<close>); when \<^verbatim>\<open>errorHandler\<close> itself throws, Express's final
  handler answers 500 with an HTML page, whose body is not JSON (\<open>Null\<close> here).\<close>

definition express_error :: "bool \<Rightarrow> js \<Rightarrow> http_response" where
  "express_error production err =
     (case errorHandler production err of Some r \<Rightarrow> r | None \<Rightarrow> json_response 500 Null)"

text \<open>\<^verbatim>\<open>Math.round(req.rateLimit.resetTime / 1000) || 60\<close>, the reset time in
  milliseconds (\<open>NaN\<close> when absent); \<^verbatim>\<open>Math.round(x)\<close> is \<open>\<lfloor>x + 1/2\<rfloor>\<close>.\<close>

definition retry_after :: "time option \<Rightarrow> int" where
  "retry_after reset = (case reset of None \<Rightarrow> 60 | Some ms \<Rightarrow> (let r = (ms + 500) div 1000 in if r = 0 then 60 else r))"

definition rateLimitHandler :: "time option \<Rightarrow> http_response" where
  "rateLimitHandler reset =
     json_response 429 (Obj [(''message'', Str ''Too many requests''), (''code'', Str ''RATE_LIMIT_EXCEEDED''),
                             (''details'', Str ''Rate limit exceeded. Please try again later.''),
                             (''retryAfter'', Num (retry_after reset))])"

subsection \<open>Lemmas on the envelope\<close>

lemma error_object_keys:
  "\<exists>kvs. error_object production data = Obj kvs
         \<and> set (map fst kvs) \<subseteq> {''message'', ''code'', ''stack'', ''errors''}"
  by (auto simp: error_object_def)

lemma format_json_success:
  "code < 400 \<Longrightarrow> format_json production code data =
     Obj ([(''success'', Bool True), (''statusCode'', Num (int code))] @ success_fields data @ [(''error'', Null)])"
  by (simp add: format_json_def)

lemma truthy_js_or_Null: "truthy (js_or a Null) = truthy a"
  by (simp add: js_or_def)

lemma truthy_to_json [simp]: "truthy (to_json v) = truthy v"
  by (cases v) auto

text \<open>An error envelope has no top-level \<^verbatim>\<open>message\<close>: the handler's message is
  under \<^verbatim>\<open>error\<close>.\<close>

lemma wire_error_no_message:
  "400 \<le> status r \<Longrightarrow> js_get (wire production r) ''message'' = Undef"
  by (simp add: wire_def format_json_def)

subsection \<open>Properties of the envelope\<close>

text \<open>C9: An error envelope keeps of the handler's body only the message (the first of
  \<^verbatim>\<open>message\<close>, \<^verbatim>\<open>details\<close>, \<^verbatim>\<open>error\<close> that is set), \<^verbatim>\<open>code\<close>,
  \<^verbatim>\<open>stack\<close> and \<^verbatim>\<open>errors\<close>; every other field of an error body is dropped.\<close>

theorem error_envelope_keys:
  assumes "400 \<le> code"
  shows "\<exists>kvs. format_json production code data =
           Obj [(''success'', Bool False), (''statusCode'', Num (int code)), (''error'', Obj kvs), (''data'', Null)]
         \<and> set (map fst kvs) \<subseteq> {''message'', ''code'', ''stack'', ''errors''}"
proof -
  obtain kvs where "error_object production data = Obj kvs" and "set (map fst kvs) \<subseteq> {''message'', ''code'', ''stack'', ''errors''}"
    using error_object_keys [of production data] by auto
  with assms show ?thesis by (simp add: format_json_def)
qed

theorem error_envelope_keys_witness:
  "\<exists>kvs. format_json True 404 (Obj [(''message'', Str ''gone''), (''details'', Str ''x'')]) =
           Obj [(''success'', Bool False), (''statusCode'', Num 404), (''error'', Obj kvs), (''data'', Null)]
         \<and> set (map fst kvs) \<subseteq> {''message'', ''code'', ''stack'', ''errors''}"
  using error_envelope_keys [of 404 True "Obj [(''message'', Str ''gone''), (''details'', Str ''x'')]"] by simp

text \<open>The paginated result of the adapter, with a truthy \<^verbatim>\<open>pagination\<close>, becomes an
  envelope with that pagination and the items as \<^verbatim>\<open>data\<close>; its message is dropped.\<close>

theorem paginated_envelope:
  assumes "truthy pag" and "truthy items" and "code < 400"
  shows "format_json production code (Obj [(''pagination'', pag), (''data'', items), (''message'', Str msg)]) =
           Obj [(''success'', Bool True), (''statusCode'', Num (int code)), (''pagination'', pag),
                (''data'', items), (''error'', Null)]"
  using assms by (simp add: format_json_success success_fields_def items_of_def)

theorem paginated_envelope_witness:
  "format_json False 200 (Obj [(''pagination'', Obj [(''page'', Num 1)]), (''data'', Arr []), (''message'', Str ''ok'')]) =
     Obj [(''success'', Bool True), (''statusCode'', Num 200), (''pagination'', Obj [(''page'', Num 1)]),
          (''data'', Arr []), (''error'', Null)]"
  using paginated_envelope [of "Obj [(''page'', Num 1)]" "Arr []" 200 False "''ok''"] by simp

text \<open>When the provider sends no pagination the adapter's \<^verbatim>\<open>pagination: null\<close> fails the
  formatter's test, and the message branch nests the items one level down: the envelope's
  \<^verbatim>\<open>data\<close> is the object \<^verbatim>\<open>{pagination: null, data: items}\<close>, not the list.\<close>

theorem null_pagination_envelope:
  assumes "msg \<noteq> []" and "code < 400"
  shows "format_json production code (Obj [(''pagination'', Null), (''data'', items), (''message'', Str msg)]) =
           Obj [(''success'', Bool True), (''statusCode'', Num (int code)),
                (''data'', Obj [(''pagination'', Null), (''data'', items)]), (''message'', Str msg), (''error'', Null)]"
  using assms by (simp add: format_json_success success_fields_def rest_or_null_def)

theorem null_pagination_envelope_witness:
  "format_json False 200 (Obj [(''pagination'', Null), (''data'', Arr []), (''message'', Str ''ok'')]) =
     Obj [(''success'', Bool True), (''statusCode'', Num 200),
          (''data'', Obj [(''pagination'', Null), (''data'', Arr [])]), (''message'', Str ''ok''), (''error'', Null)]"
  using null_pagination_envelope [of "''ok''" 200 False "Arr []"] by simp

text \<open>A bare list (the list-only shape) is the envelope's \<^verbatim>\<open>data\<close> as it is.\<close>

theorem list_envelope:
  "code < 400 \<Longrightarrow> format_json production code (Arr xs) =
     Obj [(''success'', Bool True), (''statusCode'', Num (int code)), (''data'', Arr xs), (''error'', Null)]"
  by (simp add: format_json_success success_fields_def)

theorem list_envelope_witness:
  "format_json False 200 (Arr [Str ''A-1'']) =
     Obj [(''success'', Bool True), (''statusCode'', Num 200), (''data'', Arr [Str ''A-1'']), (''error'', Null)]"
  using list_envelope [of 200 False "[Str ''A-1'']"] by simp

text \<open>The not-found handler's \<^verbatim>\<open>details\<close> and \<^verbatim>\<open>suggestions\<close> never reach the client.\<close>

theorem notFound_wire:
  "wire production (notFoundHandler method url) =
     Obj [(''success'', Bool False), (''statusCode'', Num 404),
          (''error'', Obj [(''message'', Str ''Resource not found''), (''code'', Str ''ENDPOINT_NOT_FOUND'')]),
          (''data'', Null)]"
  by (simp add: wire_def notFoundHandler_def format_json_def error_object_def)

text \<open>The \<^verbatim>\<open>retryAfter\<close> of a reset time in the future is a positive number of seconds.\<close>

theorem retry_after_positive:
  "0 \<le> ms \<Longrightarrow> 0 < retry_after (Some ms) \<and> (ms \<ge> 500 \<longrightarrow> retry_after (Some ms) = (ms + 500) div 1000)"
  by (auto simp: retry_after_def Let_def)


theorem retry_after_positive_witness:
  "0 < retry_after (Some 1500) \<and> retry_after (Some 1500) = 2"
  using retry_after_positive [of 1500] by simp
end
