(* ===== verification/XeroHttp.thy ===== *)
theory XeroHttp
  imports QueryAdapter ResponseFormatter
begin

text \<open>
  The HTTP layer in front of the adapter, \<^verbatim>\<open>src/server/src/routes/xeroRoutes.js\<close>:
  the query schema \<^verbatim>\<open>PaginationQuerySchema\<close> and \<^verbatim>\<open>XeroCallbackSchema\<close>
  (\<^verbatim>\<open>schemas/xeroSchema.js\<close>) applied by \<^verbatim>\<open>validate\<close>
  (\<^verbatim>\<open>middlewares/validateSchema.js\<close>), the not-connected check
  \<^verbatim>\<open>validateXeroToken\<close> (\<^verbatim>\<open>middlewares/validateXeroToken.js\<close>) and the six
  handlers of \<^verbatim>\<open>controllers/xeroController.js\<close>. A middleware that answers ends the
  chain (\<open>Inl\<close> of its response); one that calls \<^verbatim>\<open>next()\<close> passes on what it adds
  to the request (\<open>Inr\<close>). \<^verbatim>\<open>authenticateToken\<close> runs before every route; it is
  not modelled (JWT verification), and the request carries the role of the verified user.
  The schema follows zod's object parsing: declared keys only, absent optional keys
  omitted, every issue collected. The version is zod 4: \<^verbatim>\<open>schemas/authSchema.js\<close>
  calls \<^verbatim>\<open>z.email\<close>, which only zod 4 provides, and the server loads that module at
  start-up.
\<close>

subsection \<open>Schemas\<close>

datatype zod_issue = Issue string string

datatype field_schema =
    OptString
  | OptDigits string
  | ReqString string

text \<open>A present field against its schema: \<^verbatim>\<open>z.string()\<close>, and
  \<^verbatim>\<open>z.string().regex(/^\d+$/, msg).transform(Number)\<close>.\<close>

fun parse_field :: "string \<Rightarrow> field_schema \<Rightarrow> js \<Rightarrow> zod_issue + js" where
  "parse_field k (OptDigits msg) (Str s) =
     (if digits_only s then Inr (Num (int (digits_val s))) else Inl (Issue k msg))"
| "parse_field k _ (Str s) = Inr (Str s)"
| "parse_field k _ v = Inl (Issue k ''Expected string'')"

text \<open>An absent field: optional ones are left out, a required one is an issue with its
  \<^verbatim>\<open>required_error\<close>.\<close>

fun absent_field :: "string \<Rightarrow> field_schema \<Rightarrow> zod_issue option" where
  "absent_field k (ReqString msg) = Some (Issue k msg)"
| "absent_field k _ = None"

fun parse_fields :: "(string \<times> field_schema) list \<Rightarrow> js \<Rightarrow> zod_issue list \<times> (string \<times> js) list" where
  "parse_fields [] q = ([], [])"
| "parse_fields ((k, f) # fs) q =
     (let (is, out) = parse_fields fs q in
      case js_get q k of
        Undef \<Rightarrow> (case absent_field k f of None \<Rightarrow> (is, out) | Some i \<Rightarrow> (i # is, out))
      | v \<Rightarrow> (case parse_field k f v of
               Inl i \<Rightarrow> (i # is, out)
             | Inr v' \<Rightarrow> (is, (k, v') # out)))"

definition zod_parse :: "(string \<times> field_schema) list \<Rightarrow> js \<Rightarrow> zod_issue list + js" where
  "zod_parse schema q = (let (is, out) = parse_fields schema q in if is = [] then Inr (Obj out) else Inl is)"

definition PaginationQuerySchema :: "(string \<times> field_schema) list" where
  "PaginationQuerySchema =
     [(''where'', OptString), (''order'', OptString),
      (''page'', OptDigits ''Page must be a positive integer''),
      (''pageSize'', OptDigits ''Page size must be a positive integer''),
      (''searchTerm'', OptString), (''contact_name'', OptString)]"

definition XeroCallbackSchema :: "(string \<times> field_schema) list" where
  "XeroCallbackSchema = [(''code'', ReqString ''Authorization code is required'')]"

text \<open>A zod 4 \<^verbatim>\<open>ZodError\<close> keeps its issues in \<^verbatim>\<open>issues\<close> and has no
  \<^verbatim>\<open>errors\<close> property, so the catch block's \<^verbatim>\<open>error.errors.map(...)\<close> throws this
  \<^verbatim>\<open>TypeError\<close> (only the first line of its stack is modelled).\<close>

definition zod_map_message :: string where
  "zod_map_message = ''Cannot read properties of undefined (reading 'map')''"

definition zod_map_error :: js where
  "zod_map_error = Obj [(''name'', Str ''TypeError''), (''message'', Str zod_map_message),
                        (''stack'', Str (''TypeError: '' @ zod_map_message))]"

text \<open>\<^verbatim>\<open>validate(schema, target)\<close>: the parsed value replaces the request's
  (\<open>Inr\<close>), or the middleware throws (\<open>Inl\<close> of the error): the 400 with
  \<^verbatim>\<open>"Validation failed"\<close> is never sent.\<close>

definition validate :: "(string \<times> field_schema) list \<Rightarrow> js \<Rightarrow> js + js" where
  "validate schema x =
     (case zod_parse schema x of
        Inl _ \<Rightarrow> Inl zod_map_error
      | Inr x' \<Rightarrow> Inr x')"

subsection \<open>Middleware and handlers\<close>

definition not_connected_msg :: string where
  "not_connected_msg = ''Xero not connected. Admin must complete authentication.''"

definition validateXeroToken :: "service_state \<Rightarrow> http_response + token_row" where
  "validateXeroToken s =
     (case getActiveToken (table s) of
        None \<Rightarrow> Inl (json_response 400 (Obj [(''error'', Str not_connected_msg)]))
      | Some token \<Rightarrow> Inr token)"

text \<open>\<^verbatim>\<open>parseInt(x, 10)\<close> of the values the handlers pass to it: a number (what the
  schema produced) is itself; a string is read as optional blanks, an optional sign and the
  longest run of digits, \<open>NaN\<close> when there is no digit.\<close>

fun parseInt10 :: "js \<Rightarrow> js" where
  "parseInt10 (Num n) = Num n"
| "parseInt10 (Str s) =
     (let t = dropWhile (\<lambda>c. c = CHR '' '') s;
          neg = (case t of c # _ \<Rightarrow> c = CHR ''-'' | [] \<Rightarrow> False);
          u = (case t of c # r \<Rightarrow> if c = CHR ''-'' \<or> c = CHR ''+'' then r else t | [] \<Rightarrow> []);
          ds = takeWhile is_digit u
      in if ds = [] then NaN else Num ((if neg then -1 else 1) * int (digits_val ds)))"
| "parseInt10 _ = NaN"

text \<open>\<^verbatim>\<open>x || undefined\<close> and \<^verbatim>\<open>x ? parseInt(x, 10) : undefined\<close>.\<close>

definition opt_param :: "js \<Rightarrow> string \<Rightarrow> js" where
  "opt_param q k = js_or (js_get q k) Undef"

definition int_param :: "js \<Rightarrow> string \<Rightarrow> js" where
  "int_param q k = (if truthy (js_get q k) then parseInt10 (js_get q k) else Undef)"

text \<open>\<^verbatim>\<open>Object.keys(params).forEach(key => params[key] === undefined && delete params[key])\<close>.\<close>

fun drop_undefined :: "js \<Rightarrow> js" where
  "drop_undefined (Obj kvs) = Obj (filter (\<lambda>(k, v). v \<noteq> Undef) kvs)"
| "drop_undefined v = v"

definition invoice_params :: "js \<Rightarrow> js" where
  "invoice_params q = drop_undefined (Obj
     [(''where'', opt_param q ''where''), (''order'', opt_param q ''order''),
      (''page'', int_param q ''page''), (''pageSize'', int_param q ''pageSize''),
      (''searchTerm'', opt_param q ''searchTerm'')])"

definition contact_params :: "js \<Rightarrow> js" where
  "contact_params q = drop_undefined (Obj
     [(''where'', opt_param q ''where''), (''order'', opt_param q ''order''),
      (''page'', int_param q ''page''), (''pageSize'', int_param q ''pageSize''),
      (''searchTerm'', opt_param q ''searchTerm''), (''contact_name'', opt_param q ''contact_name'')])"

definition accounts_params :: "js \<Rightarrow> js" where
  "accounts_params q = Obj [(''where'', opt_param q ''where''), (''order'', opt_param q ''order'')]"

definition taxRates_params :: "js \<Rightarrow> js" where
  "taxRates_params q = drop_undefined (Obj [(''where'', opt_param q ''where''), (''order'', opt_param q ''order'')])"

text \<open>The message of a thrown error, as \<^verbatim>\<open>err.message\<close> reads it.\<close>

fun svc_error_message :: "svc_error \<Rightarrow> string" where
  "svc_error_message (SdkError msg) = msg"
| "svc_error_message TypeError = ''Cannot read properties of undefined (reading 'access_token')''"

text \<open>\<^verbatim>\<open>try { ...; res.json(data) } catch (err) { res.status(500).json({ error: err.message }) }\<close>.\<close>

fun respond :: "(svc_error + js) \<times> service_state \<Rightarrow> http_response \<times> service_state" where
  "respond (Inl e, s) = (json_response 500 (Obj [(''error'', Str (svc_error_message e))]), s)"
| "respond (Inr d, s) = (json_response 200 d, s)"

definition getXeroInvoices ::
  "xero_config \<Rightarrow> provider \<Rightarrow> time \<Rightarrow> time \<Rightarrow> js \<Rightarrow> token_row \<Rightarrow> service_state \<Rightarrow> http_response \<times> service_state" where
  "getXeroInvoices cfg p now later q token s = respond (getInvoices cfg p now later (invoice_params q) token s)"

definition getXeroContacts ::
  "xero_config \<Rightarrow> provider \<Rightarrow> time \<Rightarrow> time \<Rightarrow> js \<Rightarrow> token_row \<Rightarrow> service_state \<Rightarrow> http_response \<times> service_state" where
  "getXeroContacts cfg p now later q token s = respond (getContacts cfg p now later (contact_params q) token s)"

definition getXeroAccounts ::
  "xero_config \<Rightarrow> provider \<Rightarrow> time \<Rightarrow> time \<Rightarrow> js \<Rightarrow> token_row \<Rightarrow> service_state \<Rightarrow> http_response \<times> service_state" where
  "getXeroAccounts cfg p now later q token s = respond (getAccounts cfg p now later (accounts_params q) token s)"

definition getXeroTaxRates ::
  "xero_config \<Rightarrow> provider \<Rightarrow> time \<Rightarrow> time \<Rightarrow> js \<Rightarrow> token_row \<Rightarrow> service_state \<Rightarrow> http_response \<times> service_state" where
  "getXeroTaxRates cfg p now later q token s = respond (getTaxRates cfg p now later (taxRates_params q) token s)"

definition initiateXeroAuth :: "provider \<Rightarrow> string \<Rightarrow> http_response" where
  "initiateXeroAuth p role =
     (if role \<noteq> ''admin'' then json_response 403 (Obj [(''message'', Str ''Admin only authorization.'')])
      else case buildConsentUrl p of
             Inl m \<Rightarrow> json_response 500 (Obj [(''error'', Str m)])
           | Inr url \<Rightarrow> json_response 200 (Obj [(''url'', Str url)]))"

fun js_string :: "js \<Rightarrow> string" where
  "js_string (Str s) = s"
| "js_string _ = []"

definition handleXeroCallback ::
  "xero_config \<Rightarrow> provider \<Rightarrow> time \<Rightarrow> js \<Rightarrow> service_state \<Rightarrow> http_response \<times> service_state" where
  "handleXeroCallback cfg p now b s =
     (case handleCallback cfg p now (js_string (js_get b ''code'')) s of
        (Inl e, s') \<Rightarrow> (json_response 500 (Obj [(''error'', Str (svc_error_message e))]), s')
      | (Inr _, s') \<Rightarrow> (json_response 200 (Obj [(''message'', Str ''Xero connected successfully'')]), s'))"

subsection \<open>Routes\<close>

datatype xero_route = RouteAuth | RouteCallback | RouteInvoices | RouteContacts | RouteAccounts | RouteTaxRates

record xero_request =
  route :: xero_route
  query :: js
  req_body :: js
  role :: string

text \<open>A data route behind \<^verbatim>\<open>validateXeroToken\<close>.\<close>

definition with_xero_token ::
  "(token_row \<Rightarrow> service_state \<Rightarrow> http_response \<times> service_state) \<Rightarrow> service_state \<Rightarrow> http_response \<times> service_state" where
  "with_xero_token handler s =
     (case validateXeroToken s of Inl resp \<Rightarrow> (resp, s) | Inr token \<Rightarrow> handler token s)"

text \<open>The routes; an error a middleware throws is answered by \<open>express_error\<close>.\<close>

definition xero_router ::
  "xero_config \<Rightarrow> provider \<Rightarrow> time \<Rightarrow> time \<Rightarrow> bool \<Rightarrow> xero_request \<Rightarrow> service_state
   \<Rightarrow> http_response \<times> service_state" where
  "xero_router cfg p now later production r s =
     (case route r of
        RouteAuth \<Rightarrow> (initiateXeroAuth p (role r), s)
      | RouteCallback \<Rightarrow>
          (case validate XeroCallbackSchema (req_body r) of
             Inl err \<Rightarrow> (express_error production err, s)
           | Inr b \<Rightarrow> handleXeroCallback cfg p now b s)
      | RouteInvoices \<Rightarrow>
          (case validate PaginationQuerySchema (query r) of
             Inl err \<Rightarrow> (express_error production err, s)
           | Inr q \<Rightarrow> with_xero_token (getXeroInvoices cfg p now later q) s)
      | RouteContacts \<Rightarrow>
          (case validate PaginationQuerySchema (query r) of
             Inl err \<Rightarrow> (express_error production err, s)
           | Inr q \<Rightarrow> with_xero_token (getXeroContacts cfg p now later q) s)
      | RouteAccounts \<Rightarrow> with_xero_token (getXeroAccounts cfg p now later (query r)) s
      | RouteTaxRates \<Rightarrow> with_xero_token (getXeroTaxRates cfg p now later (query r)) s)"

subsection \<open>Lemmas on parsing and parameters\<close>

lemma validate_Inl: "validate schema x = Inl err \<Longrightarrow> err = zod_map_error"
  by (auto simp: validate_def split: sum.splits)

text \<open>What \<^verbatim>\<open>errorHandler\<close> answers to the validation crash: 500, the
  \<^verbatim>\<open>TypeError\<close>'s message and, outside production, its stack.\<close>

lemma express_error_zod:
  "express_error production zod_map_error =
     json_response 500 (Obj ([(''message'', Str zod_map_message), (''code'', Str ''INTERNAL_ERROR'')]
                             @ (if production then [] else [(''stack'', Str (''TypeError: '' @ zod_map_message))])))"
  by (simp add: express_error_def errorHandler_def error_case_def zod_map_error_def zod_map_message_def
      error_status_def js_or_def)

lemma parse_fields_get:
  assumes "parse_fields fs q = ([], out)" and "distinct (map fst fs)"
  shows "map_of out k =
           (case map_of fs k of
              None \<Rightarrow> None
            | Some f \<Rightarrow> (case js_get q k of Undef \<Rightarrow> None
                         | v \<Rightarrow> (case parse_field k f v of Inl _ \<Rightarrow> None | Inr v' \<Rightarrow> Some v')))"
  using assms
proof (induction fs arbitrary: out)
  case Nil
  then show ?case by simp
next
  case (Cons kf fs)
  obtain k' f where kf: "kf = (k', f)" by (cases kf)
  obtain iss out' where rec: "parse_fields fs q = (iss, out')" by (cases "parse_fields fs q")
  from Cons.prems kf rec have "iss = []"
    by (auto split: js.splits option.splits sum.splits)
  with Cons.IH rec Cons.prems(2) kf have IH: "map_of out' k = (case map_of fs k of
              None \<Rightarrow> None
            | Some f \<Rightarrow> (case js_get q k of Undef \<Rightarrow> None
                         | v \<Rightarrow> (case parse_field k f v of Inl _ \<Rightarrow> None | Inr v' \<Rightarrow> Some v')))"
    by simp
  from Cons.prems(2) kf have notin: "map_of fs k' = None"
    by (auto simp: map_of_eq_None_iff)
  show ?case
    using Cons.prems(1) kf rec \<open>iss = []\<close> IH notin
    by (cases "js_get q k'") (auto split: js.splits option.splits sum.splits if_splits)
qed

lemma zod_parse_get:
  "zod_parse schema q = Inr q' \<Longrightarrow> distinct (map fst schema) \<Longrightarrow>
   js_get q' k = (case map_of schema k of
              None \<Rightarrow> Undef
            | Some f \<Rightarrow> (case js_get q k of Undef \<Rightarrow> Undef
                         | v \<Rightarrow> (case parse_field k f v of Inl _ \<Rightarrow> Undef | Inr v' \<Rightarrow> v')))"
  by (auto simp: zod_parse_def split: prod.splits if_splits option.splits js.splits sum.splits
      dest!: parse_fields_get [where k = k])

lemma zod_parse_ok_field:
  "zod_parse schema q = Inr q' \<Longrightarrow> map_of schema k = Some f \<Longrightarrow> js_get q k = v \<Longrightarrow> v \<noteq> Undef \<Longrightarrow>
   \<exists>v'. parse_field k f v = Inr v'"
proof (induction schema arbitrary: q')
  case Nil
  then show ?case by simp
next
  case (Cons kf fs)
  then show ?case
    by (cases kf) (auto simp: zod_parse_def split: prod.splits if_splits option.splits js.splits sum.splits)
qed

lemma distinct_PaginationQuerySchema: "distinct (map fst PaginationQuerySchema)"
  by (simp add: PaginationQuerySchema_def)

lemma map_of_filter_defined:
  "distinct (map fst kvs) \<Longrightarrow>
   map_of (filter (\<lambda>(k, v). v \<noteq> Undef) kvs) k =
     (case map_of kvs k of Some Undef \<Rightarrow> None | x \<Rightarrow> x)"
proof (induction kvs)
  case Nil
  then show ?case by simp
next
  case (Cons kv kvs)
  then show ?case
    by (cases kv) (auto split: option.splits js.splits simp: map_of_eq_None_iff)
qed

lemma js_get_drop_undefined:
  "distinct (map fst kvs) \<Longrightarrow> js_get (drop_undefined (Obj kvs)) k = js_get (Obj kvs) k"
  by (simp add: map_of_filter_defined split: option.splits js.splits)

lemma truthy_int_param:
  "truthy (int_param q k) \<longleftrightarrow> truthy (parseInt10 (js_get q k)) \<and> truthy (js_get q k)"
  by (simp add: int_param_def)

lemma paged_invoice_params:
  "paged (invoice_params q) \<longleftrightarrow>
     truthy (int_param q ''page'') \<and> truthy (int_param q ''pageSize'')"
  by (simp add: paged_def invoice_params_def js_get_drop_undefined)

lemma digits_only_Num_truthy:
  "truthy (Num (int (digits_val s))) \<longleftrightarrow> 0 < digits_val s"
  by simp

lemma validated_page_field:
  assumes "validate PaginationQuerySchema q = Inr q'" and "k \<in> {''page'', ''pageSize''}"
  shows "truthy (int_param q' k) \<longleftrightarrow> (\<exists>a. js_get q k = Str a \<and> 0 < digits_val a)"
proof -
  have z: "zod_parse PaginationQuerySchema q = Inr q'"
    using assms(1) by (simp add: validate_def split: sum.splits)
  obtain msg where f: "map_of PaginationQuerySchema k = Some (OptDigits msg)"
    using assms(2) by (auto simp: PaginationQuerySchema_def)
  have get: "js_get q' k = (case js_get q k of Undef \<Rightarrow> Undef
               | v \<Rightarrow> (case parse_field k (OptDigits msg) v of Inl _ \<Rightarrow> Undef | Inr v' \<Rightarrow> v'))"
    using zod_parse_get [OF z distinct_PaginationQuerySchema, of k] f by simp
  have ok: "js_get q k \<noteq> Undef \<Longrightarrow> \<exists>v'. parse_field k (OptDigits msg) (js_get q k) = Inr v'"
    using zod_parse_ok_field [OF z f] by blast
  show ?thesis
  proof (cases "js_get q k")
    case (Str a)
    with ok have "digits_only a" by (auto split: if_splits)
    with Str get show ?thesis by (simp add: int_param_def)
  qed (use get ok int_param_def in auto)
qed

lemma parse_fields_bad_digits:
  "(k, OptDigits msg) \<in> set fs \<Longrightarrow> js_get q k = Str a \<Longrightarrow> \<not> digits_only a \<Longrightarrow>
   Issue k msg \<in> set (fst (parse_fields fs q))"
proof (induction fs)
  case Nil
  then show ?case by simp
next
  case (Cons kf fs)
  obtain iss out where rec: "parse_fields fs q = (iss, out)" by (cases "parse_fields fs q")
  show ?case
  proof (cases "kf = (k, OptDigits msg)")
    case True
    with Cons.prems rec show ?thesis by simp
  next
    case False
    with Cons.prems have "Issue k msg \<in> set iss" using Cons.IH rec by simp
    with rec show ?thesis
      by (cases kf) (auto split: js.splits option.splits sum.splits)
  qed
qed

lemma validate_bad_digits:
  assumes "(k, OptDigits msg) \<in> set schema" and "js_get x k = Str a" and "\<not> digits_only a"
  shows "validate schema x = Inl zod_map_error"
proof -
  obtain iss out where pf: "parse_fields schema x = (iss, out)" by (cases "parse_fields schema x")
  from parse_fields_bad_digits [OF assms] pf have "iss \<noteq> []" by auto
  with pf show ?thesis by (simp add: validate_def zod_parse_def)
qed

text \<open>The query of a request for a page: decimal strings become numbers, and the
  controller passes them on unchanged.\<close>

lemma validate_page_query:
  "validate PaginationQuerySchema (Obj [(''page'', Str (show_nat pg)), (''pageSize'', Str (show_nat ps))]) =
     Inr (Obj [(''page'', Num (int pg)), (''pageSize'', Num (int ps))])"
  by (simp add: validate_def zod_parse_def PaginationQuerySchema_def show_nat_digits digits_val_show_nat)

lemma invoice_params_paged:
  "0 < pg \<Longrightarrow> 0 < ps \<Longrightarrow> invoice_params (Obj [(''page'', Num (int pg)), (''pageSize'', Num (int ps))]) =
     Obj [(''page'', Num (int pg)), (''pageSize'', Num (int ps))]"
  by (simp add: invoice_params_def opt_param_def int_param_def js_or_def)

lemma validate_empty_query: "validate PaginationQuerySchema (Obj []) = Inr (Obj [])"
  by (simp add: validate_def zod_parse_def PaginationQuerySchema_def)

lemmas router_simps = xero_router_def with_xero_token_def validateXeroToken_def

lemma respond_Inl: "respond (Inl e, s) = (json_response 500 (Obj [(''error'', Str (svc_error_message e))]), s)"
  by simp

subsection \<open>Properties of the HTTP layer\<close>

text \<open>C7: With no active token every data route whose query passes the validation
  middleware (the accounts and tax-rate routes validate nothing) answers
  \<^verbatim>\<open>validateXeroToken\<close>'s 400 that Xero is not connected, without a provider call and
  without changing the state.\<close>

theorem not_connected_400:
  assumes "getActiveToken (table s) = None"
    and "route r \<in> {RouteInvoices, RouteContacts, RouteAccounts, RouteTaxRates}"
    and "route r \<in> {RouteInvoices, RouteContacts} \<Longrightarrow> \<exists>q. validate PaginationQuerySchema (query r) = Inr q"
  shows "xero_router cfg p now later production r s = (json_response 400 (Obj [(''error'', Str not_connected_msg)]), s)"
  using assms by (auto simp: router_simps)

theorem not_connected_400_witness:
  "xero_router demo_cfg demo_provider 0 0 False \<lparr>route = RouteInvoices, query = Obj [], req_body = Undef, role = ''admin''\<rparr>
     disconnected_state = (json_response 400 (Obj [(''error'', Str not_connected_msg)]), disconnected_state)"
  using not_connected_400 [OF disconnected_state_none,
      of "\<lparr>route = RouteInvoices, query = Obj [], req_body = Undef, role = ''admin''\<rparr>" demo_cfg demo_provider 0 0 False]
  by (simp add: validate_empty_query)

text \<open>A refresh the provider rejects is answered 500 with the provider's message: a status
  distinct from the 400 of a missing connection.\<close>

theorem refresh_failure_500:
  assumes "getActiveToken (table s) = Some token"
    and "expires_at token \<le> now"
    and "refreshWithRefreshToken p (client_id cfg) (client_secret cfg) (refresh_token token) = Inl msg"
    and "route r = RouteInvoices \<or> route r = RouteContacts"
    and "validate PaginationQuerySchema (query r) = Inr q"
  shows "fst (xero_router cfg p now later production r s) = json_response 500 (Obj [(''error'', Str msg)])"
  using assms
  by (auto simp: router_simps getXeroInvoices_def getXeroContacts_def getInvoices_def getContacts_def
      ensure_simps with_tenant_def)

theorem refresh_failure_500_witness:
  "fst (xero_router demo_cfg rejecting_provider 2000 2000 False
          \<lparr>route = RouteInvoices, query = Obj [], req_body = Undef, role = ''admin''\<rparr> demo_state)
     = json_response 500 (Obj [(''error'', Str ''invalid_grant'')])"
  by (rule refresh_failure_500 [where token = demo_row and q = "Obj []"])
     (simp_all add: demo_state_def demo_table_active demo_row_def new_row_def demo_token_def
      rejecting_provider_def validate_empty_query)

text \<open>C8: After validation the invoices controller asks for the paginated shape exactly when the
  query's \<^verbatim>\<open>page\<close> and \<^verbatim>\<open>pageSize\<close> are both digit strings of a positive
  value: a page of \<^verbatim>\<open>0\<close> passes the schema and silently selects the bare list.\<close>

theorem invoices_page_mode:
  assumes "validate PaginationQuerySchema q = Inr q'"
  shows "paged (invoice_params q') \<longleftrightarrow>
           (\<exists>a b. js_get q ''page'' = Str a \<and> js_get q ''pageSize'' = Str b
                  \<and> 0 < digits_val a \<and> 0 < digits_val b)"
  using validated_page_field [OF assms, of "''page''"] validated_page_field [OF assms, of "''pageSize''"]
  by (auto simp: paged_invoice_params)

theorem invoices_page_mode_witness:
  "validate PaginationQuerySchema (Obj [(''page'', Str ''0''), (''pageSize'', Str ''10'')]) =
     Inr (Obj [(''page'', Num 0), (''pageSize'', Num 10)])
   \<and> \<not> paged (invoice_params (Obj [(''page'', Num 0), (''pageSize'', Num 10)]))"
proof -
  have v: "validate PaginationQuerySchema (Obj [(''page'', Str ''0''), (''pageSize'', Str ''10'')]) =
     Inr (Obj [(''page'', Num 0), (''pageSize'', Num 10)])"
    by (simp add: validate_def zod_parse_def PaginationQuerySchema_def digits_only_def is_digit_def digits_val_def)
  show ?thesis
    using v invoices_page_mode [OF v] by (simp add: digits_val_def)
qed

text \<open>C35: A \<^verbatim>\<open>page\<close> that is not a digit string is not answered with the 400
  \<^verbatim>\<open>"Validation failed"\<close> of the middleware: the middleware crashes reading
  \<^verbatim>\<open>error.errors\<close> and the error handler answers 500 with the \<^verbatim>\<open>TypeError\<close>'s
  message, before the token is looked at and with the state unchanged.\<close>

theorem invalid_page_500:
  assumes "js_get (query r) ''page'' = Str a" and "\<not> digits_only a"
    and "route r = RouteInvoices \<or> route r = RouteContacts"
  shows "xero_router cfg p now later production r s =
           (json_response 500 (Obj ([(''message'', Str zod_map_message), (''code'', Str ''INTERNAL_ERROR'')]
                                    @ (if production then [] else [(''stack'', Str (''TypeError: '' @ zod_map_message))]))), s)"
proof -
  have "(''page'', OptDigits ''Page must be a positive integer'') \<in> set PaginationQuerySchema"
    by (simp add: PaginationQuerySchema_def)
  from validate_bad_digits [OF this assms(1,2)]
  have v: "validate PaginationQuerySchema (query r) = Inl zod_map_error" .
  from assms(3) v show ?thesis by (auto simp: xero_router_def express_error_zod)
qed

theorem invalid_page_500_witness:
  "xero_router demo_cfg demo_provider 0 0 True
     \<lparr>route = RouteInvoices, query = Obj [(''page'', Str ''x'')], req_body = Undef, role = ''admin''\<rparr> demo_state =
   (json_response 500 (Obj [(''message'', Str zod_map_message), (''code'', Str ''INTERNAL_ERROR'')]), demo_state)"
  using invalid_page_500 [where a = "''x''" and production = True and cfg = demo_cfg and p = demo_provider
      and now = 0 and later = 0 and s = demo_state
      and r = "\<lparr>route = RouteInvoices, query = Obj [(''page'', Str ''x'')], req_body = Undef, role = ''admin''\<rparr>"]
  by (simp add: digits_only_def is_digit_def)

text \<open>Only an admin obtains the consent URL.\<close>

theorem auth_admin_only:
  assumes "route r = RouteAuth"
  shows "xero_router cfg p now later production r s =
           (if role r = ''admin'' then (case buildConsentUrl p of Inl m \<Rightarrow> json_response 500 (Obj [(''error'', Str m)])
                   | Inr url \<Rightarrow> json_response 200 (Obj [(''url'', Str url)]))
            else json_response 403 (Obj [(''message'', Str ''Admin only authorization.'')]), s)"
  using assms by (simp add: xero_router_def initiateXeroAuth_def)


theorem auth_admin_only_witness:
  "xero_router demo_cfg demo_provider 0 0 False \<lparr>route = RouteAuth, query = Obj [], req_body = Undef, role = ''staff''\<rparr> demo_state
     = (json_response 403 (Obj [(''message'', Str ''Admin only authorization.'')]), demo_state)"
  using auth_admin_only [of "\<lparr>route = RouteAuth, query = Obj [], req_body = Undef, role = ''staff''\<rparr>" demo_cfg demo_provider 0 0 False demo_state]
  by simp
end
