(* ===== verification/ServerApp.thy ===== *)
theory ServerApp
  imports XeroHttp ResponseFormatter
begin

text \<open>
  The server as the client reaches it: the mounting of \<^verbatim>\<open>src/server/src/app.js\<close> and
  \<^verbatim>\<open>src/server/src/routes/index.js\<close>, the route table of
  \<^verbatim>\<open>src/server/src/routes/xeroRoutes.js\<close> behind \<^verbatim>\<open>authenticateToken\<close>
  (\<^verbatim>\<open>src/server/src/middlewares/authMiddleware.js\<close>), and \<^verbatim>\<open>notFoundHandler\<close> for
  every path no router answers. The \<^verbatim>\<open>/api/auth\<close> and \<^verbatim>\<open>/api/user\<close> routers are
  \<open>auth_app\<close> of \<^theory_text>\<open>Auth\<close>, over the users table; here, as for \<^verbatim>\<open>GET /\<close>
  (an HTML page), a request they receive has no result (\<open>None\<close>).
  The outcome of \<^verbatim>\<open>jwt.verify\<close> on the \<^verbatim>\<open>Authorization\<close> header is an input.
\<close>

datatype auth_header = NoToken | ValidToken string | ExpiredToken | BadToken

definition authenticateToken :: "auth_header \<Rightarrow> http_response + string" where
  "authenticateToken h =
     (case h of
        NoToken \<Rightarrow> Inl (json_response 401 (Obj [(''success'', Bool False), (''message'', Str ''Access token required'')]))
      | ValidToken rl \<Rightarrow> Inr rl
      | ExpiredToken \<Rightarrow> Inl (json_response 401 (Obj [(''success'', Bool False),
                              (''message'', Str ''Access token expired''), (''code'', Str ''TOKEN_EXPIRED'')]))
      | BadToken \<Rightarrow> Inl (json_response 403 (Obj [(''success'', Bool False),
                              (''message'', Str ''Invalid access token''), (''code'', Str ''INVALID_TOKEN'')])))"

text \<open>\<^verbatim>\<open>Router.use(prefix, r)\<close>: the rest of the path when the path is the prefix or
  continues it with a slash.\<close>

definition mount :: "string \<Rightarrow> string \<Rightarrow> string option" where
  "mount pre path =
     (if path = pre then Some ''/''
      else if take (length pre + 1) path = pre @ ''/'' then Some (drop (length pre) path) else None)"

text \<open>A route path matches with or without one trailing slash (non-strict routing).\<close>

definition route_path :: "string \<Rightarrow> string" where
  "route_path path = (if path \<noteq> ''/'' \<and> path \<noteq> [] \<and> last path = CHR ''/'' then butlast path else path)"

fun xero_route_of :: "http_method \<Rightarrow> string \<Rightarrow> xero_route option" where
  "xero_route_of GET path =
     (let q = route_path path in
      if q = ''/auth'' then Some RouteAuth
      else if q = ''/invoices'' then Some RouteInvoices
      else if q = ''/contacts'' then Some RouteContacts
      else if q = ''/accounts'' then Some RouteAccounts
      else if q = ''/tax-rates'' then Some RouteTaxRates
      else None)"
| "xero_route_of POST path = (if route_path path = ''/callback'' then Some RouteCallback else None)"
| "xero_route_of DELETE path = None"

fun method_name :: "http_method \<Rightarrow> string" where
  "method_name GET = ''GET''"
| "method_name POST = ''POST''"
| "method_name DELETE = ''DELETE''"

text \<open>\<^verbatim>\<open>req.originalUrl\<close>: the path and the query string (without percent-encoding).\<close>

definition original_url :: "client_request \<Rightarrow> string" where
  "original_url r =
     req_path r @ (case req_query r of
                     Obj ((k, v) # kvs) \<Rightarrow> ''?'' @ join_with ''&'' (map (\<lambda>(k, v). k @ ''='' @ js_to_string v) ((k, v) # kvs))
                   | _ \<Rightarrow> [])"

definition not_found :: "client_request \<Rightarrow> http_response" where
  "not_found r = notFoundHandler (method_name (req_method r)) (original_url r)"

text \<open>The Xero router: \<^verbatim>\<open>router.use(authenticateToken)\<close> runs for every path under
  \<^verbatim>\<open>/api/xero\<close>, routed or not, before the routes are matched.\<close>

definition xero_mount ::
  "xero_config \<Rightarrow> provider \<Rightarrow> time \<Rightarrow> time \<Rightarrow> bool \<Rightarrow> auth_header \<Rightarrow> client_request \<Rightarrow> string
   \<Rightarrow> service_state \<Rightarrow> http_response \<times> service_state" where
  "xero_mount cfg p now later production h r rest s =
     (case authenticateToken h of
        Inl resp \<Rightarrow> (resp, s)
      | Inr rl \<Rightarrow>
          (case xero_route_of (req_method r) rest of
             None \<Rightarrow> (not_found r, s)
           | Some rt \<Rightarrow> xero_router cfg p now later production
                          \<lparr>route = rt, query = req_query r, req_body = req_data r, role = rl\<rparr> s))"

definition app ::
  "xero_config \<Rightarrow> provider \<Rightarrow> time \<Rightarrow> time \<Rightarrow> bool \<Rightarrow> auth_header \<Rightarrow> client_request \<Rightarrow> service_state
   \<Rightarrow> (http_response \<times> service_state) option" where
  "app cfg p now later production h r s =
     (if req_method r = GET \<and> req_path r = ''/'' then None
      else case mount ''/api'' (req_path r) of
        None \<Rightarrow> Some (not_found r, s)
      | Some p1 \<Rightarrow>
          (if mount ''/auth'' p1 \<noteq> None \<or> mount ''/user'' p1 \<noteq> None then None
           else case mount ''/xero'' p1 of
             None \<Rightarrow> Some (not_found r, s)
           | Some rest \<Rightarrow> Some (xero_mount cfg p now later production h r rest s)))"

end
