(* ===== verification/Auth.thy ===== *)
theory Auth
  imports ServerApp
begin

text \<open>
  Accounts and sign-in on the server: the schemas of \<^verbatim>\<open>src/server/src/schemas/authSchema.js\<close>,
  the users table of \<^verbatim>\<open>models/userModel.js\<close>, \<^verbatim>\<open>services/authService.js\<close>,
  \<^verbatim>\<open>utils/tokenUtils.js\<close>, \<^verbatim>\<open>controllers/authController.js\<close> and the user routes.
  The schemas run under zod 4 like the Xero ones: a value that fails them makes the
  validation middleware throw (\<open>zod_map_error\<close>), so only whether a value passes, and
  what it becomes, is observable; a schema is a function to \<open>js option\<close>. The email format
  of \<^verbatim>\<open>z.email\<close> is zod's regular expression, the parameter \<open>is_email\<close>.
  \<^verbatim>\<open>bcrypt\<close> is modelled by its contract (a hash remembers the password it was made
  from); a JSON web token by its claims (the signature is not modelled).
\<close>

subsection \<open>Strings\<close>

subsection \<open>Schemas\<close>

text \<open>\<^verbatim>\<open>emailSchema\<close>: the format check runs on the value as sent, then the value is
  trimmed and lower-cased, then its length is checked.\<close>

definition emailSchema :: "(string \<Rightarrow> bool) \<Rightarrow> js \<Rightarrow> js option" where
  "emailSchema is_email v =
     (case v of
        Str s \<Rightarrow> (let t = js_lower (js_trim s) in
                  if is_email s \<and> 1 \<le> length t \<and> length t \<le> 50 then Some (Str t) else None)
      | _ \<Rightarrow> None)"

definition passwordSchema :: "js \<Rightarrow> js option" where
  "passwordSchema v =
     (case v of
        Str s \<Rightarrow> (let t = js_trim s in if 6 \<le> length t \<and> length t \<le> 100 then Some (Str t) else None)
      | _ \<Rightarrow> None)"

definition nameSchema :: "js \<Rightarrow> js option" where
  "nameSchema v =
     (case v of
        Str s \<Rightarrow> (let t = js_trim s in if 1 \<le> length t \<and> length t \<le> 255 then Some (Str t) else None)
      | _ \<Rightarrow> None)"

text \<open>\<^verbatim>\<open>/^[\+]?[0-9\s\-\(\)]+$/\<close>.\<close>

definition phone_char :: "char \<Rightarrow> bool" where
  "phone_char c \<longleftrightarrow> is_digit c \<or> js_space c \<or> c \<in> {CHR ''-'', CHR ''('', CHR '')''}"

definition phone_regex :: "string \<Rightarrow> bool" where
  "phone_regex s \<longleftrightarrow>
     (let body = (case s of c # r \<Rightarrow> if c = CHR ''+'' then r else s | [] \<Rightarrow> []) in
      body \<noteq> [] \<and> list_all phone_char body)"

text \<open>The optional phone, or the literal empty string: \<open>Undef\<close> (absent) passes.\<close>

definition phoneSchema :: "js \<Rightarrow> js option" where
  "phoneSchema v =
     (case v of
        Undef \<Rightarrow> Some Undef
      | Str s \<Rightarrow> (let t = js_trim s in
                  if length t \<le> 20 \<and> phone_regex t then Some (Str t)
                  else if s = [] then Some (Str []) else None)
      | _ \<Rightarrow> None)"

text \<open>The fields of an object schema, in the schema's order; an absent optional field is
  left out.\<close>

fun object_fields :: "(string \<times> (js \<Rightarrow> js option)) list \<Rightarrow> js \<Rightarrow> (string \<times> js) list option" where
  "object_fields [] x = Some []"
| "object_fields ((k, f) # fs) x =
     (case (f (js_get x k), object_fields fs x) of
        (Some v, Some kvs) \<Rightarrow> Some (if v = Undef then kvs else (k, v) # kvs)
      | _ \<Rightarrow> None)"

definition loginSchema :: "(string \<Rightarrow> bool) \<Rightarrow> js \<Rightarrow> js option" where
  "loginSchema is_email x =
     map_option Obj (object_fields [(''email'', emailSchema is_email), (''password'', passwordSchema)] x)"

definition registrationSchema :: "(string \<Rightarrow> bool) \<Rightarrow> js \<Rightarrow> js option" where
  "registrationSchema is_email x =
     (case object_fields [(''email'', emailSchema is_email), (''password'', passwordSchema),
                          (''confirmPassword'', passwordSchema), (''name'', nameSchema), (''phone'', phoneSchema)] x of
        None \<Rightarrow> None
      | Some kvs \<Rightarrow> if map_of kvs ''password'' = map_of kvs ''confirmPassword'' then Some (Obj kvs) else None)"

text \<open>\<^verbatim>\<open>validateBody(schema)\<close> with these schemas.\<close>

definition validate_body :: "(js \<Rightarrow> js option) \<Rightarrow> js \<Rightarrow> js + js" where
  "validate_body schema x = (case schema x of None \<Rightarrow> Inl zod_map_error | Some x' \<Rightarrow> Inr x')"

subsection \<open>Users table\<close>

text \<open>\<^verbatim>\<open>bcrypt.hash(password, salt)\<close>: the hash and what \<^verbatim>\<open>bcrypt.compare\<close> checks.
  bcrypt keys its cipher with the first 72 bytes of the password only (a character of a
  string here is a byte of its UTF-8 encoding), so \<^verbatim>\<open>compare\<close> accepts every password
  that agrees with the hashed one on those bytes.\<close>

datatype pw_hash = Bcrypt string nat

definition bcrypt_key :: "string \<Rightarrow> string" where
  "bcrypt_key pw = take 72 pw"

fun bcrypt_compare :: "string \<Rightarrow> pw_hash \<Rightarrow> bool" where
  "bcrypt_compare pw (Bcrypt p _) = (bcrypt_key p = bcrypt_key pw)"

record user_row =
  userid :: nat
  u_name :: js
  u_email :: js
  u_password :: pw_hash
  u_phone :: js
  u_role :: js
  entered_by :: js
  u_active :: bool

record user_table =
  user_rows :: "user_row list"
  next_userid :: nat

definition findByEmail :: "user_table \<Rightarrow> js \<Rightarrow> user_row option" where
  "findByEmail t e = find (\<lambda>u. u_email u = e \<and> u_active u) (user_rows t)"

definition findById :: "user_table \<Rightarrow> nat \<Rightarrow> user_row option" where
  "findById t i = find (\<lambda>u. userid u = i) (user_rows t)"

definition create_user :: "user_table \<Rightarrow> js \<Rightarrow> js \<Rightarrow> pw_hash \<Rightarrow> js \<Rightarrow> js \<Rightarrow> js \<Rightarrow> nat \<times> user_table" where
  "create_user t name email pw phone r by =
     (next_userid t,
      t\<lparr>user_rows := user_rows t @ [\<lparr>userid = next_userid t, u_name = name, u_email = email, u_password = pw,
                                      u_phone = phone, u_role = r, entered_by = by, u_active = True\<rparr>],
        next_userid := Suc (next_userid t)\<rparr>)"

text \<open>The columns \<^verbatim>\<open>userid, name, email, phone, role, active\<close> of a row.\<close>

definition user_public :: "user_row \<Rightarrow> js" where
  "user_public u =
     Obj [(''userid'', Num (int (userid u))), (''name'', u_name u), (''email'', u_email u), (''phone'', u_phone u),
          (''role'', u_role u), (''active'', Num (if u_active u then 1 else 0))]"

definition getAll :: "user_table \<Rightarrow> js" where
  "getAll t = Arr (map user_public (rev (user_rows t)))"

definition softDelete :: "user_table \<Rightarrow> nat \<Rightarrow> user_table" where
  "softDelete t i = t\<lparr>user_rows := map (\<lambda>u. if userid u = i then u\<lparr>u_active := False\<rparr> else u) (user_rows t)\<rparr>"


subsection \<open>Tokens\<close>

text \<open>\<^verbatim>\<open>generateAuthToken\<close>: the claims of the signed token, the payload with
  \<^verbatim>\<open>iat\<close> (seconds) and \<^verbatim>\<open>jti\<close>, and what \<^verbatim>\<open>jwt.sign\<close> adds: \<^verbatim>\<open>exp\<close>
  (\<open>exp_secs\<close> after \<^verbatim>\<open>iat\<close>, from \<^verbatim>\<open>JWT_EXP_TIME\<close>, one hour by default),
  \<^verbatim>\<open>aud\<close> and \<^verbatim>\<open>iss\<close> (the payloads signed here carry none of these claims, which
  \<^verbatim>\<open>jwt.sign\<close> would refuse). \<open>jti\<close> stands for the random bytes.\<close>

definition generateAuthToken :: "time \<Rightarrow> string \<Rightarrow> int \<Rightarrow> js \<Rightarrow> js" where
  "generateAuthToken now jti exp_secs payload =
     js_put (js_put (js_put (js_put (js_put payload ''iat'' (Num (now div 1000))) ''jti'' (Str jti))
       ''exp'' (Num (now div 1000 + exp_secs))) ''aud'' (Str ''api'')) ''iss'' (Str ''auth'')"

text \<open>\<^verbatim>\<open>verifyAuthToken\<close>: the expiry is checked first (\<^verbatim>\<open>TokenExpiredError\<close> from the
  second of \<^verbatim>\<open>exp\<close> on), then audience and issuer (\<^verbatim>\<open>JsonWebTokenError\<close>).\<close>

definition verifyAuthToken :: "time \<Rightarrow> js \<Rightarrow> string + js" where
  "verifyAuthToken now c =
     (if (case js_get c ''exp'' of Num e \<Rightarrow> e \<le> now div 1000 | _ \<Rightarrow> False) then Inl ''TokenExpiredError''
      else if js_get c ''aud'' \<noteq> Str ''api'' \<or> js_get c ''iss'' \<noteq> Str ''auth'' then Inl ''JsonWebTokenError''
      else Inr c)"

text \<open>What \<^verbatim>\<open>authenticateToken\<close> makes of the bearer token of a request.\<close>

definition request_auth :: "time \<Rightarrow> js option \<Rightarrow> auth_header" where
  "request_auth now tok =
     (case tok of
        None \<Rightarrow> NoToken
      | Some c \<Rightarrow> (case verifyAuthToken now c of
                    Inl e \<Rightarrow> if e = ''TokenExpiredError'' then ExpiredToken else BadToken
                  | Inr d \<Rightarrow> ValidToken (js_to_string (js_get d ''role''))))"

subsection \<open>Service and controllers\<close>

text \<open>\<^verbatim>\<open>registerUser\<close>: \<open>salt\<close> stands for \<^verbatim>\<open>bcrypt.genSalt(10)\<close>; the role defaults to
  \<^verbatim>\<open>"admin"\<close>.\<close>

definition registerUser :: "nat \<Rightarrow> js \<Rightarrow> user_table \<Rightarrow> (string + js) \<times> user_table" where
  "registerUser salt body t =
     (let name = js_get body ''name''; email = js_get body ''email''; phone = js_get body ''phone'';
          r = (if js_get body ''role'' = Undef then Str ''admin'' else js_get body ''role'') in
      case findByEmail t email of
        Some _ \<Rightarrow> (Inl ''Email already registered'', t)
      | None \<Rightarrow>
          (let (uid, t') = create_user t name email (Bcrypt (js_to_string (js_get body ''password'')) salt) phone r Undef
           in (Inr (Obj [(''userid'', Num (int uid)), (''name'', name), (''email'', email), (''phone'', phone)]), t')))"

definition loginUser :: "time \<Rightarrow> string \<Rightarrow> int \<Rightarrow> user_table \<Rightarrow> js \<Rightarrow> js \<Rightarrow> string + js" where
  "loginUser now jti exp_secs t email password =
     (case findByEmail t email of
        None \<Rightarrow> Inl ''Invalid email or password''
      | Some u \<Rightarrow>
          (if \<not> bcrypt_compare (js_to_string password) (u_password u) then Inl ''Invalid email or password''
           else Inr (Obj [(''token'', generateAuthToken now jti exp_secs
                                        (Obj [(''userId'', Num (int (userid u))), (''userName'', u_name u),
                                              (''email'', u_email u), (''role'', u_role u)])),
                          (''user'', Obj [(''userid'', Num (int (userid u))), (''name'', u_name u),
                                          (''email'', u_email u), (''phone'', u_phone u)])])))"

definition registerUser_ctl :: "nat \<Rightarrow> js \<Rightarrow> user_table \<Rightarrow> http_response \<times> user_table" where
  "registerUser_ctl salt body t =
     (case registerUser salt body t of
        (Inl msg, t') \<Rightarrow> (json_response 400 (Obj [(''success'', Bool False), (''message'', Str ''Registration failed''),
                                                 (''error'', Str msg)]), t')
      | (Inr user, t') \<Rightarrow>
          (json_response 201 (Obj [(''message'', Str ''User registered successfully''),
                                   (''user'', Obj [(''id'', js_get user ''id''), (''email'', js_get user ''email''),
                                                   (''name'', js_get user ''name'')])]), t'))"

definition loginUser_ctl :: "time \<Rightarrow> string \<Rightarrow> int \<Rightarrow> user_table \<Rightarrow> js \<Rightarrow> http_response" where
  "loginUser_ctl now jti exp_secs t body =
     (case loginUser now jti exp_secs t (js_get body ''email'') (js_get body ''password'') of
        Inl msg \<Rightarrow> json_response 401 (Obj [(''success'', Bool False), (''message'', Str ''Authentication failed''),
                                          (''error'', Str msg)])
      | Inr res \<Rightarrow>
          json_response 200 (Obj [(''message'', Str ''Login successful''), (''token'', js_get res ''token''),
                                  (''user'', Obj [(''id'', js_get (js_get res ''user'') ''id''),
                                                  (''email'', js_get (js_get res ''user'') ''email''),
                                                  (''name'', js_get (js_get res ''user'') ''name'')])]))"

text \<open>MySQL's reading of the path parameter as a number in \<^verbatim>\<open>WHERE userid = ?\<close>: leading
  blanks, then the leading digits (0 when there is none; decimals and exponents are not
  modelled).\<close>

definition mysql_int :: "string \<Rightarrow> nat" where
  "mysql_int s = digits_val (takeWhile is_digit (dropWhile (\<lambda>c. c = CHR '' '') s))"

definition getUsers :: "user_table \<Rightarrow> http_response" where
  "getUsers t = json_response 200 (Obj [(''users'', getAll t)])"

definition getUser :: "user_table \<Rightarrow> string \<Rightarrow> http_response" where
  "getUser t idp =
     json_response 200 (Obj [(''user'', case findById t (mysql_int idp) of None \<Rightarrow> Undef | Some u \<Rightarrow> user_public u)])"

subsection \<open>Routes\<close>

text \<open>The \<^verbatim>\<open>/api/auth\<close> and \<^verbatim>\<open>/api/user\<close> routers (\<^verbatim>\<open>routes/authRoutes.js\<close>,
  \<^verbatim>\<open>routes/userRoutes.js\<close>); the rate limiters in front of them are not modelled (the
  request is within its limits). \<open>None\<close> for every other path.\<close>

definition user_param :: "string \<Rightarrow> string option" where
  "user_param rest =
     (let q = route_path rest in
      case q of CHR ''/'' # seg \<Rightarrow> if seg \<noteq> [] \<and> CHR ''/'' \<notin> set seg then Some seg else None | _ \<Rightarrow> None)"

definition auth_app ::
  "(string \<Rightarrow> bool) \<Rightarrow> nat \<Rightarrow> time \<Rightarrow> string \<Rightarrow> int \<Rightarrow> bool \<Rightarrow> auth_header \<Rightarrow> client_request \<Rightarrow> user_table
   \<Rightarrow> (http_response \<times> user_table) option" where
  "auth_app is_email salt now jti exp_secs production h r t =
     (case mount ''/api'' (req_path r) of
        None \<Rightarrow> None
      | Some p1 \<Rightarrow>
          (case mount ''/auth'' p1 of
             Some rest \<Rightarrow>
               Some (if req_method r = POST \<and> route_path rest = ''/login'' then
                       (case validate_body (loginSchema is_email) (req_data r) of
                          Inl err \<Rightarrow> (express_error production err, t)
                        | Inr b \<Rightarrow> (loginUser_ctl now jti exp_secs t b, t))
                     else if req_method r = POST \<and> route_path rest = ''/register'' then
                       (case validate_body (registrationSchema is_email) (req_data r) of
                          Inl err \<Rightarrow> (express_error production err, t)
                        | Inr b \<Rightarrow> registerUser_ctl salt b t)
                     else (not_found r, t))
           | None \<Rightarrow>
               (case mount ''/user'' p1 of
                  Some rest \<Rightarrow>
                    Some (case authenticateToken h of
                            Inl resp \<Rightarrow> (resp, t)
                          | Inr _ \<Rightarrow>
                              (if req_method r = GET \<and> route_path rest = ''/'' then (getUsers t, t)
                               else if req_method r = GET then
                                 (case user_param rest of Some idp \<Rightarrow> (getUser t idp, t) | None \<Rightarrow> (not_found r, t))
                               else (not_found r, t)))
                | None \<Rightarrow> None)))"


text \<open>Example data for the witnesses: an email check that asks for an at sign, an empty
  users table, a registration body.\<close>

definition demo_is_email :: "string \<Rightarrow> bool" where
  "demo_is_email s \<longleftrightarrow> CHR ''@'' \<in> set s"

definition empty_users :: user_table where
  "empty_users = \<lparr>user_rows = [], next_userid = 1\<rparr>"

definition demo_registration :: js where
  "demo_registration = Obj [(''email'', Str ''ann@example.com''), (''password'', Str ''secret1''),
                            (''confirmPassword'', Str ''secret1''), (''name'', Str ''Ann'')]"

definition demo_credentials :: js where
  "demo_credentials = Obj [(''email'', Str ''ann@example.com''), (''password'', Str ''secret1'')]"

subsection \<open>Lemmas\<close>

lemma object_fields_keys:
  "object_fields fs x = Some kvs \<Longrightarrow> set (map fst kvs) \<subseteq> set (map fst fs)"
proof (induction fs arbitrary: kvs)
  case Nil
  then show ?case by simp
next
  case (Cons kf fs)
  obtain k f where kf: "kf = (k, f)" by (cases kf)
  from Cons.prems kf obtain v kvs' where
    rest: "object_fields fs x = Some kvs'" and kvs: "kvs = (if v = Undef then kvs' else (k, v) # kvs')"
    by (auto split: option.splits)
  from Cons.IH [OF rest] kvs kf show ?case by auto
qed

lemma registration_no_role:
  "registrationSchema is_email x = Some b \<Longrightarrow> js_get b ''role'' = Undef"
  by (auto simp: registrationSchema_def map_of_eq_None_iff dest!: object_fields_keys split: option.splits if_splits)

lemma find_append_None:
  "find P xs = None \<Longrightarrow> find P (xs @ ys) = find P ys"
  by (induction xs) auto

lemma registerUser_new:
  assumes "findByEmail t (js_get b ''email'') = None"
  shows "registerUser salt b t =
           (Inr (Obj [(''userid'', Num (int (next_userid t))), (''name'', js_get b ''name''),
                      (''email'', js_get b ''email''), (''phone'', js_get b ''phone'')]),
            t\<lparr>user_rows := user_rows t @ [\<lparr>userid = next_userid t, u_name = js_get b ''name'', u_email = js_get b ''email'',
                 u_password = Bcrypt (js_to_string (js_get b ''password'')) salt, u_phone = js_get b ''phone'',
                 u_role = (if js_get b ''role'' = Undef then Str ''admin'' else js_get b ''role''),
                 entered_by = Undef, u_active = True\<rparr>],
              next_userid := Suc (next_userid t)\<rparr>)"
  using assms by (simp add: registerUser_def create_user_def Let_def)

lemma findByEmail_registered:
  assumes "findByEmail t e = None"
  shows "findByEmail (t\<lparr>user_rows := user_rows t @ [u], next_userid := n\<rparr>) e =
           (if u_email u = e \<and> u_active u then Some u else None)"
  using assms by (simp add: findByEmail_def find_append_None)

definition active_emails :: "user_table \<Rightarrow> js list" where
  "active_emails t = map u_email (filter u_active (user_rows t))"

lemma findByEmail_None_iff: "findByEmail t e = None \<longleftrightarrow> e \<notin> set (active_emails t)"
  by (auto simp: findByEmail_def active_emails_def find_None_iff)

lemma demo_registration_valid:
  "registrationSchema demo_is_email demo_registration = Some demo_registration"
  by code_simp

lemma demo_credentials_valid:
  "loginSchema demo_is_email demo_credentials = Some demo_credentials"
  by code_simp

definition demo_users :: user_table where
  "demo_users = snd (registerUser 7 demo_registration empty_users)"

lemma demo_users_eq:
  "demo_users = \<lparr>user_rows = [\<lparr>userid = 1, u_name = Str ''Ann'', u_email = Str ''ann@example.com'',
      u_password = Bcrypt ''secret1'' 7, u_phone = Undef, u_role = Str ''admin'', entered_by = Undef, u_active = True\<rparr>],
      next_userid = 2\<rparr>"
  by (simp add: demo_users_def registerUser_def empty_users_def findByEmail_def create_user_def demo_registration_def
      Let_def)

subsection \<open>Properties\<close>

text \<open>Every account created through \<^verbatim>\<open>POST /api/auth/register\<close> is an admin: the schema
  strips any \<^verbatim>\<open>role\<close> from the body and the service defaults it to \<^verbatim>\<open>"admin"\<close>.\<close>

theorem registration_makes_admin:
  assumes "registrationSchema is_email x = Some b"
  shows "list_all (\<lambda>u. u_role u = Str ''admin'') (user_rows t) \<longrightarrow>
         list_all (\<lambda>u. u_role u = Str ''admin'') (user_rows (snd (registerUser_ctl salt b t)))"
  using registration_no_role [OF assms]
  by (auto simp: registerUser_ctl_def registerUser_def create_user_def Let_def split: option.splits)

theorem registration_makes_admin_witness:
  "list_all (\<lambda>u. u_role u = Str ''admin'') (user_rows (snd (registerUser_ctl 7 demo_registration empty_users)))"
  using registration_makes_admin [OF demo_registration_valid, of empty_users 7] by (simp add: empty_users_def)

text \<open>Registration keeps the emails of active accounts distinct, and a second registration
  with an active account's email is refused with 400, the table unchanged.\<close>

theorem registerUser_distinct_emails:
  "distinct (active_emails t) \<Longrightarrow> distinct (active_emails (snd (registerUser salt b t)))"
  by (auto simp: registerUser_def create_user_def Let_def active_emails_def findByEmail_def find_None_iff
      split: option.splits)

theorem registerUser_duplicate:
  assumes "js_get b ''email'' \<in> set (active_emails t)"
  shows "registerUser_ctl salt b t =
           (json_response 400 (Obj [(''success'', Bool False), (''message'', Str ''Registration failed''),
                                    (''error'', Str ''Email already registered'')]), t)"
proof -
  from assms obtain u where "findByEmail t (js_get b ''email'') = Some u"
    using findByEmail_None_iff [of t "js_get b ''email''"] by fastforce
  then show ?thesis by (simp add: registerUser_ctl_def registerUser_def)
qed

theorem registerUser_distinct_emails_witness:
  "distinct (active_emails (snd (registerUser 7 demo_registration empty_users)))"
  using registerUser_distinct_emails [of empty_users 7 demo_registration]
  by (simp add: active_emails_def empty_users_def)

theorem registerUser_duplicate_witness:
  "registerUser_ctl 8 demo_registration demo_users =
     (json_response 400 (Obj [(''success'', Bool False), (''message'', Str ''Registration failed''),
                              (''error'', Str ''Email already registered'')]), demo_users)"
  by (rule registerUser_duplicate) (simp add: demo_users_eq active_emails_def demo_registration_def)

text \<open>A registered account can sign in with the password it registered with: the token
  carries its id and role.\<close>

theorem register_then_login:
  assumes "findByEmail t (js_get b ''email'') = None"
  shows "\<exists>res. loginUser now jti exp_secs (snd (registerUser salt b t)) (js_get b ''email'') (js_get b ''password'') = Inr res
           \<and> js_get (js_get res ''token'') ''userId'' = Num (int (next_userid t))
           \<and> js_get (js_get res ''token'') ''role'' = (if js_get b ''role'' = Undef then Str ''admin'' else js_get b ''role'')"
  using assms
  by (simp add: registerUser_new loginUser_def findByEmail_registered generateAuthToken_def map_of_kv_put)

theorem register_then_login_witness:
  "\<exists>res. loginUser 0 ''j'' 3600 demo_users (Str ''ann@example.com'') (Str ''secret1'') = Inr res
     \<and> js_get (js_get res ''token'') ''userId'' = Num 1 \<and> js_get (js_get res ''token'') ''role'' = Str ''admin''"
  using register_then_login [of empty_users demo_registration 0 "''j''" 3600 7]
  by (simp add: demo_users_def empty_users_def findByEmail_def demo_registration_def)

text \<open>The token is accepted until the second \<^verbatim>\<open>exp_secs\<close> after it was issued, and
  refused as expired from then on.\<close>

theorem token_lifetime:
  "verifyAuthToken now' (generateAuthToken now jti exp_secs (Obj kvs)) =
     (if now div 1000 + exp_secs \<le> now' div 1000 then Inl ''TokenExpiredError''
      else Inr (generateAuthToken now jti exp_secs (Obj kvs)))"
  by (simp add: verifyAuthToken_def generateAuthToken_def map_of_kv_put)

text \<open>The sign-in answer's \<^verbatim>\<open>user.id\<close> reads a property the service's user object does not
  have (it has \<^verbatim>\<open>userid\<close>): it is \<^verbatim>\<open>undefined\<close>, and the JSON the client receives has
  no \<^verbatim>\<open>id\<close>.\<close>

theorem login_user_without_id:
  assumes "loginUser now jti exp_secs t (js_get b ''email'') (js_get b ''password'') = Inr res"
  shows "js_get (to_json (js_get (resp_body (loginUser_ctl now jti exp_secs t b)) ''user'')) ''id'' = Undef"
  using assms by (auto simp: loginUser_ctl_def loginUser_def split: option.splits if_splits)


theorem login_user_without_id_witness:
  "js_get (to_json (js_get (resp_body (loginUser_ctl 0 ''j'' 3600 demo_users demo_registration)) ''user'')) ''id'' = Undef"
proof -
  obtain res where "loginUser 0 ''j'' 3600 demo_users (js_get demo_registration ''email'') (js_get demo_registration ''password'') = Inr res"
    by (simp add: loginUser_def demo_users_eq findByEmail_def demo_registration_def)
  from login_user_without_id [OF this] show ?thesis .
qed
end
