(* ===== verification/ClientXero.thy ===== *)
theory ClientXero
  imports Prelude
begin

text \<open>
  The client's side of the Xero integration: \<^verbatim>\<open>src/client/src/services/xeroService.js\<close>
  (the requests it sends through \<^verbatim>\<open>axios\<close> and how it reads the answers) and the
  decisions of \<^verbatim>\<open>src/client/src/context/XeroContext.jsx\<close> (connection check, sync,
  the refresh interval, the time remaining). A request is its method, path, query and body;
  the answer is an \<open>axios_outcome\<close>: the parsed JSON body of a 2xx answer, or the status and
  body of any other (axios rejects those), or no answer. A service function that throws is
  \<open>Inl\<close> of the thrown error's message. React state is a record updated by each handler.
\<close>

datatype axios_outcome = Ok js | HttpError nat js | NetworkError

text \<open>axios resolves with the body of a 2xx answer and rejects any other status
  (its default \<^verbatim>\<open>validateStatus\<close>).\<close>

definition axios_settle :: "nat \<Rightarrow> js \<Rightarrow> axios_outcome" where
  "axios_settle n body = (if 200 \<le> n \<and> n < 300 then Ok body else HttpError n body)"

text \<open>The query string axios builds from \<^verbatim>\<open>params\<close>, as the server's query parser
  reads it back: \<open>undefined\<close> and \<open>null\<close> parameters are left out, every other value
  is sent as its string.\<close>

fun query_value :: "js \<Rightarrow> js option" where
  "query_value Undef = None"
| "query_value Null = None"
| "query_value v = Some (Str (js_to_string v))"

definition axios_query :: "(string \<times> js) list \<Rightarrow> js" where
  "axios_query ps = Obj (List.map_filter (\<lambda>(k, v). map_option (\<lambda>x. (k, x)) (query_value v)) ps)"

definition api_get :: "string \<Rightarrow> (string \<times> js) list \<Rightarrow> client_request" where
  "api_get path ps = \<lparr>req_method = GET, req_path = path, req_query = axios_query ps, req_data = Undef\<rparr>"

definition api_post :: "string \<Rightarrow> js \<Rightarrow> client_request" where
  "api_post path body = \<lparr>req_method = POST, req_path = path, req_query = Obj [], req_data = body\<rparr>"

text \<open>The message of a rejected axios call (\<^verbatim>\<open>err.message\<close>), and
  \<^verbatim>\<open>error.response?.data?.message || fallback\<close>.\<close>

fun axios_error_message :: "axios_outcome \<Rightarrow> string" where
  "axios_error_message (HttpError n _) = ''Request failed with status code '' @ show_nat n"
| "axios_error_message NetworkError = ''Network Error''"
| "axios_error_message (Ok _) = []"

fun response_message_or :: "axios_outcome \<Rightarrow> string \<Rightarrow> string" where
  "response_message_or (HttpError _ d) fallback =
     (if truthy (js_get d ''message'') then js_to_string (js_get d ''message'') else fallback)"
| "response_message_or _ fallback = fallback"

text \<open>A destructuring default \<^verbatim>\<open>{ page = 1 }\<close> applies when the value is \<open>undefined\<close>.\<close>

definition default_arg :: "js \<Rightarrow> js \<Rightarrow> js" where
  "default_arg v d = (if v = Undef then d else v)"

definition default_pagination :: js where
  "default_pagination = Obj [(''page'', Num 1), (''pageSize'', Num 10), (''pageCount'', Num 0), (''itemCount'', Num 0)]"

subsection \<open>The service\<close>

definition sync_request :: client_request where
  "sync_request = api_get ''/api/xero/auth'' []"

fun sync_result :: "axios_outcome \<Rightarrow> string + js" where
  "sync_result (Ok d) = Inr d"
| "sync_result o' = Inl (response_message_or o' ''Failed to sync with Xero'')"

definition callback_request :: "js \<Rightarrow> js \<Rightarrow> client_request" where
  "callback_request code state = api_post ''/api/xero/callback'' (Obj [(''code'', code), (''state'', state)])"

fun callback_result :: "axios_outcome \<Rightarrow> string + js" where
  "callback_result (Ok d) = Inr d"
| "callback_result o' = Inl (response_message_or o' ''Failed to connect to Xero'')"

definition syncStatus_request :: client_request where
  "syncStatus_request = api_get ''/api/xero/sync/status'' []"

fun syncStatus_result :: "axios_outcome \<Rightarrow> string + js" where
  "syncStatus_result (Ok d) = Inr d"
| "syncStatus_result o' = Inl (response_message_or o' ''Failed to get sync status'')"

definition connectionStatus_request :: client_request where
  "connectionStatus_request = api_get ''/api/xero/connection'' []"

fun connectionStatus_result :: "axios_outcome \<Rightarrow> string + js" where
  "connectionStatus_result (Ok d) = Inr d"
| "connectionStatus_result o' = Inl (response_message_or o' ''Failed to get connection status'')"

text \<open>The \<^verbatim>\<open>where\<close> filter of \<^verbatim>\<open>fetchInvoices\<close>: the conditions joined with
  \<^verbatim>\<open>" AND "\<close>, no filter when there is no condition.\<close>

definition where_conditions :: "js \<Rightarrow> js \<Rightarrow> string list" where
  "where_conditions type sts =
     (if truthy type then [''Type==\"'' @ js_to_string type @ ''\"''] else [])
     @ (if truthy sts then [''Status==\"'' @ js_to_string sts @ ''\"''] else [])"

definition where_param :: "string list \<Rightarrow> (string \<times> js) list" where
  "where_param conds = (if conds \<noteq> [] then [(''where'', Str (join_with '' AND '' conds))] else [])"

definition fetchInvoices_request :: "js \<Rightarrow> js \<Rightarrow> js \<Rightarrow> js \<Rightarrow> js \<Rightarrow> client_request" where
  "fetchInvoices_request page pageSize type sts searchTerm =
     api_get ''/api/xero/invoices''
       ([(''page'', default_arg page (Num 1)), (''pageSize'', default_arg pageSize (Num 10)),
         (''searchTerm'', searchTerm)] @ where_param (where_conditions type sts))"

text \<open>\<^verbatim>\<open>{ data: d.data || [], pagination: d.pagination || {...}, success, message }\<close>;
  a rejected call is rethrown as it is.\<close>

fun fetchInvoices_result :: "axios_outcome \<Rightarrow> string + js" where
  "fetchInvoices_result (Ok d) =
     Inr (Obj [(''data'', js_or (js_get d ''data'') (Arr [])),
               (''pagination'', js_or (js_get d ''pagination'') default_pagination),
               (''success'', js_get d ''success''), (''message'', js_get d ''message'')])"
| "fetchInvoices_result o' = Inl (axios_error_message o')"

definition fetchAvailableInvoices_request :: "js \<Rightarrow> js \<Rightarrow> js \<Rightarrow> js \<Rightarrow> client_request" where
  "fetchAvailableInvoices_request type sts searchTerm isAmountDueNull =
     api_get ''/api/xero/invoices/available''
       ([(''searchTerm'', searchTerm)]
        @ where_param (where_conditions type sts
                       @ (if \<not> truthy (default_arg isAmountDueNull (Bool False)) then [''AmountDue!=0''] else [])))"

fun fetchAvailableInvoices_result :: "axios_outcome \<Rightarrow> string + js" where
  "fetchAvailableInvoices_result (Ok d) =
     Inr (Obj [(''data'', js_or (js_get d ''data'') (Arr [])), (''itemCount'', js_or (js_get d ''totalCount'') (Num 0)),
               (''success'', js_get d ''success''), (''message'', js_get d ''message'')])"
| "fetchAvailableInvoices_result o' = Inl (axios_error_message o')"

definition fetchContacts_request :: "js \<Rightarrow> js \<Rightarrow> js \<Rightarrow> js \<Rightarrow> client_request" where
  "fetchContacts_request page pageSize wh searchTerm =
     api_get ''/api/xero/contacts''
       [(''page'', default_arg page (Num 1)), (''pageSize'', default_arg pageSize (Num 10)),
        (''where'', wh), (''searchTerm'', searchTerm)]"

fun fetchContacts_result :: "axios_outcome \<Rightarrow> string + js" where
  "fetchContacts_result (Ok d) =
     Inr (Obj [(''data'', js_or (js_get d ''data'') (Arr [])),
               (''pagination'', js_or (js_get d ''pagination'') default_pagination),
               (''success'', js_get d ''success''), (''message'', js_get d ''message'')])"
| "fetchContacts_result o' = Inl (response_message_or o' ''Failed to fetch contacts'')"

definition fetchAccounts_request :: "js \<Rightarrow> js \<Rightarrow> client_request" where
  "fetchAccounts_request wh order = api_get ''/api/xero/accounts'' [(''where'', wh), (''order'', order)]"

fun fetchAccounts_result :: "axios_outcome \<Rightarrow> string + js" where
  "fetchAccounts_result (Ok d) =
     Inr (Obj [(''data'', js_or (js_get d ''data'') (Arr [])), (''success'', js_get d ''success''),
               (''message'', js_get d ''message'')])"
| "fetchAccounts_result o' = Inl (response_message_or o' ''Failed to fetch accounts'')"

definition fetchTaxRates_request :: "js \<Rightarrow> js \<Rightarrow> client_request" where
  "fetchTaxRates_request wh order = api_get ''/api/xero/tax-rates'' [(''where'', wh), (''order'', order)]"

fun fetchTaxRates_result :: "axios_outcome \<Rightarrow> string + js" where
  "fetchTaxRates_result (Ok d) =
     Inr (Obj [(''data'', js_or (js_get d ''data'') (Arr [])), (''success'', js_get d ''success''),
               (''message'', js_get d ''message'')])"
| "fetchTaxRates_result o' = Inl (response_message_or o' ''Failed to fetch tax rates'')"

subsection \<open>The Xero context\<close>

record xero_ctx =
  isSyncing :: bool
  isSynced :: bool
  lastSyncTime :: "time option"
  ctx_error :: "string option"
  connectionData :: js
  isInitializing :: bool

definition initial_ctx :: xero_ctx where
  "initial_ctx = \<lparr>isSyncing = False, isSynced = False, lastSyncTime = None, ctx_error = None,
                  connectionData = Null, isInitializing = True\<rparr>"

text \<open>\<^verbatim>\<open>checkConnectionStatus\<close>: the state after the call, and the value it returns
  (\<open>Null\<close> after an error, thrown by the service or by reading \<^verbatim>\<open>result.success\<close>).\<close>

definition checkConnectionStatus :: "time \<Rightarrow> string + js \<Rightarrow> xero_ctx \<Rightarrow> js \<times> xero_ctx" where
  "checkConnectionStatus now res c =
     (case res of
        Inr result \<Rightarrow>
          (if nullish result then
             (Null, c\<lparr>isSynced := False, connectionData := Null,
                       ctx_error := Some ''Failed to check connection status''\<rparr>)
           else if truthy (js_get result ''success'') \<and> truthy (js_get result ''data'') then
             (result, c\<lparr>isSynced := truthy (js_or (js_get (js_get result ''data'') ''isConnected'') (Bool False)),
                        lastSyncTime := Some now, connectionData := js_get result ''data'', ctx_error := None\<rparr>)
           else (result, c\<lparr>isSynced := False, connectionData := Null\<rparr>))
      | Inl _ \<Rightarrow> (Null, c\<lparr>isSynced := False, connectionData := Null,
                           ctx_error := Some ''Failed to check connection status''\<rparr>))"

datatype sync_action = RedirectTo string | MarkSynced string | SyncFailed string | SyncThrew string

text \<open>\<^verbatim>\<open>sync\<close>: redirect to the consent page when the answer asks for it, else record the
  sync or the failure; \<^verbatim>\<open>isSyncing\<close> is reset in \<^verbatim>\<open>finally\<close>.\<close>

definition sync :: "time \<Rightarrow> string + js \<Rightarrow> xero_ctx \<Rightarrow> sync_action \<times> xero_ctx" where
  "sync now res c =
     (let c1 = c\<lparr>isSyncing := True, ctx_error := None\<rparr> in
      case res of
        Inr result \<Rightarrow>
          (if nullish result then
             (let msg = ''Cannot read properties of '' @ js_to_string result @ '' (reading 'success')'' in
              (SyncThrew msg, c1\<lparr>ctx_error := Some msg, isSyncing := False\<rparr>))
           else if \<not> truthy (js_get result ''success'') \<and> truthy (js_get result ''requiresAuth'')
              \<and> truthy (js_get result ''authUrl'')
           then (RedirectTo (js_to_string (js_get result ''authUrl'')), c1\<lparr>isSyncing := False\<rparr>)
           else if truthy (js_get result ''success'')
           then (MarkSynced (js_to_string (js_or (js_get result ''message'') (Str ''Successfully synced with Xero''))),
                 c1\<lparr>isSynced := True, lastSyncTime := Some now, isSyncing := False\<rparr>)
           else (let msg = js_to_string (js_or (js_get result ''message'') (Str ''Sync failed'')) in
                 (SyncFailed msg, c1\<lparr>ctx_error := Some msg, isSyncing := False\<rparr>)))
      | Inl e \<Rightarrow>
          (let msg = (if e \<noteq> [] then e else ''Failed to sync with Xero'') in
           (SyncThrew msg, c1\<lparr>ctx_error := Some msg, isSyncing := False\<rparr>)))"

text \<open>\<^verbatim>\<open>setupSmartInterval\<close>: it runs \<^verbatim>\<open>checkConnectionStatus\<close>, then chooses the
  period of the next check and what that check runs. \<open>parse\<close> is
  \<^verbatim>\<open>new Date(expiresAt).getTime()\<close>, \<open>None\<close> for an invalid date (which throws into
  the fallback).\<close>

datatype check_kind = SmartCheck | StatusCheck

definition interval_plan :: "(js \<Rightarrow> time option) \<Rightarrow> time \<Rightarrow> js \<Rightarrow> time \<times> check_kind" where
  "interval_plan parse now result =
     (if truthy (js_get result ''success'') \<and> truthy (js_get (js_get result ''data'') ''expiresAt'') then
        (case parse (js_get (js_get result ''data'') ''expiresAt'') of
           None \<Rightarrow> (5 * 60 * 1000, StatusCheck)
         | Some expiry \<Rightarrow>
             (let timeUntilExpiry = expiry - now in
              if 0 < timeUntilExpiry
              then (max (min (timeUntilExpiry - 5 * 60 * 1000) (10 * 60 * 1000)) (60 * 1000), SmartCheck)
              else (60 * 1000, StatusCheck)))
      else (5 * 60 * 1000, StatusCheck))"

definition setupSmartInterval ::
  "(js \<Rightarrow> time option) \<Rightarrow> time \<Rightarrow> string + js \<Rightarrow> xero_ctx \<Rightarrow> (time \<times> check_kind) \<times> xero_ctx" where
  "setupSmartInterval parse now res c =
     (let (result, c') = checkConnectionStatus now res c in (interval_plan parse now result, c'))"

text \<open>\<^verbatim>\<open>getTimeRemaining\<close> for a valid expiry date.\<close>

definition plural :: "int \<Rightarrow> string \<Rightarrow> string" where
  "plural n unit = show_int n @ '' '' @ unit @ (if n > 1 then ''s'' else []) @ '' remaining''"

definition getTimeRemaining :: "(js \<Rightarrow> time option) \<Rightarrow> time \<Rightarrow> js \<Rightarrow> string option" where
  "getTimeRemaining parse now data =
     (if \<not> truthy (js_get data ''expiresAt'') then None
      else case parse (js_get data ''expiresAt'') of
        None \<Rightarrow> Some ''NaN minute remaining''
      | Some expiry \<Rightarrow>
          (let timeUntilExpiry = expiry - now in
           if timeUntilExpiry \<le> 0 then Some ''Expired''
           else (let minutes = timeUntilExpiry div (1000 * 60); hours = minutes div 60; days = hours div 24 in
                 Some (if days > 0 then plural days ''day'' else if hours > 0 then plural hours ''hour''
                       else plural minutes ''minute''))))"

text \<open>The display invariant of the context: a connection shown as synced has its
  connection data.\<close>

definition synced_inv :: "xero_ctx \<Rightarrow> bool" where
  "synced_inv c \<longleftrightarrow> (isSynced c \<longrightarrow> truthy (connectionData c))"

subsection \<open>Lemmas\<close>

lemma fetchInvoices_request_paged:
  "fetchInvoices_request (Num (int pg)) (Num (int ps)) Undef Undef Undef =
     \<lparr>req_method = GET, req_path = ''/api/xero/invoices'',
      req_query = Obj [(''page'', Str (show_nat pg)), (''pageSize'', Str (show_nat ps))], req_data = Undef\<rparr>"
  by (simp add: fetchInvoices_request_def api_get_def axios_query_def default_arg_def where_param_def
      where_conditions_def show_int_def map_filter_def)

text \<open>A rejected request shows the fallback text whenever the answer has no top-level
  \<^verbatim>\<open>message\<close>.\<close>

lemma settle_error_fallback:
  "\<not> (200 \<le> n \<and> n < 300) \<Longrightarrow> js_get body ''message'' = Undef \<Longrightarrow>
   response_message_or (axios_settle n body) fb = fb"
  by (simp add: axios_settle_def)

subsection \<open>Properties of the context\<close>

text \<open>The period chosen by \<^verbatim>\<open>setupSmartInterval\<close> is between one and ten minutes, and
  when the token expires more than six minutes ahead the smart check runs five minutes
  before the expiry or in ten minutes, whichever is sooner.\<close>

theorem interval_plan_bounds:
  "60 * 1000 \<le> fst (interval_plan parse now result) \<and> fst (interval_plan parse now result) \<le> 10 * 60 * 1000
   \<and> (\<forall>e. truthy (js_get result ''success'') \<longrightarrow> truthy (js_get (js_get result ''data'') ''expiresAt'')
        \<longrightarrow> parse (js_get (js_get result ''data'') ''expiresAt'') = Some e \<longrightarrow> 6 * 60 * 1000 < e - now
        \<longrightarrow> interval_plan parse now result = (min (e - now - 5 * 60 * 1000) (10 * 60 * 1000), SmartCheck))"
  by (auto simp: interval_plan_def Let_def split: option.splits)

theorem interval_plan_bounds_witness:
  "interval_plan (\<lambda>_. Some 3600000) 0 (Obj [(''success'', Bool True), (''data'', Obj [(''expiresAt'', Str ''t'')])])
     = (600000, SmartCheck)"
  using interval_plan_bounds [of "\<lambda>_. Some 3600000" 0 "Obj [(''success'', Bool True), (''data'', Obj [(''expiresAt'', Str ''t'')])]"]
  by simp

text \<open>\<^verbatim>\<open>checkConnectionStatus\<close> keeps the display invariant, whatever the service answers.\<close>

theorem checkConnectionStatus_inv:
  "synced_inv c \<Longrightarrow> synced_inv (snd (checkConnectionStatus now res c))"
  by (auto simp: synced_inv_def checkConnectionStatus_def js_or_def split: sum.splits)

theorem checkConnectionStatus_inv_witness:
  "synced_inv initial_ctx \<and> synced_inv (snd (checkConnectionStatus 0 (Inr (Obj [(''success'', Bool True),
     (''data'', Obj [(''isConnected'', Bool True)])])) initial_ctx))"
  using checkConnectionStatus_inv [of initial_ctx 0] by (simp add: synced_inv_def initial_ctx_def)

text \<open>Under an hour before the expiry the remaining time is shown in whole minutes, rounded
  down: under one minute it reads \<^verbatim>\<open>0 minute remaining\<close>.\<close>

theorem getTimeRemaining_minutes:
  assumes "truthy (js_get data ''expiresAt'')" and "parse (js_get data ''expiresAt'') = Some (now + d)"
    and "0 < d" and "d < 60 * 60 * 1000"
  shows "getTimeRemaining parse now data = Some (plural (d div 60000) ''minute'')"
  using assms by (simp add: getTimeRemaining_def Let_def)

theorem getTimeRemaining_minutes_witness:
  "getTimeRemaining (\<lambda>_. Some 30000) 0 (Obj [(''expiresAt'', Str ''soon'')]) = Some ''0 minute remaining''"
  using getTimeRemaining_minutes [of "Obj [(''expiresAt'', Str ''soon'')]" "\<lambda>_. Some 30000" 0 30000]
  by (simp add: plural_def show_eval)

end
