(* ===== verification/Concurrency.thy ===== *)
theory Concurrency
  imports TokenLifecycle
begin

text \<open>
  Concurrent requests through \<^verbatim>\<open>ensureValidToken\<close> (\<^verbatim>\<open>src/server/src/services/xeroService.js\<close>,
  lines 28 to 68). Node runs one request at a time between the \<^verbatim>\<open>await\<close>s, and the code
  has no lock, so the requests' segments between awaits interleave freely over the shared
  state: the token table and the token set of the one shared SDK client. Each request is a
  phase: before its first segment (\<open>Begin\<close>, with the token the middleware read), waiting
  for the refresh call (\<open>Refreshing\<close>), waiting for the active row after its update
  (\<open>Reading\<close>), or finished with the value \<^verbatim>\<open>ensureValidToken\<close> returns. A system step
  runs one segment of one unfinished request.
\<close>

datatype ev_phase =
    Begin token_row
  | Refreshing token_row
  | Reading
  | Finished "svc_error + string option"

text \<open>One segment of a request: \<open>None\<close> when it has finished. The refresh answer and the
  \<^verbatim>\<open>updateToken\<close> query form one segment (the write lands when the query runs; other
  requests may run before and after it).\<close>

definition ev_step ::
  "xero_config \<Rightarrow> provider \<Rightarrow> time \<Rightarrow> time \<Rightarrow> ev_phase \<Rightarrow> service_state \<Rightarrow> (ev_phase \<times> service_state) option" where
  "ev_step cfg p now later ph s =
     (case ph of
        Begin token \<Rightarrow>
          (let s1 = setTokenSet token s in
           Some (if expires_at token \<le> now
                 then (Refreshing token, log_event (Refresh (refresh_token token)) s1)
                 else (Finished (Inr (tenant_id token)), s1)))
      | Refreshing token \<Rightarrow>
          Some (case refreshWithRefreshToken p (client_id cfg) (client_secret cfg) (refresh_token token) of
                  Inl msg \<Rightarrow> (Finished (Inl (SdkError msg)), s)
                | Inr nt \<Rightarrow> (Reading, s\<lparr>table := updateToken later (refreshed_update later nt) (table s)\<rparr>))
      | Reading \<Rightarrow>
          Some (case getActiveToken (table s) of
                  None \<Rightarrow> (Finished (Inl TypeError), s)
                | Some token' \<Rightarrow> (Finished (Inr (tenant_id token')), setTokenSet token' s))
      | Finished _ \<Rightarrow> None)"

inductive ev_sys ::
  "xero_config \<Rightarrow> provider \<Rightarrow> time \<Rightarrow> time \<Rightarrow> service_state \<times> ev_phase list \<Rightarrow> service_state \<times> ev_phase list \<Rightarrow> bool"
  for cfg p now later where
  run: "i < length ps \<Longrightarrow> ev_step cfg p now later (ps ! i) s = Some (ph', s') \<Longrightarrow>
        ev_sys cfg p now later (s, ps) (s', ps[i := ph'])"

inductive_cases ev_sys_elim: "ev_sys cfg p now later (s, ps) (s', ps')"

fun is_begin :: "ev_phase \<Rightarrow> bool" where
  "is_begin (Begin _) = True"
| "is_begin _ = False"

definition refresh_count :: "service_state \<Rightarrow> nat" where
  "refresh_count s = length (filter is_refresh (provider_log s))"

subsection \<open>Lemmas\<close>

lemma ev_step_begin_count:
  "ev_step cfg p now later ph s = Some (ph', s') \<Longrightarrow>
   refresh_count s' + (if is_begin ph' then 1 else 0) \<le> refresh_count s + (if is_begin ph then 1 else 0)"
  by (auto simp: ev_step_def refresh_count_def Let_def split: ev_phase.splits if_splits sum.splits option.splits)

lemma count_begin_update:
  "i < length ps \<Longrightarrow>
   length (filter is_begin (ps[i := x])) + (if is_begin (ps ! i) then 1 else 0)
     = length (filter is_begin ps) + (if is_begin x then 1 else 0)"
proof (induction ps arbitrary: i)
  case Nil
  then show ?case by simp
next
  case (Cons a ps)
  then show ?case by (cases i) auto
qed

lemma ev_step_store_wf:
  "ev_step cfg p now later ph s = Some (ph', s') \<Longrightarrow> store_wf (table s) \<Longrightarrow> store_wf (table s')"
  by (auto simp: ev_step_def Let_def updateToken_store_wf split: ev_phase.splits if_splits sum.splits option.splits)

lemma ev_sys_single:
  "ev_step cfg p now later ph s = Some (ph', s') \<Longrightarrow> ev_sys cfg p now later (s, [ph]) (s', [ph'])"
  using run [of 0 "[ph]"] by simp

lemma ev_chain:
  "ev_step cfg p now later ph1 s1 = Some (ph2, s2) \<Longrightarrow> (ev_sys cfg p now later)\<^sup>*\<^sup>* (s2, [ph2]) (s3, [ph3]) \<Longrightarrow>
   (ev_sys cfg p now later)\<^sup>*\<^sup>* (s1, [ph1]) (s3, [ph3])"
  by (metis converse_rtranclp_into_rtranclp ev_sys_single)

subsection \<open>Properties\<close>

text \<open>Run alone, the segments of one request compute \<^verbatim>\<open>ensureValidToken\<close>: the
  interleaving model refines the sequential one.\<close>

theorem ev_sys_refines_ensure:
  "(ev_sys cfg p now later)\<^sup>*\<^sup>* (s, [Begin token])
     (snd (ensureValidToken cfg p now later token s), [Finished (fst (ensureValidToken cfg p now later token s))])"
proof (cases rule: ensureValidToken_cases [of now token cfg p later s])
  case fresh
  then have "ev_step cfg p now later (Begin token) s = Some (Finished (Inr (tenant_id token)), setTokenSet token s)"
    by (simp add: ev_step_def)
  with fresh(2) show ?thesis by (simp add: ev_chain [OF _ rtranclp.rtrancl_refl])
next
  case (failed msg)
  let ?s1 = "log_event (Refresh (refresh_token token)) (setTokenSet token s)"
  have 1: "ev_step cfg p now later (Begin token) s = Some (Refreshing token, ?s1)"
    using failed(1) by (simp add: ev_step_def)
  have 2: "ev_step cfg p now later (Refreshing token) ?s1 = Some (Finished (Inl (SdkError msg)), ?s1)"
    using failed(2) by (simp add: ev_step_def)
  show ?thesis
    using ev_chain [OF 1 ev_chain [OF 2 rtranclp.rtrancl_refl]] failed(3) by simp
next
  case (refreshed nt)
  let ?s1 = "log_event (Refresh (refresh_token token)) (setTokenSet token s)"
  let ?s2 = "?s1\<lparr>table := updateToken later (refreshed_update later nt) (table s)\<rparr>"
  have 1: "ev_step cfg p now later (Begin token) s = Some (Refreshing token, ?s1)"
    using refreshed(1) by (simp add: ev_step_def)
  have 2: "ev_step cfg p now later (Refreshing token) ?s1 = Some (Reading, ?s2)"
    using refreshed(2) by (simp add: ev_step_def)
  have 3: "ev_step cfg p now later Reading ?s2 =
             Some (Finished (fst (ensureValidToken cfg p now later token s)), snd (ensureValidToken cfg p now later token s))"
    using refreshed(3) by (simp add: ev_step_def Let_def split: option.splits)
  show ?thesis
    using ev_chain [OF 1 ev_chain [OF 2 ev_chain [OF 3 rtranclp.rtrancl_refl]]] .
qed

text \<open>Each request asks the provider for at most one refresh, so \<open>n\<close> concurrent requests
  cause at most \<open>n\<close> refresh calls (counted with the requests that have not started).\<close>

theorem ev_sys_refresh_bound:
  assumes "(ev_sys cfg p now later)\<^sup>*\<^sup>* (s0, ps0) (s, ps)"
  shows "refresh_count s + length (filter is_begin ps) \<le> refresh_count s0 + length (filter is_begin ps0)"
  using assms
proof (induction rule: rtranclp_induct2)
  case refl
  then show ?case by simp
next
  case (step s1 ps1 s2 ps2)
  from step.hyps(2) obtain i ph' where i: "i < length ps1" "ev_step cfg p now later (ps1 ! i) s1 = Some (ph', s2)"
    and ps2: "ps2 = ps1[i := ph']"
    by (auto elim: ev_sys_elim)
  have "refresh_count s2 + length (filter is_begin ps2)
          \<le> refresh_count s1 + length (filter is_begin ps1)"
    using ev_step_begin_count [OF i(2)] count_begin_update [OF i(1), of ph'] ps2 by simp
  with step.IH show ?case by simp
qed

theorem ev_sys_refresh_bound_witness:
  "refresh_count (log_event (Refresh ''rt-1'') (setTokenSet demo_row demo_state)) + 0 \<le> refresh_count demo_state + 1"
proof -
  have "ev_step demo_cfg demo_provider 2000 2500 (Begin demo_row) demo_state =
          Some (Refreshing demo_row, log_event (Refresh ''rt-1'') (setTokenSet demo_row demo_state))"
    by (simp add: ev_step_def demo_row_def new_row_def demo_token_def)
  then have "(ev_sys demo_cfg demo_provider 2000 2500)\<^sup>*\<^sup>* (demo_state, [Begin demo_row])
               (log_event (Refresh ''rt-1'') (setTokenSet demo_row demo_state), [Refreshing demo_row])"
    by (intro r_into_rtranclp ev_sys_single)
  from ev_sys_refresh_bound [OF this] show ?thesis by simp
qed

text \<open>Every interleaving keeps the token table well formed.\<close>

theorem ev_sys_store_wf:
  assumes "(ev_sys cfg p now later)\<^sup>*\<^sup>* (s0, ps0) (s, ps)" and "store_wf (table s0)"
  shows "store_wf (table s)"
  using assms
proof (induction rule: rtranclp_induct2)
  case refl
  then show ?case by simp
next
  case (step s1 ps1 s2 ps2)
  then show ?case by (auto elim!: ev_sys_elim intro: ev_step_store_wf)
qed


theorem ev_sys_store_wf_witness:
  "store_wf (table (log_event (Refresh ''rt-1'') (setTokenSet demo_row demo_state)))"
proof -
  have "ev_step demo_cfg demo_provider 2000 2500 (Begin demo_row) demo_state =
          Some (Refreshing demo_row, log_event (Refresh ''rt-1'') (setTokenSet demo_row demo_state))"
    by (simp add: ev_step_def demo_row_def new_row_def demo_token_def)
  then have "(ev_sys demo_cfg demo_provider 2000 2500)\<^sup>*\<^sup>* (demo_state, [Begin demo_row])
               (log_event (Refresh ''rt-1'') (setTokenSet demo_row demo_state), [Refreshing demo_row])"
    by (intro r_into_rtranclp ev_sys_single)
  from ev_sys_store_wf [OF this] show ?thesis by (simp add: demo_state_def demo_table_wf)
qed

text \<open>C10: Without a lock, two requests that both received the expired token both ask the
  provider for a refresh with the same refresh token (spec, section 5): the bound above is
  reached, where a serialised \<^verbatim>\<open>ensureValidToken\<close> would refresh once.\<close>

theorem concurrent_double_refresh:
  assumes "expires_at token \<le> now"
  shows "\<exists>s'. (ev_sys cfg p now later)\<^sup>*\<^sup>* (s, [Begin token, Begin token]) (s', [Refreshing token, Refreshing token])
             \<and> provider_log s' = provider_log s @ [Refresh (refresh_token token), Refresh (refresh_token token)]"
proof -
  let ?s1 = "log_event (Refresh (refresh_token token)) (setTokenSet token s)"
  let ?s2 = "log_event (Refresh (refresh_token token)) (setTokenSet token ?s1)"
  have a: "ev_sys cfg p now later (s, [Begin token, Begin token]) (?s1, [Refreshing token, Begin token])"
    using run [where i = 0 and ps = "[Begin token, Begin token]" and ph' = "Refreshing token" and s' = ?s1] assms
    by (simp add: ev_step_def)
  have b: "ev_sys cfg p now later (?s1, [Refreshing token, Begin token]) (?s2, [Refreshing token, Refreshing token])"
    using run [where i = 1 and ps = "[Refreshing token, Begin token]" and ph' = "Refreshing token" and s' = ?s2] assms
    by (simp add: ev_step_def)
  show ?thesis
    using a b by (intro exI [of _ ?s2]) (simp add: converse_rtranclp_into_rtranclp)
qed

theorem concurrent_double_refresh_witness:
  "\<exists>s'. (ev_sys demo_cfg demo_provider 2000 2500)\<^sup>*\<^sup>* (demo_state, [Begin demo_row, Begin demo_row])
          (s', [Refreshing demo_row, Refreshing demo_row])
        \<and> provider_log s' = [Refresh ''rt-1'', Refresh ''rt-1'']"
  using concurrent_double_refresh [of demo_row 2000 demo_cfg demo_provider 2500 demo_state]
  by (simp add: demo_row_def new_row_def demo_token_def demo_state_def)

text \<open>The shared client is not protected either: a request whose \<^verbatim>\<open>ensureValidToken\<close> has
  refreshed and returned can find the client holding the expired token again, loaded by a
  second request that started with the token read before the refresh; its data call then
  runs with that expired token set.\<close>

theorem concurrent_stale_session:
  assumes "expires_at token \<le> now" and "getActiveToken (table s) = Some token"
    and "refreshWithRefreshToken p (client_id cfg) (client_secret cfg) (refresh_token token) = Inr nt"
  shows "\<exists>s'. (ev_sys cfg p now later)\<^sup>*\<^sup>* (s, [Begin token, Begin token])
                 (s', [Finished (Inr (tenant_id token)), Refreshing token])
             \<and> session s' = Some (token_set_of token)"
proof -
  let ?s1 = "log_event (Refresh (refresh_token token)) (setTokenSet token s)"
  let ?s2 = "?s1\<lparr>table := updateToken later (refreshed_update later nt) (table s)\<rparr>"
  let ?s3 = "setTokenSet (refresh_row later (refreshed_update later nt) token) ?s2"
  let ?s4 = "log_event (Refresh (refresh_token token)) (setTokenSet token ?s3)"
  have a: "ev_sys cfg p now later (s, [Begin token, Begin token]) (?s1, [Refreshing token, Begin token])"
    using run [where i = 0 and ps = "[Begin token, Begin token]" and ph' = "Refreshing token" and s' = ?s1] assms(1)
    by (simp add: ev_step_def)
  have b: "ev_sys cfg p now later (?s1, [Refreshing token, Begin token]) (?s2, [Reading, Begin token])"
    using run [where i = 0 and ps = "[Refreshing token, Begin token]" and ph' = Reading and s' = ?s2] assms(3)
    by (simp add: ev_step_def)
  have c: "ev_sys cfg p now later (?s2, [Reading, Begin token]) (?s3, [Finished (Inr (tenant_id token)), Begin token])"
    using run [where i = 0 and ps = "[Reading, Begin token]" and ph' = "Finished (Inr (tenant_id token))" and s' = ?s3]
      assms(2)
    by (simp add: ev_step_def getActiveToken_active_rows latest_row_map)
  have d: "ev_sys cfg p now later (?s3, [Finished (Inr (tenant_id token)), Begin token])
             (?s4, [Finished (Inr (tenant_id token)), Refreshing token])"
    using run [where i = 1 and ps = "[Finished (Inr (tenant_id token)), Begin token]" and ph' = "Refreshing token"
        and s' = ?s4] assms(1)
    by (simp add: ev_step_def)
  have "(ev_sys cfg p now later)\<^sup>*\<^sup>* (s, [Begin token, Begin token]) (?s4, [Finished (Inr (tenant_id token)), Refreshing token])"
    using a b c d by (meson converse_rtranclp_into_rtranclp r_into_rtranclp)
  then show ?thesis by (intro exI [of _ ?s4]) simp
qed


theorem concurrent_stale_session_witness:
  "\<exists>s'. (ev_sys demo_cfg demo_provider 2000 2500)\<^sup>*\<^sup>* (demo_state, [Begin demo_row, Begin demo_row])
          (s', [Finished (Inr (Some ''tenant-a'')), Refreshing demo_row])
        \<and> session s' = Some (token_set_of demo_row) \<and> expires_at demo_row \<le> 2000"
  using concurrent_stale_session [of demo_row 2000 demo_state demo_provider demo_cfg]
  by (simp add: demo_row_def new_row_def demo_token_def demo_state_def demo_table_active demo_provider_def)
end
