(* ===== verification/DeadCopy.thy ===== *)
theory DeadCopy
  imports QueryAdapter
begin

text \<open>
  The earlier version of the provider service, \<^verbatim>\<open>src/server/src/services/xeroService copy.js\<close>,
  which no route uses (the spec calls it dead code). It reads the active token itself
  instead of receiving it from the middleware. Its \<^verbatim>\<open>require\<close> binds only \<^verbatim>\<open>xero\<close> and
  \<^verbatim>\<open>xeroState\<close>, so the refresh branches evaluate the unbound \<^verbatim>\<open>client_id\<close> and
  throw a \<^verbatim>\<open>ReferenceError\<close> before any call is made: the code after it in those branches
  is unreachable. Its errors are its own datatype: not connected, the reference error, or an
  error of the live model's kinds.
\<close>

datatype copy_error = NotConnected | ReferenceError string | Svc svc_error

text \<open>\<^verbatim>\<open>ensureValidToken2\<close> (lines 28 to 50): no token set is loaded into the client.\<close>

definition ensureValidToken2_copy :: "time \<Rightarrow> service_state \<Rightarrow> (copy_error + string option) \<times> service_state" where
  "ensureValidToken2_copy now s =
     (case getActiveToken (table s) of
        None \<Rightarrow> (Inl NotConnected, s)
      | Some token \<Rightarrow>
          (if expires_at token \<le> now then (Inl (ReferenceError ''client_id is not defined''), s)
           else case getActiveToken (table s) of
                  None \<Rightarrow> (Inl (Svc TypeError), s)
                | Some u \<Rightarrow> (Inr (tenant_id u), s)))"

text \<open>\<^verbatim>\<open>ensureValidToken\<close> (lines 52 to 93).\<close>

definition ensureValidToken_copy :: "time \<Rightarrow> service_state \<Rightarrow> (copy_error + string option) \<times> service_state" where
  "ensureValidToken_copy now s =
     (case getActiveToken (table s) of
        None \<Rightarrow> (Inl NotConnected, s)
      | Some token \<Rightarrow>
          (let s1 = setTokenSet token s in
           if expires_at token \<le> now then (Inl (ReferenceError ''client_id is not defined''), s1)
           else case getActiveToken (table s1) of
                  None \<Rightarrow> (Inl (Svc TypeError), s1)
                | Some u \<Rightarrow> (Inr (tenant_id u), s1)))"

text \<open>The frame of the copy's four operations: the tenant from its
  \<^verbatim>\<open>ensureValidToken\<close>, then one call.\<close>

definition copy_frame ::
  "time \<Rightarrow> provider \<Rightarrow> (string option \<Rightarrow> provider_call) \<Rightarrow> (js \<Rightarrow> js) \<Rightarrow> service_state
   \<Rightarrow> (copy_error + js) \<times> service_state" where
  "copy_frame now p mk_call shape s =
     (case ensureValidToken_copy now s of
        (Inl e, s1) \<Rightarrow> (Inl e, s1)
      | (Inr tid, s1) \<Rightarrow>
          (case data_call p (mk_call tid) s1 of
             (Inl e, s2) \<Rightarrow> (Inl (Svc e), s2)
           | (Inr body, s2) \<Rightarrow> (Inr (shape body), s2)))"

text \<open>The copy's \<^verbatim>\<open>getInvoices\<close> and \<^verbatim>\<open>getContacts\<close> pass the same positional
  arguments as the live ones.\<close>

definition getInvoices_copy :: "time \<Rightarrow> provider \<Rightarrow> js \<Rightarrow> service_state \<Rightarrow> (copy_error + js) \<times> service_state" where
  "getInvoices_copy now p params =
     copy_frame now p (\<lambda>tid. invoices_call tid params)
       (\<lambda>body. if paged params then paged_result body ''invoices'' ''Invoices synced successfully''
               else js_get body ''invoices'')"

definition getContacts_copy :: "time \<Rightarrow> provider \<Rightarrow> js \<Rightarrow> service_state \<Rightarrow> (copy_error + js) \<times> service_state" where
  "getContacts_copy now p params =
     copy_frame now p (\<lambda>tid. contacts_call tid params)
       (\<lambda>body. if paged params then paged_result body ''contacts'' ''Contacts synced successfully''
               else js_get body ''contacts'')"

definition accounts_call_copy :: "string option \<Rightarrow> js \<Rightarrow> provider_call" where
  "accounts_call_copy tid params = GetAccounts tid [Undef, js_get params ''where'', js_get params ''order'']"

definition getAccounts_copy :: "time \<Rightarrow> provider \<Rightarrow> js \<Rightarrow> service_state \<Rightarrow> (copy_error + js) \<times> service_state" where
  "getAccounts_copy now p params =
     copy_frame now p (\<lambda>tid. accounts_call_copy tid params) (\<lambda>body. js_get body ''accounts'')"

definition taxRates_call_copy :: "string option \<Rightarrow> js \<Rightarrow> provider_call" where
  "taxRates_call_copy tid params = GetTaxRates tid [js_get params ''where'', js_get params ''order'']"

definition getTaxRates_copy :: "time \<Rightarrow> provider \<Rightarrow> js \<Rightarrow> service_state \<Rightarrow> (copy_error + js) \<times> service_state" where
  "getTaxRates_copy now p params =
     copy_frame now p (\<lambda>tid. taxRates_call_copy tid params) (\<lambda>body. js_get body ''taxRates'')"

subsection \<open>Lemmas\<close>

lemma ensureValidToken_copy_fresh:
  "getActiveToken (table s) = Some t \<Longrightarrow> now < expires_at t \<Longrightarrow>
   ensureValidToken_copy now s = (Inr (tenant_id t), setTokenSet t s)"
  by (simp add: ensureValidToken_copy_def)

lemma copy_frame_fresh:
  assumes "getActiveToken (table s) = Some t" and "now < expires_at t"
  shows "copy_frame now p mk_call shape s =
           (case accountingApi p (Some (token_set_of t)) (mk_call (tenant_id t)) of
              Inl msg \<Rightarrow> (Inl (Svc (SdkError msg)), log_event (DataCall (Some (token_set_of t)) (mk_call (tenant_id t))) (setTokenSet t s))
            | Inr body \<Rightarrow> (Inr (shape body), log_event (DataCall (Some (token_set_of t)) (mk_call (tenant_id t))) (setTokenSet t s)))"
  using assms
  by (simp add: copy_frame_def ensureValidToken_copy_fresh data_call_def Let_def split: sum.splits)

lemma named_arg_GetTaxRates:
  "named_arg (GetTaxRates t [w, o']) ''where'' = w \<and> named_arg (GetTaxRates t [w, o']) ''order'' = o'"
  by (simp add: named_arg_def)

lemma named_arg_GetAccounts:
  "named_arg (GetAccounts t [Undef, w, o']) ''where'' = w \<and> named_arg (GetAccounts t [Undef, w, o']) ''order'' = o'"
  by (simp add: named_arg_def)

subsection \<open>Properties\<close>

text \<open>On a fresh active token the copy's \<^verbatim>\<open>ensureValidToken\<close> agrees with the live one
  called with that token: same tenant, same client token set, no refresh.\<close>

theorem ensureValidToken_copy_equiv:
  assumes "getActiveToken (table s) = Some t" and "now < expires_at t"
  shows "ensureValidToken_copy now s = (case ensureValidToken cfg p now later t s of (r, s') \<Rightarrow> (map_sum Svc id r, s'))"
  using assms by (simp add: ensureValidToken_copy_fresh ensure_simps)

theorem ensureValidToken_copy_equiv_witness:
  "ensureValidToken_copy 0 demo_state = (Inr (Some ''tenant-a''), setTokenSet demo_row demo_state)"
proof -
  have a: "getActiveToken (table demo_state) = Some demo_row" and b: "0 < expires_at demo_row"
    by (simp_all add: demo_state_def demo_table_active demo_row_def new_row_def demo_token_def)
  show ?thesis
    using ensureValidToken_copy_equiv [OF a b, of demo_cfg demo_provider 0]
    by (simp add: ensure_simps b) (simp add: demo_row_def new_row_def demo_token_def)
qed

text \<open>On an expired active token both versions of the copy throw the reference error of
  the unbound \<^verbatim>\<open>client_id\<close>: no refresh is ever attempted and the table is unchanged.\<close>

theorem ensureValidToken_copy_expired:
  assumes "getActiveToken (table s) = Some t" and "expires_at t \<le> now"
  shows "ensureValidToken_copy now s = (Inl (ReferenceError ''client_id is not defined''), setTokenSet t s)
         \<and> ensureValidToken2_copy now s = (Inl (ReferenceError ''client_id is not defined''), s)"
  using assms by (simp add: ensureValidToken_copy_def ensureValidToken2_copy_def)

theorem ensureValidToken_copy_expired_witness:
  "ensureValidToken_copy 2000 demo_state = (Inl (ReferenceError ''client_id is not defined''), setTokenSet demo_row demo_state)
   \<and> ensureValidToken2_copy 2000 demo_state = (Inl (ReferenceError ''client_id is not defined''), demo_state)"
  by (rule ensureValidToken_copy_expired)
     (simp_all add: demo_state_def demo_table_active demo_row_def new_row_def demo_token_def)

text \<open>Unlike the live code, the copy's \<^verbatim>\<open>getTaxRates\<close> and \<^verbatim>\<open>getAccounts\<close> make the
  call the adapter contract expects (the tax-rates operation, the filter and the order under
  their SDK names) and return the list the contract expects, on a fresh active token.\<close>

theorem copy_lists_meet_contract:
  assumes "getActiveToken (table s) = Some t" and "now < expires_at t"
  shows "spec_call_ok TaxRates (tenant_id t) params (taxRates_call_copy (tenant_id t) params)
         \<and> getTaxRates_copy now p params s =
             (case accountingApi p (Some (token_set_of t)) (taxRates_call_copy (tenant_id t) params) of
                Inl msg \<Rightarrow> (Inl (Svc (SdkError msg)), log_event (DataCall (Some (token_set_of t)) (taxRates_call_copy (tenant_id t) params)) (setTokenSet t s))
              | Inr body \<Rightarrow> (Inr (encode_result (shape_spec TaxRates params body)),
                            log_event (DataCall (Some (token_set_of t)) (taxRates_call_copy (tenant_id t) params)) (setTokenSet t s)))
         \<and> spec_call_ok Accounts (tenant_id t) params (accounts_call_copy (tenant_id t) params)
         \<and> getAccounts_copy now p params s =
             (case accountingApi p (Some (token_set_of t)) (accounts_call_copy (tenant_id t) params) of
                Inl msg \<Rightarrow> (Inl (Svc (SdkError msg)), log_event (DataCall (Some (token_set_of t)) (accounts_call_copy (tenant_id t) params)) (setTokenSet t s))
              | Inr body \<Rightarrow> (Inr (encode_result (shape_spec Accounts params body)),
                            log_event (DataCall (Some (token_set_of t)) (accounts_call_copy (tenant_id t) params)) (setTokenSet t s)))"
  using assms
  by (simp add: spec_call_ok_def taxRates_call_copy_def accounts_call_copy_def named_arg_GetTaxRates
      named_arg_GetAccounts getTaxRates_copy_def getAccounts_copy_def copy_frame_fresh shape_spec_def
      split: sum.splits)


theorem copy_lists_meet_contract_witness:
  "getTaxRates_copy 0 demo_provider demo_list_params demo_state =
     (Inr Undef, log_event (DataCall (Some (token_set_of demo_row)) (taxRates_call_copy (Some ''tenant-a'') demo_list_params))
                   (setTokenSet demo_row demo_state))
   \<and> spec_call_ok Accounts (Some ''tenant-a'') demo_list_params (accounts_call_copy (Some ''tenant-a'') demo_list_params)"
proof -
  have a: "getActiveToken (table demo_state) = Some demo_row" and b: "0 < expires_at demo_row"
    and t: "tenant_id demo_row = Some ''tenant-a''"
    by (simp_all add: demo_state_def demo_table_active demo_row_def new_row_def demo_token_def)
  show ?thesis
    using copy_lists_meet_contract [OF a b, of demo_list_params demo_provider] t
    by (simp add: demo_provider_def demo_body_def shape_spec_def)
qed
end
