(* ===== verification/TrustProxy.thy ===== *)
theory TrustProxy
  imports Prelude
begin

text \<open>
  The proxy analysis of \<^verbatim>\<open>src/server/src/utils/trustProxyDetector.js\<close>: from the proxy
  headers of a request it derives the proxy chain, a recommended \<^verbatim>\<open>trust proxy\<close>
  setting and whether the application's setting matches it. The two debug endpoints built on
  it are commented out in \<^verbatim>\<open>app.js\<close>. What Express derives from its own setting
  (\<^verbatim>\<open>req.ip\<close>, \<^verbatim>\<open>req.ips\<close>) is an input.
\<close>

record proxy_request =
  req_headers :: js
  conn_remote :: js
  socket_remote :: js
  trust_setting :: js
  ip_of_req :: js
  ips_of_req :: js

text \<open>\<^verbatim>\<open>===\<close> on the values compared here: \<open>NaN\<close> equals nothing, and arrays and
  objects compare by identity (two distinct ones are different).\<close>

definition strict_eq :: "js \<Rightarrow> js \<Rightarrow> bool" where
  "strict_eq a b = (case a of NaN \<Rightarrow> False | Arr _ \<Rightarrow> False | Obj _ \<Rightarrow> False | _ \<Rightarrow> a = b)"

definition forwarded_ips :: "string \<Rightarrow> string list" where
  "forwarded_ips s = map js_trim (split_on CHR '','' s)"

definition trust_code :: "string \<Rightarrow> string" where
  "trust_code v = ''app.set(\"trust proxy\", '' @ v @ '');''"

text \<open>The \<^verbatim>\<open>analysis\<close> and \<^verbatim>\<open>recommendation\<close> objects (lines 43 to 88), from the
  \<^verbatim>\<open>X-Forwarded-For\<close> and \<^verbatim>\<open>X-Real-IP\<close> headers.\<close>

definition proxy_findings :: "js \<Rightarrow> js \<Rightarrow> js \<times> js" where
  "proxy_findings ff rip =
     (if truthy ff then
        (let ips = forwarded_ips (js_to_string ff); n = length ips in
         (Obj [(''hasProxy'', Bool True), (''proxyCount'', Num (int n)), (''ipChain'', Arr (map Str ips)),
               (''detectedRealIP'', Str (hd ips))],
          if n = 1 then
            Obj [(''value'', Num 1), (''code'', Str (trust_code ''1'')),
                 (''explanation'', Str ''Single proxy detected (likely Nginx, ALB, or similar). This is the most common configuration.''),
                 (''confidence'', Str ''high'')]
          else if n = 2 then
            Obj [(''value'', Num 2), (''code'', Str (trust_code ''2'')),
                 (''explanation'', Str ''Two proxies detected (likely CDN + Load Balancer, e.g., CloudFlare + Nginx).''),
                 (''confidence'', Str ''high'')]
          else
            Obj [(''value'', Num (int n)), (''code'', Str (trust_code (show_nat n))),
                 (''explanation'', Str (show_nat n @ '' proxies detected. This might indicate multiple proxy layers (CDN + WAF + Load Balancer).'')),
                 (''confidence'', Str ''medium'')]))
      else if truthy rip then
        (Obj [(''hasProxy'', Bool True), (''proxyCount'', Num 1), (''ipChain'', Arr []), (''detectedRealIP'', rip)],
         Obj [(''value'', Num 1), (''code'', Str (trust_code ''1'')),
              (''explanation'', Str ''Single proxy detected using X-Real-IP header (common with Nginx).''),
              (''confidence'', Str ''high'')])
      else
        (Obj [(''hasProxy'', Bool False), (''proxyCount'', Num 0), (''ipChain'', Arr []), (''detectedRealIP'', Null)],
         Obj [(''value'', Bool False), (''code'', Str ''// Do NOT set trust proxy''),
              (''explanation'', Str ''No proxy detected. Your app is directly exposed to the internet. Do not enable trust proxy as it would allow IP spoofing.''),
              (''confidence'', Str ''high'')]))"

definition trust_configured :: "js \<Rightarrow> bool" where
  "trust_configured current \<longleftrightarrow> \<not> strict_eq current Undef \<and> \<not> strict_eq current (Bool False)"

definition configuration_status :: "js \<Rightarrow> js \<Rightarrow> js" where
  "configuration_status current value =
     Obj [(''isConfigured'', Bool (trust_configured current)),
          (''isCorrect'', Bool (if strict_eq value (Bool False) then \<not> trust_configured current
                                else strict_eq current value \<or> strict_eq current (Bool True))),
          (''currentValue'', current), (''recommendedValue'', value)]"

definition analyzeTrustProxy :: "proxy_request \<Rightarrow> js" where
  "analyzeTrustProxy r =
     (let h = req_headers r; ff = js_get h ''x-forwarded-for''; rip = js_get h ''x-real-ip'';
          (an, rec) = proxy_findings ff rip in
      Obj [(''currentConfig'', Obj [(''trustProxy'', trust_setting r), (''reqIP'', ip_of_req r), (''reqIPs'', ips_of_req r)]),
           (''rawData'', Obj [(''connectionIP'', js_or (conn_remote r) (socket_remote r)), (''xForwardedFor'', ff),
                              (''xRealIP'', rip), (''xForwardedProto'', js_get h ''x-forwarded-proto''),
                              (''xForwardedHost'', js_get h ''x-forwarded-host'')]),
           (''analysis'', an), (''recommendation'', rec),
           (''configurationStatus'', configuration_status (trust_setting r) (js_get rec ''value''))])"

text \<open>The two endpoints; \<open>ts\<close> is \<^verbatim>\<open>new Date().toISOString()\<close>, and the message's
  magnifier emoji is written as its UTF-8 bytes.\<close>

definition magnifier :: string where
  "magnifier = map char_of [240, 159, 148, 141 :: nat]"

definition createTrustProxyDebugger :: "string \<Rightarrow> proxy_request \<Rightarrow> http_response" where
  "createTrustProxyDebugger ts r =
     json_response 200 (case analyzeTrustProxy r of
        Obj kvs \<Rightarrow> Obj ([(''message'', Str (magnifier @ '' Trust Proxy Configuration Analysis'')), (''timestamp'', Str ts)] @ kvs)
      | v \<Rightarrow> v)"

definition createIPInfoEndpoint :: "proxy_request \<Rightarrow> http_response" where
  "createIPInfoEndpoint r =
     json_response 200 (Obj [(''message'', Str ''IP Information''), (''yourIP'', ip_of_req r), (''allIPs'', ips_of_req r),
                             (''trustProxyEnabled'', Bool (trust_configured (trust_setting r))),
                             (''headers'', Obj [(''x-forwarded-for'', js_get (req_headers r) ''x-forwarded-for''),
                                                (''x-real-ip'', js_get (req_headers r) ''x-real-ip'')])])"

text \<open>A request that came through two proxies, for the witnesses.\<close>

definition demo_proxy_request :: proxy_request where
  "demo_proxy_request = \<lparr>req_headers = Obj [(''x-forwarded-for'', Str ''203.0.113.7, 10.0.0.2'')],
      conn_remote = Str ''10.0.0.9'', socket_remote = Str ''10.0.0.9'', trust_setting = Num 1,
      ip_of_req = Str ''10.0.0.2'', ips_of_req = Arr [Str ''10.0.0.2'']\<rparr>"

subsection \<open>Properties\<close>

text \<open>With a forwarded chain the analysis counts its entries, takes the first as the client
  and recommends trusting that many hops.\<close>

theorem forwarded_chain_analysis:
  assumes "js_get (req_headers r) ''x-forwarded-for'' = Str s" and "s \<noteq> []"
  shows "js_get (js_get (analyzeTrustProxy r) ''analysis'') ''proxyCount'' = Num (int (length (split_on CHR '','' s)))
         \<and> js_get (js_get (analyzeTrustProxy r) ''analysis'') ''detectedRealIP'' = Str (js_trim (hd (split_on CHR '','' s)))
         \<and> js_get (js_get (analyzeTrustProxy r) ''recommendation'') ''value'' = Num (int (length (split_on CHR '','' s)))"
  using assms
  by (simp add: analyzeTrustProxy_def proxy_findings_def forwarded_ips_def Let_def hd_map split: prod.splits)

theorem forwarded_chain_analysis_witness:
  "js_get (js_get (analyzeTrustProxy demo_proxy_request) ''analysis'') ''proxyCount'' = Num 2
   \<and> js_get (js_get (analyzeTrustProxy demo_proxy_request) ''analysis'') ''detectedRealIP'' = Str ''203.0.113.7''
   \<and> js_get (js_get (analyzeTrustProxy demo_proxy_request) ''recommendation'') ''value'' = Num 2"
proof -
  have t: "js_trim ''203.0.113.7'' = ''203.0.113.7''" by code_simp
  show ?thesis
    using forwarded_chain_analysis [of demo_proxy_request "''203.0.113.7, 10.0.0.2''"] t
    by (simp add: demo_proxy_request_def)
qed

text \<open>With the setting of \<^verbatim>\<open>app.js\<close> (\<^verbatim>\<open>trust proxy = 1\<close>) the analysis calls the
  configuration correct exactly when one proxy is seen: a single forwarded entry, or no
  forwarded chain but an \<^verbatim>\<open>X-Real-IP\<close>.\<close>

theorem app_setting_correct:
  assumes "trust_setting r = Num 1"
  shows "js_get (js_get (analyzeTrustProxy r) ''configurationStatus'') ''isCorrect'' =
           Bool ((truthy (js_get (req_headers r) ''x-forwarded-for'')
                  \<and> length (split_on CHR '','' (js_to_string (js_get (req_headers r) ''x-forwarded-for''))) = 1)
                 \<or> (\<not> truthy (js_get (req_headers r) ''x-forwarded-for'') \<and> truthy (js_get (req_headers r) ''x-real-ip'')))"
  using assms
  by (auto simp: analyzeTrustProxy_def proxy_findings_def configuration_status_def strict_eq_def trust_configured_def
      forwarded_ips_def Let_def split: prod.splits)


theorem app_setting_correct_witness:
  "js_get (js_get (analyzeTrustProxy demo_proxy_request) ''configurationStatus'') ''isCorrect'' = Bool False"
  using app_setting_correct [of demo_proxy_request] by (simp add: demo_proxy_request_def)

end
