(* ===== verification/Bootstrap.thy ===== *)
theory Bootstrap
  imports Prelude
begin

text \<open>
  Start-up of the server, \<^verbatim>\<open>src/server/index.js\<close>: \<^verbatim>\<open>checkDatabaseConnection\<close> tries
  \<^verbatim>\<open>pool.getConnection()\<close> up to \<open>retries\<close> times, waiting \<open>delay\<close> milliseconds
  between two attempts, and \<^verbatim>\<open>startServer\<close> listens only when it succeeded. The outcome
  of the \<open>i\<close>-th attempt is the input \<open>ok i\<close>.
\<close>

text \<open>The loop from attempt \<open>i\<close> on: whether an attempt succeeded, and the time spent
  waiting.\<close>

function check_db_loop :: "(nat \<Rightarrow> bool) \<Rightarrow> nat \<Rightarrow> time \<Rightarrow> nat \<Rightarrow> bool \<times> time" where
  "check_db_loop ok retries delay i =
     (if i < retries then
        (if ok i then (True, 0)
         else (let (r, w) = check_db_loop ok retries delay (Suc i)
               in (r, (if i < retries - 1 then delay else 0) + w)))
      else (False, 0))"
  by pat_completeness auto
termination
  by (relation "measure (\<lambda>(ok, retries, delay, i). retries - i)") auto

declare check_db_loop.simps [simp del]

definition checkDatabaseConnection :: "(nat \<Rightarrow> bool) \<Rightarrow> bool \<times> time" where
  "checkDatabaseConnection ok = check_db_loop ok 5 5000 0"

datatype server_start = Listening | Exit nat

definition startServer :: "(nat \<Rightarrow> bool) \<Rightarrow> server_start" where
  "startServer ok = (if fst (checkDatabaseConnection ok) then Listening else Exit 1)"

subsection \<open>Lemmas\<close>

lemma check_db_loop_result:
  "fst (check_db_loop ok retries delay i) \<longleftrightarrow> (\<exists>j. i \<le> j \<and> j < retries \<and> ok j)"
proof (induction ok retries delay i rule: check_db_loop.induct)
  case (1 ok retries delay i)
  show ?case
  proof (cases "i < retries")
    case True
    have "(\<exists>j. i \<le> j \<and> j < retries \<and> ok j) \<longleftrightarrow> ok i \<or> (\<exists>j. Suc i \<le> j \<and> j < retries \<and> ok j)"
      using True by (metis Suc_le_eq le_eq_less_or_eq)
    with True 1 show ?thesis
      by (subst check_db_loop.simps) (simp add: split_def Let_def)
  next
    case False
    then show ?thesis by (subst check_db_loop.simps) auto
  qed
qed

lemma check_db_loop_wait:
  "\<not> (\<exists>j. i \<le> j \<and> j < k \<and> ok j) \<Longrightarrow> k < retries \<Longrightarrow> i \<le> k \<Longrightarrow> ok k \<Longrightarrow>
   snd (check_db_loop ok retries delay i) = int (k - i) * delay"
proof (induction ok retries delay i rule: check_db_loop.induct)
  case (1 ok retries delay i)
  show ?case
  proof (cases "i = k")
    case True
    with "1.prems" show ?thesis by (subst check_db_loop.simps) simp
  next
    case False
    with "1.prems" have i: "i < k" "\<not> ok i" by auto
    with "1.prems" have "snd (check_db_loop ok retries delay (Suc i)) = int (k - Suc i) * delay"
      by (intro "1.IH") auto
    with i "1.prems"(2) show ?thesis
      by (subst check_db_loop.simps) (auto simp: split_def Let_def of_nat_diff algebra_simps)
  qed
qed

lemma check_db_loop_all_fail:
  "\<not> (\<exists>j. i \<le> j \<and> j < retries \<and> ok j) \<Longrightarrow>
   check_db_loop ok retries delay i = (False, int (retries - Suc i) * delay)"
proof (induction ok retries delay i rule: check_db_loop.induct)
  case (1 ok retries delay i)
  show ?case
  proof (cases "i < retries")
    case True
    with "1.prems" have "\<not> ok i" by auto
    moreover from "1.prems" have "check_db_loop ok retries delay (Suc i) = (False, int (retries - Suc (Suc i)) * delay)"
      using True \<open>\<not> ok i\<close> by (intro "1.IH") auto
    ultimately show ?thesis using True
      by (subst check_db_loop.simps) (cases "Suc i < retries"; auto simp: of_nat_diff algebra_simps)
  next
    case False
    then show ?thesis by (subst check_db_loop.simps) simp
  qed
qed

lemma check_db_loop_prefix:
  "(\<forall>j. i \<le> j \<longrightarrow> j < retries \<longrightarrow> ok j = ok' j) \<Longrightarrow>
   check_db_loop ok retries delay i = check_db_loop ok' retries delay i"
proof (induction ok retries delay i rule: check_db_loop.induct)
  case (1 ok retries delay i)
  show ?case
  proof (cases "i < retries")
    case True
    with "1.prems" have eq: "ok i = ok' i" by auto
    show ?thesis
    proof (cases "ok i")
      case True
      with eq \<open>i < retries\<close> show ?thesis by (subst (1 2) check_db_loop.simps) simp
    next
      case False
      with \<open>i < retries\<close> "1.prems" have "check_db_loop ok retries delay (Suc i) = check_db_loop ok' retries delay (Suc i)"
        by (intro "1.IH") auto
      with False eq \<open>i < retries\<close> show ?thesis by (subst (1 2) check_db_loop.simps) simp
    qed
  next
    case False
    then show ?thesis by (subst (1 2) check_db_loop.simps) simp
  qed
qed

lemma check_db_loop_wait_bound:
  "0 \<le> delay \<Longrightarrow> snd (check_db_loop ok retries delay i) \<le> int (retries - Suc i) * delay"
proof (induction ok retries delay i rule: check_db_loop.induct)
  case (1 ok retries delay i)
  show ?case
  proof (cases "i < retries \<and> \<not> ok i")
    case True
    with "1.IH" "1.prems" have ih: "snd (check_db_loop ok retries delay (Suc i)) \<le> int (retries - Suc (Suc i)) * delay"
      by auto
    show ?thesis
    proof (cases "Suc i < retries")
      case True
      with ih \<open>i < retries \<and> \<not> ok i\<close> show ?thesis
        by (subst check_db_loop.simps) (auto simp: split_def Let_def of_nat_diff algebra_simps)
    next
      case False
      then have "check_db_loop ok retries delay (Suc i) = (False, 0)" by (subst check_db_loop.simps) simp
      moreover from False have "\<not> i < retries - 1" by simp
      ultimately show ?thesis using \<open>i < retries \<and> \<not> ok i\<close> "1.prems"
        by (subst check_db_loop.simps) (simp add: split_def Let_def)
    qed
  next
    case False
    with "1.prems" show ?thesis by (subst check_db_loop.simps) auto
  qed
qed

subsection \<open>Start-up\<close>

text \<open>The server listens exactly when one of the first five connection attempts
  succeeds; otherwise the process exits with code 1.\<close>

theorem startServer_listens:
  "startServer ok = (if \<exists>j < 5. ok j then Listening else Exit 1)"
  by (simp add: startServer_def checkDatabaseConnection_def check_db_loop_result)

text \<open>When every attempt fails, \<^verbatim>\<open>checkDatabaseConnection\<close> answers false after
  waiting four times five seconds: there is no wait after the last attempt.\<close>

theorem checkDatabaseConnection_all_fail:
  "(\<forall>j < 5. \<not> ok j) \<Longrightarrow> checkDatabaseConnection ok = (False, 20000)"
  unfolding checkDatabaseConnection_def by (subst check_db_loop_all_fail) auto

theorem checkDatabaseConnection_all_fail_witness:
  "checkDatabaseConnection (\<lambda>_. False) = (False, 20000)"
  using checkDatabaseConnection_all_fail [of "\<lambda>_. False"] by simp

text \<open>When attempt \<open>k\<close> is the first to succeed, the server starts after waiting
  \<open>k\<close> times five seconds.\<close>

theorem checkDatabaseConnection_first_success:
  "k < 5 \<Longrightarrow> ok k \<Longrightarrow> (\<forall>j < k. \<not> ok j) \<Longrightarrow>
   checkDatabaseConnection ok = (True, int k * 5000)"
proof -
  assume k: "k < 5" "ok k" "\<forall>j < k. \<not> ok j"
  then have "fst (check_db_loop ok 5 5000 0)" by (auto simp: check_db_loop_result)
  moreover from k have "snd (check_db_loop ok 5 5000 0) = int k * 5000"
    by (subst check_db_loop_wait [where k = k]) auto
  ultimately show ?thesis by (simp add: checkDatabaseConnection_def prod_eq_iff)
qed

theorem checkDatabaseConnection_first_success_witness:
  "(2::nat) < 5 \<and> (\<lambda>j. 2 \<le> j) (2::nat) \<and>
   checkDatabaseConnection (\<lambda>j. 2 \<le> j) = (True, 10000)"
  using checkDatabaseConnection_first_success [of 2 "\<lambda>j. 2 \<le> j"] by simp

text \<open>C24: \<^verbatim>\<open>checkDatabaseConnection\<close> always finishes: it consults at most the first five
  connection attempts (its result does not depend on any later one) and waits at most
  twenty seconds in all.\<close>

theorem checkDatabaseConnection_bounded:
  "(\<forall>j < 5. ok j = ok' j) \<Longrightarrow>
   checkDatabaseConnection ok = checkDatabaseConnection ok' \<and> snd (checkDatabaseConnection ok) \<le> 20000"
  using check_db_loop_prefix [of 0 5 ok ok' 5000] check_db_loop_wait_bound [of 5000 ok 5 0]
  by (simp add: checkDatabaseConnection_def)

theorem checkDatabaseConnection_bounded_witness:
  "checkDatabaseConnection (\<lambda>j. j = 7) = checkDatabaseConnection (\<lambda>_. False)
   \<and> snd (checkDatabaseConnection (\<lambda>j. j = 7)) \<le> 20000"
  by (rule checkDatabaseConnection_bounded [of "\<lambda>j. j = 7" "\<lambda>_. False"]) simp

end
