(* ===== verification/RateLimit.thy ===== *)
theory RateLimit
  imports Prelude
begin

text \<open>
  The rate limiters of \<^verbatim>\<open>src/server/src/middlewares/rateLimiter.js\<close> and where
  \<^verbatim>\<open>app.js\<close> and \<^verbatim>\<open>routes/authRoutes.js\<close> mount them. \<^verbatim>\<open>createRateLimiter\<close>
  builds the options of \<^verbatim>\<open>express-rate-limit\<close>; the library's counting (its memory
  store: one fixed window per key, opened by the key's first hit, and the decrement of
  \<^verbatim>\<open>skipSuccessfulRequests\<close> and \<^verbatim>\<open>skipFailedRequests\<close> once the response is
  sent) is modelled from its documented behaviour. The key generator the source installs
  calls \<^verbatim>\<open>ipKeyGenerator(req, res)\<close>; the library's \<^verbatim>\<open>ipKeyGenerator(ip, subnet)\<close>
  expects the address string and returns a value that is not an IPv6 address unchanged,
  so the key is built from the request object itself.
\<close>

record limiter_config =
  windowMs :: time
  rl_limit :: nat
  rl_message :: js
  keyPrefix :: "string option"
  skipSuccessfulRequests :: bool
  skipFailedRequests :: bool

text \<open>\<^verbatim>\<open>createRateLimiter\<close>: the message is wrapped as \<^verbatim>\<open>{success: false, message}\<close>;
  a key generator is installed only for a truthy \<^verbatim>\<open>keyPrefix\<close> (\<open>None\<close> keeps the
  library's default). The optional \<^verbatim>\<open>skip\<close> predicate is passed by no limiter of the
  source and is left out.\<close>

definition createRateLimiter ::
  "time \<Rightarrow> nat \<Rightarrow> string \<Rightarrow> string \<Rightarrow> bool \<Rightarrow> bool \<Rightarrow> limiter_config" where
  "createRateLimiter w l msg kp skipSuccess skipFailed =
     \<lparr>windowMs = w, rl_limit = l,
      rl_message = Obj [(''success'', Bool False), (''message'', Str msg)],
      keyPrefix = (if kp = [] then None else Some kp),
      skipSuccessfulRequests = skipSuccess, skipFailedRequests = skipFailed\<rparr>"

definition publicLimiter :: limiter_config where
  "publicLimiter = createRateLimiter (1 * 60 * 1000) 30
     ''Too many requests. Please wait a moment and try again'' ''public'' False False"

definition apiLimiter :: limiter_config where
  "apiLimiter = createRateLimiter (15 * 60 * 1000) 100
     ''You've made too many requests. Please wait a few minutes and try again.'' ''api'' False False"

definition loginLimiter :: limiter_config where
  "loginLimiter = createRateLimiter (10 * 60 * 1000) 5
     ''Too many login attempts, please try again after 10 minutes.'' ''login'' True False"

definition registerLimiter :: limiter_config where
  "registerLimiter = createRateLimiter (15 * 60 * 1000) 5
     ''Too many registration attempts, please try again after 15 minutes.'' ''register'' True False"

definition forgotPasswordLimiter :: limiter_config where
  "forgotPasswordLimiter = createRateLimiter (60 * 60 * 1000) 3
     ''Too many password reset requests, please try again after an hour.'' ''forgot-password'' False False"

definition resetPasswordLimiter :: limiter_config where
  "resetPasswordLimiter = createRateLimiter (15 * 60 * 1000) 3
     ''Too many password reset attempts, please try again after 15 minutes.'' ''reset-password'' True False"

text \<open>The request as the key generator sees it: an object whose \<^verbatim>\<open>ip\<close> is the client
  address Express computed.\<close>

definition req_object :: "string \<Rightarrow> js" where
  "req_object ip = Obj [(''ip'', Str ip)]"

text \<open>\<^verbatim>\<open>ipKeyGenerator(ip)\<close> of the library: an address string is its own key (the
  masking of an IPv6 address to its /56 subnet is not modelled); any other value is
  returned unchanged.\<close>

fun ipKeyGenerator :: "js \<Rightarrow> js" where
  "ipKeyGenerator (Str s) = Str s"
| "ipKeyGenerator v = v"

text \<open>The key of a request: with a prefix, the source's generator
  \<^verbatim>\<open>`${keyPrefix}:${ipKeyGenerator(req, res)}`\<close>; without one, the library's default
  \<^verbatim>\<open>ipKeyGenerator(req.ip)\<close>.\<close>

definition limiter_key :: "limiter_config \<Rightarrow> string \<Rightarrow> string" where
  "limiter_key cfg ip = (case keyPrefix cfg of
      Some p \<Rightarrow> p @ '':'' @ js_to_string (ipKeyGenerator (req_object ip))
    | None \<Rightarrow> js_to_string (ipKeyGenerator (js_get (req_object ip) ''ip'')))"

text \<open>The memory store: per key the hits of the current window and when it ends.\<close>

record rl_entry =
  totalHits :: nat
  resetTime :: time

type_synonym rl_store = "string \<Rightarrow> rl_entry option"

definition rl_increment :: "limiter_config \<Rightarrow> time \<Rightarrow> rl_entry option \<Rightarrow> rl_entry" where
  "rl_increment cfg now e = (case e of
      Some c \<Rightarrow> if now < resetTime c then c\<lparr>totalHits := Suc (totalHits c)\<rparr>
               else \<lparr>totalHits = 1, resetTime = now + windowMs cfg\<rparr>
    | None \<Rightarrow> \<lparr>totalHits = 1, resetTime = now + windowMs cfg\<rparr>)"

text \<open>Whether a response with this status is taken back out of the count.\<close>

definition rl_skipped :: "limiter_config \<Rightarrow> nat \<Rightarrow> bool" where
  "rl_skipped cfg code \<longleftrightarrow>
     (skipSuccessfulRequests cfg \<and> code < 400) \<or> (skipFailedRequests cfg \<and> 400 \<le> code)"

definition rl_decrement :: "rl_entry option \<Rightarrow> rl_entry option" where
  "rl_decrement e = map_option (\<lambda>c. c\<lparr>totalHits := totalHits c - 1\<rparr>) e"

text \<open>One request through a limiter: the request counts; beyond the limit the limiter
  answers 429 with its message, else the next handler answers \<open>sts\<close>; once the response
  is sent, a skipped status is taken back.\<close>

definition rl_handle ::
  "limiter_config \<Rightarrow> time \<Rightarrow> string \<Rightarrow> nat \<Rightarrow> rl_store \<Rightarrow> http_response \<times> rl_store" where
  "rl_handle cfg now ip sts st =
     (let k = limiter_key cfg ip;
          e = rl_increment cfg now (st k);
          resp = (if rl_limit cfg < totalHits e then json_response 429 (rl_message cfg)
                  else json_response sts Null);
          st1 = st(k \<mapsto> e)
      in (resp, if rl_skipped cfg (status resp) then st1(k := rl_decrement (st1 k)) else st1))"

text \<open>A sequence of requests, each the client address and the status its handler
  would answer, through one limiter.\<close>

fun rl_run :: "limiter_config \<Rightarrow> time \<Rightarrow> (string \<times> nat) list \<Rightarrow> rl_store \<Rightarrow> rl_store" where
  "rl_run cfg now [] st = st"
| "rl_run cfg now ((ip, sts) # rs) st = rl_run cfg now rs (snd (rl_handle cfg now ip sts st))"

text \<open>The limiters a request meets, in order: \<^verbatim>\<open>publicLimiter\<close> for every request,
  \<^verbatim>\<open>apiLimiter\<close> under \<^verbatim>\<open>/api\<close>, and the login and registration limiters of
  their two routes.\<close>

definition limiters_for :: "http_method \<Rightarrow> string \<Rightarrow> limiter_config list" where
  "limiters_for m path =
     [publicLimiter] @
     (if take 5 path = ''/api/'' \<or> path = ''/api'' then [apiLimiter] else []) @
     (if m = POST \<and> path = ''/api/auth/login'' then [loginLimiter]
      else if m = POST \<and> path = ''/api/auth/register'' then [registerLimiter] else [])"

subsection \<open>Lemmas\<close>

lemmas limiter_defs = publicLimiter_def apiLimiter_def loginLimiter_def registerLimiter_def
  forgotPasswordLimiter_def resetPasswordLimiter_def createRateLimiter_def

lemma limiter_key_prefixed:
  "keyPrefix cfg = Some p \<Longrightarrow> limiter_key cfg ip = p @ '':[object Object]''"
  by (simp add: limiter_key_def req_object_def)

lemma rl_handle_status:
  "status (fst (rl_handle cfg now ip sts st)) \<in> {429, sts}"
  by (simp add: rl_handle_def Let_def)

lemma rl_not_skipped:
  "\<not> skipSuccessfulRequests cfg \<or> 400 \<le> sts \<Longrightarrow> \<not> skipFailedRequests cfg \<Longrightarrow>
   \<not> rl_skipped cfg (status (fst (rl_handle cfg now ip sts st)))"
  using rl_handle_status [of cfg now ip sts st] by (auto simp: rl_skipped_def)

text \<open>A counted request adds one hit to its key, and leaves every other key alone.\<close>

lemma rl_handle_store:
  "\<not> rl_skipped cfg (status (fst (rl_handle cfg now ip sts st))) \<Longrightarrow>
   snd (rl_handle cfg now ip sts st) = st(limiter_key cfg ip \<mapsto> rl_increment cfg now (st (limiter_key cfg ip)))"
  by (simp add: rl_handle_def Let_def)

lemma rl_handle_resp:
  "fst (rl_handle cfg now ip sts st) =
     (if rl_limit cfg < totalHits (rl_increment cfg now (st (limiter_key cfg ip)))
      then json_response 429 (rl_message cfg) else json_response sts Null)"
  by (simp add: rl_handle_def Let_def)

text \<open>Counted requests within a window: every client of a prefixed limiter adds to the
  same entry.\<close>

lemma rl_run_counts:
  "keyPrefix cfg = Some p \<Longrightarrow> \<not> skipFailedRequests cfg \<Longrightarrow>
   \<forall>(ip, sts) \<in> set rs. \<not> skipSuccessfulRequests cfg \<or> 400 \<le> sts \<Longrightarrow>
   st (p @ '':[object Object]'') = Some c \<Longrightarrow> now < resetTime c \<Longrightarrow>
   rl_run cfg now rs st (p @ '':[object Object]'') = Some (c\<lparr>totalHits := totalHits c + length rs\<rparr>)"
proof (induction rs arbitrary: st c)
  case Nil
  then show ?case by simp
next
  case (Cons r rs)
  obtain ip sts where r: "r = (ip, sts)" by fastforce
  let ?st' = "snd (rl_handle cfg now ip sts st)"
  have "?st' (p @ '':[object Object]'') = Some (c\<lparr>totalHits := Suc (totalHits c)\<rparr>)"
    using Cons.prems r rl_not_skipped [of cfg sts now ip st]
    by (simp add: rl_handle_store limiter_key_prefixed rl_increment_def)
  with Cons.prems r show ?case
    using Cons.IH [of ?st' "c\<lparr>totalHits := Suc (totalHits c)\<rparr>"] by simp
qed

lemma rl_run_from_empty:
  "keyPrefix cfg = Some p \<Longrightarrow> \<not> skipFailedRequests cfg \<Longrightarrow> 0 < windowMs cfg \<Longrightarrow>
   \<forall>(ip, sts) \<in> set rs. \<not> skipSuccessfulRequests cfg \<or> 400 \<le> sts \<Longrightarrow> rs \<noteq> [] \<Longrightarrow>
   rl_run cfg now rs Map.empty (p @ '':[object Object]'') =
     Some \<lparr>totalHits = length rs, resetTime = now + windowMs cfg\<rparr>"
proof (cases rs)
  case (Cons r rs')
  assume a: "keyPrefix cfg = Some p" "\<not> skipFailedRequests cfg" "0 < windowMs cfg"
    "\<forall>(ip, sts) \<in> set rs. \<not> skipSuccessfulRequests cfg \<or> 400 \<le> sts"
  obtain ip sts where r: "r = (ip, sts)" by fastforce
  let ?st = "snd (rl_handle cfg now ip sts Map.empty)"
  have "?st (p @ '':[object Object]'') = Some \<lparr>totalHits = 1, resetTime = now + windowMs cfg\<rparr>"
    using a Cons r rl_not_skipped [of cfg sts now ip Map.empty]
    by (simp add: rl_handle_store limiter_key_prefixed rl_increment_def)
  then show ?thesis
    using a Cons r rl_run_counts [of cfg p rs' ?st _ now] by simp
qed (simp)

lemma limiter_prefixes:
  "keyPrefix publicLimiter = Some ''public''" "keyPrefix apiLimiter = Some ''api''"
  "keyPrefix loginLimiter = Some ''login''" "keyPrefix registerLimiter = Some ''register''"
  "keyPrefix forgotPasswordLimiter = Some ''forgot-password''"
  "keyPrefix resetPasswordLimiter = Some ''reset-password''"
  by (simp_all add: limiter_defs)


subsection \<open>Properties\<close>

text \<open>C13: Every limiter of the source gives all clients the same key: the key generator
  stringifies the request object, so one client's requests count against every other.\<close>

theorem limiters_share_bucket:
  "cfg \<in> set [publicLimiter, apiLimiter, loginLimiter, registerLimiter,
                forgotPasswordLimiter, resetPasswordLimiter] \<Longrightarrow>
   limiter_key cfg ip1 = limiter_key cfg ip2"
  using limiter_prefixes by (auto simp: limiter_key_prefixed)

theorem limiters_share_bucket_witness:
  "publicLimiter \<in> set [publicLimiter, apiLimiter, loginLimiter, registerLimiter,
                forgotPasswordLimiter, resetPasswordLimiter] \<and>
   limiter_key publicLimiter ''203.0.113.7'' = limiter_key publicLimiter ''198.51.100.9''"
  using limiters_share_bucket [of publicLimiter "''203.0.113.7''" "''198.51.100.9''"] by simp

text \<open>Thirty requests from any clients within a minute make the public limiter refuse
  the next request of any other client with 429 and its message.\<close>

theorem public_limiter_lockout:
  "length rs = 30 \<Longrightarrow>
   fst (rl_handle publicLimiter now ip sts (rl_run publicLimiter now rs Map.empty)) =
     json_response 429 (rl_message publicLimiter)"
proof -
  assume n: "length rs = 30"
  then have "rs \<noteq> []" by auto
  with n have "rl_run publicLimiter now rs Map.empty (''public'' @ '':[object Object]'') =
               Some \<lparr>totalHits = 30, resetTime = now + windowMs publicLimiter\<rparr>"
    using rl_run_from_empty [of publicLimiter "''public''" rs now] limiter_prefixes
    by (auto simp: limiter_defs)
  then show ?thesis
    using limiter_prefixes
    by (simp add: rl_handle_resp limiter_key_prefixed rl_increment_def limiter_defs)
qed

theorem public_limiter_lockout_witness:
  "length (replicate 30 (''203.0.113.7'', 200::nat)) = 30 \<and>
   fst (rl_handle publicLimiter 0 ''198.51.100.9'' 200
          (rl_run publicLimiter 0 (replicate 30 (''203.0.113.7'', 200)) Map.empty)) =
     json_response 429 (rl_message publicLimiter)"
  using public_limiter_lockout [of "replicate 30 (''203.0.113.7'', 200)" 0 "''198.51.100.9''" 200]
  by simp

text \<open>Five failed logins from any clients within ten minutes lock every user out of
  \<^verbatim>\<open>POST /api/auth/login\<close>: a login that would succeed is answered 429.\<close>

theorem login_limiter_lockout:
  "length rs = 5 \<Longrightarrow> \<forall>(ip', sts') \<in> set rs. 400 \<le> sts' \<Longrightarrow>
   fst (rl_handle loginLimiter now ip 200 (rl_run loginLimiter now rs Map.empty)) =
     json_response 429 (rl_message loginLimiter)"
proof -
  assume n: "length rs = 5" and f: "\<forall>(ip', sts') \<in> set rs. 400 \<le> sts'"
  from n have "rs \<noteq> []" by auto
  with n f have "rl_run loginLimiter now rs Map.empty (''login'' @ '':[object Object]'') =
               Some \<lparr>totalHits = 5, resetTime = now + windowMs loginLimiter\<rparr>"
    using rl_run_from_empty [of loginLimiter "''login''" rs now] limiter_prefixes
    by (fastforce simp: limiter_defs)
  then show ?thesis
    using limiter_prefixes
    by (simp add: rl_handle_resp limiter_key_prefixed rl_increment_def limiter_defs)
qed

theorem login_limiter_lockout_witness:
  "length (replicate 5 (''203.0.113.7'', 401::nat)) = 5 \<and>
   fst (rl_handle loginLimiter 0 ''198.51.100.9'' 200
          (rl_run loginLimiter 0 (replicate 5 (''203.0.113.7'', 401)) Map.empty)) =
     json_response 429 (rl_message loginLimiter)"
  using login_limiter_lockout [of "replicate 5 (''203.0.113.7'', 401)" 0 "''198.51.100.9''"] by simp

text \<open>Once the window of the key has ended, a request passes to its handler again
  (for a limit of at least one).\<close>

theorem rl_window_reset:
  "st (limiter_key cfg ip) = Some c \<Longrightarrow> resetTime c \<le> now \<Longrightarrow> 0 < rl_limit cfg \<Longrightarrow>
   fst (rl_handle cfg now ip sts st) = json_response sts Null"
  by (simp add: rl_handle_resp rl_increment_def)

theorem rl_window_reset_witness:
  "(\<lambda>_. Some \<lparr>totalHits = 30, resetTime = 60000\<rparr>) (limiter_key publicLimiter ''203.0.113.7'') =
     Some \<lparr>totalHits = 30, resetTime = 60000\<rparr> \<and>
   resetTime \<lparr>totalHits = 30, resetTime = 60000\<rparr> \<le> (60000::int) \<and> 0 < rl_limit publicLimiter \<and>
   fst (rl_handle publicLimiter 60000 ''203.0.113.7'' 200 (\<lambda>_. Some \<lparr>totalHits = 30, resetTime = 60000\<rparr>)) =
     json_response 200 Null"
  using rl_window_reset [of "\<lambda>_. Some \<lparr>totalHits = 30, resetTime = 60000\<rparr>" publicLimiter "''203.0.113.7''"
      "\<lparr>totalHits = 30, resetTime = 60000\<rparr>" 60000 200]
  by (simp add: limiter_defs)

end
