(* ===== verification/ClientAuth.thy ===== *)
theory ClientAuth
  imports ResponseFormatter
begin

text \<open>
  The client's session, \<^verbatim>\<open>src/client/src/services/authService.js\<close> and the request
  interceptor of \<^verbatim>\<open>src/client/src/utils/api.js\<close>. The state is the browser storage
  the service touches: the \<^verbatim>\<open>token\<close> cookie, with its value and its expiry time, and
  \<^verbatim>\<open>localStorage\<close>. As on the server, a token is its claims: a JWT cookie holds the claims
  object, any other value the string \<^verbatim>\<open>js-cookie\<close> writes, which \<^verbatim>\<open>jwtDecode\<close>
  refuses. The page is taken to be served over HTTPS, so the \<^verbatim>\<open>secure\<close> cookie is kept.
\<close>

record client_store =
  cookie_token :: "(js \<times> time) option"
  local_storage :: "(string \<times> string) list"

text \<open>The expiry of \<^verbatim>\<open>Cookies.set("token", v, {expires: 1})\<close> set at \<open>now\<close> (in
  milliseconds): \<^verbatim>\<open>js-cookie\<close> writes \<^verbatim>\<open>new Date(Date.now() + 864e5).toUTCString()\<close>,
  which keeps whole seconds.\<close>

definition cookie_expires :: "time \<Rightarrow> time" where
  "cookie_expires now = (now + 86400000) div 1000 * 1000"

text \<open>\<^verbatim>\<open>Cookies.get("token")\<close> at \<open>now\<close>: the browser drops a cookie whose expiry has
  come.\<close>

definition getToken :: "time \<Rightarrow> client_store \<Rightarrow> js option" where
  "getToken now st = (case cookie_token st of Some (v, e) \<Rightarrow> if now < e then Some v else None | None \<Rightarrow> None)"

text \<open>The value \<^verbatim>\<open>Cookies.set("token", v)\<close> stores.\<close>

definition cookie_value :: "js \<Rightarrow> js" where
  "cookie_value v = (case v of Obj kvs \<Rightarrow> Obj kvs | _ \<Rightarrow> Str (js_to_string v))"

text \<open>\<^verbatim>\<open>fetch(`${API_BASE_URL}/api/auth/login`, {method: "POST", body: JSON.stringify(credentials)})\<close>.\<close>

definition login_request :: "js \<Rightarrow> client_request" where
  "login_request credentials =
     \<lparr>req_method = POST, req_path = ''/api/auth/login'', req_query = Obj [], req_data = to_json credentials\<rparr>"

text \<open>The message \<^verbatim>\<open>login\<close> throws for an answer that is not ok:
  \<^verbatim>\<open>data.errors[0]?.message || data.message || "Login failed"\<close>, where the index read
  throws when \<^verbatim>\<open>data.errors\<close> is \<open>undefined\<close>.\<close>

definition login_error :: "js \<Rightarrow> string" where
  "login_error data =
     (case js_read_elem (js_get data ''errors'') 0 of
        Inl te \<Rightarrow> te
      | Inr e0 \<Rightarrow> js_to_string (js_or (js_or (js_get e0 ''message'') (js_get data ''message'')) (Str ''Login failed'')))"

text \<open>\<^verbatim>\<open>authService.login\<close> at \<open>now\<close> on the status and the parsed body of the answer:
  the thrown message, or the body with the token of \<^verbatim>\<open>data.data.token\<close> stored in the
  cookie for a day.\<close>

definition authService_login :: "time \<Rightarrow> nat \<Rightarrow> js \<Rightarrow> client_store \<Rightarrow> (string + js) \<times> client_store" where
  "authService_login now sts data st =
     (if \<not> (200 \<le> sts \<and> sts < 300) then (Inl (login_error data), st)
      else case js_read (js_get data ''data'') ''token'' of
             Inl te \<Rightarrow> (Inl te, st)
           | Inr tok \<Rightarrow> (Inr data, st\<lparr>cookie_token := Some (cookie_value tok, cookie_expires now)\<rparr>))"

definition removeToken :: "client_store \<Rightarrow> client_store" where
  "removeToken st = st\<lparr>cookie_token := None\<rparr>"

text \<open>\<^verbatim>\<open>jwtDecode\<close>: the claims of a token; \<open>None\<close> where it throws.\<close>

definition jwtDecode :: "js \<Rightarrow> js option" where
  "jwtDecode t = (case t of Obj kvs \<Rightarrow> Some (Obj kvs) | _ \<Rightarrow> None)"

text \<open>\<^verbatim>\<open>decoded.exp * 1000 < Date.now()\<close>: a missing or non-numeric \<open>exp\<close> gives
  \<open>NaN\<close>, and the comparison is false.\<close>

fun exp_passed :: "js \<Rightarrow> time \<Rightarrow> bool" where
  "exp_passed (Num e) now = (e * 1000 < now)"
| "exp_passed Null now = (0 < now)"
| "exp_passed (Bool b) now = ((if b then 1000 else 0) < now)"
| "exp_passed (Str s) now =
     (if digits_only s then int (digits_val s) * 1000 < now else if js_trim s = [] then 0 < now else False)"
| "exp_passed _ now = False"

text \<open>\<^verbatim>\<open>isAuthenticated\<close>: whether the session is valid, and the storage after the
  call (a token that cannot be decoded, lacks a claim or has expired is removed).\<close>

definition isAuthenticated :: "time \<Rightarrow> client_store \<Rightarrow> bool \<times> client_store" where
  "isAuthenticated now st =
     (case getToken now st of
        None \<Rightarrow> (False, st)
      | Some t \<Rightarrow>
          (if \<not> truthy t then (False, st)
           else case jwtDecode t of
             None \<Rightarrow> (False, removeToken st)
           | Some d \<Rightarrow>
               (if \<not> truthy (js_get d ''userId'') \<or> \<not> truthy (js_get d ''iat'') \<or> \<not> truthy (js_get d ''jti'')
                   \<or> exp_passed (js_get d ''exp'') now
                then (False, removeToken st) else (True, st))))"

definition getUserInfo :: "time \<Rightarrow> client_store \<Rightarrow> js" where
  "getUserInfo now st =
     (case getToken now st of
        None \<Rightarrow> Null
      | Some t \<Rightarrow>
          (if \<not> truthy t then Null
           else case jwtDecode t of
             None \<Rightarrow> Null
           | Some d \<Rightarrow> Obj [(''userId'', js_get d ''userId''), (''userName'', js_get d ''userName''),
                            (''email'', js_get d ''email'')]))"

definition logout :: "client_store \<Rightarrow> client_store" where
  "logout st = (removeToken st)\<lparr>local_storage := []\<rparr>"

text \<open>The interceptor of \<^verbatim>\<open>api.js\<close>: the token sent as \<^verbatim>\<open>Authorization: Bearer\<close>, when
  the cookie holds a truthy value.\<close>

definition bearer_token :: "time \<Rightarrow> client_store \<Rightarrow> js option" where
  "bearer_token now st = (case getToken now st of Some t \<Rightarrow> if truthy t then Some t else None | None \<Rightarrow> None)"

text \<open>A sign-in answer as the client receives it.\<close>

definition demo_login_answer :: js where
  "demo_login_answer =
     Obj [(''success'', Bool True), (''data'', Obj [(''token'', Obj [(''userId'', Num 1), (''iat'', Num 1700000000),
            (''jti'', Str ''j''), (''exp'', Num 1700003600)])])]"

subsection \<open>Lemmas\<close>

lemma map_of_to_json:
  "map_of kvs k = Some v \<Longrightarrow> v \<noteq> Undef \<Longrightarrow>
   map_of (map (\<lambda>(k, v). (k, to_json v)) (filter (\<lambda>(k, v). v \<noteq> Undef) kvs)) k = Some (to_json v)"
proof (induction kvs)
  case (Cons p kvs)
  then show ?case by (cases p) (auto split: if_splits)
qed simp

lemma js_get_to_json:
  "js_get (Obj kvs) k \<noteq> Undef \<Longrightarrow> js_get (to_json (Obj kvs)) k = to_json (js_get (Obj kvs) k)"
  by (auto simp: map_of_to_json split: option.splits)

text \<open>No answer of the server has a top-level \<^verbatim>\<open>errors\<close>: an error envelope carries
  them inside \<^verbatim>\<open>error\<close>.\<close>

lemma wire_error_no_errors:
  "400 \<le> status r \<Longrightarrow> js_get (wire production r) ''errors'' = Undef"
  by (simp add: wire_def format_json_def)

lemma login_error_envelope:
  "400 \<le> status r \<Longrightarrow> login_error (wire production r) = read_error Undef ''0''"
  by (simp add: login_error_def wire_error_no_errors js_read_elem_def nullish_def show_eval)


lemma authService_login_ok:
  "200 \<le> sts \<Longrightarrow> sts < 300 \<Longrightarrow> js_get data ''data'' = Obj kvs \<Longrightarrow>
   authService_login now sts data st =
     (Inr data, st\<lparr>cookie_token := Some (cookie_value (js_get (Obj kvs) ''token''), cookie_expires now)\<rparr>)"
  by (simp add: authService_login_def js_read_def nullish_def)

lemma isAuthenticated_claims:
  "cookie_token st = Some (Obj kvs, x) \<Longrightarrow>
   truthy (js_get (Obj kvs) ''userId'') \<Longrightarrow> truthy (js_get (Obj kvs) ''iat'') \<Longrightarrow>
   truthy (js_get (Obj kvs) ''jti'') \<Longrightarrow> js_get (Obj kvs) ''exp'' = Num e \<Longrightarrow>
   isAuthenticated now st = (if x \<le> now then (False, st) else if e * 1000 < now then (False, removeToken st) else (True, st))"
  by (simp add: isAuthenticated_def jwtDecode_def getToken_def)

subsection \<open>Properties\<close>

text \<open>A failed sign-in never reports the server's reason: every error envelope lacks a
  top-level \<^verbatim>\<open>errors\<close>, so \<^verbatim>\<open>login\<close> throws the \<^verbatim>\<open>TypeError\<close> of reading
  \<^verbatim>\<open>[0]\<close> of \<open>undefined\<close>, and the stored token is left as it was.\<close>

theorem login_failure_typeerror:
  "400 \<le> status r \<Longrightarrow>
   authService_login now (status r) (wire production r) st =
     (Inl (''Cannot read properties of undefined (reading '' @ [CHR 0x27] @ ''0'' @ [CHR 0x27] @ '')''), st)"
  by (simp add: authService_login_def login_error_envelope read_error_def)

theorem login_failure_typeerror_witness:
  "400 \<le> status (json_response 401 (Obj [(''message'', Str ''Authentication failed'')])) \<and>
   authService_login 0 401 (wire False (json_response 401 (Obj [(''message'', Str ''Authentication failed'')])))
     \<lparr>cookie_token = None, local_storage = []\<rparr> =
     (Inl (''Cannot read properties of undefined (reading '' @ [CHR 0x27] @ ''0'' @ [CHR 0x27] @ '')''),
      \<lparr>cookie_token = None, local_storage = []\<rparr>)"
  using login_failure_typeerror [of "json_response 401 (Obj [(''message'', Str ''Authentication failed'')])" 0 False
      "\<lparr>cookie_token = None, local_storage = []\<rparr>"] by simp

text \<open>After a sign-in at \<open>now\<close> whose token carries the claims the client checks, the
  session is valid while the cookie lasts (a day, to the second) and the token's \<^verbatim>\<open>exp\<close>
  has not passed; once the cookie has expired the check fails with the storage unchanged,
  and once only \<^verbatim>\<open>exp\<close> has passed it fails and removes the cookie.\<close>

theorem login_session_lifetime:
  assumes "200 \<le> sts" "sts < 300" "js_get data ''data'' = Obj kvs"
    and "js_get (Obj kvs) ''token'' = Obj claims"
    and "truthy (js_get (Obj claims) ''userId'')" "truthy (js_get (Obj claims) ''iat'')"
    and "truthy (js_get (Obj claims) ''jti'')" "js_get (Obj claims) ''exp'' = Num e"
  shows "\<exists>st'. authService_login now sts data st = (Inr data, st')
     \<and> isAuthenticated now' st' = (if cookie_expires now \<le> now' then (False, st')
                                  else if e * 1000 < now' then (False, removeToken st') else (True, st'))"
  using assms by (simp add: authService_login_ok isAuthenticated_claims cookie_value_def)

theorem login_session_lifetime_witness:
  "\<exists>st'. authService_login 1700000000000 200 demo_login_answer \<lparr>cookie_token = None, local_storage = []\<rparr>
          = (Inr demo_login_answer, st')
     \<and> isAuthenticated 1700003600000 st' = (True, st')"
  using login_session_lifetime [of 200 demo_login_answer
      "[(''token'', Obj [(''userId'', Num 1), (''iat'', Num 1700000000), (''jti'', Str ''j''), (''exp'', Num 1700003600)])]"
      "[(''userId'', Num 1), (''iat'', Num 1700000000), (''jti'', Str ''j''), (''exp'', Num 1700003600)]"
      1700003600 1700000000000 "\<lparr>cookie_token = None, local_storage = []\<rparr>" 1700003600000]
  by (simp add: demo_login_answer_def cookie_expires_def)

end
