(* ===== verification/ClientServices.thy ===== *)
theory ClientServices
  imports ClientXero
begin

text \<open>
  The client's payment services, \<^verbatim>\<open>src/client/src/services/paymentBatchService.js\<close>
  and \<^verbatim>\<open>src/client/src/services/manualPaymentService.js\<close>: each operation as the request
  it sends through \<^verbatim>\<open>api\<close> and the reading of the axios outcome, as for the Xero
  service in \<^theory_text>\<open>ClientXero\<close>.
\<close>

text \<open>\<^verbatim>\<open>{...base, ...v}\<close>: the properties of an object overwrite or extend the base in
  their order; a value that is not an object adds nothing (the source spreads objects
  only).\<close>

definition js_spread :: "(string \<times> js) list \<Rightarrow> js \<Rightarrow> (string \<times> js) list" where
  "js_spread base v = (case v of Obj kvs \<Rightarrow> foldl (\<lambda>acc (k, x). kv_put acc k x) base kvs | _ \<Rightarrow> base)"

text \<open>A call that resolves with \<^verbatim>\<open>response.data\<close> and rethrows any failure as
  \<^verbatim>\<open>new Error(error.response?.data?.message || fallback)\<close>.\<close>

fun service_result :: "string \<Rightarrow> axios_outcome \<Rightarrow> string + js" where
  "service_result fallback (Ok d) = Inr d"
| "service_result fallback o' = Inl (response_message_or o' fallback)"

definition api_delete :: "string \<Rightarrow> js \<Rightarrow> client_request" where
  "api_delete path body = \<lparr>req_method = DELETE, req_path = path, req_query = Obj [], req_data = body\<rparr>"

subsection \<open>Payment batches\<close>

definition paymentBatch_get_request :: "js \<Rightarrow> js \<Rightarrow> js \<Rightarrow> client_request" where
  "paymentBatch_get_request page sz filters =
     api_get ''/api/payment-batch'' (js_spread [(''page'', page), (''limit'', sz)] filters)"

definition paymentBatch_get_result :: "axios_outcome \<Rightarrow> string + js" where
  "paymentBatch_get_result = service_result ''Failed to fetch payment batches''"

definition paymentBatch_create_request :: "js \<Rightarrow> client_request" where
  "paymentBatch_create_request body = api_post ''/api/payment-batch'' body"

definition paymentBatch_create_result :: "axios_outcome \<Rightarrow> string + js" where
  "paymentBatch_create_result = service_result ''Failed to create payment batch''"

definition paymentBatch_getById_request :: "js \<Rightarrow> client_request" where
  "paymentBatch_getById_request batchId = api_get (''/api/payment-batch/'' @ js_to_string batchId) []"

definition paymentBatch_getById_result :: "axios_outcome \<Rightarrow> string + js" where
  "paymentBatch_getById_result = service_result ''Failed to fetch batch details''"

definition paymentBatch_approve_request :: "js \<Rightarrow> js \<Rightarrow> client_request" where
  "paymentBatch_approve_request batchId approvalData =
     api_post (''/api/payment-batch/'' @ js_to_string batchId @ ''/approve'') (default_arg approvalData (Obj []))"

definition paymentBatch_approve_result :: "axios_outcome \<Rightarrow> string + js" where
  "paymentBatch_approve_result = service_result ''Failed to approve payment batch''"

definition paymentBatch_delete_request :: "js \<Rightarrow> js \<Rightarrow> client_request" where
  "paymentBatch_delete_request batchId reason =
     api_delete (''/api/payment-batch/'' @ js_to_string batchId) (Obj [(''reason'', reason)])"

definition paymentBatch_delete_result :: "axios_outcome \<Rightarrow> string + js" where
  "paymentBatch_delete_result = service_result ''Failed to delete payment batch''"

subsection \<open>Manual payments\<close>

definition manualPayment_get_request :: "js \<Rightarrow> js \<Rightarrow> js \<Rightarrow> js \<Rightarrow> client_request" where
  "manualPayment_get_request page sz sortBy orderBy =
     api_get ''/api/payments/manual'' [(''page'', page), (''limit'', sz), (''sortBy'', sortBy), (''orderBy'', orderBy)]"

definition manualPayment_get_result :: "axios_outcome \<Rightarrow> string + js" where
  "manualPayment_get_result = service_result ''Failed to fetch manual payments''"

definition manualPayment_create_request :: "js \<Rightarrow> client_request" where
  "manualPayment_create_request body = api_post ''/api/payments/manual'' body"

text \<open>\<^verbatim>\<open>errors?.[0]?.message\<close>.\<close>

definition first_error_message :: "js \<Rightarrow> js" where
  "first_error_message errs = js_get (js_elem errs 0) ''message''"

text \<open>\<^verbatim>\<open>create\<close> resolves with \<^verbatim>\<open>{success: false, error, errors}\<close> when the error
  answer says \<^verbatim>\<open>success === false\<close>, and throws otherwise.\<close>

definition manual_create_fallback :: string where
  "manual_create_fallback = ''Failed to create manual payment''"

fun manualPayment_create_result :: "axios_outcome \<Rightarrow> string + js" where
  "manualPayment_create_result (Ok d) = Inr d"
| "manualPayment_create_result (HttpError n d) =
     (let msg = js_or (js_or (first_error_message (js_get d ''errors'')) (js_get d ''message'')) (Str manual_create_fallback)
      in if truthy d \<and> js_get d ''success'' = Bool False
         then Inr (Obj [(''success'', Bool False), (''error'', msg),
                        (''errors'', js_or (js_get d ''errors'') (Arr []))])
         else Inl (js_to_string msg))"
| "manualPayment_create_result NetworkError = Inl manual_create_fallback"

definition manualPayment_getById_request :: "js \<Rightarrow> client_request" where
  "manualPayment_getById_request i = api_get (''/api/payments/manual/'' @ js_to_string i) []"

definition manualPayment_getById_result :: "axios_outcome \<Rightarrow> string + js" where
  "manualPayment_getById_result = service_result ''Failed to fetch payment details''"

subsection \<open>Lemmas\<close>

lemma service_result_error:
  "\<not> truthy (js_get d ''message'') \<Longrightarrow> service_result fallback (HttpError n d) = Inl fallback"
  by simp

lemma map_of_foldl_kv_put:
  "map_of (foldl (\<lambda>acc (k, x). kv_put acc k x) base kvs) = map_of base ++ map_of (rev kvs)"
proof (induction kvs arbitrary: base)
  case (Cons p kvs)
  then show ?case by (cases p) (simp add: map_of_kv_put map_add_def fun_eq_iff map_of_append split: option.splits)
qed simp

text \<open>A filter named \<^verbatim>\<open>page\<close> or \<^verbatim>\<open>limit\<close> overrides the argument: the spread comes
  last, and of two equal keys the later wins.\<close>

lemma js_spread_lookup:
  "map_of (js_spread base (Obj kvs)) = map_of base ++ map_of (rev kvs)"
  by (simp add: js_spread_def map_of_foldl_kv_put)

end
