(* ===== verification/Tables.thy ===== *)
theory Tables
  imports Prelude "HOL-Library.Sublist"
begin

text \<open>
  The paginated tables of the client: \<^verbatim>\<open>components/table/ClientPaginatedTable.jsx\<close>,
  which filters and pages a list it holds, and \<^verbatim>\<open>components/table/PaginatedTable.jsx\<close>,
  which shows a page the server chose and asks for others. Both compute the list of page
  buttons with the same loop, \<^verbatim>\<open>getPageNumbers\<close>. The client-side table's state (its
  three \<^verbatim>\<open>useState\<close> hooks and the data it is given) is a record, its handlers are
  steps of an inductive relation.
\<close>

subsection \<open>Page buttons\<close>

datatype page_item = PageNum int | Ellipsis

text \<open>The condition of the loop: the first and last page and the pages within
  \<open>delta\<close> of the current one get a button.\<close>

definition page_shown :: "int \<Rightarrow> int \<Rightarrow> int \<Rightarrow> int \<Rightarrow> bool" where
  "page_shown delta current tot i \<longleftrightarrow>
     i = 1 \<or> i = tot \<or> (current - delta \<le> i \<and> i \<le> current + delta)"

text \<open>\<^verbatim>\<open>pages.push(i)\<close>, or \<^verbatim>\<open>pages.push("...")\<close> unless the last entry is
  already \<^verbatim>\<open>"..."\<close> (on an empty list the read is \<open>undefined\<close> and the push happens).\<close>

definition push_page :: "int \<Rightarrow> int \<Rightarrow> int \<Rightarrow> page_item list \<Rightarrow> int \<Rightarrow> page_item list" where
  "push_page delta current tot pages i =
     (if page_shown delta current tot i then pages @ [PageNum i]
      else if pages \<noteq> [] \<and> last pages = Ellipsis then pages else pages @ [Ellipsis])"

text \<open>\<^verbatim>\<open>for (let i = 1; i <= total; i++)\<close>, from \<open>i\<close> on.\<close>

function page_loop :: "int \<Rightarrow> int \<Rightarrow> int \<Rightarrow> int \<Rightarrow> page_item list \<Rightarrow> page_item list" where
  "page_loop delta current tot i pages =
     (if i \<le> tot then page_loop delta current tot (i + 1) (push_page delta current tot pages i)
      else pages)"
  by pat_completeness auto
termination
  by (relation "measure (\<lambda>(delta, current, tot, i, pages). nat (tot + 1 - i))") auto

declare page_loop.simps [simp del]

definition getPageNumbers :: "int \<Rightarrow> int \<Rightarrow> int \<Rightarrow> page_item list" where
  "getPageNumbers delta current tot = page_loop delta current tot 1 []"

text \<open>The reference: one entry per page, a button or a gap, with each run of gaps shown
  as one ellipsis.\<close>

definition page_items_ref :: "int \<Rightarrow> int \<Rightarrow> int \<Rightarrow> page_item list" where
  "page_items_ref delta current tot =
     remdups_adj (map (\<lambda>i. if page_shown delta current tot i then PageNum i else Ellipsis) [1..tot])"


subsection \<open>The client-side table\<close>

text \<open>The props that do not change while the table is shown.\<close>

record table_props =
  searchable :: bool
  searchKeys :: "string list"
  initialPageSize :: int
  pageSizeOptions :: "int list"

text \<open>The state: the \<^verbatim>\<open>data\<close> prop, the three \<^verbatim>\<open>useState\<close> hooks, and whether the
  effect \<^verbatim>\<open>useEffect(() => setCurrentPage(1), [data])\<close> is still to run after a render
  with new data.\<close>

record ctable =
  tdata :: "js list"
  currentPage :: int
  pageSize :: int
  searchTerm :: string
  reset_pending :: bool

definition initial_table :: "table_props \<Rightarrow> js list \<Rightarrow> ctable" where
  "initial_table pr d =
     \<lparr>tdata = d, currentPage = 1, pageSize = initialPageSize pr, searchTerm = [], reset_pending = False\<rparr>"

text \<open>The search: some key whose value is not \<open>null\<close> or \<open>undefined\<close> contains the term,
  both lower-cased.\<close>

definition item_matches :: "string \<Rightarrow> string list \<Rightarrow> js \<Rightarrow> bool" where
  "item_matches term keys item =
     list_ex (\<lambda>k. \<not> nullish (js_get item k) \<and> sublist (js_lower term) (js_lower (js_to_string (js_get item k)))) keys"

definition filteredData :: "table_props \<Rightarrow> ctable \<Rightarrow> js list" where
  "filteredData pr st =
     (if searchTerm st = [] \<or> \<not> searchable pr \<or> searchKeys pr = [] then tdata st
      else filter (item_matches (searchTerm st) (searchKeys pr)) (tdata st))"

text \<open>\<^verbatim>\<open>Math.ceil(totalItems / pageSize)\<close> for a positive page size.\<close>

definition ceil_div :: "int \<Rightarrow> int \<Rightarrow> int" where
  "ceil_div n d = - ((- n) div d)"

definition pageCount :: "table_props \<Rightarrow> ctable \<Rightarrow> int" where
  "pageCount pr st = ceil_div (int (length (filteredData pr st))) (pageSize st)"

text \<open>\<^verbatim>\<open>filteredData.slice(startIndex, startIndex + pageSize)\<close>.\<close>

definition paginatedData :: "table_props \<Rightarrow> ctable \<Rightarrow> js list" where
  "paginatedData pr st =
     take (nat (pageSize st)) (drop (nat ((currentPage st - 1) * pageSize st)) (filteredData pr st))"

datatype table_event =
    PageChange int | PageSizeChange int | SearchChange string | DataChange "js list"
  | DataEffect | PreviousPage | NextPage

definition handlePageChange :: "table_props \<Rightarrow> int \<Rightarrow> ctable \<Rightarrow> ctable" where
  "handlePageChange pr n st = (if 1 \<le> n \<and> n \<le> pageCount pr st then st\<lparr>currentPage := n\<rparr> else st)"

fun table_step :: "table_props \<Rightarrow> table_event \<Rightarrow> ctable \<Rightarrow> ctable" where
  "table_step pr (PageChange n) st = handlePageChange pr n st"
| "table_step pr (PageSizeChange n) st = st\<lparr>pageSize := n, currentPage := 1\<rparr>"
| "table_step pr (SearchChange s) st = st\<lparr>searchTerm := s, currentPage := 1\<rparr>"
| "table_step pr (DataChange d) st = st\<lparr>tdata := d, reset_pending := True\<rparr>"
| "table_step pr DataEffect st = (if reset_pending st then st\<lparr>currentPage := 1, reset_pending := False\<rparr> else st)"
| "table_step pr PreviousPage st =
     (if 1 < currentPage st then handlePageChange pr (currentPage st - 1) st else st)"
| "table_step pr NextPage st =
     (if currentPage st < pageCount pr st then handlePageChange pr (currentPage st + 1) st else st)"

text \<open>The page-size select offers only the options.\<close>

fun event_offered :: "table_props \<Rightarrow> table_event \<Rightarrow> bool" where
  "event_offered pr (PageSizeChange n) = (n \<in> set (pageSizeOptions pr))"
| "event_offered pr _ = True"

inductive table_reach :: "table_props \<Rightarrow> ctable \<Rightarrow> bool" for pr where
  init: "table_reach pr (initial_table pr d)"
| step: "table_reach pr st \<Longrightarrow> event_offered pr ev \<Longrightarrow> table_reach pr (table_step pr ev st)"

text \<open>The defaults: an initial size of 10 and the options 10, 25, 50, 100.\<close>

definition props_ok :: "table_props \<Rightarrow> bool" where
  "props_ok pr \<longleftrightarrow> 0 < initialPageSize pr \<and> list_all (\<lambda>n. 0 < n) (pageSizeOptions pr)"

definition table_inv :: "table_props \<Rightarrow> ctable \<Rightarrow> bool" where
  "table_inv pr st \<longleftrightarrow> 0 < pageSize st \<and> 1 \<le> currentPage st
     \<and> (reset_pending st \<or> currentPage st = 1 \<or> currentPage st \<le> pageCount pr st)"


text \<open>The defaults of the component's props, without search.\<close>

definition default_props :: table_props where
  "default_props = \<lparr>searchable = False, searchKeys = [], initialPageSize = 10, pageSizeOptions = [10, 25, 50, 100]\<rparr>"

subsection \<open>The server-paged table\<close>

text \<open>The \<^verbatim>\<open>pagination\<close> prop of \<^verbatim>\<open>PaginatedTable\<close>, as the server sent it.\<close>

record server_pagination =
  sp_page :: int
  sp_pageSize :: int
  sp_pageCount :: int
  sp_itemCount :: int

definition pt_getPageNumbers :: "bool \<Rightarrow> server_pagination option \<Rightarrow> page_item list" where
  "pt_getPageNumbers compactMode pg =
     (case pg of None \<Rightarrow> []
      | Some p \<Rightarrow> getPageNumbers (if compactMode then 1 else 2) (sp_page p) (sp_pageCount p))"

datatype pt_event = PtFirst | PtPrevious | PtButton page_item | PtNext | PtLast

text \<open>The page each control asks for with \<^verbatim>\<open>onPageChange\<close>, if any:
  \<^verbatim>\<open>handleFirstPage\<close>, \<^verbatim>\<open>handlePreviousPage\<close>, a page button
  (\<^verbatim>\<open>!loading && onPageChange(pageNum)\<close>; an ellipsis is not a button),
  \<^verbatim>\<open>handleNextPage\<close>, \<^verbatim>\<open>handleLastPage\<close>.\<close>

fun pt_request :: "server_pagination \<Rightarrow> bool \<Rightarrow> pt_event \<Rightarrow> int option" where
  "pt_request p loading PtFirst = (if 1 < sp_page p \<and> \<not> loading then Some 1 else None)"
| "pt_request p loading PtPrevious = (if 1 < sp_page p \<and> \<not> loading then Some (sp_page p - 1) else None)"
| "pt_request p loading (PtButton (PageNum n)) = (if \<not> loading then Some n else None)"
| "pt_request p loading (PtButton Ellipsis) = None"
| "pt_request p loading PtNext = (if sp_page p < sp_pageCount p \<and> \<not> loading then Some (sp_page p + 1) else None)"
| "pt_request p loading PtLast = (if sp_page p < sp_pageCount p \<and> \<not> loading then Some (sp_pageCount p) else None)"

text \<open>The controls on screen: none for a single page; the first and last buttons with
  \<^verbatim>\<open>showFirstLast\<close> beyond five pages; one button per entry of the page list.\<close>

fun pt_offered :: "bool \<Rightarrow> bool \<Rightarrow> server_pagination \<Rightarrow> pt_event \<Rightarrow> bool" where
  "pt_offered compactMode showFirstLast p PtFirst = (1 < sp_pageCount p \<and> showFirstLast \<and> 5 < sp_pageCount p)"
| "pt_offered compactMode showFirstLast p PtLast = (1 < sp_pageCount p \<and> showFirstLast \<and> 5 < sp_pageCount p)"
| "pt_offered compactMode showFirstLast p (PtButton it) =
     (1 < sp_pageCount p \<and> it \<in> set (pt_getPageNumbers compactMode (Some p)))"
| "pt_offered compactMode showFirstLast p _ = (1 < sp_pageCount p)"

text \<open>The range shown as \<^verbatim>\<open>Showing a to b of n\<close>: \<^verbatim>\<open>PaginatedTable\<close> bounds both
  ends by the item count, \<^verbatim>\<open>ClientPaginatedTable\<close> only the second.\<close>

definition pt_range :: "server_pagination \<Rightarrow> int \<times> int" where
  "pt_range p = (min ((sp_page p - 1) * sp_pageSize p + 1) (sp_itemCount p),
                 min (sp_page p * sp_pageSize p) (sp_itemCount p))"

definition ct_range :: "table_props \<Rightarrow> ctable \<Rightarrow> int \<times> int" where
  "ct_range pr st = ((currentPage st - 1) * pageSize st + 1,
                     min (currentPage st * pageSize st) (int (length (filteredData pr st))))"

subsection \<open>Lemmas on page buttons\<close>

definition page_item_of :: "int \<Rightarrow> int \<Rightarrow> int \<Rightarrow> int \<Rightarrow> page_item" where
  "page_item_of delta current tot i = (if page_shown delta current tot i then PageNum i else Ellipsis)"

lemma remdups_adj_snoc:
  "remdups_adj (xs @ [x]) = (if xs \<noteq> [] \<and> last xs = x then remdups_adj xs else remdups_adj xs @ [x])"
proof (cases xs rule: rev_cases)
  case (snoc ys y)
  then show ?thesis using remdups_adj_append_two [of ys y x] by simp
qed simp

lemma last_page_items:
  "1 < i \<Longrightarrow> last (map (page_item_of delta current tot) [1..i - 1]) \<in> {PageNum (i - 1), Ellipsis}"
  using upto_rec2 [of 1 "i - 1"] by (simp add: page_item_of_def last_map)

lemma push_page_ref:
  assumes "1 \<le> i"
  shows "push_page delta current tot (remdups_adj (map (page_item_of delta current tot) [1..i - 1])) i =
         remdups_adj (map (page_item_of delta current tot) [1..i])"
proof -
  let ?xs = "map (page_item_of delta current tot) [1..i - 1]"
  have split: "[1..i] = [1..i - 1] @ [i]" using assms by (simp add: upto_rec2)
  have last: "?xs \<noteq> [] \<Longrightarrow> last ?xs \<noteq> PageNum i"
    using last_page_items [of i delta current tot] by (cases "1 < i") auto
  show ?thesis
    using last by (auto simp: split push_page_def remdups_adj_snoc last_remdups_adj page_item_of_def)
qed

lemma page_loop_ref_aux:
  "nat (tot + 1 - i) = k \<Longrightarrow> 1 \<le> i \<Longrightarrow> i \<le> tot + 1 \<Longrightarrow>
   page_loop delta current tot i (remdups_adj (map (page_item_of delta current tot) [1..i - 1])) =
   remdups_adj (map (page_item_of delta current tot) [1..tot])"
proof (induction k arbitrary: i)
  case 0
  then have "i = tot + 1" by simp
  then show ?case by (subst page_loop.simps) simp
next
  case (Suc k)
  then have i: "i \<le> tot" "nat (tot + 1 - (i + 1)) = k" by simp_all
  with Suc.prems Suc.IH [of "i + 1"] show ?case
    by (subst page_loop.simps) (simp add: push_page_ref)
qed

lemma page_loop_ref:
  "1 \<le> i \<Longrightarrow> i \<le> tot + 1 \<Longrightarrow>
   page_loop delta current tot i (remdups_adj (map (page_item_of delta current tot) [1..i - 1])) =
   remdups_adj (map (page_item_of delta current tot) [1..tot])"
  using page_loop_ref_aux by blast

lemma set_page_items_ref:
  "set (page_items_ref delta current tot) = page_item_of delta current tot ` {1..tot}"
  by (simp add: page_items_ref_def page_item_of_def [symmetric])


lemma remdups_adj_Cons_length: "length (remdups_adj ys) \<le> length (remdups_adj (x # ys))"
  by (simp add: remdups_adj_Cons split: list.split)

lemma remdups_adj_dropWhile_length:
  "length (remdups_adj (dropWhile P ys)) \<le> length (remdups_adj ys)"
proof (induction ys)
  case (Cons y ys)
  show ?case
  proof (cases "P y")
    case True
    then show ?thesis using Cons.IH remdups_adj_Cons_length [of ys y] by simp
  next
    case False
    then show ?thesis by simp
  qed
qed simp

lemma remdups_adj_append_length:
  "length (remdups_adj (xs @ ys)) \<le> length (remdups_adj xs) + length (remdups_adj ys)"
proof (cases "xs = []")
  case False
  then show ?thesis
    using remdups_adj_append'' [OF False, of ys] remdups_adj_dropWhile_length [of "\<lambda>y. y = last xs" ys]
    by simp
qed simp

lemma remdups_adj_gaps:
  "\<forall>i \<in> set xs. f i = Ellipsis \<Longrightarrow> length (remdups_adj (map f xs)) \<le> 1"
proof -
  assume "\<forall>i \<in> set xs. f i = Ellipsis"
  then have "map f xs = replicate (length xs) Ellipsis"
    by (simp add: map_replicate_const [symmetric] cong: map_cong)
  then show ?thesis by (simp add: remdups_adj_replicate)
qed

lemma upto_split_gen: "i \<le> j \<Longrightarrow> j \<le> k + 1 \<Longrightarrow> [i..k] = [i..j - 1] @ [j..k]"
  by (cases "j = k + 1") (simp_all add: upto_split1)



lemma page_items_length:
  assumes "0 \<le> delta"
  shows "length (page_items_ref delta current tot) \<le> nat (2 * delta + 5)"
proof (cases "2 \<le> tot")
  case False
  then have "length [1..tot] \<le> 1" by simp
  then show ?thesis
    using remdups_adj_length [of "map (page_item_of delta current tot) [1..tot]"] assms
    by (simp add: page_items_ref_def page_item_of_def [symmetric])
next
  case True
  let ?f = "page_item_of delta current tot"
  define a where "a = min tot (max 2 (current - delta))"
  define b where "b = max (a - 1) (min (tot - 1) (current + delta))"
  have ab: "2 \<le> a" "a \<le> tot" "a - 1 \<le> b" "b \<le> tot - 1" using True by (auto simp: a_def b_def)
  have split: "[1..tot] = [1] @ [2..a - 1] @ [a..b] @ [b + 1..tot - 1] @ [tot]"
  proof -
    have "[1..tot] = [1..1] @ [2..tot]" using upto_split_gen [of 1 2 tot] True by simp
    moreover have "[2..tot] = [2..a - 1] @ [a..tot]" using upto_split_gen [of 2 a tot] ab by simp
    moreover have "[a..tot] = [a..b] @ [b + 1..tot]" using upto_split_gen [of a "b + 1" tot] ab by simp
    moreover have "[b + 1..tot] = [b + 1..tot - 1] @ [tot]" using upto_split_gen [of "b + 1" tot tot] ab by simp
    ultimately show ?thesis by simp
  qed
  have left: "\<forall>i \<in> set [2..a - 1]. ?f i = Ellipsis"
  proof
    fix i assume "i \<in> set [2..a - 1]"
    then have i: "2 \<le> i" "i \<le> a - 1" by simp_all
    have "a \<le> max 2 (current - delta)" by (simp add: a_def)
    then have "i < current - delta" "i < tot" using i ab by (auto simp: max_def split: if_splits)
    with i show "?f i = Ellipsis" by (simp add: page_item_of_def page_shown_def)
  qed
  have right: "\<forall>i \<in> set [b + 1..tot - 1]. ?f i = Ellipsis"
  proof
    fix i assume "i \<in> set [b + 1..tot - 1]"
    then have i: "b + 1 \<le> i" "i \<le> tot - 1" by simp_all
    then have "current + delta < i" "1 < i" using ab by (auto simp: b_def max_def min_def split: if_splits)
    with i show "?f i = Ellipsis" by (simp add: page_item_of_def page_shown_def)
  qed
  have mid: "length (remdups_adj (map ?f [a..b])) \<le> nat (2 * delta + 1)"
  proof -
    have c1: "b \<le> current + delta \<or> b = a - 1" by (auto simp: b_def max_def min_def)
    have c2: "current - delta \<le> a \<or> a = tot" by (auto simp: a_def max_def min_def)
    have "nat (b - a + 1) \<le> nat (2 * delta + 1)" using c1 c2 ab assms by auto
    then show ?thesis using remdups_adj_length [of "map ?f [a..b]"] by simp
  qed
  let ?A = "map ?f [1]" and ?B = "map ?f [2..a - 1]" and ?C = "map ?f [a..b]"
    and ?D = "map ?f [b + 1..tot - 1]" and ?E = "map ?f [tot]"
  have "length (remdups_adj (?A @ ?B @ ?C @ ?D @ ?E)) \<le>
        length (remdups_adj ?A) + (length (remdups_adj ?B) + (length (remdups_adj ?C)
          + (length (remdups_adj ?D) + length (remdups_adj ?E))))"
    using remdups_adj_append_length [of ?A "?B @ ?C @ ?D @ ?E"] remdups_adj_append_length [of ?B "?C @ ?D @ ?E"]
      remdups_adj_append_length [of ?C "?D @ ?E"] remdups_adj_append_length [of ?D ?E]
    by linarith
  then have "length (remdups_adj (map ?f [1..tot])) \<le>
        1 + length (remdups_adj ?B) + length (remdups_adj ?C) + length (remdups_adj ?D) + 1"
    unfolding split map_append by simp
  with remdups_adj_gaps [OF left] remdups_adj_gaps [OF right] mid assms show ?thesis
    by (simp add: page_items_ref_def page_item_of_def [symmetric])
qed


lemma getPageNumbers_eq: "getPageNumbers delta current tot = page_items_ref delta current tot"
proof (cases "0 \<le> tot")
  case True
  then show ?thesis
    using page_loop_ref [of 1 tot delta current]
    by (simp add: getPageNumbers_def page_items_ref_def page_item_of_def [symmetric])
next
  case False
  then show ?thesis
    by (simp add: getPageNumbers_def page_items_ref_def page_loop.simps)
qed

lemma getPageNumbers_set:
  "set (getPageNumbers delta current tot) = page_item_of delta current tot ` {1..tot}"
  by (simp add: getPageNumbers_eq set_page_items_ref)

lemma PageNum_in_getPageNumbers:
  "PageNum i \<in> set (getPageNumbers delta current tot) \<longleftrightarrow> 1 \<le> i \<and> i \<le> tot \<and> page_shown delta current tot i"
  by (auto simp: getPageNumbers_set page_item_of_def split: if_splits)

lemma ceil_div_page:
  assumes d: "0 < d" and p: "p \<le> ceil_div n d"
  shows "(p - 1) * d < n"
proof -
  have q: "(- n) div d + 1 \<le> 1 - p" using p by (simp add: ceil_div_def)
  have "- n < (- n) div d * d + d"
    using div_mult_mod_eq [of "- n" d] pos_mod_bound [OF d, of "- n"] by linarith
  also have "\<dots> = ((- n) div d + 1) * d" by (simp add: algebra_simps)
  also have "\<dots> \<le> (1 - p) * d" using q d by (simp add: mult_right_mono)
  finally show ?thesis by (simp add: algebra_simps)
qed

subsection \<open>Lemmas on the client-side table\<close>

lemma handlePageChange_inv:
  "table_inv pr st \<Longrightarrow> table_inv pr (handlePageChange pr n st)"
  by (auto simp: handlePageChange_def table_inv_def pageCount_def filteredData_def)

lemma table_step_inv:
  assumes "props_ok pr" "event_offered pr ev" "table_inv pr st"
  shows "table_inv pr (table_step pr ev st)"
proof (cases ev)
  case (PageSizeChange n)
  then show ?thesis using assms by (auto simp: table_inv_def props_ok_def list_all_iff)
next
  case (PageChange n)
  then show ?thesis using assms(3) by (simp add: handlePageChange_inv)
next
  case PreviousPage
  then show ?thesis using assms(3) by (simp add: handlePageChange_inv)
next
  case NextPage
  then show ?thesis using assms(3) by (simp add: handlePageChange_inv)
next
  case (SearchChange t)
  then show ?thesis using assms(3) by (simp add: table_inv_def)
next
  case (DataChange d)
  then show ?thesis using assms(3) by (simp add: table_inv_def)
next
  case DataEffect
  then show ?thesis using assms(3) by (auto simp: table_inv_def)
qed

lemma table_reach_inv:
  "table_reach pr st \<Longrightarrow> props_ok pr \<Longrightarrow> table_inv pr st"
proof (induction rule: table_reach.induct)
  case (init d)
  then show ?case by (simp add: initial_table_def table_inv_def props_ok_def)
next
  case (step st ev)
  then show ?case using table_step_inv by blast
qed

text \<open>In a settled state the page starts before the end of the filtered list.\<close>

lemma table_inv_start:
  "table_inv pr st \<Longrightarrow> \<not> reset_pending st \<Longrightarrow> filteredData pr st \<noteq> [] \<Longrightarrow>
   (currentPage st - 1) * pageSize st < int (length (filteredData pr st))"
  using ceil_div_page [of "pageSize st" "currentPage st" "int (length (filteredData pr st))"]
  by (auto simp: table_inv_def pageCount_def)


subsection \<open>Properties\<close>

text \<open>C17: The loop of \<^verbatim>\<open>getPageNumbers\<close> computes the reference list: one entry per page,
  a button for a shown page and an ellipsis for each run of hidden ones; no two
  neighbouring entries are equal (in particular no two ellipses are adjacent).\<close>

theorem getPageNumbers_equiv:
  "getPageNumbers delta current tot = page_items_ref delta current tot
   \<and> distinct_adj (getPageNumbers delta current tot)"
  by (simp add: getPageNumbers_eq page_items_ref_def)

text \<open>C37: The page list has at most \<open>2 * delta + 5\<close> entries: nine for the default
  \<open>delta\<close> of 2, seven in compact mode, however many pages there are.\<close>

theorem page_buttons_bound:
  "0 \<le> delta \<Longrightarrow> length (getPageNumbers delta current tot) \<le> nat (2 * delta + 5)"
  by (simp add: getPageNumbers_eq page_items_length)

theorem page_buttons_bound_witness:
  "(0::int) \<le> 2 \<and> length (getPageNumbers 2 50 100) \<le> nat (2 * 2 + 5)"
  using page_buttons_bound [of 2 50 100] by simp

text \<open>Every page a control of \<^verbatim>\<open>PaginatedTable\<close> on screen asks for lies between 1
  and the page count, when the server's current page does.\<close>

theorem pt_requests_in_range:
  assumes "pt_offered compactMode showFirstLast p ev" and "pt_request p loading ev = Some n"
    and "1 \<le> sp_page p" and "sp_page p \<le> sp_pageCount p"
  shows "1 \<le> n \<and> n \<le> sp_pageCount p"
  using assms
proof (cases ev)
  case (PtButton it)
  then show ?thesis
    using assms by (cases it) (auto simp: pt_getPageNumbers_def PageNum_in_getPageNumbers split: if_splits)
qed (auto split: if_splits)

theorem pt_requests_in_range_witness:
  "pt_offered False True \<lparr>sp_page = 3, sp_pageSize = 10, sp_pageCount = 8, sp_itemCount = 75\<rparr> PtLast
   \<and> pt_request \<lparr>sp_page = 3, sp_pageSize = 10, sp_pageCount = 8, sp_itemCount = 75\<rparr> False PtLast = Some 8
   \<and> 1 \<le> sp_page \<lparr>sp_page = 3, sp_pageSize = 10, sp_pageCount = 8, sp_itemCount = 75\<rparr>
   \<and> sp_page \<lparr>sp_page = 3, sp_pageSize = 10, sp_pageCount = 8, sp_itemCount = 75\<rparr>
       \<le> sp_pageCount \<lparr>sp_page = 3, sp_pageSize = 10, sp_pageCount = 8, sp_itemCount = 75\<rparr>
   \<and> 1 \<le> (8::int) \<and> 8 \<le> sp_pageCount \<lparr>sp_page = 3, sp_pageSize = 10, sp_pageCount = 8, sp_itemCount = 75\<rparr>"
  using pt_requests_in_range [of False True "\<lparr>sp_page = 3, sp_pageSize = 10, sp_pageCount = 8, sp_itemCount = 75\<rparr>"
      PtLast False 8]
  by simp

text \<open>C18: In every state the client-side table reaches by its handlers, once the reset
  effect has run: when some item passes the search, the current page shows at least one
  item and the \<^verbatim>\<open>Showing a to b\<close> range is not empty.\<close>

theorem table_page_nonempty:
  assumes "props_ok pr" and "table_reach pr st" and "\<not> reset_pending st" and "filteredData pr st \<noteq> []"
  shows "paginatedData pr st \<noteq> [] \<and> 1 \<le> fst (ct_range pr st) \<and> fst (ct_range pr st) \<le> snd (ct_range pr st)"
proof -
  have inv: "table_inv pr st" using table_reach_inv assms(1,2) by blast
  then have ps: "0 < pageSize st" "1 \<le> currentPage st" by (simp_all add: table_inv_def)
  have start: "(currentPage st - 1) * pageSize st < int (length (filteredData pr st))"
    using table_inv_start inv assms(3,4) by blast
  have "0 \<le> (currentPage st - 1) * pageSize st" using ps by simp
  then have "nat ((currentPage st - 1) * pageSize st) < length (filteredData pr st)"
    using start by (simp add: nat_less_iff)
  then have "paginatedData pr st \<noteq> []"
    using ps by (simp add: paginatedData_def)
  moreover have "(currentPage st - 1) * pageSize st + 1 \<le> currentPage st * pageSize st"
    using ps by (simp add: algebra_simps)
  ultimately show ?thesis using start ps
    by (simp add: ct_range_def mult_nonneg_nonneg)
qed

theorem table_page_nonempty_witness:
  "props_ok default_props \<and> table_reach default_props (initial_table default_props [Obj []])
   \<and> \<not> reset_pending (initial_table default_props [Obj []])
   \<and> filteredData default_props (initial_table default_props [Obj []]) \<noteq> []
   \<and> paginatedData default_props (initial_table default_props [Obj []]) \<noteq> []
   \<and> 1 \<le> fst (ct_range default_props (initial_table default_props [Obj []]))
   \<and> fst (ct_range default_props (initial_table default_props [Obj []]))
       \<le> snd (ct_range default_props (initial_table default_props [Obj []]))"
proof -
  have ok: "props_ok default_props" by (simp add: props_ok_def default_props_def)
  have r: "table_reach default_props (initial_table default_props [Obj []])" by (rule table_reach.init)
  have "\<not> reset_pending (initial_table default_props [Obj []])"
    "filteredData default_props (initial_table default_props [Obj []]) \<noteq> []"
    by (simp_all add: initial_table_def filteredData_def)
  then show ?thesis using table_page_nonempty [OF ok r] ok r by simp
qed


text \<open>The reset to page 1 after new data runs as an effect, after a render with the new
  data and the old page: on page 2 of eleven items, receiving a single item renders one
  frame with no row and the range \<^verbatim>\<open>Showing 11 to 1 of 1\<close>.\<close>

theorem table_stale_render:
  "table_reach default_props
     (table_step default_props (DataChange [Obj []])
        (table_step default_props NextPage (initial_table default_props (replicate 11 (Obj [])))))
   \<and> filteredData default_props
        (table_step default_props (DataChange [Obj []])
          (table_step default_props NextPage (initial_table default_props (replicate 11 (Obj []))))) \<noteq> []
   \<and> paginatedData default_props
        (table_step default_props (DataChange [Obj []])
          (table_step default_props NextPage (initial_table default_props (replicate 11 (Obj []))))) = []
   \<and> ct_range default_props
        (table_step default_props (DataChange [Obj []])
          (table_step default_props NextPage (initial_table default_props (replicate 11 (Obj []))))) = (11, 1)"
proof -
  have r: "table_reach default_props
     (table_step default_props (DataChange [Obj []])
        (table_step default_props NextPage (initial_table default_props (replicate 11 (Obj [])))))"
    by (intro table_reach.step table_reach.init) simp_all
  have st: "table_step default_props (DataChange [Obj []])
        (table_step default_props NextPage (initial_table default_props (replicate 11 (Obj []))))
      = \<lparr>tdata = [Obj []], currentPage = 2, pageSize = 10, searchTerm = [], reset_pending = True\<rparr>"
    by (simp add: initial_table_def default_props_def handlePageChange_def pageCount_def filteredData_def
        ceil_div_def)
  show ?thesis using r unfolding st
    by (simp add: paginatedData_def filteredData_def ct_range_def default_props_def)
qed

end
