(* ===== verification/ClientUtils.thy ===== *)
theory ClientUtils
  imports Complex_Main Prelude
begin

text \<open>
  The helpers of the client's \<^verbatim>\<open>src/client/src/utils/index.js\<close> that do not read the
  clock (the date formatters need \<^verbatim>\<open>new Date()\<close> and are not modelled), and the
  JavaScript number conversions the payment form relies on: \<^verbatim>\<open>parseFloat\<close>, the
  coercion \<^verbatim>\<open>Number(s)\<close> of a string and \<^verbatim>\<open>toFixed(2)\<close>. Numbers are exact
  rationals: decimal literals without exponent, and rounding to cents half away from
  zero (the binary rounding of a double at an exact tie is not modelled).
\<close>

subsection \<open>Numbers\<close>

text \<open>A decimal literal at the start of a string: an optional sign, digits, and an
  optional fraction; at least one digit. The value and the rest of the string.\<close>

definition unsigned_decimal :: "string \<Rightarrow> (rat \<times> string) option" where
  "unsigned_decimal s =
     (let ip = takeWhile is_digit s; r = dropWhile is_digit s;
          fp = (case r of c # r' \<Rightarrow> if c = CHR ''.'' then takeWhile is_digit r' else [] | [] \<Rightarrow> []);
          rest = (case r of c # r' \<Rightarrow> if c = CHR ''.'' then dropWhile is_digit r' else r | [] \<Rightarrow> r)
      in if ip = [] \<and> fp = [] then None
         else Some (of_nat (digits_val ip) + of_nat (digits_val fp) / 10 ^ length fp, rest))"

definition decimal_prefix :: "string \<Rightarrow> (rat \<times> string) option" where
  "decimal_prefix s =
     (case s of
        c # r \<Rightarrow> if c = CHR ''-'' then map_option (\<lambda>(v, t). (- v, t)) (unsigned_decimal r)
                else if c = CHR ''+'' then unsigned_decimal r else unsigned_decimal s
      | [] \<Rightarrow> None)"

text \<open>\<^verbatim>\<open>parseFloat(s)\<close>: the longest decimal prefix after leading blanks; \<open>None\<close> is
  \<open>NaN\<close>.\<close>

definition parseFloat :: "string \<Rightarrow> rat option" where
  "parseFloat s = map_option fst (decimal_prefix (dropWhile js_space s))"

text \<open>\<^verbatim>\<open>Number(s)\<close>: the whole trimmed string must be a decimal; the empty string
  is 0.\<close>

definition str_to_number :: "string \<Rightarrow> rat option" where
  "str_to_number s =
     (let t = js_trim s in
      if t = [] then Some 0
      else case decimal_prefix t of Some (v, []) \<Rightarrow> Some v | _ \<Rightarrow> None)"

text \<open>\<^verbatim>\<open>parseFloat(x.toFixed(2))\<close>: rounded to cents, half away from zero.\<close>

definition round2 :: "rat \<Rightarrow> rat" where
  "round2 x = (if x < 0 then - (of_int \<lfloor>- x * 100 + 1 / 2\<rfloor> / 100) else of_int \<lfloor>x * 100 + 1 / 2\<rfloor> / 100)"

subsection \<open>String helpers\<close>

text \<open>\<^verbatim>\<open>toUpperCase\<close> (ASCII letters).\<close>

definition ascii_upper :: "char \<Rightarrow> char" where
  "ascii_upper c = (if (97::nat) \<le> of_char c \<and> of_char c \<le> (122::nat) then char_of (of_char c - (32::nat)) else c)"

definition js_upper :: "string \<Rightarrow> string" where
  "js_upper s = map ascii_upper s"

definition getUserInitials :: "js \<Rightarrow> string" where
  "getUserInitials v =
     (case v of Str s \<Rightarrow> if s = [] then ''AA'' else js_upper (take 2 (js_trim s)) | _ \<Rightarrow> ''AA'')"

text \<open>\<^verbatim>\<open>switch (status?.toUpperCase())\<close>; a status that is not a string is
  \<^verbatim>\<open>undefined\<close> after the optional call, or has no \<^verbatim>\<open>toUpperCase\<close> (a number throws;
  the callers pass strings), here the default.\<close>

definition getStatusVariant :: "js \<Rightarrow> string" where
  "getStatusVariant v =
     (case v of
        Str s \<Rightarrow> (let u = js_upper s in
                   if u = ''PENDING'' then ''warning''
                   else if u = ''PAID'' \<or> u = ''COMPLETED'' then ''success''
                   else if u = ''OVERDUE'' then ''destructive'' else ''secondary'')
      | _ \<Rightarrow> ''secondary'')"

definition invoiceStatusColors :: "(string \<times> string) list" where
  "invoiceStatusColors =
     [(''DRAFT'', ''bg-gray-200 text-gray-800''), (''SUBMITTED'', ''bg-blue-100 text-blue-800''),
      (''AUTHORISED'', ''bg-indigo-100 text-indigo-800''), (''PAID'', ''bg-green-100 text-green-800''),
      (''DELETED'', ''bg-red-100 text-red-800''), (''VOIDED'', ''bg-yellow-100 text-yellow-800'')]"

text \<open>\<^verbatim>\<open>truncateBankAccountNumber\<close> on a string: short numbers are shown whole,
  longer ones as stars and their last four characters.\<close>

definition truncateBankAccountNumber :: "string \<Rightarrow> string" where
  "truncateBankAccountNumber s =
     (if s = [] \<or> length s \<le> 4 then s
      else replicate (max 3 (length s - 4)) CHR ''*'' @ drop (length s - 4) s)"

subsection \<open>Tax rates\<close>

text \<open>A tax rate as Xero returns it, with the fields the client reads.\<close>

record xero_tax_rate =
  tr_taxType :: string
  tr_effectiveRate :: rat
  tr_status :: string
  canApplyToExpenses :: bool
  canApplyToRevenue :: bool
  canApplyToAssets :: bool
  reportTaxType :: string

definition tax_rate_applies :: "string \<Rightarrow> xero_tax_rate \<Rightarrow> bool" where
  "tax_rate_applies accountTaxType t =
     (let k = js_lower accountTaxType in
      if k = ''input'' then canApplyToExpenses t \<or> reportTaxType t = ''INPUT'' \<or> reportTaxType t = ''PURCHASESINPUT''
      else if k = ''output'' then canApplyToRevenue t \<or> reportTaxType t = ''OUTPUT'' \<or> reportTaxType t = ''SALESOUTPUT''
      else if k = ''none'' then tr_taxType t = ''NONE'' \<or> tr_effectiveRate t = 0
      else canApplyToExpenses t \<or> canApplyToAssets t \<or> tr_effectiveRate t = 0)"

definition getApplicableTaxRates :: "xero_tax_rate list \<Rightarrow> string \<Rightarrow> xero_tax_rate list" where
  "getApplicableTaxRates allTaxRates accountTaxType =
     (if accountTaxType = [] \<or> allTaxRates = [] then [] else filter (tax_rate_applies accountTaxType) allTaxRates)"


subsection \<open>Lemmas\<close>

lemma round_cents_error: "\<bar>of_int \<lfloor>z * 100 + 1 / 2\<rfloor> / 100 - z\<bar> \<le> (1 / 200 :: rat)"
proof -
  define F where "F = (of_int \<lfloor>z * 100 + 1 / 2\<rfloor> :: rat)"
  have a: "F \<le> z * 100 + 1 / 2" unfolding F_def by (rule of_int_floor_le)
  have b: "z * 100 + 1 / 2 < F + 1" unfolding F_def by linarith
  have "F / 100 - z \<le> 1 / 200" "- (1 / 200) \<le> F / 100 - z" using a b by linarith+
  then show ?thesis unfolding F_def [symmetric] abs_le_iff by (intro conjI; linarith)
qed

subsection \<open>Properties\<close>

text \<open>Rounding an amount to cents moves it by at most half a cent.\<close>

theorem round2_error:
  "\<bar>round2 x - x\<bar> \<le> 1 / 200"
proof (cases "x < 0")
  case True
  have "\<bar>round2 x - x\<bar> = \<bar>of_int \<lfloor>- x * 100 + 1 / 2\<rfloor> / 100 - (- x)\<bar>"
    using True by (simp add: round2_def abs_minus_commute)
  then show ?thesis using round_cents_error [of "- x"] by simp
next
  case False
  then show ?thesis using round_cents_error [of x] by (simp add: round2_def)
qed

end
