(* ===== verification/PaymentForm.thy ===== *)
theory PaymentForm
  imports ClientUtils
begin

text \<open>
  The manual payment form, \<^verbatim>\<open>src/client/src/components/manual-payment/CreatePaymentForm.jsx\<close>,
  with its initial data (\<^verbatim>\<open>utils/formData.js\<close>) and its validation
  (\<^verbatim>\<open>schemas/manualPaymentValidation.js\<close>). The state is the form data and the
  component's hooks, with the toasts it has shown; every handler is a step. An input field holds what was typed into
  it (a string) or the number it started with; amounts are exact rationals.
\<close>

datatype num_field = NumVal rat | TextVal string

text \<open>The number \<^verbatim>\<open>*\<close> and \<^verbatim>\<open><=\<close> see in a field (\<open>None\<close> is \<open>NaN\<close>), and its
  truthiness.\<close>

fun num_of :: "num_field \<Rightarrow> rat option" where
  "num_of (NumVal r) = Some r"
| "num_of (TextVal s) = str_to_number s"

fun num_truthy :: "num_field \<Rightarrow> bool" where
  "num_truthy (NumVal r) = (r \<noteq> 0)"
| "num_truthy (TextVal s) = (s \<noteq> [])"

text \<open>\<^verbatim>\<open>parseFloat(x)\<close> of a field: a number converts to its decimal string and back.\<close>

fun num_parse :: "num_field \<Rightarrow> rat option" where
  "num_parse (NumVal r) = Some r"
| "num_parse (TextVal s) = parseFloat s"

record form_line =
  ln_description :: string
  ln_accountID :: "string option"
  ln_quantity :: num_field
  ln_unit_amount :: num_field
  ln_line_amount :: "rat option"
  ln_tax_type :: string
  ln_tax_rate :: rat
  ln_tax_name :: string

definition defaultMPayLineItem :: form_line where
  "defaultMPayLineItem =
     \<lparr>ln_description = [], ln_accountID = None, ln_quantity = NumVal 1, ln_unit_amount = NumVal 0,
      ln_line_amount = Some 0, ln_tax_type = [], ln_tax_rate = 0, ln_tax_name = []\<rparr>"

record payment_form =
  payment_reference :: string
  pf_description :: string
  payment_date :: string
  contact_id :: js
  contact_name :: string
  bankAccountNumber :: js
  currency_code :: string
  payment_method :: string
  bankid :: js
  taxIncl :: string
  pf_status :: string
  pf_lines :: "form_line list"

text \<open>\<^verbatim>\<open>manualPaymentFormData\<close>; its date is today's, computed when the module loads.\<close>

definition manualPaymentFormData :: "string \<Rightarrow> payment_form" where
  "manualPaymentFormData today =
     \<lparr>payment_reference = [], pf_description = [], payment_date = today, contact_id = Null,
      contact_name = [], bankAccountNumber = Str [], currency_code = ''SGD'',
      payment_method = ''BANK_TRANSFER'', bankid = Null, taxIncl = ''Exclusive'', pf_status = ''DRAFTED'',
      pf_lines = [defaultMPayLineItem]\<rparr>"

text \<open>A contact and an account as \<^verbatim>\<open>useXero\<close> provides them, with the fields the form
  reads (\<open>batchBankAccountNumber\<close> is \<^verbatim>\<open>contact.batchPayments?.bankAccountNumber\<close>).\<close>

record contact =
  contactID :: js
  ct_name :: string
  bankAccountDetails :: js
  batchBankAccountNumber :: js

record xero_account =
  accountID :: string
  acc_taxType :: string

subsection \<open>Amounts\<close>

definition calculateLineAmount :: "rat option \<Rightarrow> rat option \<Rightarrow> rat option" where
  "calculateLineAmount q u = (case (q, u) of (Some a, Some b) \<Rightarrow> Some (round2 (a * b)) | _ \<Rightarrow> None)"



definition parse_or_zero :: "string \<Rightarrow> rat" where
  "parse_or_zero v = (case parseFloat v of Some r \<Rightarrow> r | None \<Rightarrow> 0)"

subsection \<open>Handlers on the form data\<close>

datatype line_field = LDescription | LAccount | LQuantity | LUnitAmount

text \<open>\<^verbatim>\<open>handleLineItemChange(index, field, value)\<close> on the form data, for the index
  of a line the form shows.\<close>

definition line_change :: "xero_account list \<Rightarrow> line_field \<Rightarrow> string \<Rightarrow> form_line \<Rightarrow> form_line" where
  "line_change accounts fld v l =
     (let l1 = (case fld of
                  LDescription \<Rightarrow> l\<lparr>ln_description := v\<rparr>
                | LAccount \<Rightarrow> l\<lparr>ln_accountID := Some v\<rparr>
                | LQuantity \<Rightarrow> l\<lparr>ln_quantity := TextVal v\<rparr>
                | LUnitAmount \<Rightarrow> l\<lparr>ln_unit_amount := TextVal v\<rparr>);
          l2 = (if fld = LAccount then
                  (case find (\<lambda>a. accountID a = v) accounts of
                     Some a \<Rightarrow> l1\<lparr>ln_tax_type := acc_taxType a, ln_tax_rate := 0, ln_tax_name := []\<rparr>
                   | None \<Rightarrow> l1)
                else l1)
      in if fld = LQuantity then l2\<lparr>ln_line_amount := calculateLineAmount (Some (parse_or_zero v)) (num_of (ln_unit_amount l2))\<rparr>
         else if fld = LUnitAmount then l2\<lparr>ln_line_amount := calculateLineAmount (num_of (ln_quantity l2)) (Some (parse_or_zero v))\<rparr>
         else l2)"

definition handleLineItemChange ::
  "xero_account list \<Rightarrow> nat \<Rightarrow> line_field \<Rightarrow> string \<Rightarrow> payment_form \<Rightarrow> payment_form" where
  "handleLineItemChange accounts i fld v f =
     (if i < length (pf_lines f) then f\<lparr>pf_lines := (pf_lines f)[i := line_change accounts fld v (pf_lines f ! i)]\<rparr>
      else f)"

text \<open>The tax-rate select of a line: \<^verbatim>\<open>"0"\<close> clears the rate; another value picks the
  active rate of that type among those applicable to the line's account.\<close>

definition activeTaxRates :: "xero_tax_rate list \<Rightarrow> xero_tax_rate list" where
  "activeTaxRates rates = filter (\<lambda>t. tr_status t = ''ACTIVE'') rates"

definition line_tax_rates :: "xero_account list \<Rightarrow> xero_tax_rate list \<Rightarrow> form_line \<Rightarrow> xero_tax_rate list" where
  "line_tax_rates accounts rates l =
     (case find (\<lambda>a. Some (accountID a) = ln_accountID l) accounts of
        Some a \<Rightarrow> getApplicableTaxRates (activeTaxRates rates) (acc_taxType a)
      | None \<Rightarrow> [])"

definition tax_select :: "xero_account list \<Rightarrow> xero_tax_rate list \<Rightarrow> string \<Rightarrow> form_line \<Rightarrow> form_line" where
  "tax_select accounts rates v l =
     (if v = ''0'' then l\<lparr>ln_tax_rate := 0, ln_tax_name := []\<rparr>
      else case find (\<lambda>t. tr_taxType t = v) (line_tax_rates accounts rates l) of
             Some t \<Rightarrow> l\<lparr>ln_tax_rate := tr_effectiveRate t / 100, ln_tax_name := tr_taxType t\<rparr>
           | None \<Rightarrow> l)"

definition handleTaxSelect ::
  "xero_account list \<Rightarrow> xero_tax_rate list \<Rightarrow> nat \<Rightarrow> string \<Rightarrow> payment_form \<Rightarrow> payment_form" where
  "handleTaxSelect accounts rates i v f =
     (if i < length (pf_lines f) then f\<lparr>pf_lines := (pf_lines f)[i := tax_select accounts rates v (pf_lines f ! i)]\<rparr>
      else f)"

definition addLineItem :: "payment_form \<Rightarrow> payment_form" where
  "addLineItem f = f\<lparr>pf_lines := pf_lines f @ [defaultMPayLineItem]\<rparr>"

definition removeLineItem :: "nat \<Rightarrow> payment_form \<Rightarrow> payment_form" where
  "removeLineItem i f =
     (if 1 < length (pf_lines f)
      then f\<lparr>pf_lines := map snd (filter (\<lambda>(j, _). j \<noteq> i) (zip [0..<length (pf_lines f)] (pf_lines f)))\<rparr>
      else f)"


subsection \<open>Validation\<close>

definition currency_ok :: "string \<Rightarrow> bool" where
  "currency_ok s \<longleftrightarrow> length s = 3 \<and> list_all (\<lambda>c. (65::nat) \<le> of_char c \<and> of_char c \<le> (90::nat)) s"

text \<open>\<^verbatim>\<open>!line.quantity || line.quantity <= 0\<close>: a comparison with \<open>NaN\<close> is false.\<close>

definition amount_invalid :: "num_field \<Rightarrow> bool" where
  "amount_invalid q \<longleftrightarrow> \<not> num_truthy q \<or> (case num_of q of Some r \<Rightarrow> r \<le> 0 | None \<Rightarrow> False)"

definition line_key :: "nat \<Rightarrow> string \<Rightarrow> string" where
  "line_key k fld = ''lines.'' @ show_nat k @ ''.'' @ fld"

definition line_errors :: "nat \<Rightarrow> form_line \<Rightarrow> (string \<times> string) list" where
  "line_errors k l =
     (if js_trim (ln_description l) = [] then [(line_key k ''description'', ''Line description is required'')] else [])
     @ (if (case ln_accountID l of None \<Rightarrow> True | Some a \<Rightarrow> js_trim a = [])
        then [(line_key k ''accountID'', ''Account code is required'')] else [])
     @ (if amount_invalid (ln_quantity l) then [(line_key k ''quantity'', ''Quantity must be greater than 0'')] else [])
     @ (if amount_invalid (ln_unit_amount l) then [(line_key k ''unit_amount'', ''Unit amount must be greater than 0'')] else [])"

text \<open>\<^verbatim>\<open>manualPaymentValidation\<close>: the errors in the order they are set.\<close>

definition manualPaymentValidation :: "payment_form \<Rightarrow> (string \<times> string) list" where
  "manualPaymentValidation f =
     (if js_trim (pf_description f) = [] then [(''description'', ''Description is required'')] else [])
     @ (if js_trim (contact_name f) = [] then [(''contact_name'', ''Contact name is required'')] else [])
     @ (if \<not> currency_ok (currency_code f) then [(''currency_code'', ''Please enter a valid 3-letter currency code'')] else [])
     @ (if taxIncl f \<notin> set [''Exclusive'', ''Inclusive'', ''NoTax''] then [(''taxIncl'', ''Please select a valid tax treatment'')] else [])
     @ concat (map (\<lambda>(k, l). line_errors k l) (zip [0..<length (pf_lines f)] (pf_lines f)))
     @ (if pf_lines f = [] then [(''lines'', ''At least one line item is required'')] else [])"

subsection \<open>The component\<close>

text \<open>The \<^verbatim>\<open>react-hot-toast\<close> calls of the form, kept in the order they are made:
  \<^verbatim>\<open>toast.loading\<close>, \<^verbatim>\<open>toast.dismiss\<close>, \<^verbatim>\<open>toast.success\<close> and \<^verbatim>\<open>toast.error\<close>.\<close>

datatype toast = ToastLoading string | ToastDismiss | ToastSuccess string | ToastError string

record form_ui =
  form :: payment_form
  form_errors :: "(string \<times> string) list"
  contactSearchTerm :: string
  selectedContact :: "contact option"
  form_toasts :: "toast list"

definition initial_form_ui :: "string \<Rightarrow> form_ui" where
  "initial_form_ui today =
     \<lparr>form = manualPaymentFormData today, form_errors = [], contactSearchTerm = [], selectedContact = None,
      form_toasts = []\<rparr>"

text \<open>\<^verbatim>\<open>if (errors[k]) setErrors({...errors, [k]: ""})\<close>.\<close>

definition clear_error :: "string \<Rightarrow> (string \<times> string) list \<Rightarrow> (string \<times> string) list" where
  "clear_error k errs = (case map_of errs k of Some m \<Rightarrow> if m \<noteq> [] then map (\<lambda>(k', m'). (k', if k' = k then [] else m')) errs else errs | None \<Rightarrow> errs)"

definition handleContactSelect :: "contact \<Rightarrow> form_ui \<Rightarrow> form_ui" where
  "handleContactSelect c ui =
     ui\<lparr>selectedContact := Some c, contactSearchTerm := ct_name c,
        form := (form ui)\<lparr>contact_id := contactID c, contact_name := ct_name c,
                  bankAccountNumber := js_or (js_or (bankAccountDetails c) (batchBankAccountNumber c)) (Str [])\<rparr>,
        form_errors := clear_error ''contact_name'' (form_errors ui)\<rparr>"

definition handleContactInputChange :: "string \<Rightarrow> form_ui \<Rightarrow> form_ui" where
  "handleContactInputChange v ui =
     (let ui1 = ui\<lparr>contactSearchTerm := v\<rparr>;
          ui2 = (case selectedContact ui of
                   Some c \<Rightarrow> if v \<noteq> ct_name c
                             then ui1\<lparr>selectedContact := None,
                                      form := (form ui1)\<lparr>contact_id := Null, contact_name := v, bankAccountNumber := Str []\<rparr>\<rparr>
                             else ui1
                 | None \<Rightarrow> ui1\<lparr>form := (form ui1)\<lparr>contact_name := v\<rparr>\<rparr>)
      in ui2\<lparr>form_errors := clear_error ''contact_name'' (form_errors ui2)\<rparr>)"

datatype top_field = FDescription | FTaxIncl

definition handleInputChange :: "top_field \<Rightarrow> string \<Rightarrow> form_ui \<Rightarrow> form_ui" where
  "handleInputChange fld v ui =
     (case fld of
        FDescription \<Rightarrow> ui\<lparr>form := (form ui)\<lparr>pf_description := v\<rparr>, form_errors := clear_error ''description'' (form_errors ui)\<rparr>
      | FTaxIncl \<Rightarrow> ui\<lparr>form := (form ui)\<lparr>taxIncl := v\<rparr>, form_errors := clear_error ''taxIncl'' (form_errors ui)\<rparr>)"

definition line_field_name :: "line_field \<Rightarrow> string" where
  "line_field_name fld =
     (case fld of LDescription \<Rightarrow> ''description'' | LAccount \<Rightarrow> ''accountID''
                | LQuantity \<Rightarrow> ''quantity'' | LUnitAmount \<Rightarrow> ''unit_amount'')"

text \<open>What \<^verbatim>\<open>onSubmit(submitData)\<close> gives back: a result whose \<^verbatim>\<open>success\<close> is truthy
  or not, or a rejection with the error's \<^verbatim>\<open>message\<close>.\<close>

datatype submit_outcome = Resolved bool | Rejected string

datatype form_event =
    ContactSelect contact | ContactInput string | InputChange top_field string
  | LineChange nat line_field string | TaxSelect nat string | AddLine | RemoveLine nat
  | Submit submit_outcome

text \<open>\<^verbatim>\<open>handleSubmit\<close>: a form with errors only shows them. Otherwise a loading toast
  is shown and dismissed once \<^verbatim>\<open>onSubmit\<close> settles; a successful creation resets the
  form and shows a success toast, a rejection shows its message (or the fallback) as an error
  toast, and a result without \<^verbatim>\<open>success\<close> shows nothing more.\<close>

definition handleSubmit :: "string \<Rightarrow> submit_outcome \<Rightarrow> form_ui \<Rightarrow> form_ui" where
  "handleSubmit today outcome ui =
     (let errs = manualPaymentValidation (form ui) in
      if errs \<noteq> [] then ui\<lparr>form_errors := errs\<rparr>
      else let shown = form_toasts ui @ [ToastLoading ''Creating manual payment...'', ToastDismiss] in
        case outcome of
          Resolved True \<Rightarrow> (initial_form_ui today)\<lparr>form_toasts := shown @ [ToastSuccess ''Payment created successfully!'']\<rparr>
        | Resolved False \<Rightarrow> ui\<lparr>form_toasts := shown\<rparr>
        | Rejected msg \<Rightarrow> ui\<lparr>form_toasts := shown @ [ToastError (if msg = [] then ''Failed to create payment'' else msg)]\<rparr>)"

fun form_step ::
  "xero_account list \<Rightarrow> xero_tax_rate list \<Rightarrow> string \<Rightarrow> form_event \<Rightarrow> form_ui \<Rightarrow> form_ui" where
  "form_step accounts rates today (ContactSelect c) ui = handleContactSelect c ui"
| "form_step accounts rates today (ContactInput v) ui = handleContactInputChange v ui"
| "form_step accounts rates today (InputChange fld v) ui = handleInputChange fld v ui"
| "form_step accounts rates today (LineChange i fld v) ui =
     ui\<lparr>form := handleLineItemChange accounts i fld v (form ui),
        form_errors := clear_error (line_key i (line_field_name fld)) (form_errors ui)\<rparr>"
| "form_step accounts rates today (TaxSelect i v) ui =
     ui\<lparr>form := handleTaxSelect accounts rates i v (form ui),
        form_errors := clear_error (line_key i ''tax_rate'') (form_errors ui)\<rparr>"
| "form_step accounts rates today AddLine ui = ui\<lparr>form := addLineItem (form ui)\<rparr>"
| "form_step accounts rates today (RemoveLine i) ui = ui\<lparr>form := removeLineItem i (form ui)\<rparr>"
| "form_step accounts rates today (Submit outcome) ui = handleSubmit today outcome ui"

inductive form_reach :: "xero_account list \<Rightarrow> xero_tax_rate list \<Rightarrow> string \<Rightarrow> form_ui \<Rightarrow> bool"
  for accounts rates today where
  init: "form_reach accounts rates today (initial_form_ui today)"
| step: "form_reach accounts rates today ui \<Longrightarrow> form_reach accounts rates today (form_step accounts rates today ev ui)"

text \<open>The form always has a line, and a chosen contact's id is sent only with that
  contact's name: either no contact is selected and no id is set, or the id and the name
  are the selected contact's.\<close>

definition form_inv :: "form_ui \<Rightarrow> bool" where
  "form_inv ui \<longleftrightarrow> pf_lines (form ui) \<noteq> []
     \<and> (case selectedContact ui of
          None \<Rightarrow> contact_id (form ui) = Null
        | Some c \<Rightarrow> contact_id (form ui) = contactID c \<and> contact_name (form ui) = ct_name c)"


text \<open>A sequence of user actions from a state.\<close>

definition form_run ::
  "xero_account list \<Rightarrow> xero_tax_rate list \<Rightarrow> string \<Rightarrow> form_event list \<Rightarrow> form_ui \<Rightarrow> form_ui" where
  "form_run accounts rates today evs ui = foldl (\<lambda>u ev. form_step accounts rates today ev u) ui evs"



text \<open>A filled-in form that passes the validation.\<close>

definition demo_valid_form :: payment_form where
  "demo_valid_form =
     (manualPaymentFormData ''2025-01-01'')\<lparr>pf_description := ''Office supplies'', contact_name := ''Acme'',
        pf_lines := [defaultMPayLineItem\<lparr>ln_description := ''Paper'', ln_accountID := Some ''400'',
                       ln_quantity := TextVal ''2'', ln_unit_amount := TextVal ''5.50'', ln_line_amount := Some 11\<rparr>]\<rparr>"

subsection \<open>Lemmas\<close>

lemma remove_index_nonempty:
  assumes "Suc 0 < length xs"
  shows "filter (\<lambda>(j, _). j \<noteq> i) (zip [0..<length xs] xs) \<noteq> []"
proof -
  define j where "j = (if i = 0 then 1 else 0 :: nat)"
  have "j < length xs" "j \<noteq> i" using assms by (auto simp: j_def)
  then have "(j, xs ! j) \<in> set (zip [0..<length xs] xs)"
    by (auto simp: set_zip intro!: exI [where x = j])
  with \<open>j \<noteq> i\<close> show ?thesis by (auto simp: filter_empty_conv)
qed

lemma lines_nonempty_steps:
  "pf_lines (handleLineItemChange accounts i fld v f) \<noteq> [] \<longleftrightarrow> pf_lines f \<noteq> []"
  "pf_lines (handleTaxSelect accounts rates i v f) \<noteq> [] \<longleftrightarrow> pf_lines f \<noteq> []"
  "pf_lines (addLineItem f) \<noteq> []"
  "pf_lines f \<noteq> [] \<Longrightarrow> pf_lines (removeLineItem i f) \<noteq> []"
  using remove_index_nonempty [of "pf_lines f" i]
  by (auto simp: handleLineItemChange_def handleTaxSelect_def addLineItem_def removeLineItem_def)

lemma form_inv_initial: "form_inv (initial_form_ui today)"
  by (simp add: form_inv_def initial_form_ui_def manualPaymentFormData_def)

lemma contact_steps:
  "form_inv ui \<Longrightarrow> form_inv (handleContactSelect c ui)"
  "form_inv ui \<Longrightarrow> form_inv (handleContactInputChange v ui)"
  "form_inv ui \<Longrightarrow> form_inv (handleInputChange fld v ui)"
  by (auto simp: form_inv_def handleContactSelect_def handleContactInputChange_def handleInputChange_def Let_def
      split: option.splits top_field.splits)

lemma form_step_inv:
  assumes "form_inv ui"
  shows "form_inv (form_step accounts rates today ev ui)"
proof (cases ev)
  case (ContactSelect c)
  then show ?thesis using assms by (simp add: contact_steps)
next
  case (ContactInput v)
  then show ?thesis using assms by (simp add: contact_steps)
next
  case (InputChange fld v)
  then show ?thesis using assms by (simp add: contact_steps)
next
  case (Submit outcome)
  then show ?thesis using assms form_inv_initial
    by (cases "selectedContact ui") (auto simp: handleSubmit_def Let_def form_inv_def initial_form_ui_def
        manualPaymentFormData_def split: submit_outcome.splits bool.splits)
qed (use assms in \<open>auto simp: lines_nonempty_steps remove_index_nonempty form_inv_def handleLineItemChange_def handleTaxSelect_def
      addLineItem_def removeLineItem_def split: option.splits\<close>)

lemma form_reach_inv_lemma:
  "form_reach accounts rates today ui \<Longrightarrow> form_inv ui"
  by (induction rule: form_reach.induct) (simp_all add: form_inv_initial form_step_inv)


lemma line_change_quantity:
  "num_of (ln_unit_amount l) = Some u \<Longrightarrow> parseFloat v = Some q \<Longrightarrow>
   ln_line_amount (line_change accounts LQuantity v l) = Some (round2 (q * u))"
  by (simp add: line_change_def parse_or_zero_def calculateLineAmount_def)

subsection \<open>Properties\<close>

text \<open>C38: In every state the form reaches, it has at least one line, and the contact id it
  would submit belongs to the selected contact whose name is in the form (no id without a
  selection).\<close>

theorem form_reach_invariant:
  "form_reach accounts rates today ui \<Longrightarrow>
   pf_lines (form ui) \<noteq> []
   \<and> (case selectedContact ui of
        None \<Rightarrow> contact_id (form ui) = Null
      | Some c \<Rightarrow> contact_id (form ui) = contactID c \<and> contact_name (form ui) = ct_name c)"
  using form_reach_inv_lemma by (simp add: form_inv_def)

theorem form_reach_invariant_witness:
  "pf_lines (form (initial_form_ui ''2025-01-01'')) \<noteq> []
   \<and> (case selectedContact (initial_form_ui ''2025-01-01'') of
        None \<Rightarrow> contact_id (form (initial_form_ui ''2025-01-01'')) = Null
      | Some c \<Rightarrow> contact_id (form (initial_form_ui ''2025-01-01'')) = contactID c
                 \<and> contact_name (form (initial_form_ui ''2025-01-01'')) = ct_name c)"
  using form_reach_invariant [OF form_reach.init [of "[]" "[]" "''2025-01-01''"]] .

text \<open>Changing a line's quantity to a number recomputes its amount as the quantity times
  the unit amount, rounded to cents.\<close>

theorem quantity_change_amount:
  assumes "i < length (pf_lines f)" and "parseFloat v = Some q"
    and "num_of (ln_unit_amount (pf_lines f ! i)) = Some u"
  shows "ln_line_amount (pf_lines (handleLineItemChange accounts i LQuantity v f) ! i) = Some (round2 (q * u))"
  using assms by (simp add: handleLineItemChange_def line_change_quantity)

theorem quantity_change_amount_witness:
  "0 < length (pf_lines (manualPaymentFormData ''2025-01-01''))
   \<and> parseFloat ''3'' = Some 3
   \<and> num_of (ln_unit_amount (pf_lines (manualPaymentFormData ''2025-01-01'') ! 0)) = Some 0
   \<and> ln_line_amount (pf_lines (handleLineItemChange [] 0 LQuantity ''3'' (manualPaymentFormData ''2025-01-01'')) ! 0)
       = Some (round2 (3 * 0))"
proof -
  have p: "parseFloat ''3'' = Some 3" by code_simp
  show ?thesis
    using quantity_change_amount [of 0 "manualPaymentFormData ''2025-01-01''" "''3''" 3 0 "[]"] p
    by (simp add: manualPaymentFormData_def defaultMPayLineItem_def)
qed



end
