(* ===== verification/Hooks.thy ===== *)
theory Hooks
  imports ClientServices
begin

text \<open>
  The data hooks of the client over the payment services:
  \<^verbatim>\<open>src/client/src/hooks/useManualPayments.jsx\<close> and
  \<^verbatim>\<open>src/client/src/hooks/usePaymentBatch.jsx\<close>, and the creation handler of
  \<^verbatim>\<open>src/client/src/pages/ManualPaymentsPage.jsx\<close> that passes the hook's answer to the
  form. The state of a hook is a record of its \<^verbatim>\<open>useState\<close> hooks; an operation is the
  request it sends and the state and value it ends with, given the axios outcome.
  \<^verbatim>\<open>toLocaleDateString\<close> is the parameter \<open>locale_date\<close>.
\<close>

subsection \<open>useManualPayments\<close>

record mp_hook =
  mp_payments :: js
  mp_totalItem :: js
  mp_totalPages :: js
  mp_loading :: bool
  mp_error :: js

definition mp_initial :: mp_hook where
  "mp_initial = \<lparr>mp_payments = Arr [], mp_totalItem = Num 0, mp_totalPages = Num 0, mp_loading = False, mp_error = Null\<rparr>"

definition fetchPayments_request :: "js \<Rightarrow> js \<Rightarrow> js \<Rightarrow> js \<Rightarrow> client_request" where
  "fetchPayments_request page sz sortBy orderBy =
     manualPayment_get_request (default_arg page (Num 1)) (default_arg sz (Num 10))
       (default_arg sortBy (Str ''payment_date'')) (default_arg orderBy (Str ''DESC''))"

definition fetchPayments_result :: "axios_outcome \<Rightarrow> mp_hook \<Rightarrow> mp_hook" where
  "fetchPayments_result o' st =
     (case manualPayment_get_result o' of
        Inr response \<Rightarrow>
          st\<lparr>mp_payments := js_or (js_get response ''data'') (Arr []),
             mp_totalItem := js_or (js_get response ''totalItem'') (Num 0),
             mp_totalPages := js_or (js_get (js_get response ''pagination'') ''totalPages'') (Num 0),
             mp_error := Null, mp_loading := False\<rparr>
      | Inl msg \<Rightarrow> st\<lparr>mp_error := Str msg, mp_loading := False\<rparr>)"

text \<open>\<^verbatim>\<open>createPayment\<close>: the value it returns and the hook's state after it.\<close>

definition createPayment :: "axios_outcome \<Rightarrow> mp_hook \<Rightarrow> js \<times> mp_hook" where
  "createPayment o' st =
     (case manualPayment_create_result o' of
        Inr response \<Rightarrow>
          if js_get response ''success'' = Bool False then
            (Obj [(''success'', Bool False), (''error'', js_get response ''error''),
                  (''errors'', js_or (js_get response ''errors'') (Arr []))],
             st\<lparr>mp_error := js_get response ''error'', mp_loading := False\<rparr>)
          else
            (Obj [(''success'', Bool True), (''data'', js_or (js_get response ''data'') response)],
             st\<lparr>mp_error := Null, mp_loading := False\<rparr>)
      | Inl msg \<Rightarrow>
          (Obj [(''success'', Bool False), (''error'', Str msg), (''errors'', Arr [Obj [(''message'', Str msg)]])],
           st\<lparr>mp_error := Str msg, mp_loading := False\<rparr>))"

text \<open>\<^verbatim>\<open>handleCreatePayment\<close> of the page: what the form's \<^verbatim>\<open>onSubmit\<close> resolves with
  (the refresh after a success is a further fetch, not repeated here).\<close>

definition handleCreatePayment :: "js \<Rightarrow> js" where
  "handleCreatePayment result =
     (if truthy (js_get result ''success'') then Obj [(''success'', Bool True), (''data'', js_get result ''data'')]
      else Obj [(''success'', Bool False),
                (''error'', js_or (js_get result ''error'') (Str ''Failed to create manual payment'')),
                (''errors'', js_get result ''errors'')])"

subsection \<open>usePaymentBatch\<close>

record pb_hook =
  pb_batches :: "js list"
  pb_totalItem :: js
  pb_totalPages :: js
  pb_currentPage :: js
  pb_pageSize :: js
  pb_loading :: bool
  pb_isSubmitting :: bool
  pb_error :: js

definition pb_initial :: pb_hook where
  "pb_initial = \<lparr>pb_batches = [], pb_totalItem = Num 0, pb_totalPages = Num 0, pb_currentPage = Num 1,
                 pb_pageSize = Num 10, pb_loading = False, pb_isSubmitting = False, pb_error = Null\<rparr>"

text \<open>\<^verbatim>\<open>a ?? b\<close>.\<close>

definition js_coalesce :: "js \<Rightarrow> js \<Rightarrow> js" where
  "js_coalesce a b = (if nullish a then b else a)"

definition fetchBatches_request :: "js \<Rightarrow> js \<Rightarrow> js \<Rightarrow> pb_hook \<Rightarrow> client_request" where
  "fetchBatches_request page sz filters st =
     paymentBatch_get_request (js_coalesce page (pb_currentPage st)) (js_coalesce sz (pb_pageSize st))
       (default_arg filters (Obj []))"

text \<open>\<^verbatim>\<open>{...batch, id: batch.xoBatchId, paymentDate: ...}\<close>.\<close>

definition format_batch :: "(js \<Rightarrow> js) \<Rightarrow> js \<Rightarrow> js" where
  "format_batch locale_date batch =
     js_put (js_put batch ''id'' (js_get batch ''xoBatchId'')) ''paymentDate'' (locale_date (js_get batch ''paymentDate''))"

text \<open>\<^verbatim>\<open>response.data.map(...)\<close>: the formatted batches, or the message of the
  \<^verbatim>\<open>TypeError\<close> when \<^verbatim>\<open>data\<close> is not an array.\<close>

definition format_batches :: "(js \<Rightarrow> js) \<Rightarrow> js \<Rightarrow> string + js list" where
  "format_batches locale_date d =
     (case d of
        Arr xs \<Rightarrow> Inr (map (format_batch locale_date) xs)
      | _ \<Rightarrow> if nullish d then Inl (read_error d ''map'') else Inl ''response.data.map is not a function'')"

definition fetchBatches_result :: "(js \<Rightarrow> js) \<Rightarrow> js \<Rightarrow> js \<Rightarrow> axios_outcome \<Rightarrow> pb_hook \<Rightarrow> pb_hook" where
  "fetchBatches_result locale_date page sz o' st =
     (let fail = (\<lambda>msg. st\<lparr>pb_error := Str msg, pb_loading := False\<rparr>) in
      case paymentBatch_get_result o' of
        Inl msg \<Rightarrow> fail msg
      | Inr response \<Rightarrow>
          (case format_batches locale_date (js_get response ''data'') of
             Inl msg \<Rightarrow> fail msg
           | Inr bs \<Rightarrow>
               st\<lparr>pb_batches := bs, pb_totalItem := js_or (js_get response ''totalItem'') (Num 0),
                  pb_totalPages := js_or (js_get (js_get response ''pagination'') ''totalPages'') (Num 0),
                  pb_currentPage := (if page \<noteq> Undef then page else pb_currentPage st),
                  pb_pageSize := (if sz \<noteq> Undef then sz else pb_pageSize st),
                  pb_error := Null, pb_loading := False\<rparr>))"

text \<open>\<^verbatim>\<open>goToPage\<close> and \<^verbatim>\<open>changePageSize\<close>: the \<^verbatim>\<open>fetchBatches\<close> arguments
  \<open>(page, size)\<close> they call it with, if they do (numbers as integers).\<close>

definition goToPage :: "int \<Rightarrow> pb_hook \<Rightarrow> (js \<times> js) option" where
  "goToPage p st =
     (case (pb_totalPages st, pb_currentPage st) of
        (Num tp, Num cp) \<Rightarrow> if 1 \<le> p \<and> p \<le> tp \<and> p \<noteq> cp then Some (Num p, Undef) else None
      | _ \<Rightarrow> None)"

definition changePageSize :: "js \<Rightarrow> pb_hook \<Rightarrow> (js \<times> js) option" where
  "changePageSize sz st = (if sz \<noteq> pb_pageSize st then Some (Num 1, sz) else None)"

text \<open>\<^verbatim>\<open>approveBatch\<close> after the service resolved: the batch with that id is marked
  approved on the given day.\<close>

definition approve_local :: "js \<Rightarrow> js \<Rightarrow> pb_hook \<Rightarrow> pb_hook" where
  "approve_local batchId today st =
     st\<lparr>pb_batches := map (\<lambda>b. if js_get b ''id'' = batchId
                               then js_put (js_put b ''isApproved'' (Bool True)) ''lastApprDate'' today else b)
                           (pb_batches st)\<rparr>"

definition approveBatch :: "js \<Rightarrow> js \<Rightarrow> axios_outcome \<Rightarrow> pb_hook \<Rightarrow> (string + js) \<times> pb_hook" where
  "approveBatch batchId today o' st =
     (case paymentBatch_approve_result o' of
        Inr result \<Rightarrow> (Inr result, (approve_local batchId today st)\<lparr>pb_isSubmitting := False\<rparr>)
      | Inl msg \<Rightarrow> (Inl msg, st\<lparr>pb_error := Str msg, pb_isSubmitting := False\<rparr>))"

text \<open>\<^verbatim>\<open>deleteBatch\<close> after the service resolved: the batch leaves the list, the total
  drops by one, and when the page is left empty beyond the first the hook moves back a
  page and fetches it (the arguments of that fetch).\<close>

text \<open>\<^verbatim>\<open>prevTotal - 1\<close> on a number (a string total would be converted; the
  totals here come from \<^verbatim>\<open>response.totalItem || 0\<close> and are numbers).\<close>

definition js_minus_one :: "js \<Rightarrow> js" where
  "js_minus_one v = (case v of Num n \<Rightarrow> Num (n - 1) | Null \<Rightarrow> Num (- 1) | Bool b \<Rightarrow> Num (if b then 0 else - 1) | _ \<Rightarrow> NaN)"

definition deleteBatch :: "js \<Rightarrow> axios_outcome \<Rightarrow> pb_hook \<Rightarrow> (string + js) \<times> pb_hook \<times> js option" where
  "deleteBatch batchId o' st =
     (case paymentBatch_delete_result o' of
        Inr result \<Rightarrow>
          (let remaining = filter (\<lambda>b. js_get b ''id'' \<noteq> batchId) (pb_batches st);
               st1 = st\<lparr>pb_batches := remaining, pb_totalItem := js_minus_one (pb_totalItem st)\<rparr>
           in case pb_currentPage st of
                Num cp \<Rightarrow> if remaining = [] \<and> 1 < cp
                          then (Inr result, st1\<lparr>pb_currentPage := Num (cp - 1), pb_isSubmitting := False\<rparr>, Some (Num (cp - 1)))
                          else (Inr result, st1\<lparr>pb_isSubmitting := False\<rparr>, None)
              | _ \<Rightarrow> (Inr result, st1\<lparr>pb_isSubmitting := False\<rparr>, None))
      | Inl msg \<Rightarrow> (Inl msg, st\<lparr>pb_error := Str msg, pb_isSubmitting := False\<rparr>, None))"


subsection \<open>Properties\<close>

text \<open>\<^verbatim>\<open>goToPage\<close> fetches only a page between 1 and the page count that is not the
  current one.\<close>

theorem goToPage_in_range:
  "goToPage p st = Some (pg, sz) \<Longrightarrow> pb_totalPages st = Num tp \<Longrightarrow>
   pg = Num p \<and> 1 \<le> p \<and> p \<le> tp \<and> pb_currentPage st \<noteq> Num p \<and> sz = Undef"
  by (auto simp: goToPage_def split: js.splits if_splits)

theorem goToPage_in_range_witness:
  "goToPage 2 (pb_initial\<lparr>pb_totalPages := Num 3\<rparr>) = Some (Num 2, Undef)
   \<and> pb_totalPages (pb_initial\<lparr>pb_totalPages := Num 3\<rparr>) = Num 3
   \<and> Num 2 = Num 2 \<and> 1 \<le> (2::int) \<and> (2::int) \<le> 3
   \<and> pb_currentPage (pb_initial\<lparr>pb_totalPages := Num 3\<rparr>) \<noteq> Num 2 \<and> Undef = Undef"
  using goToPage_in_range [of 2 "pb_initial\<lparr>pb_totalPages := Num 3\<rparr>" "Num 2" Undef 3]
  by (simp add: goToPage_def pb_initial_def)

text \<open>After a deletion the service accepted, no batch with that id is listed, the total
  is one less, and a page left empty beyond the first is replaced by the previous one.\<close>

theorem deleteBatch_removes:
  assumes "paymentBatch_delete_result o' = Inr result"
    and "deleteBatch batchId o' st = (r, st', refetch)"
  shows "r = Inr result \<and> (\<forall>b \<in> set (pb_batches st'). js_get b ''id'' \<noteq> batchId)
     \<and> pb_totalItem st' = js_minus_one (pb_totalItem st)
     \<and> (case pb_currentPage st of
          Num cp \<Rightarrow> refetch = (if pb_batches st' = [] \<and> 1 < cp then Some (Num (cp - 1)) else None)
        | _ \<Rightarrow> refetch = None)"
  using assms by (auto simp: deleteBatch_def Let_def split: js.splits if_splits)


theorem deleteBatch_removes_witness:
  "paymentBatch_delete_result (Ok (Obj [])) = Inr (Obj [])
   \<and> deleteBatch (Num 7) (Ok (Obj [])) (pb_initial\<lparr>pb_batches := [Obj [(''id'', Num 7)]], pb_currentPage := Num 2, pb_totalItem := Num 11\<rparr>)
       = (Inr (Obj []), pb_initial\<lparr>pb_batches := [], pb_currentPage := Num 1, pb_totalItem := Num 10\<rparr>, Some (Num 1))
   \<and> Inr (Obj []) = (Inr (Obj []) :: string + js)
   \<and> (\<forall>b \<in> set (pb_batches (pb_initial\<lparr>pb_batches := [], pb_currentPage := Num 1, pb_totalItem := Num 10\<rparr>)).
        js_get b ''id'' \<noteq> Num 7)
   \<and> pb_totalItem (pb_initial\<lparr>pb_batches := [], pb_currentPage := Num 1, pb_totalItem := Num 10\<rparr>) = js_minus_one (Num 11)
   \<and> Some (Num 1) = (if pb_batches (pb_initial\<lparr>pb_batches := [], pb_currentPage := Num 1, pb_totalItem := Num 10\<rparr>) = [] \<and> 1 < (2::int)
                      then Some (Num (2 - 1)) else None)"
proof -
  have d: "deleteBatch (Num 7) (Ok (Obj [])) (pb_initial\<lparr>pb_batches := [Obj [(''id'', Num 7)]], pb_currentPage := Num 2, pb_totalItem := Num 11\<rparr>)
       = (Inr (Obj []), pb_initial\<lparr>pb_batches := [], pb_currentPage := Num 1, pb_totalItem := Num 10\<rparr>, Some (Num 1))"
    by (simp add: deleteBatch_def paymentBatch_delete_result_def js_minus_one_def pb_initial_def)
  have r: "paymentBatch_delete_result (Ok (Obj [])) = Inr (Obj [])" by (simp add: paymentBatch_delete_result_def)
  show ?thesis
    using deleteBatch_removes [OF r d] d r by (simp add: pb_initial_def js_minus_one_def)
qed

end
