(* ===== verification/XeroHooks.thy ===== *)
theory XeroHooks
  imports ClientXero ClientUtils
begin

text \<open>
  The hook \<^verbatim>\<open>src/client/src/hooks/useXero.jsx\<close> over the client's Xero service, and
  the contact search of \<^verbatim>\<open>components/manual-payment/CreatePaymentForm.jsx\<close> that uses
  it. The hook's state is a record of its \<^verbatim>\<open>useState\<close> hooks; each fetch is the state and
  the value it ends with, given the axios outcome of the service's request
  (\<^theory_text>\<open>ClientXero\<close>). A callback sees the state of the render that created it, so
  the search reads the contacts as they were before its own fetch.
\<close>

record xero_hook =
  xh_isLoading :: bool
  xh_error :: js
  xh_invoices :: js
  xh_availableInvoices :: js
  xh_contacts :: js
  xh_accounts :: js
  xh_taxRates :: js
  xh_pag_invoices :: js
  xh_pag_contacts :: js
  xh_render_error :: "string option"

definition xh_initial :: xero_hook where
  "xh_initial =
     \<lparr>xh_isLoading = False, xh_error = Null, xh_invoices = Arr [], xh_availableInvoices = Arr [],
      xh_contacts = Arr [], xh_accounts = Arr [], xh_taxRates = Arr [],
      xh_pag_invoices = default_pagination, xh_pag_contacts = default_pagination,
      xh_render_error = None\<rparr>"

text \<open>\<^verbatim>\<open>{...v}\<close> for the elements Xero returns (objects); spreading a primitive adds
  nothing here (a string's characters are not modelled).\<close>

definition obj_of :: "js \<Rightarrow> js" where
  "obj_of v = (case v of Obj kvs \<Rightarrow> Obj kvs | _ \<Rightarrow> Obj [])"

text \<open>\<^verbatim>\<open>xs.map(f)\<close> where \<open>f\<close> may throw: the first message, or the results.\<close>

fun map_throw :: "(js \<Rightarrow> string + js) \<Rightarrow> js list \<Rightarrow> string + js list" where
  "map_throw f [] = Inr []"
| "map_throw f (x # xs) = (case f x of Inl m \<Rightarrow> Inl m | Inr y \<Rightarrow> map_sum id (Cons y) (map_throw f xs))"

definition js_map :: "string \<Rightarrow> (js \<Rightarrow> string + js) \<Rightarrow> js \<Rightarrow> string + js" where
  "js_map name f v =
     (case v of
        Arr xs \<Rightarrow> map_sum id Arr (map_throw f xs)
      | _ \<Rightarrow> Inl (if nullish v then read_error v ''map'' else name @ ''.map is not a function''))"

definition formatInvoice :: "js \<Rightarrow> string + js" where
  "formatInvoice invoice =
     (if nullish invoice then Inl (read_error invoice ''invoiceID'')
      else Inr (js_put (js_put (js_put (js_put (obj_of invoice) ''id'' (js_get invoice ''invoiceID''))
                  ''contactName'' (js_or (js_get (js_get invoice ''contact'') ''name'') (Str ''No Name'')))
                  ''contactID'' (js_or (js_get (js_get invoice ''contact'') ''contactID'') (Str [])))
                  ''isManualPayment'' (Bool False)))"

text \<open>\<^verbatim>\<open>account.bankAccountNumber.slice(-4)\<close> of a truthy value.\<close>

definition last_four :: "js \<Rightarrow> string + string" where
  "last_four v =
     (case v of
        Str s \<Rightarrow> Inr (drop (length s - 4) s)
      | Arr xs \<Rightarrow> Inr (js_to_string (Arr (drop (length xs - 4) xs)))
      | _ \<Rightarrow> Inl ''account.bankAccountNumber.slice is not a function'')"

definition formatAccount :: "js \<Rightarrow> string + js" where
  "formatAccount acc =
     (if nullish acc then Inl (read_error acc ''accountID'')
      else
        (case (if truthy (js_get acc ''bankAccountNumber'') then last_four (js_get acc ''bankAccountNumber'') else Inr []) of
           Inl m \<Rightarrow> Inl m
         | Inr suffix \<Rightarrow>
             Inr (js_put (js_put (js_put (obj_of acc) ''id'' (js_get acc ''accountID''))
                    ''displayName'' (Str (js_to_string (js_get acc ''name'') @ '' - '' @ suffix)))
                    ''isBankAccount'' (Bool (js_get acc ''type'' = Str ''BANK'')))))"

text \<open>\<^verbatim>\<open>err.message || fallback\<close>.\<close>

definition err_or :: "string \<Rightarrow> string \<Rightarrow> js" where
  "err_or m fallback = Str (if m = [] then fallback else m)"

text \<open>\<^verbatim>\<open>formatInvoices\<close> runs inside the updater passed to \<^verbatim>\<open>setData\<close>, which React
  applies when it renders the update, after the \<^verbatim>\<open>try\<close> has finished: a throw there is
  not caught by the hook; the call resolves with the response and the next render throws
  (\<open>xh_render_error\<close>), leaving the rows as they were.\<close>

definition xh_fetchInvoices :: "axios_outcome \<Rightarrow> xero_hook \<Rightarrow> js \<times> xero_hook" where
  "xh_fetchInvoices o' st =
     (case fetchInvoices_result o' of
        Inl m \<Rightarrow> (Obj [(''data'', Arr []), (''pagination'', xh_pag_invoices st)],
                  st\<lparr>xh_error := err_or m ''Failed to fetch invoices'', xh_isLoading := False\<rparr>)
      | Inr r \<Rightarrow>
          (let st' = st\<lparr>xh_pag_invoices := js_get r ''pagination'', xh_error := Null, xh_isLoading := False\<rparr> in
           (r, case js_map ''rawInvoices'' formatInvoice (js_get r ''data'') of
                 Inl m \<Rightarrow> st'\<lparr>xh_render_error := Some m\<rparr>
               | Inr fs \<Rightarrow> st'\<lparr>xh_invoices := fs\<rparr>)))"

definition xh_fetchAvailableInvoices :: "axios_outcome \<Rightarrow> xero_hook \<Rightarrow> js \<times> xero_hook" where
  "xh_fetchAvailableInvoices o' st =
     (case fetchAvailableInvoices_result o' of
        Inl m \<Rightarrow> (Obj [(''data'', Arr []), (''pagination'', xh_pag_invoices st)],
                  st\<lparr>xh_error := err_or m ''Failed to fetch invoices'', xh_isLoading := False\<rparr>)
      | Inr r \<Rightarrow>
          (let st' = st\<lparr>xh_error := Null, xh_isLoading := False\<rparr> in
           (r, case js_map ''rawInvoices'' formatInvoice (js_get r ''data'') of
                 Inl m \<Rightarrow> st'\<lparr>xh_render_error := Some m\<rparr>
               | Inr fs \<Rightarrow> st'\<lparr>xh_availableInvoices := fs\<rparr>)))"

definition xh_fetchContacts :: "axios_outcome \<Rightarrow> xero_hook \<Rightarrow> js \<times> xero_hook" where
  "xh_fetchContacts o' st =
     (case fetchContacts_result o' of
        Inl m \<Rightarrow> (Obj [(''data'', Arr []), (''pagination'', xh_pag_contacts st)],
                  st\<lparr>xh_error := err_or m ''Failed to fetch contacts'', xh_isLoading := False\<rparr>)
      | Inr r \<Rightarrow> (r, st\<lparr>xh_contacts := js_get r ''data'', xh_pag_contacts := js_get r ''pagination'',
                        xh_error := Null, xh_isLoading := False\<rparr>))"

text \<open>\<^verbatim>\<open>formatAccounts\<close> is called in the \<^verbatim>\<open>try\<close>: its throw is caught.\<close>

definition xh_fetchAccounts :: "axios_outcome \<Rightarrow> xero_hook \<Rightarrow> js \<times> xero_hook" where
  "xh_fetchAccounts o' st =
     (let fail = (\<lambda>m. (Obj [(''data'', Arr [])],
                       st\<lparr>xh_error := err_or m ''Failed to fetch accounts'', xh_isLoading := False\<rparr>)) in
      case fetchAccounts_result o' of
        Inl m \<Rightarrow> fail m
      | Inr r \<Rightarrow> (case js_map ''rawAccounts'' formatAccount (js_get r ''data'') of
                   Inl m \<Rightarrow> fail m
                 | Inr fs \<Rightarrow> (js_put r ''data'' fs, st\<lparr>xh_accounts := fs, xh_error := Null, xh_isLoading := False\<rparr>)))"

definition xh_fetchTaxRates :: "axios_outcome \<Rightarrow> xero_hook \<Rightarrow> js \<times> xero_hook" where
  "xh_fetchTaxRates o' st =
     (case fetchTaxRates_result o' of
        Inl m \<Rightarrow> (Obj [(''data'', Arr [])], st\<lparr>xh_error := err_or m ''Failed to fetch tax rates'', xh_isLoading := False\<rparr>)
      | Inr r \<Rightarrow> (r, st\<lparr>xh_taxRates := js_get r ''data'', xh_error := Null, xh_isLoading := False\<rparr>))"

subsection \<open>The form's contact search\<close>

text \<open>The request of \<^verbatim>\<open>searchContacts(term)\<close>.\<close>

definition searchContacts_request :: "string \<Rightarrow> client_request" where
  "searchContacts_request searchTerm = fetchContacts_request (Num 1) (Num 10) (Str ''IsSupplier==true'') (Str searchTerm)"

text \<open>\<^verbatim>\<open>Number(v)\<close>; an array converts through its string, a plain object is
  \<open>NaN\<close>.\<close>

definition js_number :: "js \<Rightarrow> rat option" where
  "js_number v =
     (case v of
        Undef \<Rightarrow> None | Null \<Rightarrow> Some 0 | Bool b \<Rightarrow> Some (if b then 1 else 0) | Num n \<Rightarrow> Some (of_int n)
      | NaN \<Rightarrow> None | Str s \<Rightarrow> str_to_number s | Arr _ \<Rightarrow> str_to_number (js_to_string v) | Obj _ \<Rightarrow> None)"

text \<open>\<^verbatim>\<open>v?.length > 0\<close>: the length of an array or a string, the \<^verbatim>\<open>length\<close>
  property of an object compared as a number (\<open>NaN\<close> compares false), and
  \<open>undefined\<close> for everything else.\<close>

definition js_length_pos :: "js \<Rightarrow> bool" where
  "js_length_pos v =
     (case v of Arr xs \<Rightarrow> xs \<noteq> [] | Str s \<Rightarrow> s \<noteq> []
      | Obj kvs \<Rightarrow> (case js_number (js_get v ''length'') of Some n \<Rightarrow> 0 < n | None \<Rightarrow> False)
      | _ \<Rightarrow> False)"

text \<open>\<^verbatim>\<open>searchContacts\<close>: the dropdown flag and the hook's state after the fetch.
  \<^verbatim>\<open>setShowContactDropdown(searchedContacts?.length > 0)\<close> reads \<open>searchedContacts\<close>
  from the render that started the search, i.e. the contacts of the hook's state
  before this fetch.\<close>

definition searchContacts :: "axios_outcome \<Rightarrow> xero_hook \<Rightarrow> bool \<Rightarrow> bool \<times> xero_hook" where
  "searchContacts o' st shown =
     (let (response, st') = xh_fetchContacts o' st in
      (if truthy (js_get response ''success'') then js_length_pos (xh_contacts st) else shown, st'))"

subsection \<open>Shape of the formatted rows\<close>

text \<open>What the tables read from a formatted invoice row: an object, not a manual payment,
  with a contact name to show and a contact id.\<close>

definition invoice_row :: "js \<Rightarrow> bool" where
  "invoice_row y =
     ((case y of Obj _ \<Rightarrow> True | _ \<Rightarrow> False) \<and> js_get y ''isManualPayment'' = Bool False
      \<and> truthy (js_get y ''contactName'') \<and> js_get y ''contactID'' \<noteq> Undef)"

definition invoice_rows :: "js \<Rightarrow> bool" where
  "invoice_rows v = (case v of Arr ys \<Rightarrow> list_all invoice_row ys | _ \<Rightarrow> False)"

definition demo_invoice_body :: js where
  "demo_invoice_body =
     Obj [(''success'', Bool True),
          (''data'', Arr [Obj [(''invoiceID'', Str ''i1''), (''contact'', Obj [(''name'', Str ''Acme'')])],
                          Obj [(''invoiceID'', Str ''i2''), (''contact'', Null)]]),
          (''pagination'', default_pagination)]"

definition demo_contacts_body :: js where
  "demo_contacts_body =
     Obj [(''success'', Bool True), (''data'', Arr [Obj [(''contactID'', Str ''c1''), (''name'', Str ''Acme'')]]),
          (''pagination'', default_pagination)]"

lemma obj_of_Obj: "\<exists>kvs. obj_of v = Obj kvs"
  by (cases v) (auto simp: obj_of_def)

lemma formatInvoice_row: "formatInvoice x = Inr y \<Longrightarrow> invoice_row y"
proof -
  assume f: "formatInvoice x = Inr y"
  obtain kvs where o: "obj_of x = Obj kvs" using obj_of_Obj by blast
  from f have "y = js_put (js_put (js_put (js_put (Obj kvs) ''id'' (js_get x ''invoiceID''))
                  ''contactName'' (js_or (js_get (js_get x ''contact'') ''name'') (Str ''No Name'')))
                  ''contactID'' (js_or (js_get (js_get x ''contact'') ''contactID'') (Str [])))
                  ''isManualPayment'' (Bool False)"
    by (simp add: formatInvoice_def o split: if_splits)
  then show ?thesis
    by (simp add: invoice_row_def map_of_kv_put js_or_def truthy_defined)
qed

lemma map_sum_Inr_iff [simp]: "(map_sum f g s = Inr y) = (\<exists>x. s = Inr x \<and> y = g x)"
  by (cases s) auto

lemma map_throw_all: "map_throw f xs = Inr ys \<Longrightarrow> (\<And>x y. f x = Inr y \<Longrightarrow> P y) \<Longrightarrow> list_all P ys"
  by (induction xs arbitrary: ys) (auto split: sum.splits)

lemma js_map_invoice_rows: "js_map n formatInvoice v = Inr w \<Longrightarrow> invoice_rows w"
  by (auto simp: js_map_def invoice_rows_def formatInvoice_row intro: map_throw_all
           split: js.splits sum.splits if_splits)

lemma xh_fetchInvoices_rows:
  "invoice_rows (xh_invoices st) \<Longrightarrow> invoice_rows (xh_invoices (snd (xh_fetchInvoices o' st)))"
  by (auto simp: xh_fetchInvoices_def Let_def js_map_invoice_rows split: sum.split)

lemma xh_fetchAvailableInvoices_rows:
  "invoice_rows (xh_availableInvoices st)
   \<Longrightarrow> invoice_rows (xh_availableInvoices (snd (xh_fetchAvailableInvoices o' st)))"
  by (auto simp: xh_fetchAvailableInvoices_def Let_def js_map_invoice_rows split: sum.split)

lemma searchContacts_reads_previous:
  "truthy (js_get d ''success'')
   \<Longrightarrow> searchContacts (Ok d) st shown = (js_length_pos (xh_contacts st), snd (xh_fetchContacts (Ok d) st))"
  by (simp add: searchContacts_def xh_fetchContacts_def)

text \<open>C19: Every row the hook holds in its invoice lists is an object that is not a manual
  payment and has a truthy contact name and a defined contact id; every fetch, whatever the
  service answers, keeps it so.\<close>

theorem xh_invoice_rows_preserved:
  assumes "invoice_rows (xh_invoices st)" and "invoice_rows (xh_availableInvoices st)"
  shows "invoice_rows (xh_invoices (snd (xh_fetchInvoices o' st)))
       \<and> invoice_rows (xh_availableInvoices (snd (xh_fetchAvailableInvoices o' st)))
       \<and> invoice_rows (xh_invoices (snd (xh_fetchAvailableInvoices o' st)))
       \<and> invoice_rows (xh_availableInvoices (snd (xh_fetchInvoices o' st)))"
  using assms xh_fetchInvoices_rows xh_fetchAvailableInvoices_rows
  by (auto simp: xh_fetchInvoices_def xh_fetchAvailableInvoices_def Let_def split: sum.split)

theorem xh_invoice_rows_preserved_witness:
  "invoice_rows (xh_invoices (snd (xh_fetchInvoices (Ok demo_invoice_body) xh_initial)))
   \<and> invoice_rows (xh_availableInvoices (snd (xh_fetchAvailableInvoices NetworkError xh_initial)))"
  using xh_invoice_rows_preserved [of xh_initial "Ok demo_invoice_body"]
        xh_invoice_rows_preserved [of xh_initial NetworkError]
  by (simp add: xh_initial_def invoice_rows_def)

text \<open>C20: The contact search decides whether to open the dropdown from the contacts of the
  render that started it: on the first search, with the hook's contacts still empty, a
  successful search that finds contacts stores them but leaves the dropdown closed.\<close>

theorem searchContacts_stale_dropdown:
  assumes "xh_contacts st = Arr []" and "truthy (js_get d ''success'')"
    and "js_get d ''data'' = Arr (c # cs)"
  shows "fst (searchContacts (Ok d) st shown) = False
       \<and> xh_contacts (snd (searchContacts (Ok d) st shown)) = Arr (c # cs)"
  using assms
  by (simp add: searchContacts_reads_previous js_length_pos_def)
     (simp add: searchContacts_def xh_fetchContacts_def js_or_def)

theorem searchContacts_stale_dropdown_witness:
  "fst (searchContacts (Ok demo_contacts_body) xh_initial True) = False
   \<and> xh_contacts (snd (searchContacts (Ok demo_contacts_body) xh_initial True))
       = Arr [Obj [(''contactID'', Str ''c1''), (''name'', Str ''Acme'')]]"
  using searchContacts_stale_dropdown
    [of xh_initial demo_contacts_body "Obj [(''contactID'', Str ''c1''), (''name'', Str ''Acme'')]" "[]" True]
  by (simp add: xh_initial_def demo_contacts_body_def)

end
