(* ===== verification/RequestApproval.thy ===== *)
theory RequestApproval
  imports XeroHooks PaymentForm Hooks "HOL-Library.Multiset"
begin

text \<open>
  The request-approval page, \<^verbatim>\<open>src/client/src/pages/RequestApproval.jsx\<close>, with its
  payment batch panel \<^verbatim>\<open>components/request-approval/PaymentSummary.jsx\<close> and
  \<^verbatim>\<open>PaymentSummaryList.jsx\<close>. The page holds the selected invoice ids and the manual
  payments it built (\<open>ra_state\<close>); the panel groups all of them by supplier, shows the
  total and submits the batch (\<open>ps_state\<close>). An item of the panel is an invoice row of
  \<^verbatim>\<open>useXero\<close> (a \<open>js\<close> value) or a manual payment object built by
  \<^verbatim>\<open>createPaymentObject\<close> (a record: its amounts are fractional numbers). Amounts are
  read with \<^verbatim>\<open>Number()\<close> (\<^theory_text>\<open>XeroHooks\<close>) into exact rationals,
  \<open>None\<close> being \<open>NaN\<close>; their sums are exact, not the rounded sums of doubles the page
  computes, so no property here compares two different sums of the same amounts. The
  load effect of the page is driven by its observations and by the timer of
  \<^verbatim>\<open>handleBatchSubmitted\<close> (\<open>ra_event\<close>).
\<close>

subsection \<open>Numbers of the panel\<close>

text \<open>\<open>+\<close> on numbers: \<open>NaN\<close> absorbs.\<close>

definition num_add :: "rat option \<Rightarrow> rat option \<Rightarrow> rat option" where
  "num_add a b = (case (a, b) of (Some x, Some y) \<Rightarrow> Some (x + y) | _ \<Rightarrow> None)"

subsection \<open>Manual payment objects\<close>

text \<open>The object \<^verbatim>\<open>createPaymentObject(formData, result)\<close> returns.\<close>

record manual_item =
  mi_id :: js
  mi_contactName :: string
  mi_contactID :: js
  mi_status :: string
  mi_taxIncl :: js
  mi_subTotal :: rat
  mi_totalTax :: rat
  mi_total :: rat
  mi_lineItems :: "form_line list"
  mi_invoiceNumber :: js
  mi_reference :: js
  mi_description :: string
  mi_date :: string
  mi_currency :: string
  mi_createdAt :: string

text \<open>\<^verbatim>\<open>parseFloat(line.line_amount) || 0\<close> of a submitted line (whose amount is
  already a number or \<open>NaN\<close>).\<close>

definition submitted_amount :: "form_line \<Rightarrow> rat" where
  "submitted_amount l = (case ln_line_amount l of Some a \<Rightarrow> a | None \<Rightarrow> 0)"

text \<open>\<open>now\<close> is \<^verbatim>\<open>Date.now()\<close>, \<open>iso_now\<close> \<^verbatim>\<open>new Date().toISOString()\<close> and \<open>today\<close> its
  date part.\<close>

definition createPaymentObject :: "payment_form \<Rightarrow> js \<Rightarrow> int \<Rightarrow> string \<Rightarrow> string \<Rightarrow> manual_item" where
  "createPaymentObject f result now iso_now today =
     (let ref = js_get (js_get result ''data'') ''payment_reference'';
          subTotal = sum_list (map submitted_amount (pf_lines f));
          totalTax = sum_list (map (\<lambda>l. submitted_amount l * ln_tax_rate l) (pf_lines f)) in
      \<lparr>mi_id = js_or ref (Str (''manual_'' @ show_int now)), mi_contactName = contact_name f,
       mi_contactID = contact_id f, mi_status = (if pf_status f \<noteq> [] then pf_status f else ''DRAFTED''),
       mi_taxIncl = (if taxIncl f \<noteq> [] then Str (taxIncl f) else Bool False),
       mi_subTotal = subTotal, mi_totalTax = totalTax, mi_total = subTotal + totalTax,
       mi_lineItems = pf_lines f, mi_invoiceNumber = js_or ref (Str []),
       mi_reference = js_or ref (js_or (Str (payment_reference f)) (Str [])),
       mi_description = pf_description f, mi_date = (if payment_date f \<noteq> [] then payment_date f else today),
       mi_currency = (if currency_code f \<noteq> [] then currency_code f else ''SGD''), mi_createdAt = iso_now\<rparr>)"

subsection \<open>Items of the payment batch panel\<close>

datatype pay_item = InvoiceItem js | ManualItem manual_item

text \<open>The properties the panel reads of an item: \<^verbatim>\<open>item.id\<close>,
  \<^verbatim>\<open>item.isManualPayment\<close>, \<^verbatim>\<open>Number(item.amountDue || item.total || 0)\<close> and the
  supplier key \<^verbatim>\<open>curr.contactName || curr.supplier\<close> (an object key is a string). A manual
  payment object has no \<^verbatim>\<open>amountDue\<close> and no \<^verbatim>\<open>supplier\<close>.\<close>

fun item_id :: "pay_item \<Rightarrow> js" where
  "item_id (InvoiceItem v) = js_get v ''id''"
| "item_id (ManualItem m) = mi_id m"

fun item_is_manual :: "pay_item \<Rightarrow> bool" where
  "item_is_manual (InvoiceItem v) = truthy (js_get v ''isManualPayment'')"
| "item_is_manual (ManualItem m) = True"

fun item_amount :: "pay_item \<Rightarrow> rat option" where
  "item_amount (InvoiceItem v) = js_number (js_or (js_get v ''amountDue'') (js_or (js_get v ''total'') (Num 0)))"
| "item_amount (ManualItem m) = Some (mi_total m)"

fun item_supplier :: "pay_item \<Rightarrow> string" where
  "item_supplier (InvoiceItem v) = js_to_string (js_or (js_get v ''contactName'') (js_get v ''supplier''))"
| "item_supplier (ManualItem m) = (if mi_contactName m \<noteq> [] then mi_contactName m else ''undefined'')"

text \<open>\<^verbatim>\<open>totalAmount\<close>: the reduce over \<^verbatim>\<open>allPayments\<close> from 0.\<close>

definition totalAmount :: "pay_item list \<Rightarrow> rat option" where
  "totalAmount items = foldl (\<lambda>s i. num_add s (item_amount i)) (Some 0) items"

record supplier_group =
  sg_totalAmount :: "rat option"
  sg_count :: nat
  sg_items :: "pay_item list"

text \<open>One step of the \<^verbatim>\<open>supplierSummary\<close> reduce on a key the accumulator does not
  inherit: a new key is appended with a fresh group, an existing key's group adds the item.
  The order of the keys is insertion order; JavaScript lists integer-like keys first, which
  supplier names are not.\<close>

fun group_add :: "string \<Rightarrow> pay_item \<Rightarrow> (string \<times> supplier_group) list \<Rightarrow> (string \<times> supplier_group) list" where
  "group_add k i [] = [(k, \<lparr>sg_totalAmount = num_add (Some 0) (item_amount i), sg_count = 1, sg_items = [i]\<rparr>)]"
| "group_add k i ((k', g) # gs) =
     (if k' = k then (k', g\<lparr>sg_totalAmount := num_add (sg_totalAmount g) (item_amount i),
                            sg_count := Suc (sg_count g), sg_items := sg_items g @ [i]\<rparr>) # gs
      else (k', g) # group_add k i gs)"

text \<open>The keys an object literal \<open>{}\<close> inherits from \<^verbatim>\<open>Object.prototype\<close>. For
  such a key \<^verbatim>\<open>acc[supplier]\<close> is the inherited function (or the prototype), so no group
  is created, and \<^verbatim>\<open>acc[supplier].items.push\<close> throws.\<close>

definition proto_keys :: "string list" where
  "proto_keys = [''constructor'', ''__defineGetter__'', ''__defineSetter__'', ''hasOwnProperty'',
     ''__lookupGetter__'', ''__lookupSetter__'', ''isPrototypeOf'', ''propertyIsEnumerable'',
     ''toString'', ''valueOf'', ''__proto__'', ''toLocaleString'']"

definition summary_step :: "pay_item \<Rightarrow> (string \<times> supplier_group) list \<Rightarrow> string + (string \<times> supplier_group) list" where
  "summary_step i acc =
     (if item_supplier i \<in> set proto_keys then Inl (read_error Undef ''push'')
      else Inr (group_add (item_supplier i) i acc))"

definition supplierSummary :: "pay_item list \<Rightarrow> string + (string \<times> supplier_group) list" where
  "supplierSummary items =
     foldl (\<lambda>acc i. case acc of Inl e \<Rightarrow> Inl e | Inr gs \<Rightarrow> summary_step i gs) (Inr []) items"

text \<open>The groups the reduce builds when no key is inherited.\<close>

definition group_all :: "pay_item list \<Rightarrow> (string \<times> supplier_group) list" where
  "group_all items = foldl (\<lambda>acc i. group_add (item_supplier i) i acc) [] items"

subsection \<open>The payment batch panel\<close>

record ps_state =
  ps_paymentDate :: string
  ps_selectedBankAccount :: string
  ps_isModalOpen :: bool
  ps_selectedItemForDetails :: "pay_item option"
  ps_isConfirmationModalOpen :: bool

definition ps_initial :: "string \<Rightarrow> ps_state" where
  "ps_initial today =
     \<lparr>ps_paymentDate = today, ps_selectedBankAccount = [], ps_isModalOpen = False,
      ps_selectedItemForDetails = None, ps_isConfirmationModalOpen = False\<rparr>"

text \<open>\<^verbatim>\<open>accounts.filter((account) => account.isBankAccount)\<close> and the account the
  select names.\<close>

definition bankAccounts :: "js list \<Rightarrow> js list" where
  "bankAccounts accounts = filter (\<lambda>a. truthy (js_get a ''isBankAccount'')) accounts"

definition selected_account :: "js list \<Rightarrow> string \<Rightarrow> js" where
  "selected_account accounts sel =
     (case find (\<lambda>a. js_get a ''accountID'' = Str sel) (bankAccounts accounts) of Some a \<Rightarrow> a | None \<Rightarrow> Undef)"

text \<open>The page's callbacks \<^verbatim>\<open>handleRemove\<close> calls.\<close>

datatype remove_call = RemoveInvoice js | RemoveManual js

definition handleRemove :: "pay_item \<Rightarrow> remove_call" where
  "handleRemove item = (if item_is_manual item then RemoveManual (item_id item) else RemoveInvoice (item_id item))"

text \<open>The Finalize button is enabled unless
  \<^verbatim>\<open>!paymentDate || !selectedBankAccount || allPayments.length === 0 || batchLoading\<close>,
  where \<^verbatim>\<open>batchLoading\<close> is the \<^verbatim>\<open>loading\<close> of \<^verbatim>\<open>usePaymentBatch\<close>.\<close>

definition canFinalize :: "ps_state \<Rightarrow> pay_item list \<Rightarrow> pb_hook \<Rightarrow> bool" where
  "canFinalize st items pb =
     (ps_paymentDate st \<noteq> [] \<and> ps_selectedBankAccount st \<noteq> [] \<and> items \<noteq> [] \<and> \<not> pb_loading pb)"

record batch_submit =
  bs_PaymentDate :: string
  bs_AccountID :: string
  bs_BankAccountNumber :: js
  bs_BankCode :: js
  bs_BankName :: js
  bs_invoices :: "js list"
  bs_manualPayments :: "manual_item list"

text \<open>What the panel reads from the page: the Xero accounts of \<^verbatim>\<open>useXero\<close>, the
  selected invoices and the manual payments, today's date and the date formatter of the
  batch list.\<close>

record ps_ctx =
  cx_accounts :: "js list"
  cx_selectedInvoices :: "js list"
  cx_manualPayments :: "manual_item list"
  cx_today :: string
  cx_locale_date :: "js \<Rightarrow> js"

definition ctx_items :: "ps_ctx \<Rightarrow> pay_item list" where
  "ctx_items cx = map InvoiceItem (cx_selectedInvoices cx) @ map ManualItem (cx_manualPayments cx)"

definition submit_data :: "ps_ctx \<Rightarrow> ps_state \<Rightarrow> batch_submit" where
  "submit_data cx st =
     (let a = selected_account (cx_accounts cx) (ps_selectedBankAccount st) in
      \<lparr>bs_PaymentDate = ps_paymentDate st, bs_AccountID = ps_selectedBankAccount st,
       bs_BankAccountNumber = js_or (js_get a ''bankAccountNumber'') (Str []),
       bs_BankCode = js_or (js_get a ''code'') (Str []), bs_BankName = js_or (js_get a ''name'') (Str []),
       bs_invoices = map (\<lambda>invoice. js_put (obj_of invoice) ''contactID''
                                  (js_or (js_get (js_get invoice ''contact'') ''contactID'') (Str [])))
                         (cx_selectedInvoices cx),
       bs_manualPayments = cx_manualPayments cx\<rparr>)"

text \<open>\<^verbatim>\<open>createBatch\<close> of \<^verbatim>\<open>usePaymentBatch\<close>: the state while the create request is
  pending, and the state and value after its answer and the refetch
  \<^verbatim>\<open>fetchBatches({})\<close> that follows a success.\<close>

definition createBatch_pending :: "pb_hook \<Rightarrow> pb_hook" where
  "createBatch_pending st = st\<lparr>pb_isSubmitting := True, pb_error := Null\<rparr>"

definition createBatch_answer :: "(js \<Rightarrow> js) \<Rightarrow> axios_outcome \<Rightarrow> axios_outcome \<Rightarrow> pb_hook \<Rightarrow> (string + js) \<times> pb_hook" where
  "createBatch_answer locale_date o_create o_fetch st =
     (case paymentBatch_create_result o_create of
        Inl m \<Rightarrow> (Inl m, st\<lparr>pb_error := Str m, pb_isSubmitting := False\<rparr>)
      | Inr r \<Rightarrow> (Inr r, (fetchBatches_result locale_date Undef Undef o_fetch
                           (st\<lparr>pb_loading := True, pb_error := Null\<rparr>))\<lparr>pb_isSubmitting := False\<rparr>))"

text \<open>The panel with its batch hook: the create requests sent so far, the number still
  unanswered and the number of batches whose success reached the page (each clears the
  page's selection through its callbacks).\<close>

record ps_sys =
  sys_ps :: ps_state
  sys_pb :: pb_hook
  sys_sent :: "batch_submit list"
  sys_inflight :: nat
  sys_done :: nat

datatype ps_event =
    SetPaymentDate string | SelectBankAccount string | ViewDetails pay_item | CloseModal
  | SubmitClick | CloseConfirmation | ConfirmSubmit | CreateAnswered axios_outcome axios_outcome

text \<open>Whether the control of an event can be used: Finalize when enabled, the confirm
  button of the open confirmation when \<^verbatim>\<open>isLoading\<close> (the same \<^verbatim>\<open>batchLoading\<close>) is
  false, an answer when a request is pending.\<close>

fun ps_offered :: "ps_ctx \<Rightarrow> ps_sys \<Rightarrow> ps_event \<Rightarrow> bool" where
  "ps_offered cx sys SubmitClick = canFinalize (sys_ps sys) (ctx_items cx) (sys_pb sys)"
| "ps_offered cx sys ConfirmSubmit = (ps_isConfirmationModalOpen (sys_ps sys) \<and> \<not> pb_loading (sys_pb sys))"
| "ps_offered cx sys (CreateAnswered _ _) = (0 < sys_inflight sys)"
| "ps_offered cx sys _ = True"

fun ps_apply :: "ps_ctx \<Rightarrow> ps_event \<Rightarrow> ps_sys \<Rightarrow> ps_sys" where
  "ps_apply cx (SetPaymentDate d) sys = sys\<lparr>sys_ps := (sys_ps sys)\<lparr>ps_paymentDate := d\<rparr>\<rparr>"
| "ps_apply cx (SelectBankAccount a) sys = sys\<lparr>sys_ps := (sys_ps sys)\<lparr>ps_selectedBankAccount := a\<rparr>\<rparr>"
| "ps_apply cx (ViewDetails i) sys =
     sys\<lparr>sys_ps := (sys_ps sys)\<lparr>ps_selectedItemForDetails := Some i, ps_isModalOpen := True\<rparr>\<rparr>"
| "ps_apply cx CloseModal sys =
     sys\<lparr>sys_ps := (sys_ps sys)\<lparr>ps_isModalOpen := False, ps_selectedItemForDetails := None\<rparr>\<rparr>"
| "ps_apply cx SubmitClick sys = sys\<lparr>sys_ps := (sys_ps sys)\<lparr>ps_isConfirmationModalOpen := True\<rparr>\<rparr>"
| "ps_apply cx CloseConfirmation sys = sys\<lparr>sys_ps := (sys_ps sys)\<lparr>ps_isConfirmationModalOpen := False\<rparr>\<rparr>"
| "ps_apply cx ConfirmSubmit sys =
     sys\<lparr>sys_pb := createBatch_pending (sys_pb sys), sys_sent := sys_sent sys @ [submit_data cx (sys_ps sys)],
         sys_inflight := Suc (sys_inflight sys)\<rparr>"
| "ps_apply cx (CreateAnswered o1 o2) sys =
     (case createBatch_answer (cx_locale_date cx) o1 o2 (sys_pb sys) of
        (Inl m, pb') \<Rightarrow> sys\<lparr>sys_pb := pb', sys_inflight := sys_inflight sys - 1\<rparr>
      | (Inr r, pb') \<Rightarrow>
          sys\<lparr>sys_pb := pb', sys_inflight := sys_inflight sys - 1, sys_done := Suc (sys_done sys),
              sys_ps := (sys_ps sys)\<lparr>ps_paymentDate := cx_today cx, ps_selectedBankAccount := [],
                                     ps_isConfirmationModalOpen := False\<rparr>\<rparr>)"

definition ps_step :: "ps_ctx \<Rightarrow> ps_sys \<Rightarrow> ps_event \<Rightarrow> ps_sys" where
  "ps_step cx sys ev = (if ps_offered cx sys ev then ps_apply cx ev sys else sys)"

definition ps_run :: "ps_ctx \<Rightarrow> ps_event list \<Rightarrow> ps_sys \<Rightarrow> ps_sys" where
  "ps_run cx evs sys = foldl (ps_step cx) sys evs"

subsection \<open>The page\<close>

text \<open>The page's state hooks and its two refs \<^verbatim>\<open>hasFetched\<close> and
  \<^verbatim>\<open>lastSyncState\<close>; \<open>ra_allInvoices\<close> is the object \<^verbatim>\<open>allInvoices\<close> as its list
  of entries.\<close>

record ra_state =
  ra_selectedInvoiceIds :: "js list"
  ra_manualPayments :: "manual_item list"
  ra_allInvoices :: "(string \<times> js) list"
  ra_refreshTrigger :: int
  ra_hasFetched :: bool
  ra_lastSyncState :: bool

definition ra_initial :: "bool \<Rightarrow> ra_state" where
  "ra_initial synced =
     \<lparr>ra_selectedInvoiceIds = [], ra_manualPayments = [], ra_allInvoices = [], ra_refreshTrigger = 0,
      ra_hasFetched = False, ra_lastSyncState = synced\<rparr>"

text \<open>\<^verbatim>\<open>selectedInvoices\<close>: each selected id's row among the available invoices,
  else the row remembered in \<^verbatim>\<open>allInvoices\<close>, without the falsy results.\<close>

definition selectedInvoices :: "js list \<Rightarrow> ra_state \<Rightarrow> js list" where
  "selectedInvoices avail st =
     filter truthy
       (map (\<lambda>i. case find (\<lambda>invoice. js_get invoice ''id'' = i) avail of
                   Some invoice \<Rightarrow> if truthy invoice then invoice else js_get (Obj (ra_allInvoices st)) (js_to_string i)
                 | None \<Rightarrow> js_get (Obj (ra_allInvoices st)) (js_to_string i))
            (ra_selectedInvoiceIds st))"

text \<open>The effect on \<^verbatim>\<open>[isSynced, isInitializing, loadAvailableInvoices]\<close>. Since
  \<^verbatim>\<open>fetchAvailableInvoices\<close> of \<^verbatim>\<open>useXero\<close> is a new function at every render, the
  effect runs after every render; an observation is the pair \<open>(isSynced, isInitializing)\<close>
  it sees, and its result says whether it calls \<^verbatim>\<open>loadAvailableInvoices\<close>.\<close>

definition ra_sync_effect :: "bool \<times> bool \<Rightarrow> ra_state \<Rightarrow> bool \<times> ra_state" where
  "ra_sync_effect obs st =
     (let (synced, initializing) = obs;
          load = (synced \<and> \<not> initializing \<and> \<not> ra_hasFetched st);
          hf = (ra_hasFetched st \<or> load);
          hf' = (if ra_lastSyncState st \<and> \<not> synced then False else hf)
      in (load, st\<lparr>ra_hasFetched := hf', ra_lastSyncState := synced\<rparr>))"


text \<open>The effect on \<^verbatim>\<open>[availableInvoices]\<close>: the rows by id, spread over the previous
  object (an existing key keeps its place and takes the new row).\<close>

definition ra_merge_effect :: "js list \<Rightarrow> ra_state \<Rightarrow> ra_state" where
  "ra_merge_effect avail st =
     (if avail \<noteq> [] then
        st\<lparr>ra_allInvoices := foldl (\<lambda>m invoice. kv_put m (js_to_string (js_get invoice ''id'')) invoice) (ra_allInvoices st) avail\<rparr>
      else st)"

definition handleInvoiceSelectionChange :: "js list \<Rightarrow> ra_state \<Rightarrow> ra_state" where
  "handleInvoiceSelectionChange ids st = st\<lparr>ra_selectedInvoiceIds := ids\<rparr>"

definition handleRemoveInvoice :: "js \<Rightarrow> ra_state \<Rightarrow> ra_state" where
  "handleRemoveInvoice i st = st\<lparr>ra_selectedInvoiceIds := filter (\<lambda>x. x \<noteq> i) (ra_selectedInvoiceIds st)\<rparr>"

definition handleRemoveManualPayment :: "js \<Rightarrow> ra_state \<Rightarrow> ra_state" where
  "handleRemoveManualPayment i st = st\<lparr>ra_manualPayments := filter (\<lambda>p. mi_id p \<noteq> i) (ra_manualPayments st)\<rparr>"

definition handleClearAllInvoices :: "ra_state \<Rightarrow> ra_state" where
  "handleClearAllInvoices st = st\<lparr>ra_selectedInvoiceIds := []\<rparr>"

definition handleClearAllManualPayments :: "ra_state \<Rightarrow> ra_state" where
  "handleClearAllManualPayments st = st\<lparr>ra_manualPayments := []\<rparr>"

text \<open>\<^verbatim>\<open>handleBatchSubmitted\<close>, and its timer a second later, which calls
  \<^verbatim>\<open>loadAvailableInvoices\<close> after clearing \<^verbatim>\<open>hasFetched\<close>.\<close>

definition handleBatchSubmitted :: "ra_state \<Rightarrow> ra_state" where
  "handleBatchSubmitted st =
     st\<lparr>ra_selectedInvoiceIds := [], ra_manualPayments := [], ra_refreshTrigger := ra_refreshTrigger st + 1\<rparr>"

definition batch_submitted_timer :: "ra_state \<Rightarrow> bool \<times> ra_state" where
  "batch_submitted_timer st = (True, st\<lparr>ra_hasFetched := False\<rparr>)"

text \<open>What drives \<^verbatim>\<open>loadAvailableInvoices\<close>: a run of the fetch effect with the
  observation it sees, or the timer of \<^verbatim>\<open>handleBatchSubmitted\<close>. A run of the page is a
  sequence of them; each says whether it calls \<^verbatim>\<open>loadAvailableInvoices\<close>.\<close>

datatype ra_event = RaObs "bool \<times> bool" | RaBatchTimer

fun ra_event_step :: "ra_event \<Rightarrow> ra_state \<Rightarrow> bool \<times> ra_state" where
  "ra_event_step (RaObs obs) st = ra_sync_effect obs st"
| "ra_event_step RaBatchTimer st = batch_submitted_timer st"

fun ra_effect_run :: "ra_event list \<Rightarrow> ra_state \<Rightarrow> bool list \<times> ra_state" where
  "ra_effect_run [] st = ([], st)"
| "ra_effect_run (e # rest) st =
     (let (l, st') = ra_event_step e st; (ls, st'') = ra_effect_run rest st' in (l # ls, st''))"

text \<open>The reference count of the loads while Xero stays synced: the observations between
  two timers, and whether one of them has finished initialising.\<close>

fun ra_segments :: "ra_event list \<Rightarrow> (bool \<times> bool) list list" where
  "ra_segments [] = [[]]"
| "ra_segments (RaBatchTimer # es) = [] # ra_segments es"
| "ra_segments (RaObs obs # es) = (let ss = ra_segments es in (obs # hd ss) # tl ss)"

definition ra_ready :: "(bool \<times> bool) list \<Rightarrow> bool" where
  "ra_ready seg \<longleftrightarrow> (\<exists>obs\<in>set seg. \<not> snd obs)"

definition ra_all_synced :: "ra_event list \<Rightarrow> bool" where
  "ra_all_synced es \<longleftrightarrow> (\<forall>e\<in>set es. case e of RaObs obs \<Rightarrow> fst obs | RaBatchTimer \<Rightarrow> True)"

text \<open>\<^verbatim>\<open>handleRemove\<close> of the panel, applied by the page.\<close>

fun apply_remove :: "remove_call \<Rightarrow> ra_state \<Rightarrow> ra_state" where
  "apply_remove (RemoveInvoice i) st = handleRemoveInvoice i st"
| "apply_remove (RemoveManual i) st = handleRemoveManualPayment i st"

text \<open>\<^verbatim>\<open>handleAddManualPayment\<close> after \<^verbatim>\<open>createPayment\<close> resolved with \<open>result\<close>:
  the value it returns, the toasts it shows and the new state. Showing the validation
  errors reads \<^verbatim>\<open>error.message\<close> of each; a nullish one throws, which the
  \<^verbatim>\<open>catch\<close> turns into a toast of its message.\<close>

datatype add_result = AddOk manual_item | AddFail js js | AddThrown string

fun toast_errors :: "js list \<Rightarrow> js list \<times> string option" where
  "toast_errors [] = ([], None)"
| "toast_errors (e # es) =
     (if nullish e then ([], Some (read_error e ''message''))
      else (let (ts, thrown) = toast_errors es in (js_get e ''message'' # ts, thrown)))"

definition handleAddManualPayment ::
    "payment_form \<Rightarrow> js \<Rightarrow> int \<Rightarrow> string \<Rightarrow> string \<Rightarrow> ra_state \<Rightarrow> add_result \<times> js list \<times> ra_state" where
  "handleAddManualPayment f result now iso_now today st =
     (if truthy (js_get result ''success'') then
        (let p = createPaymentObject f result now iso_now today in
         (AddOk p, [], st\<lparr>ra_manualPayments := ra_manualPayments st @ [p]\<rparr>))
      else
        (let msg = js_or (js_get result ''error'') (Str ''Failed to create manual payment'');
             errs = js_get result ''errors'' in
         case errs of
           Arr (e # es) \<Rightarrow>
             (case toast_errors (e # es) of
                (ts, None) \<Rightarrow> (AddFail msg errs, ts, st)
              | (ts, Some m) \<Rightarrow> (AddThrown m, ts @ [Str m], st))
         | Str (c # cs) \<Rightarrow>
             (AddThrown ''result.errors.forEach is not a function'',
              [Str ''result.errors.forEach is not a function''], st)
         | _ \<Rightarrow> (AddFail msg errs, [msg], st)))"

subsection \<open>Fixtures\<close>

definition demo_ctx :: ps_ctx where
  "demo_ctx =
     \<lparr>cx_accounts = [Obj [(''accountID'', Str ''a1''), (''name'', Str ''Ops''), (''code'', Str ''090''),
                         (''bankAccountNumber'', Str ''12345678''), (''isBankAccount'', Bool True)]],
      cx_selectedInvoices = [Obj [(''id'', Str ''i1''), (''contactName'', Str ''Acme''), (''amountDue'', Num 110)]],
      cx_manualPayments = [], cx_today = ''2025-01-01'', cx_locale_date = id\<rparr>"

definition demo_sys :: ps_sys where
  "demo_sys =
     \<lparr>sys_ps = (ps_initial ''2025-01-01'')\<lparr>ps_selectedBankAccount := ''a1''\<rparr>, sys_pb = pb_initial,
      sys_sent = [], sys_inflight = 0, sys_done = 0\<rparr>"

subsection \<open>Lemmas: the fetch effect\<close>

text \<open>\<^verbatim>\<open>hasFetched\<close> is set only while synced.\<close>

definition ra_sync_inv :: "ra_state \<Rightarrow> bool" where
  "ra_sync_inv st = (ra_hasFetched st \<longrightarrow> ra_lastSyncState st)"

lemma ra_sync_effect_inv: "ra_sync_inv st \<Longrightarrow> ra_sync_inv (snd (ra_sync_effect obs st))"
  by (cases obs) (auto simp: ra_sync_inv_def ra_sync_effect_def Let_def)

lemma ra_sync_effect_unsynced:
  "ra_sync_inv st \<Longrightarrow> ra_sync_effect (False, i) st = (False, st\<lparr>ra_hasFetched := False, ra_lastSyncState := False\<rparr>)"
  by (auto simp: ra_sync_inv_def ra_sync_effect_def)

lemma ra_sync_effect_synced:
  "ra_sync_effect (True, i) st =
     (\<not> i \<and> \<not> ra_hasFetched st, st\<lparr>ra_hasFetched := (ra_hasFetched st \<or> \<not> i), ra_lastSyncState := True\<rparr>)"
  by (cases "ra_hasFetched st") (simp_all add: ra_sync_effect_def Let_def)

lemma ra_event_step_inv: "ra_sync_inv st \<Longrightarrow> ra_sync_inv (snd (ra_event_step e st))"
  by (cases e) (simp add: ra_sync_effect_inv, simp add: batch_submitted_timer_def ra_sync_inv_def)

lemma ra_effect_run_Cons:
  "ra_effect_run (e # r) st =
     (fst (ra_event_step e st) # fst (ra_effect_run r (snd (ra_event_step e st))),
      snd (ra_effect_run r (snd (ra_event_step e st))))"
  by (simp add: split_def Let_def)

lemma ra_effect_run_append:
  "ra_effect_run (xs @ ys) st =
     (fst (ra_effect_run xs st) @ fst (ra_effect_run ys (snd (ra_effect_run xs st))),
      snd (ra_effect_run ys (snd (ra_effect_run xs st))))"
  by (induction xs arbitrary: st) (auto simp: split_def Let_def)

lemma ra_effect_run_length [simp]: "length (fst (ra_effect_run xs st)) = length xs"
  by (induction xs arbitrary: st) (auto simp: split_def Let_def)

lemma ra_effect_run_inv: "ra_sync_inv st \<Longrightarrow> ra_sync_inv (snd (ra_effect_run xs st))"
  by (induction xs arbitrary: st) (auto simp: split_def Let_def ra_event_step_inv simp del: ra_event_step.simps)

lemma ra_segments_Cons_hd: "ra_segments es = hd (ra_segments es) # tl (ra_segments es)"
  by (induction es rule: ra_segments.induct) (simp_all add: Let_def)

lemma ra_ready_simps [simp]:
  "\<not> ra_ready []"
  "ra_ready (obs # seg) \<longleftrightarrow> \<not> snd obs \<or> ra_ready seg"
  by (auto simp: ra_ready_def)

lemma ra_segments_ready:
  "length (filter ra_ready (ra_segments es))
     = length (filter ra_ready [hd (ra_segments es)]) + length (filter ra_ready (tl (ra_segments es)))"
  by (subst ra_segments_Cons_hd) simp

lemma ra_all_synced_Cons [simp]:
  "ra_all_synced (RaBatchTimer # es) = ra_all_synced es"
  "ra_all_synced (RaObs obs # es) = (fst obs \<and> ra_all_synced es)"
  by (auto simp: ra_all_synced_def)

text \<open>While Xero stays synced, the effect loads once per timer, and once more in each
  stretch of observations that has a finished initialisation, except the first stretch when
  the invoices were already fetched.\<close>

lemma ra_effect_run_synced:
  "ra_all_synced ys \<Longrightarrow>
   count_list (fst (ra_effect_run ys st)) True
     = count_list ys RaBatchTimer
       + length (filter ra_ready (if ra_hasFetched st then tl (ra_segments ys) else ra_segments ys))"
proof (induction ys arbitrary: st)
  case Nil
  then show ?case by simp
next
  case (Cons e ys)
  show ?case
  proof (cases e)
    case RaBatchTimer
    with Cons show ?thesis
      by (simp add: ra_effect_run_Cons batch_submitted_timer_def del: ra_effect_run.simps(2))
  next
    case (RaObs obs)
    with Cons.prems obtain i where o: "obs = (True, i)" by (cases obs) auto
    have seg: "ra_segments (RaObs obs # ys) = (obs # hd (ra_segments ys)) # tl (ra_segments ys)"
      by (simp add: Let_def)
    from Cons RaObs o seg show ?thesis
      by (cases i; cases "ra_hasFetched st")
         (simp_all add: ra_effect_run_Cons ra_sync_effect_synced ra_segments_ready del: ra_effect_run.simps(2)
            ra_segments.simps)
  qed
qed

subsection \<open>Lemmas: the supplier summary\<close>

text \<open>A sum of numbers that is \<open>NaN\<close> when one of them is.\<close>

definition opt_sum :: "rat option list \<Rightarrow> rat option" where
  "opt_sum xs = (if None \<in> set xs then None else Some (sum_list (map the xs)))"

lemma num_add_assoc: "num_add (num_add a b) c = num_add a (num_add b c)"
  by (simp add: num_add_def split: option.splits)

lemma num_add_opt_sum: "num_add (opt_sum xs) (opt_sum ys) = opt_sum (xs @ ys)"
  by (simp add: num_add_def opt_sum_def)

lemma num_add_zero [simp]: "num_add (Some 0) x = x"
  by (cases x) (simp_all add: num_add_def)

lemma opt_sum_single [simp]: "opt_sum [x] = x"
  by (cases x) (simp_all add: opt_sum_def)

lemma num_add_opt_sum_snoc: "num_add (opt_sum xs) x = opt_sum (xs @ [x])"
  by (cases x) (auto simp: num_add_def opt_sum_def)

lemma num_add_opt_sum_Cons: "num_add x (opt_sum ys) = opt_sum (x # ys)"
  by (cases x) (auto simp: num_add_def opt_sum_def)

lemma foldl_num_add: "foldl (\<lambda>s i. num_add s (f i)) a xs = num_add a (opt_sum (map f xs))"
proof (induction xs arbitrary: a)
  case Nil
  then show ?case by (cases a) (simp_all add: num_add_def opt_sum_def)
next
  case (Cons x xs)
  have "num_add (f x) (opt_sum (map f xs)) = opt_sum (map f (x # xs))"
    by (simp add: num_add_opt_sum_Cons)
  with Cons show ?case by (simp add: num_add_assoc)
qed

lemma opt_sum_mset: "mset xs = mset ys \<Longrightarrow> opt_sum xs = opt_sum ys"
proof -
  assume m: "mset xs = mset ys"
  have "sum_list (map the xs) = sum_mset (mset (map the xs))" by (rule sum_mset_sum_list [symmetric])
  also have "\<dots> = sum_mset (mset (map the ys))" using m by simp
  also have "\<dots> = sum_list (map the ys)" by (rule sum_mset_sum_list)
  moreover have "set xs = set ys" using m by (rule mset_eq_setD)
  ultimately show ?thesis by (simp add: opt_sum_def)
qed

text \<open>A group's total is the sum of its items' amounts; the groups hold the items.\<close>

definition group_ok :: "string \<times> supplier_group \<Rightarrow> bool" where
  "group_ok kg = (sg_totalAmount (snd kg) = opt_sum (map item_amount (sg_items (snd kg)))
                  \<and> sg_count (snd kg) = length (sg_items (snd kg)))"

lemma group_add_ok: "list_all group_ok gs \<Longrightarrow> list_all group_ok (group_add k i gs)"
  by (induction k i gs rule: group_add.induct)
     (auto simp: group_ok_def num_add_opt_sum_snoc)

lemma group_add_keys: "map fst (group_add k i gs) = (if k \<in> set (map fst gs) then map fst gs else map fst gs @ [k])"
  by (induction k i gs rule: group_add.induct) auto

lemma group_add_items:
  "mset (concat (map (\<lambda>g. sg_items (snd g)) (group_add k i gs))) = mset (concat (map (\<lambda>g. sg_items (snd g)) gs)) + {#i#}"
  by (induction k i gs rule: group_add.induct) auto

lemma group_all_snoc:
  "group_all (items @ [i]) = group_add (item_supplier i) i (group_all items)"
  by (simp add: group_all_def)

lemma group_all_ok: "list_all group_ok (group_all items)"
  by (induction items rule: rev_induct) (simp_all add: group_all_def group_add_ok)

lemma group_all_items: "mset (concat (map (\<lambda>g. sg_items (snd g)) (group_all items))) = mset items"
  by (induction items rule: rev_induct) (simp_all add: group_all_snoc group_add_items group_all_def)

lemma group_all_distinct: "distinct (map fst (group_all items))"
  by (induction items rule: rev_induct) (simp_all add: group_all_snoc group_add_keys group_all_def)

text \<open>The reduce throws as soon as it meets an inherited key, and otherwise builds the groups.\<close>

lemma supplierSummary_eq:
  "supplierSummary items =
     (if \<exists>i\<in>set items. item_supplier i \<in> set proto_keys then Inl (read_error Undef ''push'')
      else Inr (group_all items))"
proof (induction items rule: rev_induct)
  case Nil
  then show ?case by (simp add: supplierSummary_def group_all_def)
next
  case (snoc i items)
  have "supplierSummary (items @ [i]) =
          (case supplierSummary items of Inl e \<Rightarrow> Inl e | Inr gs \<Rightarrow> summary_step i gs)"
    by (simp add: supplierSummary_def)
  with snoc show ?case by (auto simp: summary_step_def group_all_snoc)
qed

lemma group_all_totals:
  "map (\<lambda>g. sg_totalAmount (snd g)) (group_all items)
   = map (\<lambda>g. opt_sum (map item_amount (sg_items (snd g)))) (group_all items)"
  using group_all_ok [of items] by (simp add: list_all_iff group_ok_def)

lemma group_all_counts:
  "map (\<lambda>g. sg_count (snd g)) (group_all items) = map (\<lambda>g. length (sg_items (snd g))) (group_all items)"
  using group_all_ok [of items] by (simp add: list_all_iff group_ok_def)

lemma totalAmount_opt_sum: "totalAmount items = opt_sum (map item_amount items)"
  by (simp add: totalAmount_def foldl_num_add)

subsection \<open>Lemmas: manual payments\<close>


subsection \<open>Properties\<close>

text \<open>C21: After Xero has been seen unsynced, and while it then stays synced, the page
  loads the available invoices once in the first stretch in which initialisation has
  finished, and after each batch submission twice: once in the timer of
  \<^verbatim>\<open>handleBatchSubmitted\<close> and once more in the next run of the effect, since the timer
  clears \<^verbatim>\<open>hasFetched\<close>.\<close>

theorem sync_period_single_fetch:
  assumes "ra_sync_inv st" and "ra_all_synced ys"
  shows "count_list (drop (Suc (length xs)) (fst (ra_effect_run (xs @ RaObs (False, i) # ys) st))) True
           = count_list ys RaBatchTimer + length (filter ra_ready (ra_segments ys))"
proof -
  let ?s1 = "snd (ra_effect_run xs st)"
  have inv: "ra_sync_inv ?s1" using assms(1) by (rule ra_effect_run_inv)
  have "drop (Suc (length xs)) (fst (ra_effect_run (xs @ RaObs (False, i) # ys) st))
        = fst (ra_effect_run ys (snd (ra_sync_effect (False, i) ?s1)))"
    by (simp add: ra_effect_run_append ra_effect_run_Cons del: ra_effect_run.simps(2))
  moreover have "\<not> ra_hasFetched (snd (ra_sync_effect (False, i) ?s1))"
    by (simp add: ra_sync_effect_unsynced [OF inv])
  ultimately show ?thesis using ra_effect_run_synced [OF assms(2)] by simp
qed

theorem sync_period_single_fetch_witness:
  "fst (ra_effect_run [RaObs (True, False), RaObs (False, False), RaObs (True, True), RaObs (True, False),
                       RaObs (True, False), RaBatchTimer, RaObs (True, False), RaObs (True, False)] (ra_initial True))
     = [True, False, False, True, False, True, True, False]
   \<and> count_list (drop 2 (fst (ra_effect_run [RaObs (True, False), RaObs (False, False), RaObs (True, True),
       RaObs (True, False), RaObs (True, False), RaBatchTimer, RaObs (True, False), RaObs (True, False)]
       (ra_initial True)))) True = 3"
proof -
  have run: "fst (ra_effect_run [RaObs (True, False), RaObs (False, False), RaObs (True, True), RaObs (True, False),
                       RaObs (True, False), RaBatchTimer, RaObs (True, False), RaObs (True, False)] (ra_initial True))
     = [True, False, False, True, False, True, True, False]"
    by (simp add: ra_sync_effect_def batch_submitted_timer_def ra_initial_def)
  have "count_list (drop (Suc (length [RaObs (True, False)])) (fst (ra_effect_run ([RaObs (True, False)] @ RaObs (False, False)
       # [RaObs (True, True), RaObs (True, False), RaObs (True, False), RaBatchTimer, RaObs (True, False), RaObs (True, False)])
       (ra_initial True)))) True = 3"
    using sync_period_single_fetch [of "ra_initial True"
        "[RaObs (True, True), RaObs (True, False), RaObs (True, False), RaBatchTimer, RaObs (True, False), RaObs (True, False)]"
        "[RaObs (True, False)]" False]
    by (simp add: ra_sync_inv_def ra_initial_def ra_all_synced_def)
  with run show ?thesis by (simp add: numeral_2_eq_2)
qed

text \<open>C22: The supplier summary of the payment batch panel partitions the selected
  payments when no supplier name is a key an object inherits: its supplier keys are
  distinct, its groups hold exactly the selected payments, and each group's count is its
  number of items. A payment whose supplier is such a key (\<^verbatim>\<open>constructor\<close>,
  \<^verbatim>\<open>toString\<close>, ...) makes the reduce throw.\<close>

theorem supplierSummary_partition:
  "case supplierSummary items of
     Inl e \<Rightarrow> e = read_error Undef ''push'' \<and> (\<exists>i\<in>set items. item_supplier i \<in> set proto_keys)
   | Inr gs \<Rightarrow> list_all (\<lambda>i. item_supplier i \<notin> set proto_keys) items
       \<and> mset (concat (map (\<lambda>g. sg_items (snd g)) gs)) = mset items
       \<and> distinct (map fst gs)
       \<and> map (\<lambda>g. sg_count (snd g)) gs = map (\<lambda>g. length (sg_items (snd g))) gs"
  by (simp add: supplierSummary_eq group_all_items group_all_distinct group_all_counts list_all_iff)


text \<open>C23: While a batch is being created the panel does not block a second
  confirmation: the guards read \<^verbatim>\<open>loading\<close>, which \<^verbatim>\<open>createBatch\<close> never sets
  (it sets \<^verbatim>\<open>isSubmitting\<close>), so confirming twice sends the same batch twice.\<close>

theorem double_confirm_two_batches:
  assumes "ps_isConfirmationModalOpen (sys_ps sys)" and "\<not> pb_loading (sys_pb sys)"
  shows "sys_sent (ps_run cx [ConfirmSubmit, ConfirmSubmit] sys)
           = sys_sent sys @ [submit_data cx (sys_ps sys), submit_data cx (sys_ps sys)]
         \<and> sys_inflight (ps_run cx [ConfirmSubmit, ConfirmSubmit] sys) = sys_inflight sys + 2"
  using assms by (simp add: ps_run_def ps_step_def createBatch_pending_def)

theorem double_confirm_two_batches_witness:
  "length (sys_sent (ps_run demo_ctx [SubmitClick, ConfirmSubmit, ConfirmSubmit] demo_sys)) = 2
   \<and> bs_AccountID (hd (sys_sent (ps_run demo_ctx [SubmitClick, ConfirmSubmit, ConfirmSubmit] demo_sys))) = ''a1''"
proof -
  let ?s1 = "ps_step demo_ctx demo_sys SubmitClick"
  have s1: "ps_isConfirmationModalOpen (sys_ps ?s1)" "\<not> pb_loading (sys_pb ?s1)" "sys_sent ?s1 = []"
    by (simp_all add: ps_step_def canFinalize_def ctx_items_def demo_ctx_def demo_sys_def ps_initial_def pb_initial_def)
  have run: "ps_run demo_ctx [SubmitClick, ConfirmSubmit, ConfirmSubmit] demo_sys = ps_run demo_ctx [ConfirmSubmit, ConfirmSubmit] ?s1"
    by (simp add: ps_run_def)
  have sent: "sys_sent (ps_run demo_ctx [SubmitClick, ConfirmSubmit, ConfirmSubmit] demo_sys)
              = [submit_data demo_ctx (sys_ps ?s1), submit_data demo_ctx (sys_ps ?s1)]"
    unfolding run using double_confirm_two_batches [OF s1(1,2), of demo_ctx] s1(3) by simp
  have acc: "ps_selectedBankAccount (sys_ps ?s1) = ''a1''"
    by (simp add: ps_step_def canFinalize_def ctx_items_def demo_ctx_def demo_sys_def ps_initial_def pb_initial_def)
  show ?thesis by (simp add: sent submit_data_def Let_def acc)
qed

end
