(* ===== verification/XeroCallback.thy ===== *)
theory XeroCallback
  imports ClientXero
begin

text \<open>
  The client's side of the Xero consent flow: the page
  \<^verbatim>\<open>src/client/src/pages/XeroCallbackRedirect.jsx\<close> that Xero redirects to (route
  \<^verbatim>\<open>xero/callback\<close>), which posts the code and the state to the server and navigates back
  to the page that started the flow, and the hook
  \<^verbatim>\<open>src/client/src/hooks/useXeroSyncRedirect.jsx\<close>, which no module imports (the
  context's \<open>sync\<close> of \<^theory_text>\<open>ClientXero\<close> is the one in use). The browser's
  \<^verbatim>\<open>localStorage\<close> entry \<^verbatim>\<open>xero_return_url\<close> is a \<open>string option\<close>; navigations
  and toasts are returned as lists, in the order the code issues them.
\<close>

subsection \<open>The unused hook useXeroSyncRedirect\<close>

text \<open>\<^verbatim>\<open>lastSyncTime\<close> is set to \<^verbatim>\<open>Date.now()\<close> (a number) by
  \<^verbatim>\<open>checkConnectionStatus\<close> but to \<^verbatim>\<open>new Date()\<close> (an object) by \<^verbatim>\<open>sync\<close>.\<close>

datatype sync_time = Millis time | DateObj time

record sr_hook =
  sr_isSyncing :: bool
  sr_isSynced :: js
  sr_lastSyncTime :: "sync_time option"
  sr_error :: js

definition sr_initial :: sr_hook where
  "sr_initial = \<lparr>sr_isSyncing = False, sr_isSynced = Bool False, sr_lastSyncTime = None, sr_error = Null\<rparr>"

definition sr_checkConnectionStatus :: "time \<Rightarrow> axios_outcome \<Rightarrow> sr_hook \<Rightarrow> sr_hook" where
  "sr_checkConnectionStatus now o' st =
     (case connectionStatus_result o' of
        Inr result \<Rightarrow>
          (if truthy (js_get result ''success'') \<and> truthy (js_get result ''data'')
           then st\<lparr>sr_isSynced := js_or (js_get (js_get result ''data'') ''isConnected'') (Bool False),
                   sr_lastSyncTime := Some (Millis now)\<rparr>
           else st\<lparr>sr_isSynced := Bool False\<rparr>)
      | Inl _ \<Rightarrow> st\<lparr>sr_isSynced := Bool False\<rparr>)"

text \<open>What \<^verbatim>\<open>sync\<close> does besides its state: store the return path and leave for the
  consent page, toast, or schedule a status check a second later.\<close>

datatype sr_effect = SaveReturnUrl string | GoTo js | ToastSuccess js | ToastError string | CheckAfter nat

definition sr_sync :: "time \<Rightarrow> string \<Rightarrow> axios_outcome \<Rightarrow> sr_hook \<Rightarrow> (string + js) \<times> sr_hook \<times> sr_effect list" where
  "sr_sync now pathname o' st =
     (let st1 = st\<lparr>sr_isSyncing := True, sr_error := Null\<rparr> in
      case sync_result o' of
        Inl m \<Rightarrow>
          (let msg = (if m = [] then ''Failed to sync with Xero'' else m) in
           (Inl msg, st1\<lparr>sr_error := Str msg, sr_isSyncing := False\<rparr>, [ToastError msg]))
      | Inr result \<Rightarrow>
          (if \<not> truthy (js_get result ''success'') \<and> truthy (js_get result ''requiresAuth'')
              \<and> truthy (js_get result ''authUrl'')
           then (Inr result, st1\<lparr>sr_isSyncing := False\<rparr>, [SaveReturnUrl pathname, GoTo (js_get result ''authUrl'')])
           else if truthy (js_get result ''success'')
           then (Inr result, st1\<lparr>sr_isSynced := Bool True, sr_lastSyncTime := Some (DateObj now), sr_isSyncing := False\<rparr>,
                 [ToastSuccess (js_or (js_get result ''message'') (Str ''Successfully synced with Xero'')), CheckAfter 1000])
           else (Inr result, st1\<lparr>sr_isSyncing := False\<rparr>, [])))"

subsection \<open>The callback page\<close>

text \<open>The query parameters \<^verbatim>\<open>code\<close>, \<^verbatim>\<open>state\<close> and \<^verbatim>\<open>error\<close>
  (\<^verbatim>\<open>searchParams.get\<close> gives \<open>Null\<close> for a missing one), the answer of the
  callback request and of the status check that follows a success, and the clock.\<close>

record cb_input =
  cb_code :: js
  cb_state :: js
  cb_error :: js
  cb_answer :: axios_outcome
  cb_status_answer :: axios_outcome
  cb_now :: time

record cb_page =
  cb_status :: string
  cb_processed :: bool

definition cb_initial :: cb_page where
  "cb_initial = \<lparr>cb_status = ''processing'', cb_processed = False\<rparr>"

text \<open>\<^verbatim>\<open>navigate(url, {replace: true, state})\<close> after a delay: the URL, the
  \<^verbatim>\<open>xeroStatus\<close> of the state if any, and the delay in milliseconds.\<close>

datatype nav = Navigate string "string option" nat

record cb_out =
  out_page :: cb_page
  out_store :: "string option"
  out_navs :: "nav list"
  out_toasts :: "(bool \<times> string) list"
  out_ctx :: xero_ctx

text \<open>\<^verbatim>\<open>redirectWithDelay\<close>: reads and removes the return URL and navigates two
  seconds later with a \<^verbatim>\<open>xeroStatus\<close> computed from \<open>status\<close>, the value of the
  render whose effect created the function.\<close>

definition redirectWithDelay :: "string \<Rightarrow> string option \<Rightarrow> string option \<times> nav" where
  "redirectWithDelay rstatus store =
     (None, Navigate (case store of Some u \<Rightarrow> if u \<noteq> [] then u else ''/'' | None \<Rightarrow> ''/'')
                     (Some (if rstatus = ''success'' then ''connected'' else ''failed'')) 2000)"

text \<open>\<^verbatim>\<open>handleCallback\<close> with the \<open>status\<close> of its render.\<close>

definition handleCallback_page ::
    "string \<Rightarrow> cb_input \<Rightarrow> string option \<Rightarrow> cb_page \<Rightarrow> xero_ctx \<Rightarrow> cb_out" where
  "handleCallback_page rstatus inp store pg c =
     (let (store', n) = redirectWithDelay rstatus store;
          finish = (\<lambda>s ts c'. \<lparr>out_page = pg\<lparr>cb_status := s\<rparr>, out_store = store', out_navs = [n],
                              out_toasts = ts, out_ctx = c'\<rparr>) in
      if truthy (cb_error inp) then
        finish ''error'' [(False, ''Xero authentication failed: '' @ js_to_string (cb_error inp))] c
      else if \<not> truthy (cb_code inp) then
        finish ''error'' [(False, ''Authorization code missing from Xero response'')] c
      else
        (case callback_result (cb_answer inp) of
           Inl m \<Rightarrow> finish ''error'' [(False, if m = [] then ''Failed to connect to Xero'' else m)] c
         | Inr result \<Rightarrow>
             (if truthy (js_get result ''success'') then
                finish ''success'' [(True, ''Successfully connected to Xero!'')]
                  (snd (checkConnectionStatus (cb_now inp) (connectionStatus_result (cb_status_answer inp)) c))
              else
                (let m = js_to_string (js_or (js_get result ''message'') (Str ''Connection failed'')) in
                 finish ''error'' [(False, if m = [] then ''Failed to connect to Xero'' else m)] c))))"

text \<open>The effect of a render whose \<open>status\<close> is \<open>cb_status pg\<close>: a direct visit
  (no parameter) goes back at once; otherwise the first run handles the callback and
  later runs (the effect depends on \<open>status\<close>) return at \<^verbatim>\<open>processedRef\<close>.\<close>

definition cb_effect :: "cb_input \<Rightarrow> string option \<Rightarrow> cb_page \<Rightarrow> xero_ctx \<Rightarrow> cb_out" where
  "cb_effect inp store pg c =
     (if \<not> truthy (cb_code inp) \<and> \<not> truthy (cb_state inp) \<and> \<not> truthy (cb_error inp) then
        \<lparr>out_page = pg, out_store = None,
         out_navs = [Navigate (case store of Some u \<Rightarrow> if u \<noteq> [] then u else ''/'' | None \<Rightarrow> ''/'') None 0],
         out_toasts = [], out_ctx = c\<rparr>
      else if cb_processed pg then
        \<lparr>out_page = pg, out_store = store, out_navs = [], out_toasts = [], out_ctx = c\<rparr>
      else handleCallback_page (cb_status pg) inp store (pg\<lparr>cb_processed := True\<rparr>) c)"

text \<open>The page from its mount: the first render's effect, then the effect of the render
  its status change causes.\<close>

definition cb_mount :: "cb_input \<Rightarrow> string option \<Rightarrow> xero_ctx \<Rightarrow> cb_out \<times> cb_out" where
  "cb_mount inp store c =
     (let o1 = cb_effect inp store cb_initial c in (o1, cb_effect inp (out_store o1) (out_page o1) (out_ctx o1)))"

definition demo_callback :: cb_input where
  "demo_callback =
     \<lparr>cb_code = Str ''abc'', cb_state = Str ''s1'', cb_error = Null,
      cb_answer = Ok (Obj [(''success'', Bool True), (''data'', Obj [(''tenantId'', Str ''t1'')])]),
      cb_status_answer = Ok (Obj [(''success'', Bool True), (''data'', Obj [(''isConnected'', Bool True)])]),
      cb_now = 1000\<rparr>"

subsection \<open>Lemmas\<close>

lemma handleCallback_page_navs:
  "\<exists>u. out_navs (handleCallback_page rstatus inp store pg c)
         = [Navigate u (Some (if rstatus = ''success'' then ''connected'' else ''failed'')) 2000]
       \<and> out_store (handleCallback_page rstatus inp store pg c) = None
       \<and> cb_processed (out_page (handleCallback_page rstatus inp store pg c)) = cb_processed pg"
  by (simp add: handleCallback_page_def redirectWithDelay_def Let_def split: sum.split)

lemma cb_effect_processed:
  "cb_processed pg \<Longrightarrow> truthy (cb_code inp) \<or> truthy (cb_state inp) \<or> truthy (cb_error inp) \<Longrightarrow>
   out_navs (cb_effect inp store pg c) = []"
  by (auto simp: cb_effect_def)

subsection \<open>Properties\<close>

text \<open>C29: The callback page never reports a connection: whatever Xero and the server
  answer, every navigation it makes carries \<^verbatim>\<open>xeroStatus\<close> \<^verbatim>\<open>"failed"\<close> or none,
  because the \<^verbatim>\<open>status\<close> it tests is the one of the first render, still
  \<^verbatim>\<open>"processing"\<close>.\<close>

theorem callback_never_reports_connected:
  "list_all (\<lambda>n. case n of Navigate u s d \<Rightarrow> s \<noteq> Some ''connected'')
     (out_navs (fst (cb_mount inp store c)) @ out_navs (snd (cb_mount inp store c)))"
proof -
  obtain u where h: "out_navs (handleCallback_page ''processing'' inp store (cb_initial\<lparr>cb_processed := True\<rparr>) c)
                     = [Navigate u (Some ''failed'') 2000]"
    using handleCallback_page_navs [of "''processing''" inp store "cb_initial\<lparr>cb_processed := True\<rparr>" c] by auto
  have p: "cb_processed (out_page (handleCallback_page ''processing'' inp store (cb_initial\<lparr>cb_processed := True\<rparr>) c))"
    using handleCallback_page_navs [of "''processing''" inp store "cb_initial\<lparr>cb_processed := True\<rparr>" c] by simp
  show ?thesis
    using h p by (auto simp: cb_mount_def Let_def cb_effect_def cb_initial_def)
qed

text \<open>C30: A callback with a parameter is handled exactly once: the page navigates back
  once, two seconds later, after removing the stored return URL, and the effect's later
  run (caused by the status change) does nothing.\<close>

theorem callback_single_navigation:
  assumes "truthy (cb_code inp) \<or> truthy (cb_state inp) \<or> truthy (cb_error inp)"
  shows "length (out_navs (fst (cb_mount inp store c))) = 1
       \<and> out_store (fst (cb_mount inp store c)) = None
       \<and> out_navs (snd (cb_mount inp store c)) = []"
proof -
  let ?o = "handleCallback_page ''processing'' inp store (cb_initial\<lparr>cb_processed := True\<rparr>) c"
  have o: "fst (cb_mount inp store c) = ?o" using assms by (auto simp: cb_mount_def Let_def cb_effect_def cb_initial_def)
  have h: "length (out_navs ?o) = 1" "out_store ?o = None" "cb_processed (out_page ?o)"
    using handleCallback_page_navs [of "''processing''" inp store "cb_initial\<lparr>cb_processed := True\<rparr>" c] by auto
  have "out_navs (snd (cb_mount inp store c)) = []"
    using o h(3) assms by (simp add: cb_mount_def Let_def cb_effect_processed)
  with o h show ?thesis by simp
qed

theorem callback_single_navigation_witness:
  "length (out_navs (fst (cb_mount demo_callback (Some ''/request-approval'') initial_ctx))) = 1
   \<and> out_store (fst (cb_mount demo_callback (Some ''/request-approval'') initial_ctx)) = None
   \<and> out_navs (snd (cb_mount demo_callback (Some ''/request-approval'') initial_ctx)) = []
   \<and> cb_status (out_page (fst (cb_mount demo_callback (Some ''/request-approval'') initial_ctx))) = ''success''
   \<and> out_navs (fst (cb_mount demo_callback (Some ''/request-approval'') initial_ctx))
       = [Navigate ''/request-approval'' (Some ''failed'') 2000]"
proof -
  have "truthy (cb_code demo_callback) \<or> truthy (cb_state demo_callback) \<or> truthy (cb_error demo_callback)"
    by (simp add: demo_callback_def)
  note once = callback_single_navigation [OF this, of "Some ''/request-approval''" initial_ctx]
  have "cb_status (out_page (fst (cb_mount demo_callback (Some ''/request-approval'') initial_ctx))) = ''success''
        \<and> out_navs (fst (cb_mount demo_callback (Some ''/request-approval'') initial_ctx))
            = [Navigate ''/request-approval'' (Some ''failed'') 2000]"
    by (simp add: cb_mount_def cb_effect_def demo_callback_def handleCallback_page_def redirectWithDelay_def
                  cb_initial_def Let_def)
  with once show ?thesis by simp
qed

end
