(* ===== verification/TableData.thy ===== *)
theory TableData
  imports Tables RequestApproval
begin

text \<open>
  Row selection of the client's table component
  \<^verbatim>\<open>src/client/src/components/table/TableData.jsx\<close>, which
  \<^verbatim>\<open>ClientPaginatedTable.jsx\<close> renders with the rows of its current page, and the
  selection buttons of \<^verbatim>\<open>components/request-approval/AvailableInvoices.jsx\<close>. The
  selection is a list of row ids, owned by the table (\<open>td_internal\<close>) or by its parent
  (the \<^verbatim>\<open>selectedIds\<close> prop, \<open>Some\<close> list); every change is reported to the parent
  through \<^verbatim>\<open>onSelectionChange\<close>, here the list the step emits.
\<close>

subsection \<open>JavaScript equalities on ids\<close>

text \<open>\<^verbatim>\<open>Array.prototype.includes\<close> and \<^verbatim>\<open>Set\<close> use SameValueZero (\<open>NaN\<close> equals
  itself); \<^verbatim>\<open>!==\<close> is \<open>strict_eq\<close> of \<^theory_text>\<open>TrustProxy\<close>, redefined here for ids. An
  array or object id is equal only to itself, and two values of the model are never the
  same allocation.\<close>

definition same_value_zero :: "js \<Rightarrow> js \<Rightarrow> bool" where
  "same_value_zero a b = (case a of NaN \<Rightarrow> b = NaN | Arr _ \<Rightarrow> False | Obj _ \<Rightarrow> False | _ \<Rightarrow> a = b)"

definition id_strict_eq :: "js \<Rightarrow> js \<Rightarrow> bool" where
  "id_strict_eq a b = (case a of NaN \<Rightarrow> False | Arr _ \<Rightarrow> False | Obj _ \<Rightarrow> False | _ \<Rightarrow> a = b)"

definition js_includes :: "js list \<Rightarrow> js \<Rightarrow> bool" where
  "js_includes xs v = list_ex (\<lambda>x. same_value_zero x v) xs"

text \<open>\<^verbatim>\<open>[...new Set(xs)]\<close>: the first occurrence of each value, in order.\<close>

definition set_dedupe :: "js list \<Rightarrow> js list" where
  "set_dedupe xs = foldl (\<lambda>acc x. if js_includes acc x then acc else acc @ [x]) [] xs"

subsection \<open>The component\<close>

record td_props =
  td_data :: "js list"
  td_selectable :: bool
  td_external :: "js list option"
  td_loading :: bool
  td_error :: js
  td_rowIdKey :: string

record td_state =
  td_internal :: "js list"
  td_selectAll :: bool

definition td_initial :: td_state where
  "td_initial = \<lparr>td_internal = [], td_selectAll = False\<rparr>"

definition getRowId :: "string \<Rightarrow> js \<Rightarrow> js" where
  "getRowId key row = js_or (js_get row key) (js_get row ''id'')"

definition selectedIds :: "td_props \<Rightarrow> td_state \<Rightarrow> js list" where
  "selectedIds p st = (case td_external p of Some xs \<Rightarrow> xs | None \<Rightarrow> td_internal st)"

text \<open>The effect on \<^verbatim>\<open>[data, selectedIds]\<close> that recomputes \<^verbatim>\<open>selectAll\<close>.\<close>

definition allSelected :: "td_props \<Rightarrow> td_state \<Rightarrow> bool" where
  "allSelected p st =
     (td_data p \<noteq> [] \<and> list_all (\<lambda>row. js_includes (selectedIds p st) (getRowId (td_rowIdKey p) row)) (td_data p))"

definition select_all_effect :: "td_props \<Rightarrow> td_state \<Rightarrow> td_state" where
  "select_all_effect p st = st\<lparr>td_selectAll := allSelected p st\<rparr>"

text \<open>\<^verbatim>\<open>handleSelectionChange\<close>: a table that owns its selection stores it; both
  modes report it.\<close>

definition handleSelectionChange :: "td_props \<Rightarrow> js list \<Rightarrow> td_state \<Rightarrow> td_state \<times> js list" where
  "handleSelectionChange p ids st =
     (case td_external p of Some _ \<Rightarrow> (st, ids) | None \<Rightarrow> (st\<lparr>td_internal := ids\<rparr>, ids))"

definition toggle_ids :: "js list \<Rightarrow> js \<Rightarrow> js list" where
  "toggle_ids sel r = (if js_includes sel r then filter (\<lambda>i. \<not> id_strict_eq i r) sel else sel @ [r])"

definition toggleSelectRow :: "td_props \<Rightarrow> js \<Rightarrow> td_state \<Rightarrow> td_state \<times> js list" where
  "toggleSelectRow p r st = handleSelectionChange p (toggle_ids (selectedIds p st) r) st"

definition page_ids :: "td_props \<Rightarrow> js list" where
  "page_ids p = map (getRowId (td_rowIdKey p)) (td_data p)"

definition select_all_ids :: "js list \<Rightarrow> js list \<Rightarrow> bool \<Rightarrow> js list" where
  "select_all_ids sel page checked =
     (if checked then set_dedupe (sel @ page) else filter (\<lambda>i. \<not> js_includes page i) sel)"

definition toggleSelectAll :: "td_props \<Rightarrow> bool \<Rightarrow> td_state \<Rightarrow> td_state \<times> js list" where
  "toggleSelectAll p checked st =
     (let (st', ids) = handleSelectionChange p (select_all_ids (selectedIds p st) (page_ids p) checked) st
      in (st'\<lparr>td_selectAll := checked\<rparr>, ids))"

datatype td_event = ToggleRow js | ToggleAll bool | ClearSelection

text \<open>Which controls are rendered and enabled: none when \<^verbatim>\<open>error\<close> is set (only the
  alert is shown); the header checkbox when selectable, disabled while loading; a row's
  checkbox for a row of the data when not loading; the clear button when something is
  selected.\<close>

fun td_offered :: "td_props \<Rightarrow> td_state \<Rightarrow> td_event \<Rightarrow> bool" where
  "td_offered p st (ToggleRow r) =
     (\<not> truthy (td_error p) \<and> td_selectable p \<and> \<not> td_loading p \<and> r \<in> set (page_ids p))"
| "td_offered p st (ToggleAll c) = (\<not> truthy (td_error p) \<and> td_selectable p \<and> \<not> td_loading p)"
| "td_offered p st ClearSelection = (\<not> truthy (td_error p) \<and> td_selectable p \<and> selectedIds p st \<noteq> [])"

fun td_apply :: "td_props \<Rightarrow> td_event \<Rightarrow> td_state \<Rightarrow> td_state \<times> js list" where
  "td_apply p (ToggleRow r) st = toggleSelectRow p r st"
| "td_apply p (ToggleAll c) st = toggleSelectAll p c st"
| "td_apply p ClearSelection st = handleSelectionChange p [] st"

text \<open>A used control: the new state after the selection effect, and the list reported
  to the parent (\<open>None\<close> when the control is not there).\<close>

definition td_step :: "td_props \<Rightarrow> td_event \<Rightarrow> td_state \<Rightarrow> td_state \<times> js list option" where
  "td_step p ev st =
     (if td_offered p st ev then (let (st', ids) = td_apply p ev st in (select_all_effect p st', Some ids))
      else (st, None))"

subsection \<open>The available invoices of the request-approval page\<close>

text \<open>\<^verbatim>\<open>AvailableInvoices\<close> passes the page's selection to
  \<^verbatim>\<open>ClientPaginatedTable\<close>, which renders \<^verbatim>\<open>TableData\<close> with the rows of its current
  page and \<^verbatim>\<open>rowIdKey = "id"\<close>; the selection it reports becomes the page's
  \<^verbatim>\<open>selectedInvoiceIds\<close>.\<close>

definition available_props :: "table_props \<Rightarrow> ctable \<Rightarrow> bool \<Rightarrow> js \<Rightarrow> ra_state \<Rightarrow> td_props" where
  "available_props pr ct isLoading err st =
     \<lparr>td_data = paginatedData pr ct, td_selectable = True, td_external = Some (ra_selectedInvoiceIds st),
      td_loading = isLoading, td_error = err, td_rowIdKey = ''id''\<rparr>"

definition available_table_event ::
    "table_props \<Rightarrow> ctable \<Rightarrow> bool \<Rightarrow> js \<Rightarrow> td_event \<Rightarrow> td_state \<times> ra_state \<Rightarrow> td_state \<times> ra_state" where
  "available_table_event pr ct isLoading err ev s =
     (case td_step (available_props pr ct isLoading err (snd s)) ev (fst s) of
        (t', Some ids) \<Rightarrow> (t', handleInvoiceSelectionChange ids (snd s))
      | (t', None) \<Rightarrow> (t', snd s))"

text \<open>The two buttons of \<^verbatim>\<open>AvailableInvoices\<close> (Select All disabled when every
  available invoice is selected or while loading; Clear All when none is).\<close>

definition handleSelectAll :: "js list \<Rightarrow> ra_state \<Rightarrow> ra_state" where
  "handleSelectAll avail st =
     handleInvoiceSelectionChange (set_dedupe (ra_selectedInvoiceIds st @ map (\<lambda>i. js_get i ''id'') avail)) st"

definition handleClearAll :: "ra_state \<Rightarrow> ra_state" where
  "handleClearAll st = handleInvoiceSelectionChange [] st"

definition avail_allSelected :: "js list \<Rightarrow> js list \<Rightarrow> bool" where
  "avail_allSelected avail sel = (avail \<noteq> [] \<and> list_all (\<lambda>i. js_includes sel (js_get i ''id'')) avail)"

definition avail_someSelected :: "js list \<Rightarrow> js list \<Rightarrow> bool" where
  "avail_someSelected avail sel = list_ex (\<lambda>i. js_includes sel (js_get i ''id'')) avail"

subsection \<open>The selection as a set\<close>

text \<open>Ids for which both equalities are plain equality: not \<open>NaN\<close>, not an array or
  object (the tables' ids are strings).\<close>

definition plain_id :: "js \<Rightarrow> bool" where
  "plain_id v = (case v of NaN \<Rightarrow> False | Arr _ \<Rightarrow> False | Obj _ \<Rightarrow> False | _ \<Rightarrow> True)"

definition sel_inv :: "js list \<Rightarrow> bool" where
  "sel_inv ids = (distinct ids \<and> list_all plain_id ids)"

text \<open>What each selection control means on the set of selected ids, given the ids of
  the rows shown.\<close>

fun sel_spec :: "td_event \<Rightarrow> js set \<Rightarrow> js set \<Rightarrow> js set" where
  "sel_spec (ToggleRow r) page s = (if r \<in> s then s - {r} else insert r s)"
| "sel_spec (ToggleAll c) page s = (if c then s \<union> page else s - page)"
| "sel_spec ClearSelection page s = {}"

definition demo_invoices :: "js list" where
  "demo_invoices = [Obj [(''id'', Str ''i1'')], Obj [(''id'', Str ''i2'')], Obj [(''id'', Str ''i3'')]]"

definition demo_table_props :: table_props where
  "demo_table_props = \<lparr>searchable = False, searchKeys = [], initialPageSize = 2, pageSizeOptions = [2]\<rparr>"

definition demo_page2 :: ctable where
  "demo_page2 = \<lparr>tdata = demo_invoices, currentPage = 2, pageSize = 2, searchTerm = [], reset_pending = False\<rparr>"

definition demo_selection :: ra_state where
  "demo_selection = (ra_initial True)\<lparr>ra_selectedInvoiceIds := [Str ''i1'']\<rparr>"

subsection \<open>Lemmas\<close>

lemma same_value_zero_plain: "plain_id a \<Longrightarrow> same_value_zero a b = (a = b)"
  by (cases a) (simp_all add: plain_id_def same_value_zero_def)

lemma id_strict_eq_plain: "plain_id a \<Longrightarrow> id_strict_eq a b = (a = b)"
  by (cases a) (simp_all add: plain_id_def id_strict_eq_def)

lemma js_includes_plain: "list_all plain_id xs \<Longrightarrow> js_includes xs v = (v \<in> set xs)"
  by (induction xs) (auto simp: js_includes_def same_value_zero_plain)

lemma set_dedupe_step:
  "list_all plain_id acc \<Longrightarrow> list_all plain_id xs \<Longrightarrow>
   \<exists>zs. foldl (\<lambda>acc x. if js_includes acc x then acc else acc @ [x]) acc xs = acc @ zs
        \<and> set (acc @ zs) = set acc \<union> set xs \<and> (distinct acc \<longrightarrow> distinct (acc @ zs))"
proof (induction xs arbitrary: acc)
  case Nil
  then show ?case by simp
next
  case (Cons x xs)
  show ?case
  proof (cases "x \<in> set acc")
    case True
    have inc: "js_includes acc x" using Cons.prems True by (simp add: js_includes_plain)
    obtain zs where "foldl (\<lambda>acc x. if js_includes acc x then acc else acc @ [x]) acc xs = acc @ zs"
        "set (acc @ zs) = set acc \<union> set xs" "distinct acc \<longrightarrow> distinct (acc @ zs)"
      using Cons.IH [of acc] Cons.prems by auto
    then show ?thesis using inc True by (intro exI [of _ zs]) auto
  next
    case False
    from Cons have "list_all plain_id (acc @ [x])" by simp
    with Cons.IH [of "acc @ [x]"] Cons.prems False show ?thesis
      by (auto simp: js_includes_plain)
  qed
qed

lemma set_dedupe_append:
  "sel_inv sel \<Longrightarrow> list_all plain_id page \<Longrightarrow>
   \<exists>zs. set_dedupe (sel @ page) = sel @ zs \<and> set zs \<subseteq> set page \<and> sel_inv (sel @ zs)"
proof -
  assume inv: "sel_inv sel" and pg: "list_all plain_id page"
  have sel: "set_dedupe sel = sel"
  proof -
    obtain zs where "foldl (\<lambda>acc x. if js_includes acc x then acc else acc @ [x]) [] sel = zs"
                    "set zs = set sel" "distinct zs" "zs = [] @ zs"
      using set_dedupe_step [of "[]" sel] inv by (auto simp: sel_inv_def)
    have "foldl (\<lambda>acc x. if js_includes acc x then acc else acc @ [x]) acc' ys = acc' @ ys"
      if "distinct (acc' @ ys)" "list_all plain_id (acc' @ ys)" for acc' ys
      using that by (induction ys arbitrary: acc') (auto simp: js_includes_plain)
    from this [of "[]" sel] inv show ?thesis by (simp add: set_dedupe_def sel_inv_def)
  qed
  obtain zs where z: "foldl (\<lambda>acc x. if js_includes acc x then acc else acc @ [x]) sel page = sel @ zs"
                     "set (sel @ zs) = set sel \<union> set page" "distinct (sel @ zs)"
    using set_dedupe_step [of sel page] inv pg by (auto simp: sel_inv_def)
  have "set_dedupe (sel @ page) = sel @ zs"
    using sel z(1) by (simp add: set_dedupe_def)
  moreover have "set zs \<subseteq> set page" using z(2,3) by auto
  moreover have "list_all plain_id zs" using \<open>set zs \<subseteq> set page\<close> pg by (auto simp: list_all_iff)
  ultimately show ?thesis using z(3) inv by (auto simp: sel_inv_def)
qed

lemma toggle_ids_spec:
  "sel_inv sel \<Longrightarrow> plain_id r \<Longrightarrow>
   sel_inv (toggle_ids sel r) \<and> set (toggle_ids sel r) = (if r \<in> set sel then set sel - {r} else insert r (set sel))"
proof -
  assume inv: "sel_inv sel" and r: "plain_id r"
  then have f: "filter (\<lambda>i. \<not> id_strict_eq i r) sel = filter (\<lambda>i. i \<noteq> r) sel"
    by (intro filter_cong) (auto simp: sel_inv_def list_all_iff id_strict_eq_plain)
  show ?thesis
    using inv r by (auto simp: toggle_ids_def f js_includes_plain sel_inv_def list_all_iff)
qed

lemma select_all_ids_spec:
  "sel_inv sel \<Longrightarrow> list_all plain_id page \<Longrightarrow>
   sel_inv (select_all_ids sel page c)
   \<and> set (select_all_ids sel page c) = (if c then set sel \<union> set page else set sel - set page)"
proof (cases c)
  case True
  assume inv: "sel_inv sel" and pg: "list_all plain_id page"
  obtain zs where "set_dedupe (sel @ page) = sel @ zs" "set zs \<subseteq> set page" "sel_inv (sel @ zs)"
    using set_dedupe_append [OF inv pg] by blast
  moreover have "set (sel @ zs) = set sel \<union> set page"
  proof -
    obtain ws where "foldl (\<lambda>acc x. if js_includes acc x then acc else acc @ [x]) [] (sel @ page) = [] @ ws"
                    "set ([] @ ws) = set [] \<union> set (sel @ page)"
      using set_dedupe_step [of "[]" "sel @ page"] inv pg by (auto simp: sel_inv_def)
    with \<open>set_dedupe (sel @ page) = sel @ zs\<close> show ?thesis by (simp add: set_dedupe_def)
  qed
  ultimately show ?thesis using True by (simp add: select_all_ids_def)
next
  case False
  assume inv: "sel_inv sel" and pg: "list_all plain_id page"
  then show ?thesis using False
    by (auto simp: select_all_ids_def js_includes_plain sel_inv_def list_all_iff)
qed

lemma available_selection:
  "selectedIds (available_props pr ct isLoading err st) t = ra_selectedInvoiceIds st"
  by (simp add: selectedIds_def available_props_def)

lemma available_event_ids:
  "ra_selectedInvoiceIds (snd (available_table_event pr ct isLoading err ev (t, st)))
   = (if td_offered (available_props pr ct isLoading err st) t ev
      then snd (td_apply (available_props pr ct isLoading err st) ev t) else ra_selectedInvoiceIds st)"
  by (simp add: available_table_event_def td_step_def split_def Let_def handleInvoiceSelectionChange_def)

lemma available_toggle_row_ids:
  "snd (toggleSelectRow (available_props pr ct isLoading err st) r t) = toggle_ids (ra_selectedInvoiceIds st) r"
  by (simp add: toggleSelectRow_def handleSelectionChange_def available_selection, simp add: available_props_def)

lemma available_toggle_all_ids:
  "snd (toggleSelectAll (available_props pr ct isLoading err st) c t)
   = select_all_ids (ra_selectedInvoiceIds st) (page_ids (available_props pr ct isLoading err st)) c"
  by (simp add: toggleSelectAll_def handleSelectionChange_def available_selection split_def,
      simp add: available_props_def)

lemma available_clear_ids:
  "snd (handleSelectionChange (available_props pr ct isLoading err st) [] t) = []"
  by (simp add: handleSelectionChange_def available_props_def)

lemmas available_ids = available_event_ids available_toggle_row_ids available_toggle_all_ids available_clear_ids

subsection \<open>Properties\<close>

text \<open>C25: Every selection control of the available-invoices table implements its set
  operation on the request-approval page's selection, given the ids of the rows shown:
  a row's checkbox toggles its id, the header checkbox adds or removes the page's ids,
  Clear empties the selection, a control that is not there changes nothing; and the
  selection stays free of duplicates.\<close>

theorem available_selection_refines:
  assumes "sel_inv (ra_selectedInvoiceIds st)"
    and "list_all plain_id (page_ids (available_props pr ct isLoading err st))"
  shows "sel_inv (ra_selectedInvoiceIds (snd (available_table_event pr ct isLoading err ev (t, st))))
       \<and> set (ra_selectedInvoiceIds (snd (available_table_event pr ct isLoading err ev (t, st))))
           = (if td_offered (available_props pr ct isLoading err st) t ev
              then sel_spec ev (set (page_ids (available_props pr ct isLoading err st))) (set (ra_selectedInvoiceIds st))
              else set (ra_selectedInvoiceIds st))"
proof (cases "td_offered (available_props pr ct isLoading err st) t ev")
  case True
  show ?thesis
  proof (cases ev)
    case (ToggleRow r)
    with True assms(2) have "plain_id r" by (auto simp: list_all_iff)
    with ToggleRow True assms(1) show ?thesis
      by (simp add: available_ids toggle_ids_spec)
  next
    case (ToggleAll c)
    with True assms show ?thesis
      by (simp add: available_ids select_all_ids_spec)
  next
    case ClearSelection
    with True show ?thesis by (simp add: available_ids sel_inv_def)
  qed
next
  case False
  with assms(1) show ?thesis by (simp add: available_event_ids)
qed

theorem available_selection_refines_witness:
  "set (ra_selectedInvoiceIds (snd (available_table_event demo_table_props demo_page2 False Null (ToggleAll True)
                                      (td_initial, demo_selection))))
   = {Str ''i1'', Str ''i3''}"
proof -
  have pg: "page_ids (available_props demo_table_props demo_page2 False Null demo_selection) = [Str ''i3'']"
    by (simp add: page_ids_def available_props_def paginatedData_def filteredData_def demo_table_props_def
                  demo_page2_def demo_invoices_def getRowId_def js_or_def)
  have inv: "sel_inv (ra_selectedInvoiceIds demo_selection)"
    by (simp add: sel_inv_def demo_selection_def plain_id_def)
  show ?thesis
    using available_selection_refines [OF inv, of demo_table_props demo_page2 False Null "ToggleAll True" td_initial] pg
    by (simp add: plain_id_def available_props_def demo_selection_def insert_commute)
qed

text \<open>C26: Checking and then unchecking the header checkbox of a page of available
  invoices gives back exactly the selection from before (same ids, same order) when it
  had none of the page's rows.\<close>

theorem available_select_all_roundtrip:
  assumes "sel_inv (ra_selectedInvoiceIds st)"
    and "list_all plain_id (page_ids (available_props pr ct isLoading err st))"
    and "set (ra_selectedInvoiceIds st) \<inter> set (page_ids (available_props pr ct isLoading err st)) = {}"
    and "\<not> isLoading" and "\<not> truthy err"
  shows "ra_selectedInvoiceIds (snd (available_table_event pr ct isLoading err (ToggleAll False)
           (available_table_event pr ct isLoading err (ToggleAll True) (t, st)))) = ra_selectedInvoiceIds st"
proof -
  let ?P = "available_props pr ct isLoading err st" and ?sel = "ra_selectedInvoiceIds st"
  obtain zs where z: "set_dedupe (?sel @ page_ids ?P) = ?sel @ zs" "set zs \<subseteq> set (page_ids ?P)"
    using set_dedupe_append [OF assms(1,2)] by blast
  obtain t1 st1 where s1: "available_table_event pr ct isLoading err (ToggleAll True) (t, st) = (t1, st1)"
    by fastforce
  have off: "td_offered ?P t (ToggleAll True)" using assms(4,5) by (simp add: available_props_def)
  have sel1: "ra_selectedInvoiceIds st1 = ?sel @ zs"
    using available_event_ids [of pr ct isLoading err "ToggleAll True" t st] s1 off z(1)
    by (simp add: available_ids select_all_ids_def)
  have same: "page_ids (available_props pr ct isLoading err st1) = page_ids ?P"
    by (simp add: page_ids_def available_props_def)
  have off1: "td_offered (available_props pr ct isLoading err st1) t1 (ToggleAll False)"
    using assms(4,5) by (simp add: available_props_def)
  have pl: "list_all plain_id (page_ids ?P)" by (rule assms(2))
  have "filter (\<lambda>i. \<not> js_includes (page_ids ?P) i) (?sel @ zs) = ?sel"
  proof -
    have a: "filter (\<lambda>i. i \<notin> set (page_ids ?P)) ?sel = ?sel" using assms(3) by (auto simp: filter_id_conv)
    have b: "filter (\<lambda>i. i \<notin> set (page_ids ?P)) zs = []" using z(2) by (auto simp: filter_empty_conv)
    show ?thesis using a b by (simp add: js_includes_plain [OF pl])
  qed
  then show ?thesis
    using available_event_ids [of pr ct isLoading err "ToggleAll False" t1 st1] s1 off1 sel1 same
    by (simp add: available_ids select_all_ids_def)
qed

theorem available_select_all_roundtrip_witness:
  "ra_selectedInvoiceIds (snd (available_table_event demo_table_props demo_page2 False Null (ToggleAll False)
     (available_table_event demo_table_props demo_page2 False Null (ToggleAll True) (td_initial, demo_selection))))
   = [Str ''i1'']"
proof -
  have pg: "page_ids (available_props demo_table_props demo_page2 False Null demo_selection) = [Str ''i3'']"
    by (simp add: page_ids_def available_props_def paginatedData_def filteredData_def demo_table_props_def
                  demo_page2_def demo_invoices_def getRowId_def js_or_def)
  have "ra_selectedInvoiceIds demo_selection = [Str ''i1'']" by (simp add: demo_selection_def)
  moreover have "sel_inv (ra_selectedInvoiceIds demo_selection)"
    by (simp add: sel_inv_def demo_selection_def plain_id_def)
  ultimately show ?thesis
    using available_select_all_roundtrip [of demo_selection demo_table_props demo_page2 False Null td_initial] pg
    by (simp add: plain_id_def)
qed

end
