(* ===== verification/ContactSearch.thy ===== *)
theory ContactSearch
  imports PaymentForm XeroHooks
begin

text \<open>
  The supplier search of the manual payment form,
  \<^verbatim>\<open>src/client/src/components/manual-payment/CreatePaymentForm.jsx\<close>: the effect that
  debounces \<^verbatim>\<open>contactSearchTerm\<close> by 300 ms, \<^verbatim>\<open>searchContacts\<close> through
  \<^verbatim>\<open>useXero\<close>'s \<^verbatim>\<open>fetchContacts\<close>, the dropdown and its handlers. A timer or a search
  callback keeps the values of the render that created it, here the hook's contacts
  (\<^verbatim>\<open>searchedContacts\<close>) at that render. Searches may be answered in any order, so the
  pending ones are a list and an answer names its index; \<open>cs_sent\<close> lists the term of
  each request \<open>searchContacts_request\<close> sent, \<open>cs_changed\<close> the time of the last change
  of the term. Times are milliseconds.
\<close>

text \<open>A contact row of \<^verbatim>\<open>useXero\<close> as the form's \<open>contact\<close> (Xero names are strings).\<close>

definition contact_of_js :: "js \<Rightarrow> contact" where
  "contact_of_js v =
     \<lparr>contactID = js_get v ''contactID'', ct_name = (case js_get v ''name'' of Str s \<Rightarrow> s | _ \<Rightarrow> []),
      bankAccountDetails = js_get v ''bankAccountDetails'',
      batchBankAccountNumber = js_get (js_get v ''batchPayments'') ''bankAccountNumber''\<rparr>"

record cs_sys =
  cs_ui :: form_ui
  cs_dropdown :: bool
  cs_searching :: bool
  cs_hook :: xero_hook
  cs_timer :: "(time \<times> string \<times> js) option"
  cs_inflight :: "js list"
  cs_sent :: "string list"
  cs_answered :: nat
  cs_changed :: time

text \<open>The mount: the debounce effect runs once with the empty term.\<close>

definition cs_initial :: "time \<Rightarrow> string \<Rightarrow> cs_sys" where
  "cs_initial t0 today =
     \<lparr>cs_ui = initial_form_ui today, cs_dropdown = False, cs_searching = False, cs_hook = xh_initial,
      cs_timer = Some (t0 + 300, [], Arr []), cs_inflight = [], cs_sent = [], cs_answered = 0,
      cs_changed = t0\<rparr>"

text \<open>The effect on \<^verbatim>\<open>[contactSearchTerm]\<close> after a render: when the term changed, the
  cleanup clears the pending timer and a new one is set for the new term.\<close>

definition rearm :: "time \<Rightarrow> string \<Rightarrow> cs_sys \<Rightarrow> cs_sys" where
  "rearm now old sys =
     (if contactSearchTerm (cs_ui sys) \<noteq> old
      then sys\<lparr>cs_timer := Some (now + 300, contactSearchTerm (cs_ui sys), xh_contacts (cs_hook sys)), cs_changed := now\<rparr>
      else sys)"

text \<open>The timer's test \<^verbatim>\<open>contactSearchTerm.trim() && contactSearchTerm.length >= 2\<close>
  (the length of the untrimmed term).\<close>

definition search_term_ok :: "string \<Rightarrow> bool" where
  "search_term_ok s = (js_trim s \<noteq> [] \<and> 2 \<le> length s)"

definition contacts_list :: "js \<Rightarrow> js list" where
  "contacts_list v = (case v of Arr xs \<Rightarrow> xs | _ \<Rightarrow> [])"

datatype cs_event =
    CInput string | CSelect js | CFocus | CClickOutside | CTick | CAnswer nat axios_outcome

text \<open>Which events can happen: a contact can be picked from the open dropdown, which lists
  the hook's contacts; the timer fires at its time; an answer comes for a pending search.\<close>

fun cs_offered :: "time \<Rightarrow> cs_sys \<Rightarrow> cs_event \<Rightarrow> bool" where
  "cs_offered now sys (CSelect v) = (cs_dropdown sys \<and> v \<in> set (contacts_list (xh_contacts (cs_hook sys))))"
| "cs_offered now sys CTick = (case cs_timer sys of Some (t, _, _) \<Rightarrow> t \<le> now | None \<Rightarrow> False)"
| "cs_offered now sys (CAnswer i _) = (i < length (cs_inflight sys))"
| "cs_offered now sys _ = True"

fun cs_apply :: "time \<Rightarrow> cs_event \<Rightarrow> cs_sys \<Rightarrow> cs_sys" where
  "cs_apply now (CInput v) sys =
     rearm now (contactSearchTerm (cs_ui sys)) (sys\<lparr>cs_ui := handleContactInputChange v (cs_ui sys)\<rparr>)"
| "cs_apply now (CSelect v) sys =
     rearm now (contactSearchTerm (cs_ui sys))
       (sys\<lparr>cs_ui := handleContactSelect (contact_of_js v) (cs_ui sys), cs_dropdown := False\<rparr>)"
| "cs_apply now CFocus sys =
     (if js_length_pos (xh_contacts (cs_hook sys)) then sys\<lparr>cs_dropdown := True\<rparr> else sys)"
| "cs_apply now CClickOutside sys = sys\<lparr>cs_dropdown := False\<rparr>"
| "cs_apply now CTick sys =
     (case cs_timer sys of
        Some (t, term, closure) \<Rightarrow>
          (if search_term_ok term
           then sys\<lparr>cs_timer := None, cs_searching := True, cs_sent := cs_sent sys @ [term],
                    cs_inflight := cs_inflight sys @ [closure]\<rparr>
           else sys\<lparr>cs_timer := None, cs_dropdown := False\<rparr>)
      | None \<Rightarrow> sys)"
| "cs_apply now (CAnswer i o') sys =
     (let (response, hook') = xh_fetchContacts o' (cs_hook sys); closure = cs_inflight sys ! i in
      sys\<lparr>cs_hook := hook',
          cs_dropdown := (if truthy (js_get response ''success'') then js_length_pos closure else cs_dropdown sys),
          cs_searching := False, cs_inflight := take i (cs_inflight sys) @ drop (Suc i) (cs_inflight sys),
          cs_answered := Suc (cs_answered sys)\<rparr>)"

definition cs_step :: "time \<Rightarrow> cs_event \<Rightarrow> cs_sys \<Rightarrow> cs_sys" where
  "cs_step now ev sys = (if cs_offered now sys ev then cs_apply now ev sys else sys)"

fun cs_run :: "(time \<times> cs_event) list \<Rightarrow> cs_sys \<Rightarrow> cs_sys" where
  "cs_run [] sys = sys"
| "cs_run ((now, ev) # evs) sys = cs_run evs (cs_step now ev sys)"

inductive cs_reach :: "string \<Rightarrow> cs_sys \<Rightarrow> bool" for today where
  init: "cs_reach today (cs_initial t0 today)"
| step: "cs_reach today sys \<Longrightarrow> cs_reach today (cs_step now ev sys)"

text \<open>The debounce invariant: a pending timer is for the term now in the input and fires
  300 ms after its last change; every search sent was for a term that passed the test;
  every search sent is answered or pending.\<close>

definition cs_inv :: "cs_sys \<Rightarrow> bool" where
  "cs_inv sys =
     ((case cs_timer sys of
         Some (t, term, _) \<Rightarrow> term = contactSearchTerm (cs_ui sys) \<and> t = cs_changed sys + 300
       | None \<Rightarrow> True)
      \<and> list_all search_term_ok (cs_sent sys)
      \<and> length (cs_sent sys) = cs_answered sys + length (cs_inflight sys))"

definition demo_supplier :: js where
  "demo_supplier = Obj [(''contactID'', Str ''c1''), (''name'', Str ''Acme'')]"

definition demo_cs :: cs_sys where
  "demo_cs = (cs_initial 0 ''2025-01-01'')\<lparr>cs_hook := xh_initial\<lparr>xh_contacts := Arr [demo_supplier]\<rparr>,
                                             cs_dropdown := True, cs_timer := None\<rparr>"

subsection \<open>Lemmas\<close>

lemma term_handleContactSelect [simp]: "contactSearchTerm (handleContactSelect c ui) = ct_name c"
  by (simp add: handleContactSelect_def)

lemma term_handleContactInputChange [simp]: "contactSearchTerm (handleContactInputChange v ui) = v"
  by (simp add: handleContactInputChange_def Let_def split: option.split)

lemma demo_terms_ok: "search_term_ok ''Ac''" "search_term_ok ''Acme''"
  by code_simp+

lemma cs_inv_initial: "cs_inv (cs_initial t0 today)"
  by (simp add: cs_inv_def cs_initial_def initial_form_ui_def)

lemma cs_apply_inv: "cs_inv sys \<Longrightarrow> cs_offered now sys ev \<Longrightarrow> cs_inv (cs_apply now ev sys)"
proof (cases ev)
  case (CTick)
  assume "cs_inv sys" "cs_offered now sys ev"
  with CTick show ?thesis
    by (auto simp: cs_inv_def split: option.splits)
next
  case (CAnswer i o')
  assume inv: "cs_inv sys" and off: "cs_offered now sys ev"
  with CAnswer show ?thesis
    by (auto simp: cs_inv_def split_def Let_def xh_fetchContacts_def min_def split: option.splits sum.splits)
qed (auto simp: cs_inv_def rearm_def split: option.splits)

lemma cs_step_inv: "cs_inv sys \<Longrightarrow> cs_inv (cs_step now ev sys)"
  by (simp add: cs_step_def cs_apply_inv)

subsection \<open>Properties\<close>

text \<open>C27: In every state the supplier search reaches, a pending search timer is for the
  term now in the input and fires 300 ms after the term's last change, every search sent
  was for a non-blank term of at least two characters, and every search sent has been
  answered or is pending.\<close>

theorem cs_reach_invariant: "cs_reach today sys \<Longrightarrow> cs_inv sys"
  by (induction rule: cs_reach.induct) (simp_all add: cs_inv_initial cs_step_inv)

theorem cs_reach_invariant_witness:
  "cs_inv (cs_step 400 CTick (cs_step 50 (CInput ''Ac'') (cs_initial 0 ''2025-01-01'')))
   \<and> cs_sent (cs_step 400 CTick (cs_step 50 (CInput ''Ac'') (cs_initial 0 ''2025-01-01''))) = [''Ac'']"
proof -
  have "cs_reach ''2025-01-01'' (cs_step 400 CTick (cs_step 50 (CInput ''Ac'') (cs_initial 0 ''2025-01-01'')))"
    by (intro cs_reach.step cs_reach.init)
  then show ?thesis
    using cs_reach_invariant
    by (simp add: cs_step_def cs_initial_def rearm_def initial_form_ui_def demo_terms_ok)
qed

text \<open>C28: Picking a supplier from the dropdown reopens it: the selection sets the search
  term to the supplier's name, the debounce timer then searches that name, and its answer
  opens the dropdown from the contacts of the render that armed the timer, which held the
  picked supplier.\<close>

theorem select_reopens_dropdown:
  assumes "cs_dropdown sys" and "xh_contacts (cs_hook sys) = Arr cs" and "c \<in> set cs"
    and "js_get c ''name'' = Str n" and "n \<noteq> contactSearchTerm (cs_ui sys)" and "search_term_ok n"
    and "truthy (js_get d ''success'')" and "now + 300 \<le> later"
  shows "cs_dropdown (cs_run [(now, CSelect c), (later, CTick), (later', CAnswer (length (cs_inflight sys)) (Ok d))] sys)
       \<and> last (cs_sent (cs_run [(now, CSelect c), (later, CTick), (later', CAnswer (length (cs_inflight sys)) (Ok d))] sys)) = n
       \<and> selectedContact (cs_ui (cs_run [(now, CSelect c), (later, CTick), (later', CAnswer (length (cs_inflight sys)) (Ok d))] sys))
           = Some (contact_of_js c)"
proof -
  let ?s1 = "cs_step now (CSelect c) sys"
  have s1: "cs_timer ?s1 = Some (now + 300, n, Arr cs)" "\<not> cs_dropdown ?s1" "cs_inflight ?s1 = cs_inflight sys"
           "selectedContact (cs_ui ?s1) = Some (contact_of_js c)" "cs_sent ?s1 = cs_sent sys"
    using assms(1-5) by (simp_all add: cs_step_def contacts_list_def rearm_def contact_of_js_def handleContactSelect_def)
  let ?s2 = "cs_step later CTick ?s1"
  have s2: "cs_inflight ?s2 = cs_inflight sys @ [Arr cs]" "cs_sent ?s2 = cs_sent sys @ [n]"
           "selectedContact (cs_ui ?s2) = Some (contact_of_js c)"
    using s1 assms(6,8) by (simp_all add: cs_step_def)
  have "js_length_pos (Arr cs)" using assms(3) by (auto simp: js_length_pos_def)
  then show ?thesis
    using s2 assms(7) by (simp add: cs_step_def split_def Let_def xh_fetchContacts_def nth_append)
qed

theorem select_reopens_dropdown_witness:
  "cs_dropdown (cs_run [(1000, CSelect demo_supplier), (1300, CTick), (1500, CAnswer 0 (Ok (Obj [(''success'', Bool True)])))] demo_cs)
   \<and> last (cs_sent (cs_run [(1000, CSelect demo_supplier), (1300, CTick), (1500, CAnswer 0 (Ok (Obj [(''success'', Bool True)])))] demo_cs)) = ''Acme''
   \<and> selectedContact (cs_ui (cs_run [(1000, CSelect demo_supplier), (1300, CTick), (1500, CAnswer 0 (Ok (Obj [(''success'', Bool True)])))] demo_cs))
       = Some (contact_of_js demo_supplier)"
  using select_reopens_dropdown [of demo_cs "[demo_supplier]" demo_supplier "''Acme''" "Obj [(''success'', Bool True)]" 1000 1300 1500]
  by (simp add: demo_cs_def demo_supplier_def cs_initial_def initial_form_ui_def demo_terms_ok)

end
