(* ===== verification/Spec2Isabelle.thy ===== *)
theory Spec2Isabelle
  imports Auth ClientXero Concurrency DeadCopy TrustProxy Bootstrap RateLimit ClientAuth ClientServices Tables
    PaymentForm Hooks XeroHooks RequestApproval XeroCallback TableData ContactSearch
begin

text \<open>
  Verification development of the xero-api repository: an Express server
  (\<^verbatim>\<open>src/server\<close>) that connects an organisation to Xero, stores the OAuth tokens in
  MySQL and serves Xero's invoices, contacts, accounts and tax rates, and a React client
  (\<^verbatim>\<open>src/client\<close>) that calls it through axios.

  \<^bold>\<open>Parts and theories.\<close> Values of JavaScript are the datatype \<open>js\<close> of
  \<^theory_text>\<open>Prelude\<close> (with truthiness, \<^verbatim>\<open>||\<close>, property reads, \<^verbatim>\<open>String(n)\<close>,
  \<^verbatim>\<open>Array.join\<close> and decimal parsing); times are milliseconds (\<open>int\<close>).
  \<^item> \<^theory_text>\<open>TokenStore\<close> models \<^verbatim>\<open>models/xeroTokenModel.js\<close>: the table
    \<^verbatim>\<open>xero_tokens\<close> as a list of rows and the auto-increment counter;
    \<open>getActiveToken\<close>, \<open>saveToken\<close>, \<open>updateToken\<close>, and the SQL statements one by one
    (\<open>exec_stmt\<close>, \<open>run_sql\<close>) for the interleavings of concurrent calls
    (\<open>interleavings\<close> of \<^theory_text>\<open>Prelude\<close> lists every schedule of two callers).
  \<^item> \<^theory_text>\<open>Provider\<close> is the interface to the Xero SDK (\<^verbatim>\<open>config/xeroConfig.js\<close>):
    a record of the SDK operations the code calls, a parameter of every theorem, so each
    theorem holds for every provider behaviour it does not constrain.
  \<^item> \<^theory_text>\<open>TokenLifecycle\<close> models \<^verbatim>\<open>ensureValidToken\<close> and \<^verbatim>\<open>handleCallback\<close> of
    \<^verbatim>\<open>services/xeroService.js\<close> over \<open>service_state\<close>: the table, the token set of the
    shared SDK client and a log of provider calls.
  \<^item> \<^theory_text>\<open>Concurrency\<close> models concurrent requests through
    \<^verbatim>\<open>ensureValidToken\<close>: each request is a sequence of segments between its
    \<^verbatim>\<open>await\<close>s (\<open>ev_step\<close>), and \<open>ev_sys\<close> runs one segment of any unfinished
    request over the shared table and client, as Node's event loop may.
  \<^item> \<^theory_text>\<open>QueryAdapter\<close> models \<^verbatim>\<open>getInvoices\<close>, \<^verbatim>\<open>getContacts\<close>,
    \<^verbatim>\<open>getTaxRates\<close>, \<^verbatim>\<open>getAccounts\<close> with their exact positional SDK arguments, and
    states the uniform adapter contract (\<open>adapter_contract\<close>) they are checked against.
  \<^item> \<^theory_text>\<open>DeadCopy\<close> models the unused \<^verbatim>\<open>services/xeroService copy.js\<close> and
    compares it with the live service: it agrees on fresh tokens, cannot refresh at all
    (its \<^verbatim>\<open>client_id\<close> is unbound), and its accounts and tax-rates calls meet the
    contract that the live ones miss.
  \<^item> \<^theory_text>\<open>XeroHttp\<close> models \<^verbatim>\<open>schemas/xeroSchema.js\<close> with zod's object parsing,
    \<^verbatim>\<open>middlewares/validateSchema.js\<close>, \<^verbatim>\<open>middlewares/validateXeroToken.js\<close>,
    \<^verbatim>\<open>controllers/xeroController.js\<close> (a consent URL the SDK fails to build is
    answered 500) and the route table \<open>xero_router\<close> of \<^verbatim>\<open>routes/xeroRoutes.js\<close>.
  \<^item> \<^theory_text>\<open>ResponseFormatter\<close> models \<^verbatim>\<open>middlewares/responseHandler.js\<close>: the
    envelope \<open>format_json\<close> that replaces \<^verbatim>\<open>res.json\<close>, JSON serialisation
    (\<open>to_json\<close>, \<open>wire\<close>), \<open>notFoundHandler\<close>, \<open>errorHandler\<close>, \<open>rateLimitHandler\<close>.
  \<^item> \<^theory_text>\<open>ServerApp\<close> models the stack of \<^verbatim>\<open>app.js\<close> and \<^verbatim>\<open>routes/index.js\<close>
    as the client reaches it: \<open>authenticateToken\<close> of
    \<^verbatim>\<open>middlewares/authMiddleware.js\<close> for every path under \<^verbatim>\<open>/api/xero\<close>, the route
    table, and \<open>notFoundHandler\<close> for unknown paths (\<open>app\<close>), for a request the
    rate limiters let through; which requests they stop is the subject of
    \<^theory_text>\<open>RateLimit\<close>.
  \<^item> \<^theory_text>\<open>Auth\<close> models accounts and sign-in: the zod schemas of
    \<^verbatim>\<open>schemas/authSchema.js\<close>, the users table of \<^verbatim>\<open>models/userModel.js\<close>,
    \<^verbatim>\<open>services/authService.js\<close>, the token claims of \<^verbatim>\<open>utils/tokenUtils.js\<close>,
    \<^verbatim>\<open>controllers/authController.js\<close>, \<^verbatim>\<open>controllers/userController.js\<close>, and the
    \<^verbatim>\<open>/api/auth\<close> and \<^verbatim>\<open>/api/user\<close> routes (\<open>auth_app\<close>); \<open>request_auth\<close> turns
    a token into the input of \<open>authenticateToken\<close>.
  \<^item> \<^theory_text>\<open>ClientXero\<close> models the client's \<^verbatim>\<open>services/xeroService.js\<close> (each
    operation as the request it sends and the reading of the answer) and the decisions of
    \<^verbatim>\<open>context/XeroContext.jsx\<close> (\<open>checkConnectionStatus\<close>, \<open>sync\<close>,
    \<open>setupSmartInterval\<close>, \<open>getTimeRemaining\<close>) over the record \<open>xero_ctx\<close> of its state.
  \<^item> \<^theory_text>\<open>TrustProxy\<close> models \<^verbatim>\<open>utils/trustProxyDetector.js\<close>: the analysis
    of the forwarding headers (\<open>analyzeTrustProxy\<close>) and the two debug handlers.
  \<^item> \<^theory_text>\<open>Bootstrap\<close> models \<^verbatim>\<open>index.js\<close>: the retry loop
    \<open>checkDatabaseConnection\<close> (\<open>check_db_loop\<close>, a \<^theory_text>\<open>function\<close> with a
    measure) and \<open>startServer\<close>; the outcome of each connection attempt is an input.
  \<^item> \<^theory_text>\<open>RateLimit\<close> models \<^verbatim>\<open>middlewares/rateLimiter.js\<close>: \<open>createRateLimiter\<close>,
    the six limiters, the key each gives a request (\<open>limiter_key\<close>), the library's memory
    store as a map from keys to windows (\<open>rl_handle\<close>, \<open>rl_run\<close>), and the limiters a
    request meets in \<^verbatim>\<open>app.js\<close> and \<^verbatim>\<open>routes/authRoutes.js\<close>.
  \<^item> \<^theory_text>\<open>ClientAuth\<close> models the client's \<^verbatim>\<open>services/authService.js\<close> over the
    browser storage (\<open>client_store\<close>: the token cookie with the expiry of
    \<^verbatim>\<open>expires: 1\<close>, read through \<open>getToken\<close>, and \<^verbatim>\<open>localStorage\<close>) and the
    request interceptor of \<^verbatim>\<open>utils/api.js\<close> (\<open>bearer_token\<close>).
  \<^item> \<^theory_text>\<open>ClientServices\<close> models \<^verbatim>\<open>services/paymentBatchService.js\<close> and
    \<^verbatim>\<open>services/manualPaymentService.js\<close>, each operation as a request and a reading of
    the axios outcome.
  \<^item> \<^theory_text>\<open>Tables\<close> models \<^verbatim>\<open>components/table/ClientPaginatedTable.jsx\<close> (search,
    paging, handlers, as the step function \<open>table_step\<close> and the relation
    \<open>table_reach\<close> of the states its handlers reach) and
    \<^verbatim>\<open>components/table/PaginatedTable.jsx\<close> (its controls, \<open>pt_request\<close>), and their
    shared page-button loop \<open>getPageNumbers\<close> (\<open>page_loop\<close>, a \<^theory_text>\<open>function\<close>
    with a measure).
  \<^item> \<^theory_text>\<open>ClientUtils\<close> models the helpers of \<^verbatim>\<open>utils/index.js\<close> that do not
    read the clock, and the JavaScript number conversions the client uses
    (\<open>parseFloat\<close>, \<open>str_to_number\<close>, \<open>round2\<close> for \<^verbatim>\<open>toFixed(2)\<close>).
  \<^item> \<^theory_text>\<open>PaymentForm\<close> models \<^verbatim>\<open>components/manual-payment/CreatePaymentForm.jsx\<close>
    with \<^verbatim>\<open>utils/formData.js\<close> and \<^verbatim>\<open>schemas/manualPaymentValidation.js\<close>: the
    form data and hooks as \<open>form_ui\<close> (with the toasts shown, \<open>form_toasts\<close>), every
    handler as a case of \<open>form_step\<close>, the reachable states as \<open>form_reach\<close>.
  \<^item> \<^theory_text>\<open>Hooks\<close> models \<^verbatim>\<open>hooks/useManualPayments.jsx\<close>,
    \<^verbatim>\<open>hooks/usePaymentBatch.jsx\<close> and the creation handler of
    \<^verbatim>\<open>pages/ManualPaymentsPage.jsx\<close>: each hook's state as a record, each operation as
    its request and the state after the service's outcome.
  \<^item> \<^theory_text>\<open>XeroHooks\<close> models \<^verbatim>\<open>hooks/useXero.jsx\<close> (its state as
    \<open>xero_hook\<close>, the five fetches over the outcomes of \<^theory_text>\<open>ClientXero\<close>, the row
    formatting) and the contact search of \<^verbatim>\<open>CreatePaymentForm.jsx\<close>, which reads the
    hook's contacts through the closure of the render that started it.
  \<^item> \<^theory_text>\<open>RequestApproval\<close> models \<^verbatim>\<open>pages/RequestApproval.jsx\<close> (the page's state
    as \<open>ra_state\<close>, its handlers, the effect that loads the available invoices as
    \<open>ra_sync_effect\<close> over the observations it sees, interleaved with the timer of
    \<^verbatim>\<open>handleBatchSubmitted\<close> (\<open>ra_event_step\<close>), \<^verbatim>\<open>createPaymentObject\<close>) and the
    payment batch panel \<^verbatim>\<open>request-approval/PaymentSummary.jsx\<close> with
    \<^verbatim>\<open>PaymentSummaryList.jsx\<close>: the total, the supplier summary, the Finalize guard and
    the panel with \<^verbatim>\<open>createBatch\<close> of \<^verbatim>\<open>usePaymentBatch\<close> as a step function over
    its events (\<open>ps_step\<close>), with the create requests it sends.
  \<^item> \<^theory_text>\<open>XeroCallback\<close> models \<^verbatim>\<open>pages/XeroCallbackRedirect.jsx\<close> (its effect,
    \<^verbatim>\<open>handleCallback\<close> and \<^verbatim>\<open>redirectWithDelay\<close> over the callback answer and the
    context's \<open>checkConnectionStatus\<close>) and the unused hook
    \<^verbatim>\<open>hooks/useXeroSyncRedirect.jsx\<close>.
  \<^item> \<^theory_text>\<open>TableData\<close> models the row selection of \<^verbatim>\<open>table/TableData.jsx\<close> (its
    state, the controls it renders as \<open>td_offered\<close>, each control as \<open>td_apply\<close>, the
    \<^verbatim>\<open>selectAll\<close> effect) and composes it with \<^verbatim>\<open>ClientPaginatedTable\<close>'s current page,
    the buttons of \<^verbatim>\<open>AvailableInvoices.jsx\<close> and the request-approval page's selection.
  \<^item> \<^theory_text>\<open>ContactSearch\<close> models the supplier search of
    \<^verbatim>\<open>CreatePaymentForm.jsx\<close> as a timed step function \<open>cs_step\<close>: the 300 ms debounce
    effect, the searches through \<^verbatim>\<open>useXero\<close> (answered in any order), the dropdown
    and its handlers, over the form state of \<^theory_text>\<open>PaymentForm\<close>.
  \<^item> This theory composes client and server: \<open>exchange\<close> sends a client request through
    \<open>app\<close>, wraps and serialises the body with \<open>wire\<close> and settles it as axios does.

  \<^bold>\<open>Lemma groups.\<close> \<^theory_text>\<open>TokenStore\<close>: the well-formedness \<open>store_wf\<close> (distinct ids
  below the counter, at most one active row) is kept by every operation, exactly one row is
  active after any sequence of saves, and of the six schedules of two concurrent saves the
  four that are not serial leave two active rows.
  \<^theory_text>\<open>TokenLifecycle\<close>: the behaviour of \<open>ensureValidToken\<close> on each branch (fresh,
  refreshed, refresh rejected), the number of refresh calls, freshness of the client's token
  set, and the callback. \<^theory_text>\<open>Concurrency\<close>: one request run alone computes
  \<^verbatim>\<open>ensureValidToken\<close> (refinement), every interleaving keeps the table well formed and
  makes at most one refresh per request, and two requests with the same expired token do
  refresh twice and can leave a finished request's client with the expired token.
  \<^theory_text>\<open>QueryAdapter\<close>: refinement of the contract by
  \<open>getInvoices\<close> and \<open>getContacts\<close>, and the two call sites that do not refine it.
  \<^theory_text>\<open>XeroHttp\<close>: status codes of the not-connected, refresh-failure, bad-page and
  non-admin paths (a failed validation answers 500), and when a query selects the
  paginated result.
  \<^theory_text>\<open>ResponseFormatter\<close>: the shape of the envelope for errors, paginated results,
  null pagination and lists. \<^theory_text>\<open>ClientXero\<close>: bounds of the refresh interval, the
  context's display invariant, the time-remaining text. This theory: the end-to-end
  behaviour of a page fetch, of a fetch without connection, of the sync button and of the
  connection status check, and that self-registration opens the admin-only consent flow.
  \<^theory_text>\<open>Auth\<close>: every registered account is an admin, active emails stay distinct, a
  registered account can sign in, a token's lifetime, and the missing \<^verbatim>\<open>user.id\<close>.
  \<^theory_text>\<open>ClientAuth\<close> and this theory: a failed sign-in always throws the
  \<^verbatim>\<open>TypeError\<close> of \<^verbatim>\<open>data.errors[0]\<close>, a successful one gives a session that the
  client accepts while its one-day cookie lasts and until the token's expiry, and the
  server until the token's expiry, and the payment services are never served. \<^theory_text>\<open>Tables\<close>: the page loop equals a reference definition built on
  \<open>remdups_adj\<close> and has at most \<open>2 * delta + 5\<close> entries, every page a control asks for
  is in range, the client-side table's reachable states satisfy \<open>table_inv\<close> (rule
  induction) so the current page is never empty, except for the one render before the
  reset effect.
  \<^theory_text>\<open>ClientUtils\<close>: rounding to cents errs by at most half a cent.
  \<^theory_text>\<open>PaymentForm\<close>: every reachable form has a line and submits only the selected
  contact's id with its name; a quantity change recomputes the line amount; the total does
  not depend on the tax treatment, so it adds the tax also to tax-inclusive amounts.
  \<^theory_text>\<open>Hooks\<close> and this theory: page moves stay in range, a deletion removes
  the batch and steps back from an emptied page, and a valid manual payment fails with
  no toast but the loading one and its dismissal. \<^theory_text>\<open>XeroHooks\<close>: every fetch keeps the hook's invoice rows well
  shaped (a formatting error is thrown at the next render, outside the hook's
  \<^verbatim>\<open>catch\<close>), and the first contact search that finds contacts leaves the dropdown
  closed. \<^theory_text>\<open>RequestApproval\<close>: while Xero stays synced the available invoices
  are loaded once in the first stretch of observations in which initialisation has finished
  and twice after each batch submission (its timer, then the effect), counted against a
  reference over any history of observations and timers; the supplier summary partitions
  the selected payments unless a supplier's name is a key every object inherits, where the
  reduce throws; a manual payment's total is within half a cent of the form's, and two
  confirmations during one creation send the batch twice.
  \<^theory_text>\<open>XeroCallback\<close>: the callback page navigates back exactly once and never
  reports a connection, even after a successful one. \<^theory_text>\<open>TableData\<close>: on string
  ids every selection control refines its set operation (toggle, union or difference with
  the page, empty) and keeps the selection duplicate-free, and checking then unchecking
  the header checkbox restores the selection. \<^theory_text>\<open>ContactSearch\<close>: in every reachable
  state a pending search is for the current term 300 ms after its last change and every
  search sent was for a valid term (rule induction), and picking a supplier reopens the
  dropdown.
  \<^theory_text>\<open>TrustProxy\<close>: the analysis of a forwarded chain and the verdict on the
  \<^verbatim>\<open>trust proxy\<close> setting. \<^theory_text>\<open>Bootstrap\<close>: the server listens exactly when one of
  five attempts connects, the time waited on each path, and that the loop never
  consults a sixth attempt and waits at most twenty seconds. \<^theory_text>\<open>RateLimit\<close>: all
  clients share one key per limiter, so thirty requests of anyone lock every client out of
  the server for a minute and five failed logins lock every user out of signing in; a key's
  window ends.

  \<^bold>\<open>Bounds and fuel.\<close> Every definition is total and executable; no loop of the code is
  unbounded (iteration is over finite lists; the connection retry loop runs at most \<open>retries\<close>
  times and the page-button loop \<open>total\<close> times, the measures of their termination
  proofs), so no fuel is needed. Times and
  statuses are unbounded integers: the code's arithmetic on them (milliseconds since 1970,
  \<^verbatim>\<open>expires_in * 1000\<close>) stays far below \<open>2^53\<close>, where JavaScript numbers are exact.
  \<^verbatim>\<open>new Date(x).getTime()\<close> is the parameter \<open>parse\<close> of the client's definitions
  (\<open>None\<close> for an invalid date). The schemas follow zod 4, the version
  \<^verbatim>\<open>schemas/authSchema.js\<close> needs (\<^verbatim>\<open>z.email\<close>); its \<^verbatim>\<open>ZodError\<close> has no
  \<^verbatim>\<open>errors\<close>, so the validation middleware's error branch throws (under zod 3,
  \<^verbatim>\<open>z.email\<close> is undefined and the server does not start). A thrown error's stack is
  modelled by its first line; the rest lists positions in the installed files. Express 4 is assumed
  (assigning \<^verbatim>\<open>req.query\<close> replaces the query).

  \<^bold>\<open>Not modelled.\<close> The SDK's and MySQL's internals (the provider and the tables are
  abstract), the failures of MySQL (the tables always answer, so the 401 that
  \<^verbatim>\<open>validateXeroToken\<close> sends when \<^verbatim>\<open>getActiveToken\<close> throws, and the other
  \<^verbatim>\<open>catch\<close> branches around a query, are not reached), the signature of a token (a
  token is its claims), the bcrypt algorithm (its contract: a password matches a hash when
  their first 72 bytes agree), zod's email expression (the parameter \<open>is_email\<close>), the masking of an IPv6 address
  in the rate limiter's key (no key of the source reaches it), \<^verbatim>\<open>UserModel.update\<close> (no caller),
  CORS and helmet,
  rendering (a table's, a form's and a panel's state is modelled, not its markup):
  \<^verbatim>\<open>PaymentDetailsModal\<close> only displays an item, \<^verbatim>\<open>DashboardPage\<close> shows fixed sample
  data, \<^verbatim>\<open>AppSidebar\<close> is navigation, and the cell renderers of
  \<^verbatim>\<open>utils/columnData.jsx\<close> format through \<^verbatim>\<open>Intl\<close> and the date functions. The form's
  \<^verbatim>\<open>loadInitialData\<close> only calls two fetches of \<^verbatim>\<open>useXero\<close>. JSON
  numbers of the \<open>js\<close> type are integers: the amounts a page builds itself (manual
  payments) are records with rational fields, and an invoice's amounts are read with
  \<^verbatim>\<open>Number()\<close>, so fractional JSON amounts enter only as strings. \<^verbatim>\<open>toLowerCase\<close> and
  \<^verbatim>\<open>toUpperCase\<close> are modelled on ASCII letters. Client amounts are exact rationals:
  decimal literals without exponent, and \<^verbatim>\<open>toFixed(2)\<close> rounds half away from zero
  (a double's binary rounding at an exact tie is not modelled). The date formatters of
  \<^verbatim>\<open>utils/index.js\<close> and the payment form's date read the clock and are not modelled
  (the form's date is a parameter). Express matches paths case-insensitively; \<open>mount\<close> and
  \<open>xero_route_of\<close> compare them exactly, as the client sends them.
\<close>

section \<open>Client and server together\<close>

text \<open>One request of the client's \<^verbatim>\<open>api\<close> instance: the server application answers it,
  the response formatter wraps and serialises the body, and axios settles on the status.
  \<open>None\<close> for the routers that are not modelled.\<close>

definition exchange ::
  "xero_config \<Rightarrow> provider \<Rightarrow> time \<Rightarrow> time \<Rightarrow> bool \<Rightarrow> auth_header \<Rightarrow> client_request \<Rightarrow> service_state
   \<Rightarrow> (axios_outcome \<times> service_state) option" where
  "exchange cfg p now later production h r s =
     map_option (\<lambda>(resp, s'). (axios_settle (status resp) (wire production resp), s')) (app cfg p now later production h r s)"

subsection \<open>Lemmas\<close>

lemma xero_path_app:
  assumes "req_path r = ''/api/xero'' @ rest" and "take 1 rest = ''/''"
  shows "app cfg p now later production h r s = Some (xero_mount cfg p now later production h r rest s)"
  using assms by (auto simp: app_def mount_def)

text \<open>A request for a page of invoices with an unexpired active token: the provider is
  called with the page numbers in their SDK positions, and the client receives the
  envelope of the paginated result.\<close>

lemma invoices_exchange:
  assumes "0 < pg" and "0 < ps"
    and "getActiveToken (table s) = Some tok" and "now < expires_at tok"
    and "accountingApi p (Some (token_set_of tok))
           (GetInvoices (tenant_id tok) [Undef, Undef, Undef, Undef, Undef, Undef, Undef, Num (int pg),
                                          Undef, Undef, Undef, Undef, Num (int ps), Undef]) = Inr body"
  shows "\<exists>s'. exchange cfg p now later production (ValidToken rl)
                (fetchInvoices_request (Num (int pg)) (Num (int ps)) Undef Undef Undef) s =
              Some (Ok (to_json (format_json production 200
                       (paged_result body ''invoices'' ''Invoices synced successfully''))), s')"
proof -
  have ev: "ensureValidToken cfg p now later tok s = (Inr (tenant_id tok), setTokenSet tok s)"
    using assms(4) by (simp add: ensure_simps)
  have call: "getInvoices cfg p now later (Obj [(''page'', Num (int pg)), (''pageSize'', Num (int ps))]) tok s =
      (Inr (paged_result body ''invoices'' ''Invoices synced successfully''),
       log_event (DataCall (Some (token_set_of tok)) (invoices_call (tenant_id tok)
          (Obj [(''page'', Num (int pg)), (''pageSize'', Num (int ps))]))) (setTokenSet tok s))"
    using assms(1,2,5)
    by (simp add: getInvoices_def with_tenant_Inr [OF ev] invoices_call_def paged_def setTokenSet_fields)
  show ?thesis
    using assms(3)
    by (simp add: exchange_def fetchInvoices_request_paged xero_path_app xero_mount_def authenticateToken_def
        route_path_def router_simps validate_page_query getXeroInvoices_def invoice_params_paged [OF assms(1,2)]
        call wire_def axios_settle_def)
qed

lemma unrouted_api_exchange:
  assumes "mount ''/api'' (req_path r) = Some p1" and "mount ''/auth'' p1 = None"
    and "mount ''/user'' p1 = None" and "mount ''/xero'' p1 = None"
  shows "exchange cfg p now later production h r s = Some (HttpError 404 (wire production (not_found r)), s)"
proof -
  have "req_path r \<noteq> ''/''" using assms(1) by (auto simp: mount_def)
  then show ?thesis using assms
    by (simp add: exchange_def app_def not_found_def notFoundHandler_def axios_settle_def)
qed

lemmas payment_requests = paymentBatch_get_request_def paymentBatch_create_request_def
  paymentBatch_getById_request_def paymentBatch_approve_request_def paymentBatch_delete_request_def
  manualPayment_get_request_def manualPayment_create_request_def manualPayment_getById_request_def
  api_get_def api_post_def api_delete_def

lemma payment_request_paths:
  "r \<in> {paymentBatch_get_request page sz filters, paymentBatch_create_request body,
         paymentBatch_getById_request i, paymentBatch_approve_request i ad,
         paymentBatch_delete_request i reason, manualPayment_get_request page sz sortBy orderBy,
         manualPayment_create_request body, manualPayment_getById_request i} \<Longrightarrow>
   \<exists>p1. mount ''/api'' (req_path r) = Some p1 \<and> mount ''/auth'' p1 = None
     \<and> mount ''/user'' p1 = None \<and> mount ''/xero'' p1 = None"
  by (auto simp: payment_requests mount_def)

lemma login_request_app:
  assumes "loginSchema is_email (to_json creds) = Some c"
  shows "auth_app is_email salt now jti exp_secs production h (login_request creds) t =
           Some (loginUser_ctl now jti exp_secs t c, t)"
  using assms by (simp add: auth_app_def login_request_def mount_def route_path_def validate_body_def)

text \<open>The claims of a token read back after serialisation.\<close>

lemma token_claims_json:
  "\<exists>kvs'. to_json (generateAuthToken now jti exp_secs (Obj kvs)) = Obj kvs'
     \<and> js_get (Obj kvs') ''iat'' = Num (now div 1000) \<and> js_get (Obj kvs') ''jti'' = Str jti
     \<and> js_get (Obj kvs') ''exp'' = Num (now div 1000 + exp_secs)
     \<and> js_get (Obj kvs') ''aud'' = Str ''api'' \<and> js_get (Obj kvs') ''iss'' = Str ''auth''
     \<and> (\<forall>k. k \<notin> {''iat'', ''jti'', ''exp'', ''aud'', ''iss''} \<longrightarrow> js_get (Obj kvs) k \<noteq> Undef \<longrightarrow>
            js_get (Obj kvs') k = to_json (js_get (Obj kvs) k))"
proof -
  obtain kvs1 where g: "generateAuthToken now jti exp_secs (Obj kvs) = Obj kvs1"
    by (simp add: generateAuthToken_def)
  have get: "js_get (Obj kvs1) k = (if k = ''iss'' then Str ''auth'' else if k = ''aud'' then Str ''api''
      else if k = ''exp'' then Num (now div 1000 + exp_secs) else if k = ''jti'' then Str jti
      else if k = ''iat'' then Num (now div 1000) else js_get (Obj kvs) k)" for k
    using g [symmetric] by (simp add: generateAuthToken_def map_of_kv_put)
  show ?thesis
    using g get js_get_to_json [of kvs1] by (auto simp del: js_get.simps)
qed

subsection \<open>End-to-end properties\<close>

text \<open>C5: A page of invoices requested by the client's \<^verbatim>\<open>fetchInvoices\<close> reaches the
  provider as numbers in the SDK's page and page-size positions, and the client receives the
  provider's items as \<^verbatim>\<open>data\<close> and its pagination as \<^verbatim>\<open>pagination\<close>.\<close>

theorem fetchInvoices_end_to_end:
  assumes "0 < pg" and "0 < ps"
    and "getActiveToken (table s) = Some tok" and "now < expires_at tok"
    and "accountingApi p (Some (token_set_of tok))
           (GetInvoices (tenant_id tok) [Undef, Undef, Undef, Undef, Undef, Undef, Undef, Num (int pg),
                                          Undef, Undef, Undef, Undef, Num (int ps), Undef]) = Inr body"
    and "truthy (js_get body ''pagination'')" and "truthy (js_get body ''invoices'')"
  shows "\<exists>w s'. exchange cfg p now later production (ValidToken rl)
                 (fetchInvoices_request (Num (int pg)) (Num (int ps)) Undef Undef Undef) s = Some (Ok w, s')
           \<and> fetchInvoices_result (Ok w) =
               Inr (Obj [(''data'', to_json (js_get body ''invoices'')),
                         (''pagination'', to_json (js_get body ''pagination'')),
                         (''success'', Bool True), (''message'', Undef)])"
  using invoices_exchange [OF assms(1-5), of cfg later production rl] assms(6,7)
    truthy_defined [OF assms(6)] truthy_defined [OF assms(7)]
  by (auto simp: format_json_def success_fields_def paged_result_def items_of_def js_or_def)

theorem fetchInvoices_end_to_end_witness:
  "\<exists>w s'. exchange demo_cfg demo_provider 0 0 False (ValidToken ''admin'')
                 (fetchInvoices_request (Num 1) (Num 10) Undef Undef Undef) demo_state = Some (Ok w, s')
           \<and> fetchInvoices_result (Ok w) =
               Inr (Obj [(''data'', Arr [Str ''INV-1'']), (''pagination'', Obj [(''page'', Num 1)]),
                         (''success'', Bool True), (''message'', Undef)])"
  using fetchInvoices_end_to_end [where pg = 1 and ps = 10 and s = demo_state and tok = demo_row and now = 0
      and p = demo_provider and body = demo_body and cfg = demo_cfg and later = 0 and production = False
      and rl = "''admin''"]
  by (simp add: demo_state_def demo_table_active demo_row_def new_row_def demo_token_def demo_provider_def
      demo_body_def)

text \<open>When the provider's answer carries no pagination, the client receives as
  \<^verbatim>\<open>data\<close> the object \<^verbatim>\<open>{pagination: null, data: items}\<close> instead of the list of
  items, and its default pagination.\<close>

theorem fetchInvoices_null_pagination:
  assumes "0 < pg" and "0 < ps"
    and "getActiveToken (table s) = Some tok" and "now < expires_at tok"
    and "accountingApi p (Some (token_set_of tok))
           (GetInvoices (tenant_id tok) [Undef, Undef, Undef, Undef, Undef, Undef, Undef, Num (int pg),
                                          Undef, Undef, Undef, Undef, Num (int ps), Undef]) = Inr body"
    and "\<not> truthy (js_get body ''pagination'')"
  shows "\<exists>w s'. exchange cfg p now later production (ValidToken rl)
                 (fetchInvoices_request (Num (int pg)) (Num (int ps)) Undef Undef Undef) s = Some (Ok w, s')
           \<and> fetchInvoices_result (Ok w) =
               Inr (Obj [(''data'', to_json (Obj [(''pagination'', Null), (''data'', js_get body ''invoices'')])),
                         (''pagination'', default_pagination),
                         (''success'', Bool True), (''message'', Str ''Invoices synced successfully'')])"
  using invoices_exchange [OF assms(1-5), of cfg later production rl] assms(6)
  by (auto simp: format_json_def success_fields_def paged_result_def items_of_def js_or_def rest_or_null_def)

theorem fetchInvoices_null_pagination_witness:
  "\<exists>w s'. exchange demo_cfg unpaged_provider 0 0 False (ValidToken ''admin'')
                 (fetchInvoices_request (Num 1) (Num 10) Undef Undef Undef) demo_state = Some (Ok w, s')
           \<and> fetchInvoices_result (Ok w) =
               Inr (Obj [(''data'', Obj [(''pagination'', Null), (''data'', Arr [Str ''INV-1''])]),
                         (''pagination'', default_pagination),
                         (''success'', Bool True), (''message'', Str ''Invoices synced successfully'')])"
  using fetchInvoices_null_pagination [where pg = 1 and ps = 10 and s = demo_state and tok = demo_row and now = 0
      and p = unpaged_provider and body = "Obj [(''invoices'', Arr [Str ''INV-1''])]" and cfg = demo_cfg
      and later = 0 and production = False and rl = "''admin''"]
  by (simp add: demo_state_def demo_table_active demo_row_def new_row_def demo_token_def unpaged_provider_def
      demo_provider_def)

text \<open>The client's \<^verbatim>\<open>getConnectionStatus\<close> asks for \<^verbatim>\<open>/api/xero/connection\<close>, which
  no route serves: the answer is a rejection (401 or 403 without a valid session, 404 with
  one), and \<^verbatim>\<open>checkConnectionStatus\<close> then always shows the connection as not synced and
  without data.\<close>

theorem connection_status_unrouted:
  "\<exists>o'. exchange cfg p now later production h connectionStatus_request s = Some (o', s)
      \<and> (\<exists>n d. o' = HttpError n d \<and> n \<in> {401, 403, 404})
      \<and> \<not> isSynced (snd (checkConnectionStatus t (connectionStatus_result o') c))
      \<and> connectionData (snd (checkConnectionStatus t (connectionStatus_result o') c)) = Null"
  by (cases h) (auto simp: exchange_def app_def mount_def connectionStatus_request_def api_get_def
      xero_mount_def authenticateToken_def route_path_def not_found_def notFoundHandler_def wire_def
      axios_settle_def checkConnectionStatus_def)

text \<open>The context's \<^verbatim>\<open>sync\<close> never redirects to Xero's consent page: the server's answer
  to \<^verbatim>\<open>/api/xero/auth\<close> never carries \<^verbatim>\<open>requiresAuth\<close> and \<^verbatim>\<open>authUrl\<close>.\<close>

theorem sync_never_redirects:
  "\<exists>o'. exchange cfg p now later production h sync_request s = Some (o', s)
      \<and> (\<forall>url. fst (sync t (sync_result o') c) \<noteq> RedirectTo url)"
  by (cases h; cases "buildConsentUrl p") (auto simp: exchange_def app_def mount_def sync_request_def api_get_def
      xero_mount_def authenticateToken_def route_path_def xero_router_def initiateXeroAuth_def wire_def
      axios_settle_def sync_def format_json_def success_fields_def Let_def)

text \<open>For an admin the answer to \<^verbatim>\<open>/api/xero/auth\<close> (the consent URL, wrapped as
  \<^verbatim>\<open>data.url\<close>) is a success, so \<^verbatim>\<open>sync\<close> marks the context as synced and
  announces a successful sync although no connection was made; the connection data are left
  as they were.\<close>

theorem sync_admin_marks_synced:
  assumes "buildConsentUrl p = Inr url"
  shows "\<exists>w. exchange cfg p now later production (ValidToken ''admin'') sync_request s = Some (Ok w, s)
      \<and> sync t (sync_result (Ok w)) c =
          (MarkSynced ''Successfully synced with Xero'',
           c\<lparr>isSyncing := False, isSynced := True, lastSyncTime := Some t, ctx_error := None\<rparr>)"
  using assms by (simp add: exchange_def app_def mount_def sync_request_def api_get_def xero_mount_def authenticateToken_def
      route_path_def xero_router_def initiateXeroAuth_def wire_def axios_settle_def sync_def format_json_def
      success_fields_def Let_def nullish_def)

text \<open>C11: Without a connection the server answers the client's \<^verbatim>\<open>fetchContacts\<close> with a 400
  and a reason, but the envelope puts the reason under \<^verbatim>\<open>error.message\<close> while the
  client reads \<^verbatim>\<open>message\<close>: the client reports its fixed fallback text.\<close>

theorem fetchContacts_not_connected:
  assumes "getActiveToken (table s) = None"
  shows "\<exists>o'. exchange cfg p now later production (ValidToken rl) (fetchContacts_request pg ps wh st) s = Some (o', s)
           \<and> fetchContacts_result o' = Inl ''Failed to fetch contacts''"
proof -
  have r: "xero_router cfg p now later production \<lparr>route = RouteContacts, query = q, req_body = Undef, role = rl\<rparr> s
           = (resp, s') \<Longrightarrow> s' = s \<and> 400 \<le> status resp \<and> \<not> status resp < 300 \<and> js_get (wire production resp) ''message'' = Undef"
    for q resp s'
    using assms wire_error_no_message [of resp production]
    by (auto simp: router_simps json_response_def express_error_zod dest: validate_Inl split: sum.splits)
  show ?thesis
    by (auto simp: exchange_def app_def mount_def fetchContacts_request_def api_get_def xero_mount_def
        authenticateToken_def route_path_def axios_settle_def split: prod.splits dest!: r)
qed

theorem fetchContacts_not_connected_witness:
  "\<exists>o'. exchange demo_cfg demo_provider 0 0 True (ValidToken ''staff'')
            (fetchContacts_request (Num 1) (Num 10) Undef Undef) disconnected_state = Some (o', disconnected_state)
         \<and> fetchContacts_result o' = Inl ''Failed to fetch contacts''"
  using fetchContacts_not_connected [OF disconnected_state_none] by blast


text \<open>C12: Anyone who can reach the server can obtain Xero's consent URL, which the routes reserve
  for admins: a registration through \<^verbatim>\<open>POST /api/auth/register\<close> creates an admin
  account, its sign-in returns a token with the role \<^verbatim>\<open>admin\<close>, and with that token
  \<^verbatim>\<open>GET /api/xero/auth\<close> answers with the consent URL.\<close>

theorem self_registration_consent:
  assumes "registrationSchema is_email body = Some b"
    and "js_get b ''email'' \<notin> set (active_emails t)"
    and "loginSchema is_email creds = Some c"
    and "js_get c ''email'' = js_get b ''email''" and "js_get c ''password'' = js_get b ''password''"
    and "now' div 1000 < now div 1000 + exp_secs"
  shows "\<exists>t' resp1 resp2.
           auth_app is_email salt now jti exp_secs production h
             \<lparr>req_method = POST, req_path = ''/api/auth/register'', req_query = Obj [], req_data = body\<rparr> t = Some (resp1, t')
         \<and> status resp1 = 201
         \<and> auth_app is_email salt now jti exp_secs production h
             \<lparr>req_method = POST, req_path = ''/api/auth/login'', req_query = Obj [], req_data = creds\<rparr> t' = Some (resp2, t')
         \<and> status resp2 = 200
         \<and> app cfg p now' later production (request_auth now' (Some (js_get (resp_body resp2) ''token'')))
             \<lparr>req_method = GET, req_path = ''/api/xero/auth'', req_query = Obj [], req_data = Undef\<rparr> s
           = Some ((case buildConsentUrl p of Inl m \<Rightarrow> json_response 500 (Obj [(''error'', Str m)])
                   | Inr url \<Rightarrow> json_response 200 (Obj [(''url'', Str url)])), s)"
proof -
  have none: "findByEmail t (js_get b ''email'') = None"
    using assms(2) findByEmail_None_iff by blast
  have role: "js_get b ''role'' = Undef" using registration_no_role [OF assms(1)] .
  obtain t' where reg: "registerUser salt b t = (Inr (Obj [(''userid'', Num (int (next_userid t))), (''name'', js_get b ''name''),
                      (''email'', js_get b ''email''), (''phone'', js_get b ''phone'')]), t')"
    and t': "t' = t\<lparr>user_rows := user_rows t @ [\<lparr>userid = next_userid t, u_name = js_get b ''name'', u_email = js_get b ''email'',
                 u_password = Bcrypt (js_to_string (js_get b ''password'')) salt, u_phone = js_get b ''phone'',
                 u_role = Str ''admin'', entered_by = Undef, u_active = True\<rparr>],
              next_userid := Suc (next_userid t)\<rparr>"
    using registerUser_new [OF none, of salt] role by simp
  have r1: "auth_app is_email salt now jti exp_secs production h
             \<lparr>req_method = POST, req_path = ''/api/auth/register'', req_query = Obj [], req_data = body\<rparr> t
           = Some (fst (registerUser_ctl salt b t), t')"
    using assms(1) reg
    by (simp add: auth_app_def mount_def route_path_def validate_body_def registerUser_ctl_def)
  have s1: "status (fst (registerUser_ctl salt b t)) = 201"
    using reg by (simp add: registerUser_ctl_def json_response_def)
  have login: "findByEmail t' (js_get b ''email'') = Some (last (user_rows t'))"
    using none t' by (simp add: findByEmail_registered)
  define tok where "tok = generateAuthToken now jti exp_secs
      (Obj [(''userId'', Num (int (next_userid t))), (''userName'', js_get b ''name''),
            (''email'', js_get b ''email''), (''role'', Str ''admin'')])"
  have r2: "auth_app is_email salt now jti exp_secs production h
             \<lparr>req_method = POST, req_path = ''/api/auth/login'', req_query = Obj [], req_data = creds\<rparr> t'
           = Some (loginUser_ctl now jti exp_secs t' c, t')"
    using assms(3) by (simp add: auth_app_def mount_def route_path_def validate_body_def)
  have l2: "js_get (resp_body (loginUser_ctl now jti exp_secs t' c)) ''token'' = tok
            \<and> status (loginUser_ctl now jti exp_secs t' c) = 200"
    using login assms(4,5) t' by (simp add: loginUser_ctl_def loginUser_def tok_def json_response_def)
  have auth: "request_auth now' (Some tok) = ValidToken ''admin''"
    using assms(6) by (simp add: request_auth_def verifyAuthToken_def tok_def generateAuthToken_def map_of_kv_put)
  have x: "app cfg p now' later production (ValidToken ''admin'')
             \<lparr>req_method = GET, req_path = ''/api/xero/auth'', req_query = Obj [], req_data = Undef\<rparr> s
           = Some ((case buildConsentUrl p of Inl m \<Rightarrow> json_response 500 (Obj [(''error'', Str m)])
                   | Inr url \<Rightarrow> json_response 200 (Obj [(''url'', Str url)])), s)"
    by (simp add: app_def mount_def xero_mount_def authenticateToken_def route_path_def xero_router_def
        initiateXeroAuth_def)
  show ?thesis
    using r1 s1 r2 l2 auth x
    by (intro exI [of _ t'] exI [of _ "fst (registerUser_ctl salt b t)"]
        exI [of _ "loginUser_ctl now jti exp_secs t' c"]) simp
qed

theorem self_registration_consent_witness:
  "\<exists>t' resp1 resp2.
     auth_app demo_is_email 7 0 ''j'' 3600 False NoToken
       \<lparr>req_method = POST, req_path = ''/api/auth/register'', req_query = Obj [], req_data = demo_registration\<rparr>
       empty_users = Some (resp1, t')
   \<and> status resp1 = 201
   \<and> auth_app demo_is_email 7 0 ''j'' 3600 False NoToken
       \<lparr>req_method = POST, req_path = ''/api/auth/login'', req_query = Obj [], req_data = demo_credentials\<rparr> t'
       = Some (resp2, t')
   \<and> status resp2 = 200
   \<and> app demo_cfg demo_provider 1000 0 False (request_auth 1000 (Some (js_get (resp_body resp2) ''token'')))
       \<lparr>req_method = GET, req_path = ''/api/xero/auth'', req_query = Obj [], req_data = Undef\<rparr> demo_state
     = Some (json_response 200 (Obj [(''url'', Str ''https://login.xero.com/consent'')]), demo_state)"
  using self_registration_consent [OF demo_registration_valid _ demo_credentials_valid,
      where t = empty_users and salt = 7 and now = 0 and jti = "''j''" and exp_secs = 3600 and production = False
      and h = NoToken and now' = 1000 and cfg = demo_cfg and p = demo_provider and later = 0 and s = demo_state]
  by (simp add: active_emails_def empty_users_def demo_credentials_def demo_registration_def demo_provider_def)


text \<open>C15: The server serves none of the payment services: every request of
  \<^verbatim>\<open>paymentBatchService\<close> and \<^verbatim>\<open>manualPaymentService\<close>, whatever the session, is
  answered 404 by \<^verbatim>\<open>notFoundHandler\<close>, with no top-level message the services could
  report.\<close>

theorem payment_services_unserved:
  assumes "r \<in> {paymentBatch_get_request page sz filters, paymentBatch_create_request body,
         paymentBatch_getById_request i, paymentBatch_approve_request i ad,
         paymentBatch_delete_request i reason, manualPayment_get_request page sz sortBy orderBy,
         manualPayment_create_request body, manualPayment_getById_request i}"
  shows "exchange cfg p now later production h r s = Some (HttpError 404 (wire production (not_found r)), s)
    \<and> \<not> truthy (js_get (wire production (not_found r)) ''message'')"
  using payment_request_paths [OF assms] unrouted_api_exchange
    wire_error_no_message [of "not_found r" production]
  by (fastforce simp: not_found_def notFoundHandler_def)

theorem payment_services_unserved_witness:
  "exchange demo_cfg demo_provider 0 0 True NoToken (paymentBatch_get_request (Num 1) (Num 10) Undef) disconnected_state
     = Some (HttpError 404 (wire True (not_found (paymentBatch_get_request (Num 1) (Num 10) Undef))), disconnected_state)
   \<and> \<not> truthy (js_get (wire True (not_found (paymentBatch_get_request (Num 1) (Num 10) Undef))) ''message'')"
  using payment_services_unserved [of "paymentBatch_get_request (Num 1) (Num 10) Undef" "Num 1" "Num 10" Undef]
  by simp

text \<open>Creating a manual payment never succeeds and never reports a reason: the client's
  \<^verbatim>\<open>create\<close> resolves with \<^verbatim>\<open>{success: false, error: "Failed to create manual payment",
  errors: []}\<close> for every payment.\<close>

theorem manual_payment_create_unserved:
  "\<exists>o'. exchange cfg p now later production h (manualPayment_create_request body) s = Some (o', s)
     \<and> manualPayment_create_result o' =
         Inr (Obj [(''success'', Bool False), (''error'', Str ''Failed to create manual payment''), (''errors'', Arr [])])"
proof -
  obtain p1 where "mount ''/api'' (req_path (manualPayment_create_request body)) = Some p1"
    "mount ''/auth'' p1 = None" "mount ''/user'' p1 = None" "mount ''/xero'' p1 = None"
    using payment_request_paths [of "manualPayment_create_request body"] by blast
  then show ?thesis
    using unrouted_api_exchange
    by (fastforce simp: not_found_def notFoundHandler_def wire_def format_json_def first_error_message_def
        manual_create_fallback_def)
qed


text \<open>C14: A sign-in with credentials that match no account, sent by the client's
  \<^verbatim>\<open>authService.login\<close>, is answered 401 with the reason, and the client throws the
  \<^verbatim>\<open>TypeError\<close> of reading \<^verbatim>\<open>data.errors[0]\<close> instead: the reason is lost.\<close>

theorem client_login_bad_credentials:
  assumes "loginSchema is_email (to_json creds) = Some c"
    and "loginUser now jti exp_secs t (js_get c ''email'') (js_get c ''password'') = Inl msg"
  shows "\<exists>resp. auth_app is_email salt now jti exp_secs production h (login_request creds) t = Some (resp, t)
     \<and> status resp = 401
     \<and> authService_login cnow (status resp) (wire production resp) st =
         (Inl (''Cannot read properties of undefined (reading '' @ [CHR 0x27] @ ''0'' @ [CHR 0x27] @ '')''), st)"
  using assms login_error_envelope [of "loginUser_ctl now jti exp_secs t c" production]
  by (simp add: login_request_app loginUser_ctl_def authService_login_def read_error_def)

theorem client_login_bad_credentials_witness:
  "\<exists>resp. auth_app demo_is_email 7 0 ''j'' 3600 True NoToken (login_request demo_credentials) empty_users
       = Some (resp, empty_users)
     \<and> status resp = 401
     \<and> authService_login 0 (status resp) (wire True resp) \<lparr>cookie_token = None, local_storage = []\<rparr> =
         (Inl (''Cannot read properties of undefined (reading '' @ [CHR 0x27] @ ''0'' @ [CHR 0x27] @ '')''),
          \<lparr>cookie_token = None, local_storage = []\<rparr>)"
proof -
  have j: "to_json demo_credentials = demo_credentials" by (simp add: demo_credentials_def)
  have n: "loginUser 0 ''j'' 3600 empty_users (js_get demo_credentials ''email'') (js_get demo_credentials ''password'')
             = Inl ''Invalid email or password''"
    by (simp add: loginUser_def empty_users_def findByEmail_def)
  show ?thesis
    using client_login_bad_credentials [of demo_is_email demo_credentials demo_credentials 0 "''j''" 3600 empty_users,
        OF _ n, where cnow = 0] demo_credentials_valid j by simp
qed


text \<open>C16: A sign-in through the client with the password of an active account stores the
  token in a cookie that lasts a day (to the second) from the client's clock \<open>cnow\<close>. The
  client's \<^verbatim>\<open>isAuthenticated\<close> then holds while the cookie lasts, up to and including
  the millisecond of the token's expiry; the interceptor sends no token once the cookie
  has expired, and until then its bearer token is accepted with the account's role until the
  second of the token's expiry begins (so for that one millisecond the client counts as
  signed in while the server refuses its token).\<close>

theorem client_login_session:
  assumes "loginSchema is_email (to_json creds) = Some c"
    and "findByEmail t (js_get c ''email'') = Some u"
    and "bcrypt_compare (js_to_string (js_get c ''password'')) (u_password u)"
    and "0 < userid u" and "1000 \<le> now" and "jti \<noteq> []" and "u_role u = Str rl"
  shows "\<exists>resp st'. auth_app is_email salt now jti exp_secs production h (login_request creds) t = Some (resp, t)
     \<and> status resp = 200
     \<and> authService_login cnow (status resp) (wire production resp) st = (Inr (wire production resp), st')
     \<and> fst (isAuthenticated now' st') = (now' < cookie_expires cnow \<and> now' \<le> (now div 1000 + exp_secs) * 1000)
     \<and> request_auth now' (bearer_token now' st') =
          (if cookie_expires cnow \<le> now' then NoToken
           else if now div 1000 + exp_secs \<le> now' div 1000 then ExpiredToken else ValidToken rl)"
proof -
  let ?payload = "Obj [(''userId'', Num (int (userid u))), (''userName'', u_name u),
                       (''email'', u_email u), (''role'', u_role u)]"
  let ?C = "generateAuthToken now jti exp_secs ?payload"
  let ?user = "Obj [(''userid'', Num (int (userid u))), (''name'', u_name u), (''email'', u_email u), (''phone'', u_phone u)]"
  obtain kvs' where C: "to_json ?C = Obj kvs'"
    and iat: "js_get (Obj kvs') ''iat'' = Num (now div 1000)" and jti: "js_get (Obj kvs') ''jti'' = Str jti"
    and exp: "js_get (Obj kvs') ''exp'' = Num (now div 1000 + exp_secs)"
    and aud: "js_get (Obj kvs') ''aud'' = Str ''api''" and iss: "js_get (Obj kvs') ''iss'' = Str ''auth''"
    and other: "\<And>k. k \<notin> {''iat'', ''jti'', ''exp'', ''aud'', ''iss''} \<Longrightarrow> js_get ?payload k \<noteq> Undef \<Longrightarrow>
                   js_get (Obj kvs') k = to_json (js_get ?payload k)"
    using token_claims_json [of now jti exp_secs] by blast
  have uid: "js_get (Obj kvs') ''userId'' = Num (int (userid u))" using other [of "''userId''"] by simp
  have role: "js_get (Obj kvs') ''role'' = Str rl" using other [of "''role''"] assms(7) by simp
  have login: "loginUser now jti exp_secs t (js_get c ''email'') (js_get c ''password'') = Inr (Obj [(''token'', ?C), (''user'', ?user)])"
    using assms(2,3) by (simp add: loginUser_def)
  let ?resp = "json_response 200 (Obj [(''message'', Str ''Login successful''), (''token'', ?C),
                 (''user'', Obj [(''id'', Undef), (''email'', u_email u), (''name'', u_name u)])])"
  have ctl: "loginUser_ctl now jti exp_secs t c = ?resp"
    using login by (simp add: loginUser_ctl_def)
  have data: "js_get (wire production ?resp) ''data'' =
      Obj [(''token'', Obj kvs'), (''user'', to_json (Obj [(''id'', Undef), (''email'', u_email u), (''name'', u_name u)]))]"
    using C by (simp add: wire_def format_json_def success_fields_def rest_or_null_def generateAuthToken_def)
  define st' where "st' = st\<lparr>cookie_token := Some (Obj kvs', cookie_expires cnow)\<rparr>"
  have cl: "authService_login cnow 200 (wire production ?resp) st = (Inr (wire production ?resp), st')"
    using data by (simp add: authService_login_ok cookie_value_def st'_def)
  have pos: "0 < now div 1000" using assms(5) by (simp add: pos_imp_zdiv_pos_iff)
  have ia: "isAuthenticated now' st' =
      (if cookie_expires cnow \<le> now' then (False, st')
       else if (now div 1000 + exp_secs) * 1000 < now' then (False, removeToken st') else (True, st'))"
  proof -
    have "truthy (js_get (Obj kvs') ''userId'')" "truthy (js_get (Obj kvs') ''iat'')"
      "truthy (js_get (Obj kvs') ''jti'')"
      using uid iat jti pos assms(4,6) by simp_all
    moreover have "cookie_token st' = Some (Obj kvs', cookie_expires cnow)" by (simp add: st'_def)
    ultimately show ?thesis using isAuthenticated_claims exp by blast
  qed
  then have auth: "fst (isAuthenticated now' st') = (now' < cookie_expires cnow \<and> now' \<le> (now div 1000 + exp_secs) * 1000)"
    by (simp add: not_less)
  have req: "request_auth now' (bearer_token now' st') =
          (if cookie_expires cnow \<le> now' then NoToken
           else if now div 1000 + exp_secs \<le> now' div 1000 then ExpiredToken else ValidToken rl)"
    using exp aud iss role by (simp add: bearer_token_def getToken_def st'_def request_auth_def verifyAuthToken_def)
  show ?thesis
    using assms(1) ctl cl auth req by (simp add: login_request_app)
qed


theorem client_login_session_witness:
  "\<exists>resp st'. auth_app demo_is_email 7 1700000000000 ''j'' 3600 True NoToken (login_request demo_credentials) demo_users
       = Some (resp, demo_users)
     \<and> status resp = 200
     \<and> authService_login 1700000000500 (status resp) (wire True resp) \<lparr>cookie_token = None, local_storage = []\<rparr>
         = (Inr (wire True resp), st')
     \<and> fst (isAuthenticated 1700003600000 st') = True
     \<and> request_auth 1700003600000 (bearer_token 1700003600000 st') = ExpiredToken"
proof -
  have j: "to_json demo_credentials = demo_credentials" by (simp add: demo_credentials_def)
  have f: "findByEmail demo_users (js_get demo_credentials ''email'') = Some (hd (user_rows demo_users))"
    by (simp add: demo_users_eq findByEmail_def demo_credentials_def)
  show ?thesis
    using client_login_session [of demo_is_email demo_credentials demo_credentials demo_users "hd (user_rows demo_users)"
        1700000000000 "''j''" "''admin''" 7 3600 True NoToken 1700000000500 "\<lparr>cookie_token = None, local_storage = []\<rparr>"
        1700003600000]
      demo_credentials_valid j f
    by (simp add: demo_users_eq demo_credentials_def cookie_expires_def)
qed


text \<open>C36: A manual payment that passes the form's validation is never created, and the user
  is not told: the server answers 404, \<^verbatim>\<open>manualPaymentService.create\<close> resolves with
  \<^verbatim>\<open>success: false\<close>, \<^verbatim>\<open>useManualPayments\<close> stores the fallback message as its
  \<^verbatim>\<open>error\<close>, and the form, given a result without \<^verbatim>\<open>success\<close>, keeps its data and
  its errors and shows only the loading toast and its dismissal: no success and no error
  toast.\<close>

theorem manual_payment_failure_silent:
  assumes "manualPaymentValidation (form ui) = []"
  shows "\<exists>o'. exchange cfg p now later production h (manualPayment_create_request body) s = Some (o', s)
     \<and> snd (createPayment o' hs) = hs\<lparr>mp_error := Str ''Failed to create manual payment'', mp_loading := False\<rparr>
     \<and> handleSubmit today (Resolved (truthy (js_get (handleCreatePayment (fst (createPayment o' hs))) ''success''))) ui
         = ui\<lparr>form_toasts := form_toasts ui @ [ToastLoading ''Creating manual payment...'', ToastDismiss]\<rparr>"
proof -
  obtain o' where ex: "exchange cfg p now later production h (manualPayment_create_request body) s = Some (o', s)"
    and res: "manualPayment_create_result o' =
         Inr (Obj [(''success'', Bool False), (''error'', Str ''Failed to create manual payment''), (''errors'', Arr [])])"
    using manual_payment_create_unserved by blast
  have "snd (createPayment o' hs) = hs\<lparr>mp_error := Str ''Failed to create manual payment'', mp_loading := False\<rparr>"
    "\<not> truthy (js_get (handleCreatePayment (fst (createPayment o' hs))) ''success'')"
    using res by (simp_all add: createPayment_def handleCreatePayment_def)
  moreover have "handleSubmit today (Resolved False) ui
      = ui\<lparr>form_toasts := form_toasts ui @ [ToastLoading ''Creating manual payment...'', ToastDismiss]\<rparr>"
    using assms by (simp add: handleSubmit_def)
  ultimately show ?thesis using ex by auto
qed

theorem manual_payment_failure_silent_witness:
  "\<exists>o'. exchange demo_cfg demo_provider 0 0 True NoToken (manualPayment_create_request Null) disconnected_state
          = Some (o', disconnected_state)
     \<and> snd (createPayment o' mp_initial) = mp_initial\<lparr>mp_error := Str ''Failed to create manual payment'', mp_loading := False\<rparr>
     \<and> handleSubmit ''2025-01-01'' (Resolved (truthy (js_get (handleCreatePayment (fst (createPayment o' mp_initial))) ''success'')))
         (initial_form_ui ''2025-01-01''\<lparr>form := demo_valid_form\<rparr>)
       = initial_form_ui ''2025-01-01''\<lparr>form := demo_valid_form,
           form_toasts := [ToastLoading ''Creating manual payment...'', ToastDismiss]\<rparr>"
proof -
  have v: "manualPaymentValidation (form (initial_form_ui ''2025-01-01''\<lparr>form := demo_valid_form\<rparr>)) = []"
    by code_simp
  show ?thesis using manual_payment_failure_silent [OF v] by (simp add: initial_form_ui_def)
qed

end
